(* ===== verification/Js_Prelude.thy ===== *)
theory Js_Prelude
  imports Complex_Main "HOL-Library.Signed_Division"
begin

text \<open>
  Shared vocabulary of the development: the named collections the component theories
  feed, the JavaScript notions every component uses (completions of a handler that may
  throw, truthiness of optional strings, CSS declaration maps) and generic arithmetic
  lemmas on \<open>int\<close> division that the calendar arithmetic of \<open>Js_Date\<close> rests on.
\<close>

named_theorems js_eval "equations that evaluate the model on concrete inputs"
named_theorems dom_simps "frame facts of the DOM model, used by the invariant proofs"

section \<open>Values of the JavaScript model\<close>

text \<open>
  A JavaScript string is modelled as an Isabelle \<open>string\<close>; the sources only ever
  handle ASCII text in the positions that matter (time labels, CSS values), and
  \<open>length\<close> then counts UTF-16 code units as \<open>String.prototype.length\<close> does.
  An absent property (\<open>undefined\<close>) is \<open>None\<close>.
\<close>

type_synonym js_string = string

type_synonym css = "string \<rightharpoonup> string"

text \<open>\<open>a || b\<close> on optional strings: the empty string and \<open>undefined\<close> are falsy.\<close>

definition js_truthy :: "js_string option \<Rightarrow> bool" where
  "js_truthy v = (case v of None \<Rightarrow> False | Some s \<Rightarrow> s \<noteq> [])"

definition js_or :: "js_string option \<Rightarrow> js_string option \<Rightarrow> js_string option" where
  "js_or a b = (if js_truthy a then a else b)"

section \<open>Completions\<close>

text \<open>
  A JavaScript statement list either completes normally or throws; the DOM effects made
  before the throw stay. A completion therefore carries the state in both cases, as
  ECMAScript's completion records do.
\<close>

datatype js_error = TypeError string | ReferenceError string

datatype 's completion = Normal 's | Abrupt js_error 's

primrec final_state :: "'s completion \<Rightarrow> 's" where
  "final_state (Normal s) = s"
| "final_state (Abrupt e s) = s"

primrec and_then :: "'s completion \<Rightarrow> ('s \<Rightarrow> 's completion) \<Rightarrow> 's completion" where
  "and_then (Normal s) f = f s"
| "and_then (Abrupt e s) f = Abrupt e s"

primrec is_normal :: "'s completion \<Rightarrow> bool" where
  "is_normal (Normal s) = True"
| "is_normal (Abrupt e s) = False"

text \<open>\<open>xs.forEach(f)\<close> with a body that may throw, over an explicit state.\<close>

fun for_each :: "('a \<Rightarrow> 's \<Rightarrow> 's completion) \<Rightarrow> 'a list \<Rightarrow> 's \<Rightarrow> 's completion" where
  "for_each f [] s = Normal s"
| "for_each f (x # xs) s = and_then (f x s) (for_each f xs)"

lemma and_then_Normal_iff [simp]:
  "and_then c f = Normal s \<longleftrightarrow> (\<exists>s'. c = Normal s' \<and> f s' = Normal s)"
  by (cases c) auto

lemma and_then_assoc:
  "and_then (and_then c f) g = and_then c (\<lambda>s. and_then (f s) g)"
  by (cases c) simp_all

lemma for_each_append_fun:
  "for_each f (xs @ ys) = (\<lambda>s. and_then (for_each f xs s) (for_each f ys))"
  by (induction xs) (simp_all add: and_then_assoc)

lemma for_each_append:
  "for_each f (xs @ ys) s = and_then (for_each f xs s) (for_each f ys)"
  by (simp add: for_each_append_fun)

lemma for_each_normal_fold:
  assumes "\<And>x s. x \<in> set xs \<Longrightarrow> f x s = Normal (g x s)"
  shows "for_each f xs s = Normal (fold g xs s)"
  using assms by (induction xs arbitrary: s) simp_all

lemma for_each_Cons_abrupt:
  "f x s = Abrupt e s' \<Longrightarrow> for_each f (x # xs) s = Abrupt e s'"
  by simp

lemma for_each_total:
  assumes "\<And>x s. x \<in> set xs \<Longrightarrow> \<exists>s'. f x s = Normal s'"
  shows "\<exists>s'. for_each f xs s = Normal s'"
  using assms by (induction xs arbitrary: s) fastforce+

lemma for_each_final_invariant:
  assumes "\<And>x s. x \<in> set xs \<Longrightarrow> P s \<Longrightarrow> P (final_state (f x s))" and "P s"
  shows "P (final_state (for_each f xs s))"
  using assms
proof (induction xs arbitrary: s)
  case Nil
  then show ?case by simp
next
  case (Cons x xs)
  show ?case
  proof (cases "f x s")
    case (Normal s')
    then have "P s'" using Cons.prems by (metis final_state.simps(1) list.set_intros(1))
    then show ?thesis using Normal Cons by simp
  next
    case (Abrupt e s')
    then show ?thesis using Cons.prems by (metis and_then.simps(2) final_state.simps(2)
          for_each.simps(2) list.set_intros(1))
  qed
qed

section \<open>Integer division lemmas\<close>

text \<open>
  \<open>div\<close> and \<open>mod\<close> on \<open>int\<close> round towards minus infinity, as ECMAScript's
  \<open>floor\<close> and its mathematical \<open>modulo\<close> do in the date algorithms.
\<close>

lemma div_succ_int:
  fixes a k :: int
  assumes k: "0 < k"
  shows "(a + 1) div k = a div k + (if (a + 1) mod k = 0 then 1 else 0)"
proof -
  define q r where "q = a div k" and "r = a mod k"
  have a: "a + 1 = (r + 1) + k * q" by (simp add: q_def r_def)
  have r: "0 \<le> r" "r < k" using k by (simp_all add: r_def)
  show ?thesis
  proof (cases "r + 1 = k")
    case True
    then have "a + 1 = k * (q + 1)" using a by (simp add: algebra_simps)
    then show ?thesis using k by (simp add: q_def)
  next
    case False
    then have r1: "0 \<le> r + 1" "r + 1 < k" using r by simp_all
    have "(a + 1) div k = q + (r + 1) div k"
      unfolding a using k by (simp only: div_mult_self2 [of k] order_less_irrefl)
    also have "(r + 1) div k = 0" using r1 by simp
    finally have "(a + 1) div k = q" by simp
    moreover have "(a + 1) mod k = (r + 1) mod k"
      unfolding a by (simp only: mod_mult_self2)
    moreover have "(r + 1) mod k = r + 1" using r1 by simp
    ultimately show ?thesis using r r1 by (simp add: q_def)
  qed
qed

lemma mod_shift_int: "(y - c * k) mod k = (y::int) mod k"
  by (simp add: mod_diff_eq[symmetric])

lemma mod_dvd_zero_int: "(a::int) dvd b \<Longrightarrow> y mod b = 0 \<Longrightarrow> y mod a = 0"
  using dvd_trans[of a b y] by (simp add: dvd_eq_mod_eq_0[symmetric])

lemma div_mult_bounds_int:
  fixes t k :: int
  assumes "0 < k"
  shows "k * (t div k) \<le> t" and "t < k * (t div k) + k"
proof -
  have e: "k * (t div k) + t mod k = t" by simp
  have r: "0 \<le> t mod k" "t mod k < k" using assms by simp_all
  from e r show "k * (t div k) \<le> t" by linarith
  from e r show "t < k * (t div k) + k" by linarith
qed

lemma div_mult_add_small_int:
  fixes a b k :: int
  assumes "0 \<le> b" "b < k"
  shows "(a * k + b) div k = a"
proof -
  have "k \<noteq> 0" using assms by simp
  then have "(b + a * k) div k = a + b div k" by (rule div_mult_self1)
  with assms show ?thesis by (simp add: add.commute)
qed

lemma mod_mult_add_small_int:
  fixes a b k :: int
  assumes "0 \<le> b" "b < k"
  shows "(a * k + b) mod k = b"
proof -
  have "(b + a * k) mod k = b mod k" by (rule mod_mult_self1)
  with assms show ?thesis by (simp add: add.commute)
qed

end
