(* ===== verification/Js_String.thy ===== *)
theory Js_String
  imports Js_Prelude
begin

text \<open>
  Decimal rendering of numbers as JavaScript's \<open>Number.prototype.toString\<close> does it
  for integers (used by every template literal of the sources that prints a count, an
  hour or a minute), \<open>String.prototype.padStart\<close> with \<open>"0"\<close>, and the digit parser of
  the ECMAScript date-time string format. The round trip "parse after print" and the
  injectivity of the printer are proved here and used by \<open>Js_Date\<close>.
\<close>

section \<open>Printing\<close>

definition digit_char :: "nat \<Rightarrow> char" where
  "digit_char d = char_of (48 + d)"

fun nat_str :: "nat \<Rightarrow> js_string" where
  "nat_str n = (if n < 10 then [digit_char n] else nat_str (n div 10) @ [digit_char (n mod 10)])"

declare nat_str.simps [simp del]

definition int_str :: "int \<Rightarrow> js_string" where
  "int_str i = (if i < 0 then CHR ''-'' # nat_str (nat (- i)) else nat_str (nat i))"

definition pad_start :: "nat \<Rightarrow> js_string \<Rightarrow> js_string" where
  "pad_start n s = replicate (n - length s) CHR ''0'' @ s"

section \<open>Parsing\<close>

definition digit_val :: "char \<Rightarrow> nat option" where
  "digit_val c = (let k = of_char c :: nat in if 48 \<le> k \<and> k < 58 then Some (k - 48) else None)"

fun digits_acc :: "nat \<Rightarrow> js_string \<Rightarrow> nat option" where
  "digits_acc acc [] = Some acc"
| "digits_acc acc (c # cs) =
     (case digit_val c of None \<Rightarrow> None | Some d \<Rightarrow> digits_acc (10 * acc + d) cs)"

definition parse_nat :: "js_string \<Rightarrow> nat option" where
  "parse_nat s = (if s = [] then None else digits_acc 0 s)"

text \<open>\<open>s.split(c)[0]\<close> for a one-character separator: the text before the first
  \<open>c\<close>, or all of \<open>s\<close>.\<close>

definition split_first :: "char \<Rightarrow> js_string \<Rightarrow> js_string" where
  "split_first c s = takeWhile (\<lambda>x. x \<noteq> c) s"

section \<open>Lemmas\<close>

lemma digit_val_digit_char [simp]: "d < 10 \<Longrightarrow> digit_val (digit_char d) = Some d"
  by (simp add: digit_val_def digit_char_def)

lemma digit_val_zero [simp]: "digit_val CHR ''0'' = Some 0"
  by (simp add: digit_val_def)

lemma digits_acc_append:
  "digits_acc acc (xs @ ys) = (case digits_acc acc xs of None \<Rightarrow> None | Some a \<Rightarrow> digits_acc a ys)"
  by (induction acc xs rule: digits_acc.induct) (auto split: option.splits)

lemma nat_str_nonempty [simp]: "nat_str n \<noteq> []"
  by (subst nat_str.simps) simp

lemma length_nat_str_pos: "0 < length (nat_str n)"
  by (simp add: nat_str_nonempty)

lemma digits_acc_nat_str:
  "digits_acc acc (nat_str n) = Some (acc * 10 ^ length (nat_str n) + n)"
proof (induction n arbitrary: acc rule: nat_str.induct)
  case (1 n)
  show ?case
  proof (cases "n < 10")
    case True
    then show ?thesis by (subst (1 2) nat_str.simps) simp
  next
    case False
    have IH: "digits_acc acc (nat_str (n div 10)) = Some (acc * 10 ^ length (nat_str (n div 10)) + n div 10)"
      using "1.IH" False by simp
    have "n = 10 * (n div 10) + n mod 10" by simp
    then show ?thesis using False
      by (subst (1 2) nat_str.simps)
        (simp add: digits_acc_append IH algebra_simps power_commutes)
  qed
qed

theorem parse_nat_nat_str [simp]: "parse_nat (nat_str n) = Some n"
  by (simp add: parse_nat_def digits_acc_nat_str)

lemma digits_acc_zeros: "digits_acc acc (replicate k CHR ''0'' @ s) = digits_acc (acc * 10 ^ k) s"
  by (induction k arbitrary: acc) (simp_all add: algebra_simps)

theorem parse_nat_pad_start [simp]: "parse_nat (pad_start k (nat_str n)) = Some n"
  by (simp add: parse_nat_def pad_start_def digits_acc_zeros digits_acc_nat_str)

lemma nat_str_inj: "nat_str m = nat_str n \<longleftrightarrow> m = n"
  by (metis option.inject parse_nat_nat_str)

lemma pad_start_nat_str_inj: "pad_start k (nat_str m) = pad_start k (nat_str n) \<longleftrightarrow> m = n"
  by (metis option.inject parse_nat_pad_start)

lemma length_pad_start: "length (pad_start k s) = max k (length s)"
  by (simp add: pad_start_def)

lemma nat_str_small [simp]: "n < 10 \<Longrightarrow> nat_str n = [digit_char n]"
  by (subst nat_str.simps) simp

lemma length_nat_str_le: "n < 10 ^ k \<Longrightarrow> 0 < k \<Longrightarrow> length (nat_str n) \<le> k"
proof (induction n arbitrary: k rule: nat_str.induct)
  case (1 n)
  show ?case
  proof (cases "n < 10")
    case True
    with "1.prems" show ?thesis by simp
  next
    case False
    then obtain k' where k: "k = Suc k'" using "1.prems" by (cases k) auto
    have "0 < k'" using False "1.prems" k by (cases k') auto
    moreover have "n div 10 < 10 ^ k'" using "1.prems" k by (simp add: less_mult_imp_div_less mult.commute)
    ultimately have "length (nat_str (n div 10)) \<le> k'" using "1.IH" False by blast
    with False k show ?thesis by (subst nat_str.simps) simp
  qed
qed

lemma digit_char_simps [js_eval]:
  "digit_char 0 = CHR ''0''" "digit_char 1 = CHR ''1''" "digit_char 2 = CHR ''2''"
  "digit_char 3 = CHR ''3''" "digit_char 4 = CHR ''4''" "digit_char 5 = CHR ''5''"
  "digit_char 6 = CHR ''6''" "digit_char 7 = CHR ''7''" "digit_char 8 = CHR ''8''"
  "digit_char 9 = CHR ''9''" "digit_char (Suc 0) = CHR ''1''"
  unfolding digit_char_def by code_simp+

lemma split_first_append: "c \<notin> set a \<Longrightarrow> split_first c (a @ c # b) = a"
  unfolding split_first_def by (induction a) auto

end
