(* ===== verification/Js_Date.thy ===== *)
theory Js_Date
  imports Js_String
begin

text \<open>
  The part of ECMAScript's \<open>Date\<close> built-in (ECMA-262, section 21.4) that the
  dashboard calls: time values, the day/year/month/date decomposition, week days, hours and
  minutes, \<open>MakeDay\<close>/\<open>MakeDate\<close>, \<open>TimeClip\<close>, local time, the constructors
  \<open>new Date()\<close>, \<open>new Date(y, m, d)\<close> and \<open>new Date(d)\<close>, the setter
  \<open>setDate\<close> and \<open>toDateString\<close>. These are library semantics, not repository code:
  they are written after the specification's algorithms, with \<open>YearFromTime\<close> (the
  largest year whose first day is not after the given day) as an executable search, and
  with a fixed local-time offset (no daylight-saving changes).
\<close>

section \<open>Time values\<close>

type_synonym time_value = int \<comment> \<open>milliseconds since 1970-01-01T00:00Z\<close>
type_synonym js_date = "time_value option" \<comment> \<open>\<open>None\<close> is an Invalid Date (NaN)\<close>

definition ms_per_day :: int where "ms_per_day = 86400000"
definition ms_per_hour :: int where "ms_per_hour = 3600000"
definition ms_per_minute :: int where "ms_per_minute = 60000"

definition day_of :: "time_value \<Rightarrow> int" where
  "day_of t = t div ms_per_day"

definition time_within_day :: "time_value \<Rightarrow> int" where
  "time_within_day t = t mod ms_per_day"

definition days_in_year :: "int \<Rightarrow> int" where
  "days_in_year y = (if y mod 4 \<noteq> 0 then 365 else if y mod 100 \<noteq> 0 then 366
                     else if y mod 400 \<noteq> 0 then 365 else 366)"

definition day_from_year :: "int \<Rightarrow> int" where
  "day_from_year y = 365 * (y - 1970) + (y - 1969) div 4 - (y - 1901) div 100 + (y - 1601) div 400"

definition leap :: "int \<Rightarrow> int" where
  "leap y = days_in_year y - 365"

lemma days_in_year_bounds: "365 \<le> days_in_year y" "days_in_year y \<le> 366"
  by (simp_all add: days_in_year_def)

lemma day_from_year_succ: "day_from_year (y + 1) = day_from_year y + days_in_year y"
proof -
  have a: "(y + 1 - 1969) div 4 = (y - 1969) div 4 + (if y mod 4 = 0 then 1 else 0)"
    using div_succ_int[of 4 "y - 1969"] mod_shift_int[of y 492 4] by (simp add: algebra_simps)
  have b: "(y + 1 - 1901) div 100 = (y - 1901) div 100 + (if y mod 100 = 0 then 1 else 0)"
    using div_succ_int[of 100 "y - 1901"] mod_shift_int[of y 19 100] by (simp add: algebra_simps)
  have c: "(y + 1 - 1601) div 400 = (y - 1601) div 400 + (if y mod 400 = 0 then 1 else 0)"
    using div_succ_int[of 400 "y - 1601"] mod_shift_int[of y 4 400] by (simp add: algebra_simps)
  have d4: "y mod 100 = 0 \<Longrightarrow> y mod 4 = 0" using mod_dvd_zero_int[of 4 100 y] by simp
  have d100: "y mod 400 = 0 \<Longrightarrow> y mod 100 = 0" using mod_dvd_zero_int[of 100 400 y] by simp
  show ?thesis unfolding day_from_year_def days_in_year_def a b c
    using d4 d100 by auto
qed

lemma day_from_year_1970 [simp]: "day_from_year 1970 = 0"
  by (simp add: day_from_year_def)

lemma day_from_year_mono_step: "day_from_year y < day_from_year (y + 1)"
  using day_from_year_succ[of y] days_in_year_bounds(1)[of y] by simp

lemma day_from_year_strict_mono: "y < y' \<Longrightarrow> day_from_year y < day_from_year y'"
proof -
  assume "y < y'"
  then obtain k where y': "y' = y + int (Suc k)" by (metis zless_iff_Suc_zadd)
  have "day_from_year y < day_from_year (y + int (Suc k))"
  proof (induction k)
    case 0
    then show ?case using day_from_year_mono_step[of y] by simp
  next
    case (Suc k)
    then show ?case using day_from_year_mono_step[of "y + int (Suc k)"] by (simp add: add.assoc)
  qed
  with y' show ?thesis by simp
qed

lemma day_from_year_mono_le: "y \<le> y' \<Longrightarrow> day_from_year y \<le> day_from_year y'"
  using day_from_year_strict_mono[of y y'] by (cases "y = y'") auto

lemma day_from_year_mono_iff: "day_from_year y < day_from_year y' \<longleftrightarrow> y < y'"
  using day_from_year_strict_mono[of y y'] day_from_year_mono_le[of y' y] by linarith

lemma day_from_year_above_1970: "day_from_year (1970 + int k) \<le> 366 * int k"
proof (induction k)
  case 0
  then show ?case by simp
next
  case (Suc k)
  then show ?case using day_from_year_succ[of "1970 + int k"] days_in_year_bounds(2)[of "1970 + int k"]
    by (simp add: add.assoc)
qed

lemma day_from_year_below_1970: "day_from_year (1970 - int k) \<le> - 365 * int k"
proof (induction k)
  case 0
  then show ?case by simp
next
  case (Suc k)
  have "day_from_year (1970 - int (Suc k) + 1) = day_from_year (1970 - int k)" by simp
  then show ?case using Suc day_from_year_succ[of "1970 - int (Suc k)"]
      days_in_year_bounds(1)[of "1970 - int (Suc k)"]
    by simp
qed

section \<open>YearFromTime\<close>

function year_search :: "int \<Rightarrow> int \<Rightarrow> int" where
  "year_search d y = (if day_from_year (y + 1) \<le> d then year_search d (y + 1) else y)"
  by pat_completeness auto
termination
proof (relation "measure (\<lambda>(d, y). nat (d + 1 - day_from_year y))")
  show "wf (measure (\<lambda>(d, y). nat (d + 1 - day_from_year y)))" by simp
next
  fix d y :: int
  assume "day_from_year (y + 1) \<le> d"
  then show "((d, y + 1), d, y) \<in> measure (\<lambda>(d, y). nat (d + 1 - day_from_year y))"
    using day_from_year_mono_step[of y] by simp
qed

declare year_search.simps [simp del]

definition year_guess :: "int \<Rightarrow> int" where
  "year_guess d = 1970 + (if 0 \<le> d then d div 366 else d div 365)"

definition year_from_day :: "int \<Rightarrow> int" where
  "year_from_day d = year_search d (year_guess d)"

section \<open>MonthFromTime, DateFromTime, MakeDay, MakeTime, TimeClip\<close>

text \<open>
  The specification's tables of \<open>MonthFromTime\<close> and \<open>DateFromTime\<close>, on day numbers;
  \<open>month_start\<close> is the day within the year on which a month begins, the constructive
  witness that \<open>MakeDay\<close> uses.
\<close>

definition days_in_month :: "int \<Rightarrow> nat \<Rightarrow> int" where
  "days_in_month y m = (if m = 1 then 28 + leap y
     else if m = 3 \<or> m = 5 \<or> m = 8 \<or> m = 10 then 30 else 31)"

fun month_start :: "int \<Rightarrow> nat \<Rightarrow> int" where
  "month_start y 0 = 0"
| "month_start y (Suc m) = month_start y m + days_in_month y m"

definition day_within_year :: "int \<Rightarrow> int" where
  "day_within_year d = d - day_from_year (year_from_day d)"

definition month_from_day :: "int \<Rightarrow> nat" where
  "month_from_day d = (let w = day_within_year d; l = leap (year_from_day d) in
     if w < 31 then 0 else if w < 59 + l then 1 else if w < 90 + l then 2
     else if w < 120 + l then 3 else if w < 151 + l then 4 else if w < 181 + l then 5
     else if w < 212 + l then 6 else if w < 243 + l then 7 else if w < 273 + l then 8
     else if w < 304 + l then 9 else if w < 334 + l then 10 else 11)"

definition date_from_day :: "int \<Rightarrow> int" where
  "date_from_day d = (let w = day_within_year d; l = leap (year_from_day d); m = month_from_day d in
     if m = 0 then w + 1 else if m = 1 then w - 30 else if m = 2 then w - 58 - l
     else if m = 3 then w - 89 - l else if m = 4 then w - 119 - l else if m = 5 then w - 150 - l
     else if m = 6 then w - 180 - l else if m = 7 then w - 211 - l else if m = 8 then w - 242 - l
     else if m = 9 then w - 272 - l else if m = 10 then w - 303 - l else w - 333 - l)"

definition week_day :: "int \<Rightarrow> int" where
  "week_day d = (d + 4) mod 7"

definition make_day :: "int \<Rightarrow> int \<Rightarrow> int \<Rightarrow> int" where
  "make_day y m dt = (let ym = y + m div 12; mn = nat (m mod 12)
                      in day_from_year ym + month_start ym mn + dt - 1)"

definition make_time :: "int \<Rightarrow> int \<Rightarrow> int \<Rightarrow> int \<Rightarrow> int" where
  "make_time h mi sec ms = h * ms_per_hour + mi * ms_per_minute + sec * 1000 + ms"

definition make_date :: "int \<Rightarrow> int \<Rightarrow> int" where
  "make_date dy tm = dy * ms_per_day + tm"

definition time_clip :: "int \<Rightarrow> js_date" where
  "time_clip t = (if \<bar>t\<bar> \<le> 8640000000000000 then Some t else None)"

definition make_full_year :: "int \<Rightarrow> int" where
  "make_full_year y = (if 0 \<le> y \<and> y \<le> 99 then 1900 + y else y)"

definition hour_from_time :: "time_value \<Rightarrow> int" where
  "hour_from_time t = (t div ms_per_hour) mod 24"

definition min_from_time :: "time_value \<Rightarrow> int" where
  "min_from_time t = (t div ms_per_minute) mod 60"

section \<open>Local time and the Date methods\<close>

text \<open>
  \<open>tza\<close> is the local time-zone adjustment in milliseconds (local = UTC + \<open>tza\<close>),
  fixed for the session. Every getter reads local time; a Date built from components or
  changed by \<open>setDate\<close> is converted back with \<open>UTC\<close>.
\<close>

definition local_time :: "int \<Rightarrow> time_value \<Rightarrow> int" where
  "local_time tza t = t + tza"

definition utc_time :: "int \<Rightarrow> int \<Rightarrow> time_value" where
  "utc_time tza l = l - tza"

definition year_of :: "int \<Rightarrow> int" where "year_of l = year_from_day (day_of l)"
definition month_of :: "int \<Rightarrow> nat" where "month_of l = month_from_day (day_of l)"
definition date_of :: "int \<Rightarrow> int" where "date_of l = date_from_day (day_of l)"

text \<open>\<open>new Date(y, m, d)\<close> (local midnight), \<open>new Date()\<close> and \<open>new Date(date)\<close>.\<close>

definition date_new_ymd :: "int \<Rightarrow> int \<Rightarrow> int \<Rightarrow> int \<Rightarrow> js_date" where
  "date_new_ymd tza y m dt =
     time_clip (utc_time tza (make_date (make_day (make_full_year y) m dt) (make_time 0 0 0 0)))"

definition date_new_now :: "time_value \<Rightarrow> js_date" where
  "date_new_now now = time_clip now"

definition date_copy :: "js_date \<Rightarrow> js_date" where
  "date_copy d = d"

definition get_full_year :: "int \<Rightarrow> js_date \<Rightarrow> int option" where
  "get_full_year tza d = map_option (\<lambda>t. year_of (local_time tza t)) d"

definition get_month :: "int \<Rightarrow> js_date \<Rightarrow> int option" where
  "get_month tza d = map_option (\<lambda>t. int (month_of (local_time tza t))) d"

definition get_date :: "int \<Rightarrow> js_date \<Rightarrow> int option" where
  "get_date tza d = map_option (\<lambda>t. date_of (local_time tza t)) d"

definition get_day :: "int \<Rightarrow> js_date \<Rightarrow> int option" where
  "get_day tza d = map_option (\<lambda>t. week_day (day_of (local_time tza t))) d"

definition get_hours :: "int \<Rightarrow> js_date \<Rightarrow> int option" where
  "get_hours tza d = map_option (\<lambda>t. hour_from_time (local_time tza t)) d"

definition get_minutes :: "int \<Rightarrow> js_date \<Rightarrow> int option" where
  "get_minutes tza d = map_option (\<lambda>t. min_from_time (local_time tza t)) d"

text \<open>\<open>Date.prototype.setDate(dt)\<close>: same local time of day, date \<open>dt\<close> of the same
  local month (overflowing into the next months as \<open>MakeDay\<close> does).\<close>

definition set_date :: "int \<Rightarrow> int \<Rightarrow> js_date \<Rightarrow> js_date" where
  "set_date tza dt d = (case d of None \<Rightarrow> None | Some t \<Rightarrow>
     (let l = local_time tza t in
      time_clip (utc_time tza (make_date (make_day (year_of l) (int (month_of l)) dt)
                                         (time_within_day l)))))"

section \<open>toDateString and toLocaleDateString\<close>

definition week_day_names :: "js_string list" where
  "week_day_names = [''Sun'', ''Mon'', ''Tue'', ''Wed'', ''Thu'', ''Fri'', ''Sat'']"

definition month_names :: "js_string list" where
  "month_names = [''Jan'', ''Feb'', ''Mar'', ''Apr'', ''May'', ''Jun'',
                  ''Jul'', ''Aug'', ''Sep'', ''Oct'', ''Nov'', ''Dec'']"

definition year_string :: "int \<Rightarrow> js_string" where
  "year_string y = (if 0 \<le> y then [] else ''-'') @ pad_start 4 (nat_str (nat \<bar>y\<bar>))"

text \<open>\<open>DateString(tv)\<close> of a local time value.\<close>

definition date_string :: "int \<Rightarrow> js_string" where
  "date_string l = week_day_names ! nat (week_day (day_of l)) @ '' ''
     @ month_names ! month_of l @ '' '' @ pad_start 2 (nat_str (nat (date_of l)))
     @ '' '' @ year_string (year_of l)"

definition to_date_string :: "int \<Rightarrow> js_date \<Rightarrow> js_string" where
  "to_date_string tza d = (case d of None \<Rightarrow> ''Invalid Date'' | Some t \<Rightarrow> date_string (local_time tza t))"

text \<open>\<open>toLocaleDateString('en-US', {weekday: 'short', month: 'short', day: 'numeric'})\<close>,
  as the CLDR pattern of the \<open>en-US\<close> locale renders it (\<open>"Sun, Jan 5"\<close>).\<close>

definition to_locale_date_short :: "int \<Rightarrow> js_date \<Rightarrow> js_string" where
  "to_locale_date_short tza d = (case d of None \<Rightarrow> ''Invalid Date'' | Some t \<Rightarrow>
     (let l = local_time tza t in
      week_day_names ! nat (week_day (day_of l)) @ '', '' @ month_names ! month_of l
        @ '' '' @ nat_str (nat (date_of l))))"

section \<open>Lemmas on YearFromTime\<close>

lemma year_guess_le: "day_from_year (year_guess d) \<le> d"
proof (cases "0 \<le> d")
  case True
  define n where "n = nat (d div 366)"
  have n: "d div 366 = int n" using True by (simp add: n_def)
  have "366 * (d div 366) \<le> d" using div_mult_bounds_int(1)[of 366 d] by simp
  then show ?thesis using day_from_year_above_1970[of n] True n by (simp add: year_guess_def)
next
  case False
  define n where "n = nat (- (d div 365))"
  have "d div 365 < 0" using False by simp
  then have n: "d div 365 = - int n" by (simp add: n_def)
  have "365 * (d div 365) \<le> d" using div_mult_bounds_int(1)[of 365 d] by simp
  then show ?thesis using day_from_year_below_1970[of n] False n by (simp add: year_guess_def)
qed

lemma year_search_spec:
  "day_from_year y \<le> d \<Longrightarrow>
   day_from_year (year_search d y) \<le> d \<and> d < day_from_year (year_search d y + 1)"
proof (induction d y rule: year_search.induct)
  case (1 d y)
  show ?case
  proof (cases "day_from_year (y + 1) \<le> d")
    case True
    with "1.IH" have "day_from_year (year_search d (y + 1)) \<le> d \<and>
        d < day_from_year (year_search d (y + 1) + 1)" by blast
    with True show ?thesis by (simp add: year_search.simps [of d y])
  next
    case False
    with "1.prems" show ?thesis by (simp add: year_search.simps [of d y])
  qed
qed

theorem year_from_day_spec:
  "day_from_year (year_from_day d) \<le> d \<and> d < day_from_year (year_from_day d + 1)"
  unfolding year_from_day_def by (rule year_search_spec[OF year_guess_le])

lemma year_from_day_unique:
  assumes "day_from_year y \<le> d" and "d < day_from_year (y + 1)"
  shows "year_from_day d = y"
proof -
  have s: "day_from_year (year_from_day d) \<le> d" "d < day_from_year (year_from_day d + 1)"
    using year_from_day_spec[of d] by auto
  have "\<not> year_from_day d < y"
    using s(2) assms(1) day_from_year_mono_iff[of y "year_from_day d + 1"] by auto
  moreover have "\<not> y < year_from_day d"
    using s(1) assms(2) day_from_year_mono_le[of "y + 1" "year_from_day d"] by auto
  ultimately show ?thesis by simp
qed

lemma year_from_day_within:
  "0 \<le> k \<Longrightarrow> k < days_in_year y \<Longrightarrow> year_from_day (day_from_year y + k) = y"
  by (rule year_from_day_unique) (simp_all add: day_from_year_succ)

section \<open>Lemmas on MonthFromTime and DateFromTime\<close>

lemma leap_cases: "leap y = 0 \<or> leap y = 1"
  by (simp add: leap_def days_in_year_def)

lemma month_start_table:
  "month_start y 1 = 31" "month_start y 2 = 59 + leap y" "month_start y 3 = 90 + leap y"
  "month_start y 4 = 120 + leap y" "month_start y 5 = 151 + leap y" "month_start y 6 = 181 + leap y"
  "month_start y 7 = 212 + leap y" "month_start y 8 = 243 + leap y" "month_start y 9 = 273 + leap y"
  "month_start y 10 = 304 + leap y" "month_start y 11 = 334 + leap y" "month_start y 12 = 365 + leap y"
  by (simp_all add: numeral_eq_Suc days_in_month_def)

lemma month_cases12: "(m::nat) < 12 \<Longrightarrow>
  m = 0 \<or> m = 1 \<or> m = 2 \<or> m = 3 \<or> m = 4 \<or> m = 5 \<or> m = 6 \<or> m = 7 \<or> m = 8 \<or> m = 9 \<or> m = 10 \<or> m = 11"
  by (simp add: less_Suc_eq numeral_eq_Suc)

lemma days_in_year_leap: "days_in_year y = 365 + leap y"
  by (simp add: leap_def)

lemma month_end_within_year:
  "m < 12 \<Longrightarrow> month_start y m + days_in_month y m \<le> days_in_year y"
  using month_cases12[of m] leap_cases[of y]
  by (auto simp: month_start_table days_in_month_def days_in_year_leap)

lemma day_within_year_within:
  "0 \<le> k \<Longrightarrow> k < days_in_year y \<Longrightarrow> day_within_year (day_from_year y + k) = k"
  by (simp add: day_within_year_def year_from_day_within)

lemma days_in_month_pos: "0 < days_in_month y m"
  using leap_cases[of y] by (auto simp: days_in_month_def)

theorem calendar_of_day:
  assumes "m < 12" and "0 \<le> k" and "k < days_in_month y m"
  shows "year_from_day (day_from_year y + month_start y m + k) = y"
    and "month_from_day (day_from_year y + month_start y m + k) = m"
    and "date_from_day (day_from_year y + month_start y m + k) = k + 1"
proof -
  have m0: "0 \<le> month_start y m"
    using month_cases12[of m] assms(1) leap_cases[of y] by (auto simp: month_start_table days_in_month_def)
  have lt: "month_start y m + k < days_in_year y"
    using month_end_within_year[of m y] assms by simp
  have yr: "year_from_day (day_from_year y + (month_start y m + k)) = y"
    using year_from_day_within[of "month_start y m + k" y] m0 assms lt by simp
  then have yr2: "year_from_day (day_from_year y + month_start y m + k) = y" by (simp add: add.assoc)
  then show "year_from_day (day_from_year y + month_start y m + k) = y" .
  have w: "day_within_year (day_from_year y + month_start y m + k) = month_start y m + k"
    using day_within_year_within[of "month_start y m + k" y] m0 assms lt by (simp add: add.assoc)
  have l: "0 \<le> leap y" "leap y \<le> 1" using leap_cases[of y] by auto
  have mk: "month_from_day (day_from_year y + month_start y m + k) = m"
    unfolding month_from_day_def Let_def w yr2
    using month_cases12[OF assms(1)] assms l
    by (elim disjE) (simp_all add: month_start_table days_in_month_def)
  then show "month_from_day (day_from_year y + month_start y m + k) = m" .
  show "date_from_day (day_from_year y + month_start y m + k) = k + 1"
    unfolding date_from_day_def Let_def w yr2 mk
    using month_cases12[OF assms(1)] by (elim disjE) (simp_all add: month_start_table days_in_month_def)
qed

lemma day_within_year_bounds:
  "0 \<le> day_within_year d" "day_within_year d < days_in_year (year_from_day d)"
  using year_from_day_spec[of d] day_from_year_succ[of "year_from_day d"]
  by (simp_all add: day_within_year_def)

lemma month_from_day_bounds:
  shows "month_from_day d < 12"
    and "month_start (year_from_day d) (month_from_day d) \<le> day_within_year d"
    and "day_within_year d < month_start (year_from_day d) (month_from_day d)
                             + days_in_month (year_from_day d) (month_from_day d)"
proof -
  have w: "0 \<le> day_within_year d" "day_within_year d < 365 + leap (year_from_day d)"
    using day_within_year_bounds[of d] by (simp_all add: days_in_year_leap)
  have l: "0 \<le> leap (year_from_day d)" "leap (year_from_day d) \<le> 1"
    using leap_cases[of "year_from_day d"] by auto
  show "month_from_day d < 12"
    unfolding month_from_day_def Let_def by simp
  show "month_start (year_from_day d) (month_from_day d) \<le> day_within_year d"
    unfolding month_from_day_def Let_def using w l
    by (simp add: month_start_table days_in_month_def)
  show "day_within_year d < month_start (year_from_day d) (month_from_day d)
                             + days_in_month (year_from_day d) (month_from_day d)"
    unfolding month_from_day_def Let_def using w l
    by (simp add: month_start_table days_in_month_def)
qed

lemma date_from_day_eq:
  "date_from_day d = day_within_year d - month_start (year_from_day d) (month_from_day d) + 1"
  using month_cases12[OF month_from_day_bounds(1)[of d]]
  unfolding date_from_day_def Let_def
  by (elim disjE) (simp_all add: month_start_table days_in_month_def)

theorem day_decompose:
  "d = day_from_year (year_from_day d) + month_start (year_from_day d) (month_from_day d)
       + (date_from_day d - 1)"
  by (simp add: date_from_day_eq day_within_year_def)

lemma date_from_day_bounds:
  "1 \<le> date_from_day d" "date_from_day d \<le> days_in_month (year_from_day d) (month_from_day d)"
  using month_from_day_bounds(2,3)[of d] by (simp_all add: date_from_day_eq)

section \<open>Lemmas on MakeDay, MakeDate, MakeTime, TimeClip\<close>

text \<open>\<open>MakeDay\<close> finds the first day of month \<open>mn\<close> of year \<open>ym\<close>; it does so:\<close>

theorem make_day_first_of_month:
  assumes "ym = y + m div 12" and "mn = nat (m mod 12)"
  shows "year_from_day (make_day y m 1) = ym"
    and "int (month_from_day (make_day y m 1)) = m mod 12"
    and "date_from_day (make_day y m 1) = 1"
proof -
  have mn: "mn < 12" "int mn = m mod 12" using assms(2) by simp_all
  have eq: "make_day y m 1 = day_from_year ym + month_start ym mn + 0"
    by (simp add: make_day_def Let_def assms)
  have k: "(0::int) < days_in_month ym mn" by (rule days_in_month_pos)
  show "year_from_day (make_day y m 1) = ym"
    unfolding eq using calendar_of_day(1)[OF mn(1) _ k] by simp
  show "int (month_from_day (make_day y m 1)) = m mod 12"
    unfolding eq using calendar_of_day(2)[OF mn(1) _ k] mn(2) by simp
  show "date_from_day (make_day y m 1) = 1"
    unfolding eq using calendar_of_day(3)[OF mn(1) _ k] by simp
qed

lemma make_day_shift: "make_day y m (dt + k) = make_day y m dt + k"
  by (simp add: make_day_def Let_def)

theorem make_day_decompose:
  "make_day (year_from_day d) (int (month_from_day d)) (date_from_day d) = d"
proof -
  have "month_from_day d < 12" by (rule month_from_day_bounds(1))
  then have "int (month_from_day d) div 12 = 0" "nat (int (month_from_day d) mod 12) = month_from_day d"
    by simp_all
  then show ?thesis using day_decompose[of d] by (simp add: make_day_def Let_def)
qed

lemma make_day_last_of_month:
  assumes "0 \<le> m" "m < 12"
  shows "make_day y (m + 1) 0 = day_from_year y + month_start y (nat m) + (days_in_month y (nat m) - 1)"
proof (cases "m = 11")
  case True
  have "make_day y 12 0 = day_from_year (y + 1) - 1" by (simp add: make_day_def)
  with True show ?thesis
    by (simp add: day_from_year_succ days_in_year_leap month_start_table days_in_month_def)
next
  case False
  then have m1: "(m + 1) div 12 = 0" "nat ((m + 1) mod 12) = Suc (nat m)" using assms by simp_all
  show ?thesis by (simp add: make_day_def Let_def m1)
qed

theorem date_of_month_end:
  assumes "0 \<le> m" "m < 12"
  shows "date_from_day (make_day y (m + 1) 0) = days_in_month y (nat m)"
  using calendar_of_day(3)[of "nat m" "days_in_month y (nat m) - 1" y] assms days_in_month_pos[of y "nat m"]
  by (simp add: make_day_last_of_month)

section \<open>Lemmas on Hours and minutes\<close>

lemma time_fields:
  assumes "0 \<le> h" "h < 24" "0 \<le> mi" "mi < 60" "0 \<le> r" "r < ms_per_minute"
  shows "hour_from_time (make_date dy (make_time h mi 0 r)) = h"
    and "min_from_time (make_date dy (make_time h mi 0 r)) = mi"
    and "day_of (make_date dy (make_time h mi 0 r)) = dy"
proof -
  let ?t = "make_date dy (make_time h mi 0 r)"
  have r: "0 \<le> r" "r < 60000" using assms(5,6) by (simp_all add: ms_per_minute_def)
  have t1: "?t = (dy * 24 + h) * 3600000 + (mi * 60000 + r)"
    by (simp add: make_date_def make_time_def ms_per_day_def ms_per_hour_def ms_per_minute_def algebra_simps)
  have "?t div 3600000 = dy * 24 + h"
    unfolding t1 using assms(3,4) r by (intro div_mult_add_small_int) simp_all
  moreover have "(dy * 24 + h) mod 24 = h"
    using assms(1,2) mod_mult_add_small_int[of h 24 dy] by simp
  ultimately show "hour_from_time ?t = h"
    by (simp add: hour_from_time_def ms_per_hour_def)
  have t2: "?t = (dy * 1440 + h * 60 + mi) * 60000 + r"
    by (simp add: make_date_def make_time_def ms_per_day_def ms_per_hour_def ms_per_minute_def algebra_simps)
  have "?t div 60000 = (dy * 24 + h) * 60 + mi"
    unfolding t2 using r div_mult_add_small_int[of r 60000 "dy * 1440 + h * 60 + mi"]
    by (simp add: algebra_simps)
  moreover have "((dy * 24 + h) * 60 + mi) mod 60 = mi"
    using assms(3,4) by (rule mod_mult_add_small_int)
  ultimately show "min_from_time ?t = mi"
    by (simp add: min_from_time_def ms_per_minute_def)
  have t3: "?t = dy * 86400000 + (h * 3600000 + mi * 60000 + r)"
    by (simp add: make_date_def make_time_def ms_per_day_def ms_per_hour_def ms_per_minute_def)
  have "0 \<le> h * 3600000 + mi * 60000 + r" "h * 3600000 + mi * 60000 + r < 86400000"
    using assms(1-4) r by simp_all
  then show "day_of ?t = dy"
    unfolding day_of_def ms_per_day_def t3 using div_mult_add_small_int[of _ 86400000 dy]
    by (simp add: mult.commute)
qed

section \<open>Lemmas on Local time and the Date methods\<close>

lemma make_date_day_time: "make_date (day_of l) (time_within_day l) = l"
  by (simp add: make_date_def day_of_def time_within_day_def)

theorem set_date_shift:
  "set_date tza dt (Some t) =
     time_clip (t + (dt - date_of (local_time tza t)) * ms_per_day)"
proof -
  let ?l = "local_time tza t"
  have "make_day (year_of ?l) (int (month_of ?l)) dt
        = make_day (year_of ?l) (int (month_of ?l)) (date_of ?l) + (dt - date_of ?l)"
    using make_day_shift[of "year_of ?l" "int (month_of ?l)" "date_of ?l" "dt - date_of ?l"] by simp
  also have "\<dots> = day_of ?l + (dt - date_of ?l)"
    by (simp add: year_of_def month_of_def date_of_def make_day_decompose)
  finally have md: "make_day (year_of ?l) (int (month_of ?l)) dt = day_of ?l + (dt - date_of ?l)" .
  have "make_date (day_of ?l + (dt - date_of ?l)) (time_within_day ?l) = ?l + (dt - date_of ?l) * ms_per_day"
    using make_date_day_time[of ?l] by (simp add: make_date_def algebra_simps)
  then show ?thesis
    unfolding set_date_def option.case Let_def md by (simp add: utc_time_def local_time_def)
qed

lemma day_of_shift: "day_of (l + k * ms_per_day) = day_of l + k"
  by (simp add: day_of_def ms_per_day_def)

section \<open>Lemmas on toDateString and toLocaleDateString\<close>

lemma week_day_bounds: "0 \<le> week_day d" "week_day d < 7"
  by (simp_all add: week_day_def)

lemma length_week_day_name: "i < 7 \<Longrightarrow> length (week_day_names ! i) = 3"
  by (simp add: week_day_names_def less_Suc_eq numeral_eq_Suc) (elim disjE; simp)

lemma length_month_name: "i < 12 \<Longrightarrow> length (month_names ! i) = 3"
  by (simp add: month_names_def less_Suc_eq numeral_eq_Suc) (elim disjE; simp)

lemma distinct_month_names: "distinct month_names"
  by (simp add: month_names_def)

lemma length_month_names: "length month_names = 12"
  by (simp add: month_names_def)

lemma days_in_month_le: "days_in_month y m \<le> 31"
  using leap_cases[of y] by (auto simp: days_in_month_def)

lemma date_of_bounds: "1 \<le> date_of l" "date_of l \<le> 31"
  using date_from_day_bounds[of "day_of l"] days_in_month_le
  by (auto simp: date_of_def intro: order_trans)

lemma length_date_pad: "length (pad_start 2 (nat_str (nat (date_of l)))) = 2"
proof -
  have "nat (date_of l) < 10 ^ 2" using date_of_bounds(2)[of l] by simp
  then have "length (nat_str (nat (date_of l))) \<le> 2" by (rule length_nat_str_le) simp
  then show ?thesis by (simp add: length_pad_start)
qed

lemma nat_str_digits: "set (nat_str n) \<subseteq> digit_char ` {0..<10}"
proof (induction n rule: nat_str.induct)
  case (1 n)
  then show ?case by (subst nat_str.simps) auto
qed

lemma minus_notin_pad: "CHR ''-'' \<notin> set (pad_start k (nat_str n))"
proof -
  have "CHR ''-'' \<noteq> digit_char d" if "d < 10" for d
  proof
    assume "CHR ''-'' = digit_char d"
    then have "(of_char (digit_char d) :: nat) = of_char (CHR ''-'')" by simp
    then show False using that by (simp add: digit_char_def)
  qed
  then have "CHR ''-'' \<notin> digit_char ` {0..<10}" by (simp add: image_iff)
  then show ?thesis using nat_str_digits[of n] by (auto simp: pad_start_def)
qed

lemma year_string_inj: "year_string a = year_string b \<Longrightarrow> a = b"
proof -
  assume eq: "year_string a = year_string b"
  have sign: "(0 \<le> a) = (0 \<le> b)"
  proof (rule ccontr)
    assume "(0 \<le> a) \<noteq> (0 \<le> b)"
    then obtain p q where "(0 \<le> p) \<and> \<not> (0 \<le> q)" and "year_string p = year_string q"
      using eq by (cases "0 \<le> a") auto
    then have "pad_start 4 (nat_str (nat \<bar>p\<bar>)) = CHR ''-'' # pad_start 4 (nat_str (nat \<bar>q\<bar>))"
      by (simp add: year_string_def)
    then show False using minus_notin_pad[of 4 "nat \<bar>p\<bar>"] by (metis list.set_intros(1))
  qed
  then have "pad_start 4 (nat_str (nat \<bar>a\<bar>)) = pad_start 4 (nat_str (nat \<bar>b\<bar>))"
    using eq by (simp add: year_string_def split: if_splits)
  then have "\<bar>a\<bar> = \<bar>b\<bar>" by (simp add: pad_start_nat_str_inj)
  with sign show "a = b" by (auto simp: abs_if split: if_splits)
qed

lemma day_of_from_fields: "day_of l = make_day (year_of l) (int (month_of l)) (date_of l)"
  by (simp add: year_of_def month_of_def date_of_def make_day_decompose)

theorem date_string_eq_iff: "date_string l1 = date_string l2 \<longleftrightarrow> day_of l1 = day_of l2"
proof
  assume eq: "date_string l1 = date_string l2"
  have w: "length (week_day_names ! nat (week_day (day_of l))) = 3" for l
    using week_day_bounds[of "day_of l"] by (intro length_week_day_name) simp
  have m: "length (month_names ! month_of l) = 3" for l
    using month_from_day_bounds(1) by (simp add: month_of_def length_month_name)
  from eq have rest1: "month_names ! month_of l1 @ '' '' @ pad_start 2 (nat_str (nat (date_of l1)))
        @ '' '' @ year_string (year_of l1)
      = month_names ! month_of l2 @ '' '' @ pad_start 2 (nat_str (nat (date_of l2)))
        @ '' '' @ year_string (year_of l2)"
    unfolding date_string_def using w[of l1] w[of l2] by (simp add: append_eq_append_conv)
  then have mon: "month_names ! month_of l1 = month_names ! month_of l2"
    and rest2: "pad_start 2 (nat_str (nat (date_of l1))) @ '' '' @ year_string (year_of l1)
      = pad_start 2 (nat_str (nat (date_of l2))) @ '' '' @ year_string (year_of l2)"
    using m[of l1] m[of l2] by (simp_all add: append_eq_append_conv)
  from rest2 have dt: "pad_start 2 (nat_str (nat (date_of l1))) = pad_start 2 (nat_str (nat (date_of l2)))"
    and yr: "year_string (year_of l1) = year_string (year_of l2)"
    using length_date_pad[of l1] length_date_pad[of l2] by (simp_all add: append_eq_append_conv)
  have "month_of l1 = month_of l2"
    using mon nth_eq_iff_index_eq[OF distinct_month_names, of "month_of l1" "month_of l2"]
      month_from_day_bounds(1)
    by (simp add: month_of_def length_month_names)
  moreover have "date_of l1 = date_of l2"
    using dt date_of_bounds(1)[of l1] date_of_bounds(1)[of l2] by (simp add: pad_start_nat_str_inj)
  moreover have "year_of l1 = year_of l2" using yr by (rule year_string_inj)
  ultimately show "day_of l1 = day_of l2" by (simp add: day_of_from_fields)
next
  assume "day_of l1 = day_of l2"
  then show "date_string l1 = date_string l2"
    by (simp add: date_string_def year_of_def month_of_def date_of_def)
qed

lemma date_string_not_invalid: "date_string l \<noteq> ''Invalid Date''"
proof -
  have "length (date_string l) \<ge> 15"
    using length_week_day_name[of "nat (week_day (day_of l))"] week_day_bounds[of "day_of l"]
      length_month_name[of "month_of l"] month_from_day_bounds(1)[of "day_of l"]
      length_date_pad[of l]
    by (simp add: date_string_def year_string_def length_pad_start month_of_def)
  then show ?thesis by auto
qed

theorem to_date_string_eq_iff:
  "to_date_string tza d = to_date_string tza (Some t) \<longleftrightarrow>
   (\<exists>t'. d = Some t' \<and> day_of (local_time tza t') = day_of (local_time tza t))"
  using date_string_not_invalid[of "local_time tza t"]
  by (cases d) (auto simp: to_date_string_def date_string_eq_iff)

end
