(* ===== verification/Js_Date_Parse.thy ===== *)
theory Js_Date_Parse
  imports Js_Date
begin

text \<open>
  \<open>new Date(string)\<close> on the ECMAScript Date Time String Format (ECMA-262, 21.4.1.32):
  \<open>YYYY\<close>, \<open>YYYY-MM\<close>, \<open>YYYY-MM-DD\<close> or the extended year \<open>\<plusminus>YYYYYY\<close>, optionally
  followed by \<open>THH:mm\<close>, \<open>:ss\<close>, \<open>.sss\<close> and an offset \<open>Z\<close> or \<open>\<plusminus>HH:mm\<close>.
  Date-only forms are read as UTC, date-time forms without an offset as local time.
  Strings outside the format give an Invalid Date (implementation-specific fallback
  formats are not modelled). The round trip for the strings the calendar API sends, and
  the UTC reading of all-day dates, are proved at the end.
\<close>

section \<open>Lexical helpers\<close>

definition take_num :: "nat \<Rightarrow> js_string \<Rightarrow> (nat \<times> js_string) option" where
  "take_num n s = (if length s < n then None
                   else map_option (\<lambda>v. (v, drop n s)) (parse_nat (take n s)))"

definition expect :: "char \<Rightarrow> js_string \<Rightarrow> js_string option" where
  "expect c s = (case s of [] \<Rightarrow> None | c' # r \<Rightarrow> if c' = c then Some r else None)"

definition parse_year :: "js_string \<Rightarrow> (int \<times> js_string) option" where
  "parse_year s = (case s of
       [] \<Rightarrow> None
     | c # r \<Rightarrow>
         if c = CHR ''+'' then map_option (\<lambda>(v, r'). (int v, r')) (take_num 6 r)
         else if c = CHR ''-'' then
           (case take_num 6 r of None \<Rightarrow> None
            | Some (v, r') \<Rightarrow> if v = 0 then None else Some (- int v, r'))
         else map_option (\<lambda>(v, r'). (int v, r')) (take_num 4 s))"

definition parse_date_fields :: "js_string \<Rightarrow> ((int \<times> nat \<times> nat) \<times> js_string) option" where
  "parse_date_fields s = (case parse_year s of None \<Rightarrow> None | Some (y, r) \<Rightarrow>
     (case expect CHR ''-'' r of None \<Rightarrow> Some ((y, 1, 1), r) | Some r1 \<Rightarrow>
       (case take_num 2 r1 of None \<Rightarrow> None | Some (mo, r2) \<Rightarrow>
         (case expect CHR ''-'' r2 of None \<Rightarrow> Some ((y, mo, 1), r2) | Some r3 \<Rightarrow>
           (case take_num 2 r3 of None \<Rightarrow> None | Some (dd, r4) \<Rightarrow> Some ((y, mo, dd), r4))))))"

definition parse_time_fields :: "js_string \<Rightarrow> ((nat \<times> nat \<times> nat \<times> nat) \<times> js_string) option" where
  "parse_time_fields s = (case take_num 2 s of None \<Rightarrow> None | Some (h, r) \<Rightarrow>
     (case expect CHR '':'' r of None \<Rightarrow> None | Some r1 \<Rightarrow>
       (case take_num 2 r1 of None \<Rightarrow> None | Some (mi, r2) \<Rightarrow>
         (case expect CHR '':'' r2 of None \<Rightarrow> Some ((h, mi, 0, 0), r2) | Some r3 \<Rightarrow>
           (case take_num 2 r3 of None \<Rightarrow> None | Some (sec, r4) \<Rightarrow>
             (case expect CHR ''.'' r4 of None \<Rightarrow> Some ((h, mi, sec, 0), r4) | Some r5 \<Rightarrow>
               (case take_num 3 r5 of None \<Rightarrow> None | Some (ms, r6) \<Rightarrow> Some ((h, mi, sec, ms), r6))))))))"

text \<open>The offset: \<open>Some None\<close> when absent, \<open>Some (Some m)\<close> for an offset of \<open>m\<close>
  minutes east of UTC, \<open>None\<close> when malformed.\<close>

definition parse_offset :: "js_string \<Rightarrow> int option option" where
  "parse_offset s = (case s of
       [] \<Rightarrow> Some None
     | c # r \<Rightarrow>
         if c = CHR ''Z'' then (if r = [] then Some (Some 0) else None)
         else if c = CHR ''+'' \<or> c = CHR ''-'' then
           (case take_num 2 r of None \<Rightarrow> None | Some (hh, r1) \<Rightarrow>
             (case expect CHR '':'' r1 of None \<Rightarrow> None | Some r2 \<Rightarrow>
               (case take_num 2 r2 of None \<Rightarrow> None | Some (mm, r3) \<Rightarrow>
                 if r3 = [] \<and> hh \<le> 23 \<and> mm \<le> 59
                 then Some (Some ((if c = CHR ''-'' then -1 else 1) * int (hh * 60 + mm)))
                 else None)))
         else None)"

definition valid_time_fields :: "nat \<Rightarrow> nat \<Rightarrow> nat \<Rightarrow> nat \<Rightarrow> bool" where
  "valid_time_fields h mi sec ms =
     (if h = 24 then mi = 0 \<and> sec = 0 \<and> ms = 0 else h < 24 \<and> mi \<le> 59 \<and> sec \<le> 59)"

definition date_parse :: "int \<Rightarrow> js_string \<Rightarrow> js_date" where
  "date_parse tza s = (case parse_date_fields s of None \<Rightarrow> None | Some ((y, mo, dd), r) \<Rightarrow>
     if \<not> (1 \<le> mo \<and> mo \<le> 12 \<and> 1 \<le> dd \<and> dd \<le> 31) then None
     else (let dy = make_day y (int mo - 1) (int dd) in
       if r = [] then time_clip (make_date dy 0)
       else (case expect CHR ''T'' r of None \<Rightarrow> None | Some r1 \<Rightarrow>
         (case parse_time_fields r1 of None \<Rightarrow> None | Some ((h, mi, sec, ms), r2) \<Rightarrow>
           (case parse_offset r2 of None \<Rightarrow> None | Some off \<Rightarrow>
             if \<not> valid_time_fields h mi sec ms then None
             else (let t = make_date dy (make_time (int h) (int mi) (int sec) (int ms)) in
               (case off of None \<Rightarrow> time_clip (utc_time tza t)
                | Some m \<Rightarrow> time_clip (t - m * ms_per_minute))))))))"

section \<open>Round trip on the strings of the calendar API\<close>

definition pad2 :: "nat \<Rightarrow> js_string" where
  "pad2 n = pad_start 2 (nat_str n)"

text \<open>A local date-time \<open>YYYY-MM-DDTHH:mm\<close> and an all-day date \<open>YYYY-MM-DD\<close>.\<close>

definition iso_local_string :: "nat \<Rightarrow> nat \<Rightarrow> nat \<Rightarrow> nat \<Rightarrow> nat \<Rightarrow> js_string" where
  "iso_local_string y mo dd h mi =
     pad_start 4 (nat_str y) @ ''-'' @ pad2 mo @ ''-'' @ pad2 dd @ ''T'' @ pad2 h @ '':'' @ pad2 mi"

definition iso_local_ok :: "nat \<Rightarrow> nat \<Rightarrow> nat \<Rightarrow> nat \<Rightarrow> nat \<Rightarrow> bool" where
  "iso_local_ok y mo dd h mi =
     (y < 10000 \<and> 1 \<le> mo \<and> mo \<le> 12 \<and> 1 \<le> dd \<and> dd \<le> 31 \<and> h < 24 \<and> mi < 60)"

definition iso_date_string :: "nat \<Rightarrow> nat \<Rightarrow> nat \<Rightarrow> js_string" where
  "iso_date_string y mo dd = pad_start 4 (nat_str y) @ ''-'' @ pad2 mo @ ''-'' @ pad2 dd"

section \<open>Lemmas on the parser\<close>

lemma iso_local_string_nonempty: "iso_local_string y mo dd h mi \<noteq> []"
  by (simp add: iso_local_string_def)

lemma take_num_pad:
  assumes "length (nat_str v) \<le> n"
  shows "take_num n (pad_start n (nat_str v) @ rest) = Some (v, rest)"
proof -
  have l: "length (pad_start n (nat_str v)) = n" using assms by (simp add: length_pad_start)
  then show ?thesis by (simp add: take_num_def)
qed

lemma length_nat_str_lt: "v < 10 ^ n \<Longrightarrow> 0 < n \<Longrightarrow> length (nat_str v) \<le> n"
  by (rule length_nat_str_le)

lemma nat_str_char_range: "c \<in> set (nat_str n) \<Longrightarrow> 48 \<le> (of_char c :: nat) \<and> (of_char c :: nat) < 58"
  using nat_str_digits[of n] by (auto simp: digit_char_def)

lemma pad_start_char_range:
  "c \<in> set (pad_start k (nat_str n)) \<Longrightarrow> 48 \<le> (of_char c :: nat) \<and> (of_char c :: nat) < 58"
  using nat_str_char_range[of c n] by (auto simp: pad_start_def)

lemma parse_year_pad:
  assumes "y < 10000"
  shows "parse_year (pad_start 4 (nat_str y) @ rest) = Some (int y, rest)"
proof -
  have len: "length (nat_str y) \<le> 4" using assms by (intro length_nat_str_le) simp_all
  then have ne: "pad_start 4 (nat_str y) \<noteq> []" by (simp add: pad_start_def)
  then obtain c r where cr: "pad_start 4 (nat_str y) = c # r"
    by (cases "pad_start 4 (nat_str y)") auto
  then have "48 \<le> (of_char c :: nat)" using pad_start_char_range[of c 4 y] by simp
  then have "c \<noteq> CHR ''+''" "c \<noteq> CHR ''-''" by auto
  then show ?thesis
    using take_num_pad[OF len, of rest] cr by (simp add: parse_year_def)
qed

lemma take_num_pad2:
  "n < 100 \<Longrightarrow> take_num 2 (pad2 n @ rest) = Some (n, rest)"
  unfolding pad2_def by (rule take_num_pad) (rule length_nat_str_le; simp)

lemma take_num_pad2_end:
  "n < 100 \<Longrightarrow> take_num 2 (pad2 n) = Some (n, [])"
  using take_num_pad2[of n "[]"] by simp

lemma expect_Cons [simp]: "expect c (c # r) = Some r"
  by (simp add: expect_def)

lemma expect_other: "c' \<noteq> c \<Longrightarrow> expect c (c' # r) = None"
  by (simp add: expect_def)

theorem date_parse_iso_local:
  assumes "y < 10000" "1 \<le> mo" "mo \<le> 12" "1 \<le> dd" "dd \<le> 31" "h < 24" "mi < 60"
  shows "date_parse tza (iso_local_string y mo dd h mi) =
         time_clip (utc_time tza (make_date (make_day (int y) (int mo - 1) (int dd))
                                            (make_time (int h) (int mi) 0 0)))"
proof -
  have tf: "parse_time_fields (pad2 h @ CHR '':'' # pad2 mi) = Some ((h, mi, 0, 0), [])"
    using assms(6,7) take_num_pad2[of h "CHR '':'' # pad2 mi"] take_num_pad2_end[of mi]
    by (simp add: parse_time_fields_def expect_def)
  have df: "parse_date_fields (iso_local_string y mo dd h mi)
            = Some ((int y, mo, dd), ''T'' @ pad2 h @ '':'' @ pad2 mi)"
    using assms(1-5) parse_year_pad[of y] take_num_pad2[of mo] take_num_pad2[of dd]
    by (simp add: parse_date_fields_def iso_local_string_def)
  have "valid_time_fields h mi 0 0" using assms(6,7) by (simp add: valid_time_fields_def)
  then show ?thesis
    using assms(2-5) by (simp add: date_parse_def df tf parse_offset_def)
qed

theorem date_parse_iso_date:
  assumes "y < 10000" "1 \<le> mo" "mo \<le> 12" "1 \<le> dd" "dd \<le> 31"
  shows "date_parse tza (iso_date_string y mo dd) =
         time_clip (make_date (make_day (int y) (int mo - 1) (int dd)) 0)"
proof -
  have df: "parse_date_fields (iso_date_string y mo dd) = Some ((int y, mo, dd), [])"
    using assms(1-5) parse_year_pad[of y] take_num_pad2[of mo] take_num_pad2_end[of dd]
    by (simp add: parse_date_fields_def iso_date_string_def expect_def)
  show ?thesis using assms(2-5) by (simp add: date_parse_def df)
qed

section \<open>What the getters read back\<close>

lemma make_day_month_in_range:
  assumes "1 \<le> mo" "mo \<le> 12"
  shows "make_day y (int mo - 1) dt = day_from_year y + month_start y (mo - 1) + dt - 1"
proof -
  have "(int mo - 1) div 12 = 0" "nat ((int mo - 1) mod 12) = mo - 1" using assms by simp_all
  then show ?thesis by (simp add: make_day_def Let_def)
qed

lemma make_day_iso_bounds:
  assumes "y < 10000" "1 \<le> mo" "mo \<le> 12" "1 \<le> dd" "dd \<le> 31"
  shows "\<bar>make_day (int y) (int mo - 1) (int dd)\<bar> \<le> 3000000"
proof -
  have "day_from_year 0 \<le> day_from_year (int y)" by (rule day_from_year_mono_le) simp
  moreover have "day_from_year (int y) \<le> day_from_year 10000"
    using assms(1) by (intro day_from_year_mono_le) simp
  moreover have "day_from_year 0 = -719528" "day_from_year 10000 = 2932897"
    by (simp_all add: day_from_year_def)
  moreover have "0 \<le> month_start (int y) (mo - 1)" "month_start (int y) (mo - 1) \<le> 366"
  proof -
    have "mo - 1 < 12" using assms by simp
    then show "0 \<le> month_start (int y) (mo - 1)" "month_start (int y) (mo - 1) \<le> 366"
      using month_cases12[of "mo - 1"] leap_cases[of "int y"]
      by (auto simp: month_start_table days_in_month_def)
  qed
  ultimately show ?thesis using assms by (simp add: make_day_month_in_range)
qed

theorem iso_local_fields:
  assumes "y < 10000" "1 \<le> mo" "mo \<le> 12" "1 \<le> dd" "dd \<le> 31" "h < 24" "mi < 60"
    and "\<bar>tza\<bar> \<le> ms_per_day"
  shows "get_hours tza (date_parse tza (iso_local_string y mo dd h mi)) = Some (int h)"
    and "get_minutes tza (date_parse tza (iso_local_string y mo dd h mi)) = Some (int mi)"
proof -
  let ?dy = "make_day (int y) (int mo - 1) (int dd)"
  let ?t = "make_date ?dy (make_time (int h) (int mi) 0 0)"
  have b: "\<bar>?dy\<bar> \<le> 3000000" using make_day_iso_bounds assms(1-5) by blast
  have tm: "0 \<le> make_time (int h) (int mi) 0 0" "make_time (int h) (int mi) 0 0 < ms_per_day"
    using assms(6,7) by (simp_all add: make_time_def ms_per_hour_def ms_per_minute_def ms_per_day_def)
  have "\<bar>?t - tza\<bar> \<le> 8640000000000000"
    using b tm assms(8) unfolding make_date_def ms_per_day_def by (simp add: abs_le_iff)
  then have p: "date_parse tza (iso_local_string y mo dd h mi) = Some (?t - tza)"
    using date_parse_iso_local[OF assms(1-7)] by (simp add: time_clip_def utc_time_def)
  have r: "0 \<le> (0::int)" "(0::int) < ms_per_minute" by (simp_all add: ms_per_minute_def)
  show "get_hours tza (date_parse tza (iso_local_string y mo dd h mi)) = Some (int h)"
    using time_fields(1)[of "int h" "int mi" 0 ?dy] assms(6,7) r
    by (simp add: p get_hours_def local_time_def)
  show "get_minutes tza (date_parse tza (iso_local_string y mo dd h mi)) = Some (int mi)"
    using time_fields(2)[of "int h" "int mi" 0 ?dy] assms(6,7) r
    by (simp add: p get_minutes_def local_time_def)
qed

text \<open>An all-day date is UTC midnight: west of UTC its local day is the day before.\<close>

theorem iso_date_local_day:
  assumes "y < 10000" "1 \<le> mo" "mo \<le> 12" "1 \<le> dd" "dd \<le> 31"
    and "- ms_per_day \<le> tza" "tza < ms_per_day"
  shows "map_option (\<lambda>t. day_of (local_time tza t)) (date_parse tza (iso_date_string y mo dd))
         = Some (make_day (int y) (int mo - 1) (int dd) + (if tza < 0 then -1 else 0))"
proof -
  let ?dy = "make_day (int y) (int mo - 1) (int dd)"
  have b: "\<bar>?dy\<bar> \<le> 3000000" using make_day_iso_bounds assms(1-5) by blast
  have "\<bar>make_date ?dy 0\<bar> \<le> 8640000000000000"
    using b unfolding make_date_def ms_per_day_def by (simp add: abs_le_iff)
  then have p: "date_parse tza (iso_date_string y mo dd) = Some (?dy * ms_per_day)"
    using date_parse_iso_date[OF assms(1-5)] by (simp add: time_clip_def make_date_def)
  have "day_of (?dy * ms_per_day + tza) = ?dy + tza div ms_per_day"
    by (simp add: day_of_def ms_per_day_def)
  moreover have "tza div ms_per_day = (if tza < 0 then -1 else 0)"
    using assms(6,7) by (auto simp: ms_per_day_def div_eq_minus1 intro: div_pos_pos_trivial)
  ultimately show ?thesis by (simp add: p local_time_def)
qed

end
