(* ===== verification/Dashboard_Model.thy ===== *)
theory Dashboard_Model
  imports Js_Date_Parse
begin

text \<open>
  The data of \<open>src/public/js/dashboard.js\<close>: the calendar events the page receives from
  \<open>GET /calendar/events\<close> (the Google Calendar items that \<open>src/server.js\<close> forwards), the
  DOM nodes the calendar code creates, and the three mount points it renders into
  (\<open>.time-column\<close>, \<open>#eventsColumn\<close> and their inline styles) as a record that the view
  controller's state extends. A node is kept at the level of what the code sets on it:
  its class, the style properties it assigns, and its text or HTML.
\<close>

section \<open>Calendar events\<close>

text \<open>\<open>{summary?, start: {dateTime?, date?}, end: {dateTime?, date?}}\<close>; a missing
  \<open>start\<close> or \<open>end\<close> object is \<open>None\<close>.\<close>

record ev_time =
  date_time :: "js_string option"
  ev_date :: "js_string option"

record cal_event =
  summary :: "js_string option"
  ev_start :: "ev_time option"
  ev_end :: "ev_time option"

text \<open>\<open>event.summary || 'Untitled'\<close>\<close>

definition event_title :: "cal_event \<Rightarrow> js_string" where
  "event_title e = (case summary e of Some s \<Rightarrow> if s = [] then ''Untitled'' else s
                    | None \<Rightarrow> ''Untitled'')"

text \<open>\<open>event.start?.dateTime\<close>\<close>

definition start_date_time :: "cal_event \<Rightarrow> js_string option" where
  "start_date_time e = (case ev_start e of None \<Rightarrow> None | Some t \<Rightarrow> date_time t)"

definition end_date_time :: "cal_event \<Rightarrow> js_string option" where
  "end_date_time e = (case ev_end e of None \<Rightarrow> None | Some t \<Rightarrow> date_time t)"

text \<open>\<open>new Date(v)\<close> for \<open>v\<close> a string or \<open>undefined\<close> (which converts to NaN).\<close>

definition new_date_of :: "int \<Rightarrow> js_string option \<Rightarrow> js_date" where
  "new_date_of tza v = (case v of None \<Rightarrow> None | Some s \<Rightarrow> date_parse tza s)"

section \<open>DOM nodes and mount points\<close>

text \<open>
  \<^item> \<open>HourDiv s\<close>: \<open>div.hour\<close> with \<open>innerText\<close> \<open>s\<close>;
  \<^item> \<open>EventDiv top height background html\<close>: \<open>div.event\<close>; \<open>top\<close> and \<open>height\<close>
    are the pixel numbers assigned to \<open>style.top\<close>/\<open>style.height\<close> (\<open>None\<close> for NaN,
    which the style object rejects), \<open>html\<close> its \<open>innerHTML\<close>;
  \<^item> \<open>TimeLineDiv id top\<close>: \<open>div.current-time-line\<close> (with its dot), a node identity
    \<open>id\<close> (the object \<open>currentTimeLine\<close> refers to) and \<open>style.top\<close> in pixels
    (\<open>None\<close> for NaN);
  \<^item> \<open>WeekDayDiv header titles\<close>: \<open>div.week-day\<close> with its header text and the
    \<open>innerText\<close> of its \<open>.week-event\<close> children;
  \<^item> \<open>EmptyDiv\<close>: a blank cell of the month grid;
  \<^item> \<open>MonthDayDiv day count\<close>: \<open>div.month-day\<close> with its day number and the
    \<open>.event-count\<close> it shows, if any.
\<close>

datatype node =
    HourDiv js_string
  | EventDiv "rat option" "rat option" js_string js_string
  | TimeLineDiv nat "int option"
  | WeekDayDiv js_string "js_string list"
  | EmptyDiv
  | MonthDayDiv nat "nat option"

record cal_dom =
  time_col :: "node list"
  time_col_css :: css
  events_col :: "node list"
  events_col_css :: css

text \<open>\<open>el.appendChild(n)\<close> on \<open>#eventsColumn\<close> and \<open>.time-column\<close>.\<close>

definition append_event_node :: "node \<Rightarrow> 'a cal_dom_scheme \<Rightarrow> 'a cal_dom_scheme" where
  "append_event_node n d = d\<lparr>events_col := events_col d @ [n]\<rparr>"

definition append_time_node :: "node \<Rightarrow> 'a cal_dom_scheme \<Rightarrow> 'a cal_dom_scheme" where
  "append_time_node n d = d\<lparr>time_col := time_col d @ [n]\<rparr>"

lemma append_event_node_frame [dom_simps]:
  "time_col (append_event_node n d) = time_col d"
  "time_col_css (append_event_node n d) = time_col_css d"
  "events_col_css (append_event_node n d) = events_col_css d"
  "events_col (append_event_node n d) = events_col d @ [n]"
  "cal_dom.more (append_event_node n d) = cal_dom.more d"
  by (simp_all add: append_event_node_def)

lemma append_time_node_frame [dom_simps]:
  "events_col (append_time_node n d) = events_col d"
  "time_col_css (append_time_node n d) = time_col_css d"
  "events_col_css (append_time_node n d) = events_col_css d"
  "time_col (append_time_node n d) = time_col d @ [n]"
  "cal_dom.more (append_time_node n d) = cal_dom.more d"
  by (simp_all add: append_time_node_def)

lemma fold_append_event_nodes:
  "events_col (fold (\<lambda>x d'. append_event_node (f x) d') xs d) = events_col d @ map f xs
   \<and> time_col (fold (\<lambda>x d'. append_event_node (f x) d') xs d) = time_col d
   \<and> time_col_css (fold (\<lambda>x d'. append_event_node (f x) d') xs d) = time_col_css d
   \<and> events_col_css (fold (\<lambda>x d'. append_event_node (f x) d') xs d) = events_col_css d
   \<and> cal_dom.more (fold (\<lambda>x d'. append_event_node (f x) d') xs d) = cal_dom.more d"
  by (induction xs arbitrary: d) (simp_all add: dom_simps)

lemma fold_append_event_nodes_eq:
  "fold (\<lambda>x d'. append_event_node (f x) d') xs d = d\<lparr>events_col := events_col d @ map f xs\<rparr>"
  using fold_append_event_nodes[of f xs d] by (intro cal_dom.equality) simp_all

end
