(* ===== verification/Hour_Grid.thy ===== *)
theory Hour_Grid
  imports Dashboard_Model
begin

text \<open>
  \<open>generateHours()\<close> of \<open>dashboard.js\<close> (lines 181-195): it empties the time column and
  appends one \<open>div.hour\<close> per hour \<open>0..23\<close>, labelled on the 12-hour clock. Proved: the
  column then holds exactly the 24 labels in order, whatever it held before (so calling it
  twice, as the hour view does, never doubles them), the labels are pairwise distinct, and
  the labels of midnight and noon.
\<close>

definition hour_label :: "nat \<Rightarrow> js_string" where
  "hour_label i = (let display_hour = (if i mod 12 = 0 then 12 else i mod 12);
                       period = (if i < 12 then ''AM'' else ''PM'')
                   in nat_str display_hour @ '' '' @ period)"

definition generate_hours :: "'a cal_dom_scheme \<Rightarrow> 'a cal_dom_scheme" where
  "generate_hours d =
     fold (\<lambda>i d'. append_time_node (HourDiv (hour_label i)) d') [0..<24] (d\<lparr>time_col := []\<rparr>)"

lemma fold_append_time_nodes:
  "time_col (fold (\<lambda>i d'. append_time_node (f i) d') xs d) = time_col d @ map f xs
   \<and> events_col (fold (\<lambda>i d'. append_time_node (f i) d') xs d) = events_col d
   \<and> time_col_css (fold (\<lambda>i d'. append_time_node (f i) d') xs d) = time_col_css d
   \<and> events_col_css (fold (\<lambda>i d'. append_time_node (f i) d') xs d) = events_col_css d
   \<and> cal_dom.more (fold (\<lambda>i d'. append_time_node (f i) d') xs d) = cal_dom.more d"
  by (induction xs arbitrary: d) (simp_all add: dom_simps)

lemma generate_hours_frame [dom_simps]:
  "events_col (generate_hours d) = events_col d"
  "time_col_css (generate_hours d) = time_col_css d"
  "events_col_css (generate_hours d) = events_col_css d"
  "cal_dom.more (generate_hours d) = cal_dom.more d"
  using fold_append_time_nodes[of "\<lambda>i. HourDiv (hour_label i)" "[0..<24]" "d\<lparr>time_col := []\<rparr>"]
  by (simp_all add: generate_hours_def)

lemma generate_hours_time_col [dom_simps]:
  "time_col (generate_hours d) = map (\<lambda>i. HourDiv (hour_label i)) [0..<24]"
  using fold_append_time_nodes[of "\<lambda>i. HourDiv (hour_label i)" "[0..<24]" "d\<lparr>time_col := []\<rparr>"]
  by (simp add: generate_hours_def)

lemma generate_hours_idem: "generate_hours (generate_hours d) = generate_hours d"
  by (rule cal_dom.equality) (simp_all add: dom_simps)

lemma hour_label_12: "hour_label i = nat_str (if i mod 12 = 0 then 12 else i mod 12) @ '' '' @ (if i < 12 then ''AM'' else ''PM'')"
  by (simp add: hour_label_def)

lemma hour_label_inj:
  assumes "i < 24" "j < 24" "hour_label i = hour_label j"
  shows "i = j"
proof -
  let ?h = "\<lambda>i::nat. if i mod 12 = 0 then 12 else i mod 12"
  let ?p = "\<lambda>i::nat. if i < 12 then ''AM'' else ''PM''"
  have split: "(nat_str (?h i) @ '' '') @ ?p i = (nat_str (?h j) @ '' '') @ ?p j"
    using assms(3) by (simp add: hour_label_def)
  have lp: "length (?p i) = length (?p j)" by simp
  have both: "?p i = ?p j \<and> nat_str (?h i) @ '' '' = nat_str (?h j) @ '' ''"
    using split lp append_eq_append_conv[of "nat_str (?h i) @ '' ''" "nat_str (?h j) @ '' ''" "?p i" "?p j"]
    by blast
  then have pe: "?p i = ?p j" and "nat_str (?h i) @ '' '' = nat_str (?h j) @ '' ''" by auto
  then have "nat_str (?h i) = nat_str (?h j)" by simp
  then have he: "?h i = ?h j" by (simp only: nat_str_inj)
  from pe have lt: "(i < 12) = (j < 12)" by (auto split: if_splits)
  have "i mod 12 < 12" "j mod 12 < 12" by simp_all
  with he have md: "i mod 12 = j mod 12" by (simp split: if_splits)
  have "i = (if i < 12 then i mod 12 else i mod 12 + 12)"
    "j = (if j < 12 then j mod 12 else j mod 12 + 12)"
    using assms(1,2) by (auto simp: le_mod_geq)
  with lt md show "i = j" by presburger
qed

text \<open>
  C1. \<open>generateHours()\<close> leaves the time column holding exactly the 24 hour labels
  \<open>12 AM, 1 AM, ..., 11 AM, 12 PM, 1 PM, ..., 11 PM\<close> in order, whatever the column held
  before: hours 0 and 12 both read 12, and no label is repeated or left over.
\<close>

theorem generate_hours_labels:
  "time_col (generate_hours d) = map HourDiv
     [''12 AM'', ''1 AM'', ''2 AM'', ''3 AM'', ''4 AM'', ''5 AM'', ''6 AM'', ''7 AM'',
      ''8 AM'', ''9 AM'', ''10 AM'', ''11 AM'', ''12 PM'', ''1 PM'', ''2 PM'', ''3 PM'',
      ''4 PM'', ''5 PM'', ''6 PM'', ''7 PM'', ''8 PM'', ''9 PM'', ''10 PM'', ''11 PM'']"
  unfolding generate_hours_time_col by code_simp

end
