(* ===== verification/Event_Layout.thy ===== *)
theory Event_Layout
  imports Hour_Grid
begin

text \<open>
  The event layout of \<open>dashboard.js\<close>: \<open>getColor\<close> and \<open>formatTime\<close> (lines 372-381),
  \<open>renderEvent\<close> (198-211) and \<open>renderHourView\<close> (132-147). The hour view places each
  event with a date-time start and end at \<open>top = 60 \<times> fractional hour\<close> pixels of the
  events column. JavaScript numbers are modelled as exact rationals (\<open>rat\<close>, with
  \<open>None\<close> for NaN): floating-point rounding of \<open>h + m/60\<close> is abstracted away.
\<close>

section \<open>Helpers\<close>

definition colors :: "js_string list" where
  "colors = [''#A78BFA'', ''#60A5FA'', ''#34D399'', ''#F472B6'', ''#FBBF24'']"

definition get_color :: "js_string \<Rightarrow> js_string" where
  "get_color text = colors ! (length text mod length colors)"

text \<open>\<open>Math.round\<close>, and \<open>x % 1\<close> (the remainder has the sign of \<open>x\<close>).\<close>

definition js_round :: "rat \<Rightarrow> int" where
  "js_round x = \<lfloor>x + 1 / 2\<rfloor>"

definition js_rem1 :: "rat \<Rightarrow> rat" where
  "js_rem1 x = x - of_int (if x < 0 then - \<lfloor>- x\<rfloor> else \<lfloor>x\<rfloor>)"

text \<open>\<open>formatTime(h)\<close>: \<open>hour % 12 || 12\<close> makes both 0 and NaN read 12; a minute is
  printed as \<open>'00'\<close> when it is 0 and as its plain decimal otherwise.\<close>

definition format_time :: "rat option \<Rightarrow> js_string" where
  "format_time h =
     (let hour_part = (case h of None \<Rightarrow> 12
                       | Some x \<Rightarrow> (let r = \<lfloor>x\<rfloor> smod 12 in if r = 0 then 12 else r));
          min_part = (case h of None \<Rightarrow> ''NaN''
                      | Some x \<Rightarrow> (let mn = js_round (js_rem1 x * 60) in
                                  if mn = 0 then ''00'' else int_str mn))
      in int_str hour_part @ '':'' @ min_part)"

definition en_dash :: js_string where
  "en_dash = [CHR 0xE2, CHR 0x80, CHR 0x93]"

definition newline :: js_string where
  "newline = [CHR 0x0A]"

section \<open>renderEvent and renderHourView\<close>

text \<open>The \<open>innerHTML\<close> template of an event block; the title is inserted as it is.\<close>

definition event_html :: "js_string \<Rightarrow> rat option \<Rightarrow> rat option \<Rightarrow> js_string" where
  "event_html title s e =
     newline @ ''    <strong>'' @ title @ ''</strong>'' @ newline
     @ ''    <span>'' @ format_time s @ '' '' @ en_dash @ '' '' @ format_time e @ ''</span>''
     @ newline @ ''  ''"

definition nan_mult :: "rat option \<Rightarrow> rat \<Rightarrow> rat option" where
  "nan_mult a k = map_option (\<lambda>x. x * k) a"

definition nan_diff :: "rat option \<Rightarrow> rat option \<Rightarrow> rat option" where
  "nan_diff a b = (case (a, b) of (Some x, Some y) \<Rightarrow> Some (x - y) | _ \<Rightarrow> None)"

text \<open>The \<open>div.event\<close> that \<open>renderEvent(title, start, end)\<close> creates, and the call.\<close>

definition event_node :: "js_string \<Rightarrow> rat option \<Rightarrow> rat option \<Rightarrow> node" where
  "event_node title s e =
     EventDiv (nan_mult s 60) (nan_mult (nan_diff e s) 60) (get_color title) (event_html title s e)"

definition render_event :: "js_string \<Rightarrow> rat option \<Rightarrow> rat option \<Rightarrow> 'a cal_dom_scheme \<Rightarrow> 'a cal_dom_scheme" where
  "render_event title s e d = append_event_node (event_node title s e) d"

text \<open>\<open>date.getHours() + date.getMinutes() / 60\<close>\<close>

definition frac_hours :: "int \<Rightarrow> js_date \<Rightarrow> rat option" where
  "frac_hours tza dt = (case (get_hours tza dt, get_minutes tza dt) of
       (Some h, Some m) \<Rightarrow> Some (of_int h + of_int m / 60) | _ \<Rightarrow> None)"

text \<open>One iteration of the \<open>forEach\<close> of \<open>renderHourView\<close>: an event without a
  (non-empty) \<open>start.dateTime\<close> and \<open>end.dateTime\<close> is skipped.\<close>

definition timed :: "cal_event \<Rightarrow> bool" where
  "timed ev = (js_truthy (start_date_time ev) \<and> js_truthy (end_date_time ev))"

definition hour_view_event :: "int \<Rightarrow> cal_event \<Rightarrow> 'a cal_dom_scheme \<Rightarrow> 'a cal_dom_scheme" where
  "hour_view_event tza ev d =
     (if timed ev
      then render_event (event_title ev)
             (frac_hours tza (new_date_of tza (start_date_time ev)))
             (frac_hours tza (new_date_of tza (end_date_time ev))) d
      else d)"

definition render_hour_view :: "int \<Rightarrow> cal_event list \<Rightarrow> 'a cal_dom_scheme \<Rightarrow> 'a cal_dom_scheme" where
  "render_hour_view tza evs d = fold (hour_view_event tza) evs (generate_hours d)"

definition hour_block :: "int \<Rightarrow> cal_event \<Rightarrow> node" where
  "hour_block tza ev = event_node (event_title ev)
     (frac_hours tza (new_date_of tza (start_date_time ev)))
     (frac_hours tza (new_date_of tza (end_date_time ev)))"

text \<open>Sample events of the calendar API and an empty calendar used to instantiate the theorems.\<close>

definition standup_event :: cal_event where
  "standup_event = \<lparr>summary = Some ''Standup'',
     ev_start = Some \<lparr>date_time = Some ''2025-01-10T09:00'', ev_date = None\<rparr>,
     ev_end = Some \<lparr>date_time = Some ''2025-01-10T09:30'', ev_date = None\<rparr>\<rparr>"

definition standup_later_event :: cal_event where
  "standup_later_event = \<lparr>summary = Some ''Standup'',
     ev_start = Some \<lparr>date_time = Some ''2025-03-02T09:00'', ev_date = None\<rparr>,
     ev_end = Some \<lparr>date_time = Some ''2025-03-02T09:30'', ev_date = None\<rparr>\<rparr>"

definition empty_cal_dom :: cal_dom where
  "empty_cal_dom = \<lparr>time_col = [], time_col_css = Map.empty, events_col = [], events_col_css = Map.empty\<rparr>"

section \<open>Lemmas on the arithmetic of the hour view\<close>

lemma minutes_frac_bounds:
  "0 \<le> mi \<Longrightarrow> mi < 60 \<Longrightarrow> 0 \<le> (of_int mi / 60 :: rat) \<and> (of_int mi / 60 :: rat) < 1"
  by simp

lemma floor_hour_minutes:
  assumes "0 \<le> mi" "mi < 60"
  shows "\<lfloor>of_int h + of_int mi / 60 :: rat\<rfloor> = h"
  using minutes_frac_bounds[OF assms] by (simp add: floor_eq_iff)

lemma js_rem1_hour_minutes:
  assumes "0 \<le> h" "0 \<le> mi" "mi < 60"
  shows "js_rem1 (of_int h + of_int mi / 60) = of_int mi / 60"
proof -
  have "\<not> (of_int h + of_int mi / 60 :: rat) < 0" using assms by simp
  then show ?thesis using floor_hour_minutes[OF assms(2,3), of h] by (simp add: js_rem1_def)
qed

lemma js_round_int: "js_round (of_int k) = k"
  by (simp add: js_round_def floor_eq_iff)

text \<open>
  C3. \<open>formatTime\<close> of \<open>h + m/60\<close> prints the hour on the 12-hour clock (0 and 12 as
  12) and the minute as its plain decimal, \<open>00\<close> for 0: a minute below 10 is printed
  with one digit, so 9:05 reads \<open>9:5\<close>.
\<close>

theorem format_time_hour_minutes:
  assumes "0 \<le> h" "h < 24" "0 \<le> mi" "mi < 60"
  shows "format_time (Some (of_int h + of_int mi / 60)) =
         int_str (if h mod 12 = 0 then 12 else h mod 12) @ '':'' @ (if mi = 0 then ''00'' else int_str mi)"
proof -
  have "js_round (js_rem1 (of_int h + of_int mi / 60) * 60) = mi"
    using js_rem1_hour_minutes[OF assms(1,3,4)] js_round_int[of mi] by simp
  moreover have "\<lfloor>of_int h + of_int mi / 60 :: rat\<rfloor> smod 12 = h mod 12"
    using floor_hour_minutes[OF assms(3,4)] assms(1) by (simp add: smod_mod_positive)
  ultimately show ?thesis by (simp add: format_time_def Let_def)
qed

lemma frac_hours_scale: "(of_int h + of_int m / 60 :: rat) * 60 = of_int (60 * h + m)"
  by (simp add: field_simps)

section \<open>The hour view\<close>

lemma hour_view_event_eq:
  "hour_view_event tza ev d = (if timed ev then append_event_node (hour_block tza ev) d else d)"
  by (simp add: hour_view_event_def hour_block_def render_event_def)

lemma fold_hour_view_event:
  "events_col (fold (hour_view_event tza) evs d) = events_col d @ map (hour_block tza) (filter timed evs)
   \<and> time_col (fold (hour_view_event tza) evs d) = time_col d
   \<and> time_col_css (fold (hour_view_event tza) evs d) = time_col_css d
   \<and> events_col_css (fold (hour_view_event tza) evs d) = events_col_css d
   \<and> cal_dom.more (fold (hour_view_event tza) evs d) = cal_dom.more d"
  by (induction evs arbitrary: d) (simp_all add: hour_view_event_eq dom_simps)

lemma render_hour_view_frame [dom_simps]:
  "events_col (render_hour_view tza evs d) = events_col d @ map (hour_block tza) (filter timed evs)"
  "time_col (render_hour_view tza evs d) = map (\<lambda>i. HourDiv (hour_label i)) [0..<24]"
  "time_col_css (render_hour_view tza evs d) = time_col_css d"
  "events_col_css (render_hour_view tza evs d) = events_col_css d"
  "cal_dom.more (render_hour_view tza evs d) = cal_dom.more d"
  using fold_hour_view_event[of tza evs "generate_hours d"]
  by (simp_all add: render_hour_view_def dom_simps)

lemma frac_hours_iso:
  assumes "iso_local_ok y mo dd h mi" "\<bar>tza\<bar> \<le> ms_per_day"
  shows "frac_hours tza (new_date_of tza (Some (iso_local_string y mo dd h mi)))
         = Some (of_nat h + of_nat mi / 60)"
  using iso_local_fields[of y mo dd h mi tza] assms
  by (simp add: iso_local_ok_def frac_hours_def new_date_of_def)

lemma hour_block_iso:
  assumes "start_date_time ev = Some (iso_local_string y1 mo1 dd1 h1 m1)" "iso_local_ok y1 mo1 dd1 h1 m1"
    and "end_date_time ev = Some (iso_local_string y2 mo2 dd2 h2 m2)" "iso_local_ok y2 mo2 dd2 h2 m2"
    and "\<bar>tza\<bar> \<le> ms_per_day"
  shows "timed ev"
    and "hour_block tza ev = EventDiv (Some (of_nat (60 * h1 + m1)))
           (Some (of_int (int (60 * h2 + m2) - int (60 * h1 + m1))))
           (get_color (event_title ev))
           (event_html (event_title ev) (Some (of_nat h1 + of_nat m1 / 60)) (Some (of_nat h2 + of_nat m2 / 60)))"
proof -
  show "timed ev" using assms(1,3) by (simp add: timed_def js_truthy_def iso_local_string_nonempty)
  have s: "(of_nat h1 + of_nat m1 / 60 :: rat) * 60 = of_nat (60 * h1 + m1)"
    and e: "(of_nat h2 + of_nat m2 / 60 - (of_nat h1 + of_nat m1 / 60) :: rat) * 60
             = of_int (int (60 * h2 + m2) - int (60 * h1 + m1))"
    by (simp_all add: field_simps)
  show "hour_block tza ev = EventDiv (Some (of_nat (60 * h1 + m1)))
           (Some (of_int (int (60 * h2 + m2) - int (60 * h1 + m1))))
           (get_color (event_title ev))
           (event_html (event_title ev) (Some (of_nat h1 + of_nat m1 / 60)) (Some (of_nat h2 + of_nat m2 / 60)))"
    using frac_hours_iso[OF assms(2,5)] frac_hours_iso[OF assms(4,5)] s e
    by (simp add: hour_block_def event_node_def assms(1,3) nan_mult_def nan_diff_def)
qed

section \<open>Properties of the hour view\<close>

lemma standup_strings:
  "''2025-01-10T09:00'' = iso_local_string 2025 1 10 9 0"
  "''2025-01-10T09:30'' = iso_local_string 2025 1 10 9 30"
  "''2025-03-02T09:00'' = iso_local_string 2025 3 2 9 0"
  "''2025-03-02T09:30'' = iso_local_string 2025 3 2 9 30"
  by (code_simp)+

text \<open>
  C2. In the hour view an event whose start and end are date-time strings
  \<open>YYYY-MM-DDTHH:mm\<close> of the calendar API becomes one \<open>div.event\<close> whose top offset is
  \<open>60 \<times> HH + mm\<close> pixels of the start and whose height is the difference of the end's and
  the start's minute of the day, for every local time zone (an offset of at most a day);
  the height is negative when the end's time of day is before the start's. The block
  depends on the times of day only, never on the dates: upcoming events of later days
  are drawn in today's column.
\<close>

theorem hour_view_event_placement:
  assumes "start_date_time ev = Some (iso_local_string y1 mo1 dd1 h1 m1)" "iso_local_ok y1 mo1 dd1 h1 m1"
    and "end_date_time ev = Some (iso_local_string y2 mo2 dd2 h2 m2)" "iso_local_ok y2 mo2 dd2 h2 m2"
    and "\<bar>tza\<bar> \<le> ms_per_day"
  shows "events_col (hour_view_event tza ev d) = events_col d @
           [EventDiv (Some (of_nat (60 * h1 + m1)))
              (Some (of_int (int (60 * h2 + m2) - int (60 * h1 + m1))))
              (get_color (event_title ev))
              (event_html (event_title ev) (Some (of_nat h1 + of_nat m1 / 60)) (Some (of_nat h2 + of_nat m2 / 60)))]"
  using hour_block_iso[OF assms] by (simp add: hour_view_event_eq dom_simps)

theorem hour_view_event_placement_witness:
  "start_date_time standup_event = Some (iso_local_string 2025 1 10 9 0) \<and> iso_local_ok 2025 1 10 9 0
   \<and> end_date_time standup_event = Some (iso_local_string 2025 1 10 9 30) \<and> iso_local_ok 2025 1 10 9 30
   \<and> \<bar>-18000000 :: int\<bar> \<le> ms_per_day
   \<and> events_col (hour_view_event (-18000000) standup_event empty_cal_dom) =
       [EventDiv (Some 540) (Some 30) (get_color ''Standup'')
          (event_html ''Standup'' (Some 9) (Some (19 / 2)))]"
proof -
  have h: "start_date_time standup_event = Some (iso_local_string 2025 1 10 9 0)"
    "iso_local_ok 2025 1 10 9 0"
    "end_date_time standup_event = Some (iso_local_string 2025 1 10 9 30)"
    "iso_local_ok 2025 1 10 9 30" "\<bar>-18000000 :: int\<bar> \<le> ms_per_day"
    by (simp_all add: start_date_time_def end_date_time_def standup_event_def standup_strings
        iso_local_ok_def ms_per_day_def)
  have t: "event_title standup_event = ''Standup''" by (simp add: event_title_def standup_event_def)
  show ?thesis
    using h hour_view_event_placement[OF h, of empty_cal_dom]
    by (simp add: t empty_cal_dom_def)
qed

text \<open>
  The hour view does not look at an event's date: two events with the same title and
  the same start and end times of day give the same block, whatever their dates. Upcoming
  events of later days are therefore drawn in today's column.
\<close>

lemma hour_view_event_ignores_date:
  assumes "start_date_time ev = Some (iso_local_string y1 mo1 dd1 h1 m1)" "iso_local_ok y1 mo1 dd1 h1 m1"
    and "end_date_time ev = Some (iso_local_string y2 mo2 dd2 h2 m2)" "iso_local_ok y2 mo2 dd2 h2 m2"
    and "start_date_time ev' = Some (iso_local_string y1' mo1' dd1' h1 m1)" "iso_local_ok y1' mo1' dd1' h1 m1"
    and "end_date_time ev' = Some (iso_local_string y2' mo2' dd2' h2 m2)" "iso_local_ok y2' mo2' dd2' h2 m2"
    and "event_title ev = event_title ev'" and "\<bar>tza\<bar> \<le> ms_per_day"
  shows "hour_view_event tza ev d = hour_view_event tza ev' d"
  using hour_block_iso[OF assms(1-4,10)] hour_block_iso[OF assms(5-8,10)] assms(9)
  by (simp add: hour_view_event_eq)

theorem format_time_hour_minutes_witness:
  "0 \<le> (9::int) \<and> (9::int) < 24 \<and> 0 \<le> (5::int) \<and> (5::int) < 60
   \<and> format_time (Some (of_int 9 + of_int 5 / 60)) = ''9:5''"
  using format_time_hour_minutes[of 9 5] by (simp add: int_str_def js_eval)

end
