(* ===== verification/Calendar_Grid.thy ===== *)
theory Calendar_Grid
  imports Event_Layout
begin

text \<open>
  The week and month views of \<open>dashboard.js\<close>: \<open>renderWeekView\<close> (lines 216-260)
  and \<open>renderMonthView\<close> (lines 264-311). Both read \<open>event.start.dateTime ||
  event.start.date\<close> without optional chaining, so an event with no \<open>start\<close> object
  makes the callback throw a \<open>TypeError\<close>; the rendering is therefore a completion
  (\<open>Js_Prelude\<close>) that keeps the columns appended before the throw. NaN-valued numbers
  are \<open>None\<close>.
\<close>

section \<open>Shared steps\<close>

text \<open>Both views hide the time column, empty the events column and make it a 7-column grid.\<close>

definition prepare_grid :: "js_string \<Rightarrow> 'a cal_dom_scheme \<Rightarrow> 'a cal_dom_scheme" where
  "prepare_grid gap d = d\<lparr>time_col_css := (time_col_css d)(''display'' \<mapsto> ''none''),
     events_col := [],
     events_col_css := (events_col_css d)(''display'' \<mapsto> ''grid'',
        ''gridTemplateColumns'' \<mapsto> ''repeat(7, 1fr)'', ''gap'' \<mapsto> gap)\<rparr>"

definition start_type_error :: js_error where
  "start_type_error = TypeError ''Cannot read properties of undefined (reading 'dateTime')''"

text \<open>\<open>new Date(event.start.dateTime || event.start.date)\<close>\<close>

definition event_start_date :: "int \<Rightarrow> ev_time \<Rightarrow> js_date" where
  "event_start_date tza st = new_date_of tza (js_or (date_time st) (ev_date st))"

definition nan_add_int :: "int option \<Rightarrow> int \<Rightarrow> int option" where
  "nan_add_int a k = map_option (\<lambda>x. x + k) a"

definition nan_sub_int :: "int option \<Rightarrow> int option \<Rightarrow> int option" where
  "nan_sub_int a b = (case (a, b) of (Some x, Some y) \<Rightarrow> Some (x - y) | _ \<Rightarrow> None)"

text \<open>\<open>d.setDate(n)\<close> with a number that may be NaN (the result is then NaN).\<close>

definition set_date_num :: "int \<Rightarrow> int option \<Rightarrow> js_date \<Rightarrow> js_date" where
  "set_date_num tza n d = (case n of None \<Rightarrow> None | Some k \<Rightarrow> set_date tza k d)"

section \<open>Week view\<close>

text \<open>\<open>weekStart\<close>: today moved back to the Sunday of its week (lines 224-225).\<close>

definition week_start :: "int \<Rightarrow> time_value \<Rightarrow> js_date" where
  "week_start tza now =
     (let ws = date_new_now now in set_date_num tza (nan_sub_int (get_date tza ws) (get_day tza ws)) ws)"

text \<open>\<open>dayDate\<close> of column \<open>d\<close> (lines 228-229).\<close>

definition week_day_date :: "int \<Rightarrow> js_date \<Rightarrow> nat \<Rightarrow> js_date" where
  "week_day_date tza ws d = set_date_num tza (nan_add_int (get_date tza ws) (int d)) (date_copy ws)"

text \<open>One iteration of the inner \<open>forEach\<close> (lines 247-256): the titles collected so far.\<close>

definition week_event_step :: "int \<Rightarrow> js_date \<Rightarrow> cal_event \<Rightarrow> js_string list \<Rightarrow> js_string list completion" where
  "week_event_step tza day ev ts = (case ev_start ev of
       None \<Rightarrow> Abrupt start_type_error ts
     | Some st \<Rightarrow> Normal (if to_date_string tza (event_start_date tza st) = to_date_string tza day
                          then ts @ [event_title ev] else ts))"

text \<open>One iteration of the outer loop: the column is appended only after its events.\<close>

definition week_column :: "int \<Rightarrow> cal_event list \<Rightarrow> js_date \<Rightarrow> nat \<Rightarrow> 'a cal_dom_scheme \<Rightarrow> 'a cal_dom_scheme completion" where
  "week_column tza evs ws d dm = (let day = week_day_date tza ws d in
     case for_each (week_event_step tza day) evs [] of
       Normal ts \<Rightarrow> Normal (append_event_node (WeekDayDiv (to_locale_date_short tza day) ts) dm)
     | Abrupt err ts \<Rightarrow> Abrupt err dm)"

definition render_week_view :: "int \<Rightarrow> time_value \<Rightarrow> cal_event list \<Rightarrow> 'a cal_dom_scheme \<Rightarrow> 'a cal_dom_scheme completion" where
  "render_week_view tza now evs dm =
     for_each (week_column tza evs (week_start tza now)) [0..<7] (prepare_grid ''14px'' dm)"

section \<open>Month view\<close>

text \<open>One call of the \<open>filter\<close> callback (lines 289-296), counting the matches.\<close>

definition month_count_step :: "int \<Rightarrow> int \<Rightarrow> int \<Rightarrow> nat \<Rightarrow> cal_event \<Rightarrow> nat \<Rightarrow> nat completion" where
  "month_count_step tza yr mo day ev n = (case ev_start ev of
       None \<Rightarrow> Abrupt start_type_error n
     | Some st \<Rightarrow> (let s = event_start_date tza st in
         Normal (if get_date tza s = Some (int day) \<and> get_month tza s = Some mo
                    \<and> get_full_year tza s = Some yr then Suc n else n)))"

definition month_cell :: "int \<Rightarrow> cal_event list \<Rightarrow> int \<Rightarrow> int \<Rightarrow> nat \<Rightarrow> 'a cal_dom_scheme \<Rightarrow> 'a cal_dom_scheme completion" where
  "month_cell tza evs yr mo day dm = (case for_each (month_count_step tza yr mo day) evs 0 of
       Normal n \<Rightarrow> Normal (append_event_node (MonthDayDiv day (if 0 < n then Some n else None)) dm)
     | Abrupt err n \<Rightarrow> Abrupt err dm)"

definition append_blanks :: "nat \<Rightarrow> 'a cal_dom_scheme \<Rightarrow> 'a cal_dom_scheme" where
  "append_blanks k dm = fold (\<lambda>i d. append_event_node EmptyDiv d) [0..<k] dm"

text \<open>A loop bound that may be NaN: \<open>i < NaN\<close> is false, so the loop does not run.\<close>

definition loop_bound :: "int option \<Rightarrow> nat" where
  "loop_bound n = (case n of None \<Rightarrow> 0 | Some k \<Rightarrow> nat k)"

definition render_month_view :: "int \<Rightarrow> time_value \<Rightarrow> cal_event list \<Rightarrow> 'a cal_dom_scheme \<Rightarrow> 'a cal_dom_scheme completion" where
  "render_month_view tza now evs dm =
     (let nw = date_new_now now; dom1 = prepare_grid ''12px'' dm in
      case (get_full_year tza nw, get_month tza nw) of
        (Some yr, Some mo) \<Rightarrow>
          (let first_day = get_day tza (date_new_ymd tza yr mo 1);
               days_in_month_js = get_date tza (date_new_ymd tza yr (mo + 1) 0);
               dom2 = append_blanks (loop_bound first_day) dom1
           in for_each (month_cell tza evs yr mo) [1..<loop_bound days_in_month_js + 1] dom2)
      | _ \<Rightarrow> Normal dom1)"

section \<open>What the week view shows\<close>

text \<open>The local day on which an event starts, as the week and month views read it.\<close>

definition start_local_day :: "int \<Rightarrow> cal_event \<Rightarrow> int option" where
  "start_local_day tza ev = (case ev_start ev of None \<Rightarrow> None
     | Some st \<Rightarrow> map_option (\<lambda>t. day_of (local_time tza t)) (event_start_date tza st))"

definition sunday_of :: "int \<Rightarrow> time_value \<Rightarrow> time_value" where
  "sunday_of tza now = now - week_day (day_of (local_time tza now)) * ms_per_day"

definition in_range :: "int \<Rightarrow> int \<Rightarrow> bool" where
  "in_range tza now = (\<bar>now\<bar> \<le> 8000000000000000 \<and> \<bar>tza\<bar> \<le> ms_per_day)"

text \<open>The header and titles of column \<open>d\<close> of a week starting at \<open>ws\<close>.\<close>

definition week_col_node :: "int \<Rightarrow> cal_event list \<Rightarrow> time_value \<Rightarrow> nat \<Rightarrow> node" where
  "week_col_node tza evs ws d = WeekDayDiv (to_locale_date_short tza (Some (ws + int d * ms_per_day)))
     (map event_title (filter (\<lambda>e. start_local_day tza e = Some (day_of (local_time tza ws) + int d)) evs))"

text \<open>Sample events of the calendar API used to instantiate the theorems below.\<close>

definition trip_event :: cal_event where
  "trip_event = \<lparr>summary = Some ''Trip'', ev_start = Some \<lparr>date_time = None, ev_date = Some ''2025-11-12''\<rparr>,
     ev_end = Some \<lparr>date_time = None, ev_date = Some ''2025-11-13''\<rparr>\<rparr>"

definition broken_event :: cal_event where
  "broken_event = \<lparr>summary = Some ''No start'', ev_start = None, ev_end = None\<rparr>"

definition month_cell_node :: "int \<Rightarrow> cal_event list \<Rightarrow> int \<Rightarrow> int \<Rightarrow> nat \<Rightarrow> node" where
  "month_cell_node tza evs yr mo day =
     (let n = length (filter (\<lambda>e. start_local_day tza e = Some (make_day yr mo (int day))) evs)
      in MonthDayDiv day (if 0 < n then Some n else None))"

lemma time_clip_small: "\<bar>t\<bar> \<le> 8000000000000000 + 20 * ms_per_day \<Longrightarrow> time_clip t = Some t"
  by (simp add: time_clip_def ms_per_day_def)

lemma week_start_eq:
  assumes "in_range tza now"
  shows "week_start tza now = Some (sunday_of tza now)"
proof -
  have wd: "0 \<le> week_day (day_of (local_time tza now))" "week_day (day_of (local_time tza now)) < 7"
    by (rule week_day_bounds)+
  have "\<bar>sunday_of tza now\<bar> \<le> 8000000000000000 + 20 * ms_per_day"
    using assms wd unfolding in_range_def sunday_of_def ms_per_day_def by (simp add: abs_le_iff)
  then have c: "time_clip (sunday_of tza now) = Some (sunday_of tza now)" by (rule time_clip_small)
  have "\<bar>now\<bar> \<le> 8000000000000000 + 20 * ms_per_day" using assms by (simp add: in_range_def ms_per_day_def)
  then have n: "date_new_now now = Some now" by (simp add: date_new_now_def time_clip_small)
  have "set_date tza (date_of (local_time tza now) - week_day (day_of (local_time tza now))) (Some now)
        = time_clip (sunday_of tza now)"
    by (simp add: set_date_shift sunday_of_def algebra_simps)
  then show ?thesis using c
    by (simp add: week_start_def n get_date_def get_day_def nan_sub_int_def set_date_num_def Let_def)
qed

lemma week_day_date_eq:
  assumes "\<bar>ws\<bar> \<le> 8000000000000000 + 7 * ms_per_day" "d < 7"
  shows "week_day_date tza (Some ws) d = Some (ws + int d * ms_per_day)"
proof -
  have "\<bar>ws + int d * ms_per_day\<bar> \<le> 8000000000000000 + 20 * ms_per_day"
    using assms by (simp add: ms_per_day_def abs_le_iff)
  then have c: "time_clip (ws + int d * ms_per_day) = Some (ws + int d * ms_per_day)"
    by (rule time_clip_small)
  have "set_date tza (date_of (local_time tza ws) + int d) (Some ws) = time_clip (ws + int d * ms_per_day)"
    by (simp add: set_date_shift)
  then show ?thesis using c
    by (simp add: week_day_date_def get_date_def nan_add_int_def set_date_num_def date_copy_def)
qed

lemma week_event_step_match:
  assumes "ev_start ev = Some st"
  shows "week_event_step tza (Some t) ev ts =
         Normal (if start_local_day tza ev = Some (day_of (local_time tza t)) then ts @ [event_title ev] else ts)"
proof -
  have "(to_date_string tza (event_start_date tza st) = to_date_string tza (Some t)) =
        (start_local_day tza ev = Some (day_of (local_time tza t)))"
    using to_date_string_eq_iff[of tza "event_start_date tza st" t] assms
    by (auto simp: start_local_day_def)
  then show ?thesis using assms by (simp add: week_event_step_def)
qed

lemma week_events_normal:
  assumes "\<forall>e\<in>set evs. ev_start e \<noteq> None"
  shows "for_each (week_event_step tza (Some t)) evs ts =
         Normal (ts @ map event_title (filter (\<lambda>e. start_local_day tza e = Some (day_of (local_time tza t))) evs))"
  using assms
proof (induction evs arbitrary: ts)
  case Nil
  then show ?case by simp
next
  case (Cons e evs)
  then obtain st where "ev_start e = Some st" by auto
  with Cons show ?case by (simp add: week_event_step_match)
qed

lemma week_events_abrupt:
  assumes "\<exists>e\<in>set evs. ev_start e = None"
  shows "\<exists>ts'. for_each (week_event_step tza day) evs ts = Abrupt start_type_error ts'"
  using assms
proof (induction evs arbitrary: ts)
  case Nil
  then show ?case by simp
next
  case (Cons e evs)
  show ?case
  proof (cases "ev_start e")
    case None
    then show ?thesis by (simp add: week_event_step_def)
  next
    case (Some st)
    with Cons.prems have "\<exists>e\<in>set evs. ev_start e = None" by auto
    with Cons.IH Some show ?thesis by (simp add: week_event_step_def)
  qed
qed

lemma sunday_of_local_day:
  "day_of (local_time tza (sunday_of tza now)) = day_of (local_time tza now) - week_day (day_of (local_time tza now))"
proof -
  have "local_time tza (sunday_of tza now) = local_time tza now + (- week_day (day_of (local_time tza now))) * ms_per_day"
    by (simp add: sunday_of_def local_time_def)
  then show ?thesis by (simp only: day_of_shift)
qed

lemma sunday_of_is_sunday: "week_day (day_of (local_time tza (sunday_of tza now))) = 0"
proof -
  let ?a = "day_of (local_time tza now) + 4"
  have "day_of (local_time tza now) - week_day (day_of (local_time tza now)) + 4 = ?a - ?a mod 7"
    by (simp add: week_day_def)
  also have "\<dots> = 7 * (?a div 7)" by (simp add: minus_mod_eq_mult_div)
  finally show ?thesis by (simp add: sunday_of_local_day week_day_def)
qed

lemma prepare_grid_events_col [dom_simps]: "events_col (prepare_grid gap d) = []"
  by (simp add: prepare_grid_def)

lemma week_column_normal:
  assumes "\<forall>e\<in>set evs. ev_start e \<noteq> None" "\<bar>ws\<bar> \<le> 8000000000000000 + 7 * ms_per_day" "d < 7"
  shows "week_column tza evs (Some ws) d s = Normal (append_event_node (week_col_node tza evs ws d) s)"
proof -
  have lt: "local_time tza (ws + int d * ms_per_day) = local_time tza ws + int d * ms_per_day"
    by (simp add: local_time_def)
  show ?thesis
    using week_day_date_eq[OF assms(2,3), of tza] week_events_normal[OF assms(1), of tza "ws + int d * ms_per_day" "[]"]
    by (simp add: week_column_def week_col_node_def lt day_of_shift)
qed

text \<open>
  C4. With every event carrying a \<open>start\<close> object, the week view completes normally
  and the events column holds exactly seven \<open>div.week-day\<close> columns, for the seven days
  from the Sunday of the current local week; column \<open>d\<close> is headed by that day's
  short date and lists, in feed order, the titles of the events whose start (its
  \<open>dateTime\<close>, or else its \<open>date\<close>) falls on that local day. With no events the seven
  headed columns are still there.
\<close>

theorem render_week_view_columns:
  assumes "\<forall>e\<in>set evs. ev_start e \<noteq> None" and "in_range tza now"
  shows "render_week_view tza now evs dm =
           Normal ((prepare_grid ''14px'' dm)\<lparr>events_col := map (week_col_node tza evs (sunday_of tza now)) [0..<7]\<rparr>)"
proof -
  have b: "\<bar>sunday_of tza now\<bar> \<le> 8000000000000000 + 7 * ms_per_day"
    using assms(2) week_day_bounds[of "day_of (local_time tza now)"]
    unfolding in_range_def sunday_of_def ms_per_day_def by (simp add: abs_le_iff)
  have "for_each (week_column tza evs (Some (sunday_of tza now))) [0..<7] (prepare_grid ''14px'' dm)
        = Normal (fold (\<lambda>d s. append_event_node (week_col_node tza evs (sunday_of tza now) d) s) [0..<7]
                        (prepare_grid ''14px'' dm))"
    by (rule for_each_normal_fold) (simp add: week_column_normal[OF assms(1) b])
  then show ?thesis
    by (simp add: render_week_view_def week_start_eq[OF assms(2)] fold_append_event_nodes_eq dom_simps)
qed

theorem render_week_view_columns_witness:
  "ev_start standup_event \<noteq> None \<and> ev_start trip_event \<noteq> None \<and> in_range (-18000000) 1762700000000
   \<and> events_col (final_state (render_week_view (-18000000) 1762700000000 [standup_event, trip_event] empty_cal_dom))
     = [WeekDayDiv ''Sun, Nov 9'' [], WeekDayDiv ''Mon, Nov 10'' [], WeekDayDiv ''Tue, Nov 11'' [''Trip''],
        WeekDayDiv ''Wed, Nov 12'' [], WeekDayDiv ''Thu, Nov 13'' [], WeekDayDiv ''Fri, Nov 14'' [],
        WeekDayDiv ''Sat, Nov 15'' []]"
proof -
  have h1: "\<forall>e\<in>set [standup_event, trip_event]. ev_start e \<noteq> None"
    by (simp add: standup_event_def trip_event_def)
  have h2: "in_range (-18000000) 1762700000000" by (simp add: in_range_def ms_per_day_def)
  have cols: "map (week_col_node (-18000000) [standup_event, trip_event] (sunday_of (-18000000) 1762700000000)) [0..<7]
    = [WeekDayDiv ''Sun, Nov 9'' [], WeekDayDiv ''Mon, Nov 10'' [], WeekDayDiv ''Tue, Nov 11'' [''Trip''],
       WeekDayDiv ''Wed, Nov 12'' [], WeekDayDiv ''Thu, Nov 13'' [], WeekDayDiv ''Fri, Nov 14'' [],
       WeekDayDiv ''Sat, Nov 15'' []]"
    by code_simp
  show ?thesis using h1 h2 render_week_view_columns[where dm = empty_cal_dom, OF h1 h2] cols by simp
qed

text \<open>
  An event without a \<open>start\<close> object is not skipped by the week view: the
  callback reading \<open>event.start.dateTime\<close> throws a \<open>TypeError\<close> while the first
  column is built, so the view ends with an empty grid and no column at all.
\<close>

lemma render_week_view_type_error:
  assumes "\<exists>e\<in>set evs. ev_start e = None"
  shows "render_week_view tza now evs dm = Abrupt start_type_error (prepare_grid ''14px'' dm)"
proof -
  obtain ts' where "for_each (week_event_step tza (week_day_date tza (week_start tza now) 0)) evs [] =
                    Abrupt start_type_error ts'"
    using week_events_abrupt[OF assms] by blast
  then have "week_column tza evs (week_start tza now) 0 (prepare_grid ''14px'' dm)
             = Abrupt start_type_error (prepare_grid ''14px'' dm)"
    by (simp add: week_column_def)
  then show ?thesis by (simp add: render_week_view_def upt_rec)
qed

section \<open>What the month view shows\<close>

lemma date_new_now_in_range: "in_range tza now \<Longrightarrow> date_new_now now = Some now"
  by (simp add: in_range_def date_new_now_def time_clip_small ms_per_day_def)

lemma year_of_nonneg: "0 \<le> l \<Longrightarrow> 1970 \<le> year_of l"
proof -
  assume "0 \<le> l"
  then have d: "0 \<le> day_of l" by (simp add: day_of_def ms_per_day_def)
  have s: "day_from_year (year_of l) \<le> day_of l" "day_of l < day_from_year (year_of l + 1)"
    using year_from_day_spec[of "day_of l"] by (simp_all add: year_of_def)
  show ?thesis
  proof (rule ccontr)
    assume "\<not> 1970 \<le> year_of l"
    then have "year_of l + 1 \<le> 1970" by simp
    then have "day_from_year (year_of l + 1) \<le> 0" using day_from_year_mono_le by fastforce
    with s d show False by simp
  qed
qed

lemma make_day_month_bounds:
  assumes "0 \<le> m" "m < 12" "1 \<le> dt" "dt \<le> 31"
  shows "make_day y m dt = day_from_year y + month_start y (nat m) + dt - 1"
  using assms by (simp add: make_day_def Let_def)

lemma date_new_ymd_local:
  assumes "100 \<le> y" "\<bar>make_day y m dt\<bar> \<le> 99000000" "\<bar>tza\<bar> \<le> ms_per_day"
  shows "date_new_ymd tza y m dt = Some (make_day y m dt * ms_per_day - tza)"
proof -
  have "\<bar>make_day y m dt * ms_per_day - tza\<bar> \<le> 8640000000000000"
    using assms(2,3) unfolding ms_per_day_def by (simp add: abs_le_iff)
  then show ?thesis using assms(1)
    by (simp add: date_new_ymd_def make_full_year_def make_date_def make_time_def utc_time_def
        time_clip_def)
qed

lemma day_of_make_day [simp]: "day_of (k * ms_per_day) = k"
  by (simp add: day_of_def ms_per_day_def)

lemma local_fields_iff:
  assumes "0 \<le> mo" "mo < 12" "1 \<le> dt" "dt \<le> days_in_month y (nat mo)"
  shows "(date_of l = dt \<and> int (month_of l) = mo \<and> year_of l = y) \<longleftrightarrow> day_of l = make_day y mo dt"
proof
  assume "date_of l = dt \<and> int (month_of l) = mo \<and> year_of l = y"
  then show "day_of l = make_day y mo dt" by (auto simp: day_of_from_fields)
next
  assume e: "day_of l = make_day y mo dt"
  have n: "nat mo < 12" using assms by simp
  have k: "0 \<le> dt - 1" "dt - 1 < days_in_month y (nat mo)" using assms by simp_all
  have md: "make_day y mo dt = day_from_year y + month_start y (nat mo) + (dt - 1)"
    using assms(1,2) by (simp add: make_day_def Let_def)
  show "date_of l = dt \<and> int (month_of l) = mo \<and> year_of l = y"
    using calendar_of_day[OF n k] assms(1) e md by (simp add: date_of_def month_of_def year_of_def)
qed

lemma month_count_step_match:
  assumes "ev_start ev = Some st" "0 \<le> mo" "mo < 12" "1 \<le> int day" "int day \<le> days_in_month yr (nat mo)"
  shows "month_count_step tza yr mo day ev n =
         Normal (if start_local_day tza ev = Some (make_day yr mo (int day)) then Suc n else n)"
proof -
  have "(get_date tza (event_start_date tza st) = Some (int day) \<and> get_month tza (event_start_date tza st) = Some mo
          \<and> get_full_year tza (event_start_date tza st) = Some yr)
        = (start_local_day tza ev = Some (make_day yr mo (int day)))"
    using local_fields_iff[OF assms(2-5)] assms(1)
    by (cases "event_start_date tza st") (auto simp: start_local_day_def get_date_def get_month_def get_full_year_def)
  then show ?thesis using assms(1) by (simp add: month_count_step_def Let_def)
qed

lemma month_counts_normal:
  assumes "\<forall>e\<in>set evs. ev_start e \<noteq> None" "0 \<le> mo" "mo < 12" "1 \<le> int day" "int day \<le> days_in_month yr (nat mo)"
  shows "for_each (month_count_step tza yr mo day) evs n =
         Normal (n + length (filter (\<lambda>e. start_local_day tza e = Some (make_day yr mo (int day))) evs))"
  using assms(1)
proof (induction evs arbitrary: n)
  case Nil
  then show ?case by simp
next
  case (Cons e evs)
  then obtain st where "ev_start e = Some st" by auto
  with Cons show ?case by (simp add: month_count_step_match[OF _ assms(2-5)])
qed

lemma month_cell_normal:
  assumes "\<forall>e\<in>set evs. ev_start e \<noteq> None" "0 \<le> mo" "mo < 12" "1 \<le> int day" "int day \<le> days_in_month yr (nat mo)"
  shows "month_cell tza evs yr mo day s = Normal (append_event_node (month_cell_node tza evs yr mo day) s)"
  using month_counts_normal[OF assms, of tza 0]
  by (simp add: month_cell_def month_cell_node_def Let_def)

lemma append_blanks_eq: "append_blanks k d = d\<lparr>events_col := events_col d @ replicate k EmptyDiv\<rparr>"
  using fold_append_event_nodes_eq[of "\<lambda>i. EmptyDiv" "[0..<k]" d]
  by (simp add: append_blanks_def map_replicate_const)

lemma month_days_bounds:
  assumes "in_range tza now" "0 \<le> local_time tza now"
  shows "100 \<le> year_of (local_time tza now)"
    and "\<bar>make_day (year_of (local_time tza now)) (int (month_of (local_time tza now))) 1\<bar> \<le> 99000000"
    and "\<bar>make_day (year_of (local_time tza now)) (int (month_of (local_time tza now)) + 1) 0\<bar> \<le> 99000000"
proof -
  let ?l = "local_time tza now"
  let ?y = "year_of ?l" and ?m = "int (month_of ?l)"
  show "100 \<le> ?y" using year_of_nonneg[OF assms(2)] by simp
  have m: "0 \<le> ?m" "?m < 12" using month_from_day_bounds(1) by (simp_all add: month_of_def)
  have q: "86400000 * (?l div 86400000) \<le> ?l" "?l < 86400000 * (?l div 86400000) + 86400000"
    using div_mult_bounds_int[of 86400000 ?l] by simp_all
  have "?l \<le> 8000000000000000 + 86400000"
    using assms(1) unfolding in_range_def local_time_def ms_per_day_def by (simp add: abs_le_iff)
  then have dl: "\<bar>day_of ?l\<bar> \<le> 93000000"
    using q assms(2) unfolding day_of_def ms_per_day_def by (simp add: abs_le_iff)
  have d1: "make_day ?y ?m 1 = day_of ?l - (date_of ?l - 1)"
    using make_day_shift[of ?y ?m 1 "date_of ?l - 1"] day_of_from_fields[of ?l] by simp
  have dend: "make_day ?y (?m + 1) 0 = make_day ?y ?m 1 + (days_in_month ?y (month_of ?l) - 1)"
    using make_day_last_of_month[OF m, of ?y] make_day_month_bounds[OF m, of 1 ?y] by simp
  have b: "1 \<le> date_of ?l" "date_of ?l \<le> 31" by (rule date_of_bounds)+
  have dm: "0 < days_in_month ?y (month_of ?l)" "days_in_month ?y (month_of ?l) \<le> 31"
    by (rule days_in_month_pos, rule days_in_month_le)
  show "\<bar>make_day ?y ?m 1\<bar> \<le> 99000000" using d1 dl b by simp
  show "\<bar>make_day ?y (?m + 1) 0\<bar> \<le> 99000000" using dend d1 dl b dm by simp
qed

lemma month_view_setup:
  assumes "in_range tza now" "0 \<le> local_time tza now"
  defines "y \<equiv> year_of (local_time tza now)" and "m \<equiv> int (month_of (local_time tza now))"
  shows "get_full_year tza (date_new_now now) = Some y"
    and "get_month tza (date_new_now now) = Some m"
    and "get_day tza (date_new_ymd tza y m 1) = Some (week_day (make_day y m 1))"
    and "get_date tza (date_new_ymd tza y (m + 1) 0) = Some (days_in_month y (month_of (local_time tza now)))"
proof -
  have n: "date_new_now now = Some now" using assms(1) by (rule date_new_now_in_range)
  have tz: "\<bar>tza\<bar> \<le> ms_per_day" using assms(1) by (simp add: in_range_def)
  note b = month_days_bounds[OF assms(1,2), folded y_def m_def]
  have m: "0 \<le> m" "m < 12" using month_from_day_bounds(1) by (simp_all add: m_def month_of_def)
  show "get_full_year tza (date_new_now now) = Some y" by (simp add: n get_full_year_def y_def)
  show "get_month tza (date_new_now now) = Some m" by (simp add: n get_month_def m_def)
  show "get_day tza (date_new_ymd tza y m 1) = Some (week_day (make_day y m 1))"
    using date_new_ymd_local[OF b(1,2) tz] by (simp add: get_day_def local_time_def)
  have "date_from_day (make_day y (m + 1) 0) = days_in_month y (month_of (local_time tza now))"
    using date_of_month_end[OF m, of y] by (simp add: m_def)
  then show "get_date tza (date_new_ymd tza y (m + 1) 0) = Some (days_in_month y (month_of (local_time tza now)))"
    using date_new_ymd_local[OF b(1,3) tz] by (simp add: get_date_def local_time_def date_of_def)
qed

text \<open>
  C6. With every event carrying a \<open>start\<close> object, the month view completes normally;
  the events column holds as many blank cells as the weekday index (Sunday = 0) of the
  first of the current local month, then one \<open>div.month-day\<close> per day of that month
  (28, 29, 30 or 31 of them by the Gregorian rules), and the cell of day \<open>k\<close> shows the
  number of events starting on that local day, or no count when there is none.
\<close>

theorem render_month_view_cells:
  assumes "\<forall>e\<in>set evs. ev_start e \<noteq> None" and "in_range tza now" and "0 \<le> local_time tza now"
  shows "render_month_view tza now evs dm = Normal ((prepare_grid ''12px'' dm)\<lparr>events_col :=
           replicate (nat (week_day (make_day (year_of (local_time tza now)) (int (month_of (local_time tza now))) 1))) EmptyDiv
           @ map (month_cell_node tza evs (year_of (local_time tza now)) (int (month_of (local_time tza now))))
                 [1..<nat (days_in_month (year_of (local_time tza now)) (month_of (local_time tza now))) + 1]\<rparr>)"
proof -
  let ?y = "year_of (local_time tza now)" and ?m = "int (month_of (local_time tza now))"
  let ?n = "days_in_month ?y (month_of (local_time tza now))"
  note su = month_view_setup[OF assms(2,3)]
  have m: "0 \<le> ?m" "?m < 12" using month_from_day_bounds(1) by (simp_all add: month_of_def)
  have cells: "for_each (month_cell tza evs ?y ?m) [1..<nat ?n + 1] s
      = Normal (fold (\<lambda>d s. append_event_node (month_cell_node tza evs ?y ?m d) s) [1..<nat ?n + 1] s)" for s
    by (rule for_each_normal_fold) (auto intro!: month_cell_normal[OF assms(1) m] simp: m)
  have "render_month_view tza now evs dm = for_each (month_cell tza evs ?y ?m) [1..<nat ?n + 1]
          (append_blanks (nat (week_day (make_day ?y ?m 1))) (prepare_grid ''12px'' dm))"
    by (simp add: render_month_view_def su Let_def loop_bound_def)
  also have "\<dots> = Normal (fold (\<lambda>d s. append_event_node (month_cell_node tza evs ?y ?m d) s) [1..<nat ?n + 1]
          (append_blanks (nat (week_day (make_day ?y ?m 1))) (prepare_grid ''12px'' dm)))"
    by (rule cells)
  finally show ?thesis
    by (simp add: append_blanks_eq fold_append_event_nodes_eq dom_simps del: upt_Suc)
qed

theorem render_month_view_cells_witness:
  "ev_start trip_event \<noteq> None \<and> in_range (-18000000) 1762700000000 \<and> 0 \<le> local_time (-18000000) 1762700000000
   \<and> events_col (final_state (render_month_view (-18000000) 1762700000000 [trip_event] empty_cal_dom))
     = replicate 6 EmptyDiv @ map (\<lambda>d. MonthDayDiv d (if d = 11 then Some 1 else None)) [1..<31]"
proof -
  have h1: "\<forall>e\<in>set [trip_event]. ev_start e \<noteq> None" by (simp add: trip_event_def)
  have h2: "in_range (-18000000) 1762700000000" by (simp add: in_range_def ms_per_day_def)
  have h3: "0 \<le> local_time (-18000000) (1762700000000::int)" by (simp add: local_time_def)
  have cells: "replicate (nat (week_day (make_day (year_of (local_time (-18000000) 1762700000000))
                   (int (month_of (local_time (-18000000) 1762700000000))) 1))) EmptyDiv
       @ map (month_cell_node (-18000000) [trip_event] (year_of (local_time (-18000000) 1762700000000))
                (int (month_of (local_time (-18000000) 1762700000000))))
             [1..<nat (days_in_month (year_of (local_time (-18000000) 1762700000000))
                        (month_of (local_time (-18000000) 1762700000000))) + 1]
     = replicate 6 EmptyDiv @ map (\<lambda>d. MonthDayDiv d (if d = 11 then Some 1 else None)) [1..<31]"
    by code_simp
  have "events_col (final_state (render_month_view (-18000000) 1762700000000 [trip_event] empty_cal_dom))
     = replicate (nat (week_day (make_day (year_of (local_time (-18000000) 1762700000000))
                   (int (month_of (local_time (-18000000) 1762700000000))) 1))) EmptyDiv
       @ map (month_cell_node (-18000000) [trip_event] (year_of (local_time (-18000000) 1762700000000))
                (int (month_of (local_time (-18000000) 1762700000000))))
             [1..<nat (days_in_month (year_of (local_time (-18000000) 1762700000000))
                        (month_of (local_time (-18000000) 1762700000000))) + 1]"
    by (simp add: render_month_view_cells[where dm = empty_cal_dom, OF h1 h2 h3] del: upt_Suc)
  also note cells
  finally have "events_col (final_state (render_month_view (-18000000) 1762700000000 [trip_event] empty_cal_dom))
     = replicate 6 EmptyDiv @ map (\<lambda>d. MonthDayDiv d (if d = 11 then Some 1 else None)) [1..<31]" .
  then show ?thesis using h1 h2 h3 by simp
qed

lemma month_counts_abrupt:
  assumes "\<exists>e\<in>set evs. ev_start e = None"
  shows "\<exists>n'. for_each (month_count_step tza yr mo day) evs n = Abrupt start_type_error n'"
  using assms
proof (induction evs arbitrary: n)
  case Nil
  then show ?case by simp
next
  case (Cons e evs)
  show ?case
  proof (cases "ev_start e")
    case None
    then show ?thesis by (simp add: month_count_step_def)
  next
    case (Some st)
    then obtain k where k: "month_count_step tza yr mo day e n = Normal k"
      by (simp add: month_count_step_def Let_def)
    from Cons.prems Some have "\<exists>e\<in>set evs. ev_start e = None" by auto
    then show ?thesis using Cons.IH[of k] k by simp
  qed
qed

text \<open>
  An event without a \<open>start\<close> object is not skipped by the month view either: the
  \<open>filter\<close> callback throws a \<open>TypeError\<close> while the first day's count is computed,
  so the grid keeps its leading blank cells and shows no day at all.
\<close>

lemma render_month_view_type_error:
  assumes "\<exists>e\<in>set evs. ev_start e = None" and "in_range tza now" and "0 \<le> local_time tza now"
  shows "render_month_view tza now evs dm = Abrupt start_type_error
           (append_blanks (nat (week_day (make_day (year_of (local_time tza now)) (int (month_of (local_time tza now))) 1)))
              (prepare_grid ''12px'' dm))"
proof -
  let ?y = "year_of (local_time tza now)" and ?m = "int (month_of (local_time tza now))"
  let ?n = "days_in_month ?y (month_of (local_time tza now))"
  let ?d = "append_blanks (nat (week_day (make_day ?y ?m 1))) (prepare_grid ''12px'' dm)"
  note su = month_view_setup[OF assms(2,3)]
  have ds: "[1..<nat ?n + 1] = 1 # [Suc 1..<nat ?n + 1]"
    using days_in_month_pos[of ?y "month_of (local_time tza now)"] by (intro upt_conv_Cons) simp
  obtain n' where n': "for_each (month_count_step tza ?y ?m 1) evs 0 = Abrupt start_type_error n'"
    using month_counts_abrupt[OF assms(1)] by blast
  have "render_month_view tza now evs dm = for_each (month_cell tza evs ?y ?m) [1..<nat ?n + 1] ?d"
    by (simp add: render_month_view_def su Let_def loop_bound_def)
  also have "\<dots> = and_then (month_cell tza evs ?y ?m 1 ?d) (for_each (month_cell tza evs ?y ?m) [Suc 1..<nat ?n + 1])"
    by (simp only: ds for_each.simps)
  also have "\<dots> = Abrupt start_type_error ?d"
    by (simp only: month_cell_def n' completion.case and_then.simps)
  finally show ?thesis .
qed

text \<open>
  C5. An event without a \<open>start\<close> object is not skipped by the grid views: in the
  week view the callback reading \<open>event.start.dateTime\<close> throws a \<open>TypeError\<close> while
  the first column is built, so the view ends with an empty grid and no column at all;
  in the month view (for a time in the range of dates) the \<open>filter\<close> callback throws
  while the first day's count is computed, so the grid keeps its leading blank cells
  and shows no day.
\<close>

theorem grid_views_type_error:
  assumes "\<exists>e\<in>set evs. ev_start e = None"
  shows "render_week_view tza now evs dm = Abrupt start_type_error (prepare_grid ''14px'' dm)
    \<and> (in_range tza now \<and> 0 \<le> local_time tza now \<longrightarrow>
       render_month_view tza now evs dm = Abrupt start_type_error
         (append_blanks (nat (week_day (make_day (year_of (local_time tza now)) (int (month_of (local_time tza now))) 1)))
            (prepare_grid ''12px'' dm)))"
  using render_week_view_type_error[OF assms] render_month_view_type_error[OF assms] by blast

theorem grid_views_type_error_witness:
  "(\<exists>e\<in>set [standup_event, broken_event]. ev_start e = None)
   \<and> render_week_view 0 1762700000000 [standup_event, broken_event] empty_cal_dom
       = Abrupt start_type_error (prepare_grid ''14px'' empty_cal_dom)
   \<and> in_range 0 1762700000000 \<and> 0 \<le> local_time 0 1762700000000
   \<and> render_month_view 0 1762700000000 [standup_event, broken_event] empty_cal_dom = Abrupt start_type_error
       (append_blanks (nat (week_day (make_day (year_of (local_time 0 1762700000000)) (int (month_of (local_time 0 1762700000000))) 1)))
          (prepare_grid ''12px'' empty_cal_dom))"
proof -
  have h1: "\<exists>e\<in>set [standup_event, broken_event]. ev_start e = None" by (simp add: broken_event_def)
  have h2: "in_range 0 1762700000000" by (simp add: in_range_def ms_per_day_def)
  have h3: "0 \<le> local_time 0 (1762700000000::int)" by (simp add: local_time_def)
  note g = grid_views_type_error[OF h1, of 0 1762700000000 empty_cal_dom]
  show ?thesis using h1 h2 h3 g by blast
qed

text \<open>
  C7. An all-day event's \<open>start.date\<close> \<open>YYYY-MM-DD\<close> is parsed as UTC midnight, so in
  every time zone west of UTC its start falls on the local day before its date: the week
  view lists it, and the month view counts it, one day early.
\<close>

theorem all_day_start_local_day:
  assumes "ev_start ev = Some st" "date_time st = None" "ev_date st = Some (iso_date_string y mo dd)"
    and "iso_local_ok y mo dd 0 0" and "- ms_per_day \<le> tza" and "tza < 0"
  shows "start_local_day tza ev = Some (make_day (int y) (int mo - 1) (int dd) - 1)"
proof -
  have ne: "iso_date_string y mo dd \<noteq> []" by (simp add: iso_date_string_def)
  have "event_start_date tza st = date_parse tza (iso_date_string y mo dd)"
    using assms(2,3) ne by (simp add: event_start_date_def js_or_def js_truthy_def new_date_of_def)
  then show ?thesis
    using iso_date_local_day[of y mo dd tza] assms(1,4,5,6)
    by (simp add: start_local_day_def iso_local_ok_def)
qed

lemma trip_string: "''2025-11-12'' = iso_date_string 2025 11 12"
  by code_simp

theorem all_day_start_local_day_witness:
  "ev_start trip_event = Some \<lparr>date_time = None, ev_date = Some ''2025-11-12''\<rparr>
   \<and> date_time \<lparr>date_time = None, ev_date = Some ''2025-11-12''\<rparr> = None
   \<and> ev_date \<lparr>date_time = None, ev_date = Some ''2025-11-12''\<rparr> = Some (iso_date_string 2025 11 12)
   \<and> iso_local_ok 2025 11 12 0 0 \<and> - ms_per_day \<le> -18000000 \<and> (-18000000::int) < 0
   \<and> start_local_day (-18000000) trip_event = Some (make_day 2025 10 12 - 1)"
proof -
  have h: "ev_start trip_event = Some \<lparr>date_time = None, ev_date = Some ''2025-11-12''\<rparr>"
    "date_time \<lparr>date_time = None, ev_date = Some ''2025-11-12''\<rparr> = None"
    "ev_date \<lparr>date_time = None, ev_date = Some ''2025-11-12''\<rparr> = Some (iso_date_string 2025 11 12)"
    "iso_local_ok 2025 11 12 0 0" "- ms_per_day \<le> -18000000" "(-18000000::int) < 0"
    by (simp_all add: trip_event_def trip_string iso_local_ok_def ms_per_day_def)
  show ?thesis using h all_day_start_local_day[OF h] by simp
qed

end
