(* ===== verification/Time_Cursor.thy ===== *)
theory Time_Cursor
  imports Dashboard_Model
begin

text \<open>
  The live time cursor of \<open>dashboard.js\<close>: \<open>showCurrentTimeLine\<close> (lines 148-170) and
  \<open>scrollToCurrentTime\<close> (lines 172-178). The module variable \<open>currentTimeLine\<close> holds
  the marker element last created; it is modelled by the identity of that node, and
  fresh identities come from a counter, so that \<open>currentTimeLine.remove()\<close> removes
  exactly that node wherever it still is. The scroll container's \<open>scrollTop\<close> is the
  value the code assigns (the browser's further clamp to the scroll range is layout,
  not modelled).
\<close>

section \<open>State and operations\<close>

record cursor_dom = cal_dom +
  current_time_line :: "nat option"
  next_node_id :: nat
  scroll_top :: int

text \<open>\<open>now.getHours() * 60 + now.getMinutes()\<close> for \<open>now = new Date()\<close>; NaN when
  \<open>Date.now()\<close> is outside the time-value range.\<close>

definition minutes_from_top :: "int \<Rightarrow> time_value \<Rightarrow> int option" where
  "minutes_from_top tza now = (let nw = date_new_now now in
     case (get_hours tza nw, get_minutes tza nw) of
       (Some h, Some m) \<Rightarrow> Some (h * 60 + m)
     | _ \<Rightarrow> None)"

primrec is_time_line :: "node \<Rightarrow> bool" where
  "is_time_line (HourDiv s) = False"
| "is_time_line (EventDiv t h b x) = False"
| "is_time_line (TimeLineDiv i t) = True"
| "is_time_line (WeekDayDiv h ts) = False"
| "is_time_line EmptyDiv = False"
| "is_time_line (MonthDayDiv d c) = False"

primrec node_is :: "nat \<Rightarrow> node \<Rightarrow> bool" where
  "node_is i (HourDiv s) = False"
| "node_is i (EventDiv t h b x) = False"
| "node_is i (TimeLineDiv j t) = (i = j)"
| "node_is i (WeekDayDiv h ts) = False"
| "node_is i EmptyDiv = False"
| "node_is i (MonthDayDiv d c) = False"

text \<open>\<open>el.remove()\<close> for the marker with identity \<open>i\<close>: a marker only ever lives in
  \<open>#eventsColumn\<close>; when it has already been detached (the column was cleared) the
  call does nothing.\<close>

definition remove_node :: "nat \<Rightarrow> 'a cal_dom_scheme \<Rightarrow> 'a cal_dom_scheme" where
  "remove_node i d = d\<lparr>events_col := filter (\<lambda>n. \<not> node_is i n) (events_col d)\<rparr>"

text \<open>\<open>if (currentTimeLine) currentTimeLine.remove();\<close>\<close>

definition remove_current_time_line :: "'a cursor_dom_scheme \<Rightarrow> 'a cursor_dom_scheme" where
  "remove_current_time_line d = (case current_time_line d of None \<Rightarrow> d | Some i \<Rightarrow> remove_node i d)"

definition show_current_time_line :: "int \<Rightarrow> time_value \<Rightarrow> 'a cursor_dom_scheme \<Rightarrow> 'a cursor_dom_scheme" where
  "show_current_time_line tza now d =
     (let d1 = remove_current_time_line d;
          top = minutes_from_top tza now;
          i = next_node_id d1
      in (append_event_node (TimeLineDiv i top) d1)\<lparr>current_time_line := Some i, next_node_id := Suc i\<rparr>)"

text \<open>\<open>Math.max(minutesFromTop - 200, 0)\<close> is NaN when the minute count is, and
  assigning NaN to \<open>scrollTop\<close> sets it to 0 (CSSOM normalises non-finite values).\<close>

definition scroll_to_current_time :: "int \<Rightarrow> time_value \<Rightarrow> 'a cursor_dom_scheme \<Rightarrow> 'a cursor_dom_scheme" where
  "scroll_to_current_time tza now d =
     d\<lparr>scroll_top := (case minutes_from_top tza now of None \<Rightarrow> 0 | Some m \<Rightarrow> max (m - 200) 0)\<rparr>"

text \<open>
  The cursor invariant: the events column holds at most one marker, and when it holds
  one, \<open>currentTimeLine\<close> refers to it.
\<close>

definition time_line_ok :: "'a cursor_dom_scheme \<Rightarrow> bool" where
  "time_line_ok d = (case filter is_time_line (events_col d) of
       [] \<Rightarrow> True
     | [n] \<Rightarrow> (case current_time_line d of None \<Rightarrow> False | Some i \<Rightarrow> node_is i n)
     | _ \<Rightarrow> False)"

text \<open>A column holding one hour label and the marker of an earlier tick, as a sample.\<close>

definition cursor_sample :: cursor_dom where
  "cursor_sample = \<lparr>time_col = [], time_col_css = Map.empty,
     events_col = [HourDiv ''9 AM'', TimeLineDiv 3 (Some 540)], events_col_css = Map.empty,
     current_time_line = Some 3, next_node_id = 4, scroll_top = 0\<rparr>"

section \<open>Lemmas\<close>

lemma minute_of_day:
  fixes l :: int
  shows "hour_from_time l * 60 + min_from_time l = (l div ms_per_minute) mod 1440"
proof -
  have "(l div ms_per_minute) mod (60 * 24) = 60 * ((l div ms_per_minute) div 60 mod 24) + (l div ms_per_minute) mod 60"
    by (rule zmod_zmult2_eq) simp
  moreover have "(l div ms_per_minute) div 60 = l div ms_per_hour"
    using zdiv_zmult2_eq[of 60 l 60000] by (simp add: ms_per_minute_def ms_per_hour_def)
  ultimately show ?thesis
    by (simp add: hour_from_time_def min_from_time_def)
qed

lemma minutes_from_top_eq:
  "\<bar>now\<bar> \<le> 8640000000000000 \<Longrightarrow>
   minutes_from_top tza now = Some ((local_time tza now div ms_per_minute) mod 1440)"
  by (simp add: minutes_from_top_def date_new_now_def time_clip_def get_hours_def get_minutes_def
      minute_of_day)

lemma node_is_time_line: "node_is i n \<Longrightarrow> is_time_line n"
  by (cases n) simp_all

lemma remove_node_frame [dom_simps]:
  "time_col (remove_node i d) = time_col d"
  "time_col_css (remove_node i d) = time_col_css d"
  "events_col_css (remove_node i d) = events_col_css d"
  "cal_dom.more (remove_node i d) = cal_dom.more d"
  by (simp_all add: remove_node_def)

lemma filter_remove_other:
  "filter (\<lambda>n. \<not> node_is i n \<and> \<not> is_time_line n) xs = filter (\<lambda>n. \<not> is_time_line n) xs"
  by (rule filter_cong) (auto dest: node_is_time_line)

lemma time_lines_after_remove:
  assumes "time_line_ok d"
  shows "filter is_time_line (events_col (remove_current_time_line d)) = []"
proof (cases "filter is_time_line (events_col d)")
  case Nil
  then show ?thesis
    by (cases "current_time_line d") (auto simp: remove_current_time_line_def remove_node_def filter_empty_conv)
next
  case (Cons n ns)
  with assms obtain i where "ns = []" "current_time_line d = Some i" "node_is i n"
    by (auto simp: time_line_ok_def split: list.splits option.splits)
  moreover have "m = n" if "m \<in> set (events_col d)" "is_time_line m" for m
  proof -
    have "m \<in> set (filter is_time_line (events_col d))" using that by simp
    with Cons \<open>ns = []\<close> show "m = n" by simp
  qed
  ultimately show ?thesis
    by (auto simp: remove_current_time_line_def remove_node_def filter_empty_conv)
qed

lemma cursor_fields_frame:
  assumes "cal_dom.more d' = cal_dom.more d"
  shows "current_time_line d' = current_time_line d" "next_node_id d' = next_node_id d"
    "scroll_top d' = scroll_top d" "cursor_dom.more d' = cursor_dom.more d"
  using assms by (cases d; cases d'; simp add: cursor_dom.defs)+

lemma append_event_node_cursor [simp]:
  "current_time_line (append_event_node n d) = current_time_line d"
  "next_node_id (append_event_node n d) = next_node_id d"
  "scroll_top (append_event_node n d) = scroll_top d"
  "cursor_dom.more (append_event_node n d) = cursor_dom.more d"
  by (simp_all add: append_event_node_def)

lemma remove_current_time_line_simps [simp]:
  "current_time_line (remove_current_time_line d) = current_time_line d"
  "next_node_id (remove_current_time_line d) = next_node_id d"
  "scroll_top (remove_current_time_line d) = scroll_top d"
  "cursor_dom.more (remove_current_time_line d) = cursor_dom.more d"
  "time_col (remove_current_time_line d) = time_col d"
  "time_col_css (remove_current_time_line d) = time_col_css d"
  "events_col_css (remove_current_time_line d) = events_col_css d"
  "filter (\<lambda>n. \<not> is_time_line n) (events_col (remove_current_time_line d))
     = filter (\<lambda>n. \<not> is_time_line n) (events_col d)"
  by (cases "current_time_line d"; simp add: remove_current_time_line_def remove_node_def filter_remove_other)+

lemma show_current_time_line_nodes:
  assumes "time_line_ok d"
  shows "filter is_time_line (events_col (show_current_time_line tza now d))
           = [TimeLineDiv (next_node_id d) (minutes_from_top tza now)]"
    and "filter (\<lambda>n. \<not> is_time_line n) (events_col (show_current_time_line tza now d))
           = filter (\<lambda>n. \<not> is_time_line n) (events_col d)"
  using time_lines_after_remove[OF assms] remove_current_time_line_simps(8)[of d]
  by (simp_all add: show_current_time_line_def Let_def dom_simps)

lemma show_current_time_line_ok: "time_line_ok d \<Longrightarrow> time_line_ok (show_current_time_line tza now d)"
  using show_current_time_line_nodes(1)[of d tza now]
  by (simp add: time_line_ok_def show_current_time_line_def Let_def)

lemma show_current_time_line_frame [dom_simps]:
  "time_col (show_current_time_line tza now d) = time_col d"
  "time_col_css (show_current_time_line tza now d) = time_col_css d"
  "events_col_css (show_current_time_line tza now d) = events_col_css d"
  "scroll_top (show_current_time_line tza now d) = scroll_top d"
  "cursor_dom.more (show_current_time_line tza now d) = cursor_dom.more d"
  by (simp_all add: show_current_time_line_def Let_def dom_simps)

text \<open>
  C8. Each call of \<open>showCurrentTimeLine\<close> leaves exactly one marker in the events
  column, at \<open>top\<close> = the local minute of the day (in [0, 1440)), with a fresh identity
  that \<open>currentTimeLine\<close> now refers to; every other node of the column is kept, in
  order. This holds whenever the column satisfied the cursor invariant before.
\<close>

theorem show_current_time_line_single:
  assumes "time_line_ok d" and "\<bar>now\<bar> \<le> 8640000000000000"
  shows "filter is_time_line (events_col (show_current_time_line tza now d))
           = [TimeLineDiv (next_node_id d) (Some ((local_time tza now div ms_per_minute) mod 1440))]
         \<and> filter (\<lambda>n. \<not> is_time_line n) (events_col (show_current_time_line tza now d))
           = filter (\<lambda>n. \<not> is_time_line n) (events_col d)
         \<and> current_time_line (show_current_time_line tza now d) = Some (next_node_id d)
         \<and> time_line_ok (show_current_time_line tza now d)"
  using show_current_time_line_nodes[OF assms(1), of tza now] show_current_time_line_ok[OF assms(1), of tza now]
  by (simp add: minutes_from_top_eq[OF assms(2)] show_current_time_line_def Let_def)

theorem show_current_time_line_single_witness:
  "time_line_ok cursor_sample \<and> \<bar>1762700000000::int\<bar> \<le> 8640000000000000
   \<and> events_col (show_current_time_line (-18000000) 1762700000000 cursor_sample)
       = [HourDiv ''9 AM'', TimeLineDiv 4 (Some 593)]"
proof -
  have h1: "time_line_ok cursor_sample" by (simp add: time_line_ok_def cursor_sample_def)
  have h2: "\<bar>1762700000000::int\<bar> \<le> 8640000000000000" by simp
  have "filter is_time_line (events_col (show_current_time_line (-18000000) 1762700000000 cursor_sample))
          = [TimeLineDiv 4 (Some 593)]"
    using show_current_time_line_single[OF h1 h2, of "-18000000"]
    by (simp add: cursor_sample_def local_time_def ms_per_minute_def)
  moreover have "filter (\<lambda>n. \<not> is_time_line n) (events_col (show_current_time_line (-18000000) 1762700000000 cursor_sample))
          = [HourDiv ''9 AM'']"
    using show_current_time_line_single[OF h1 h2, of "-18000000"] by (simp add: cursor_sample_def)
  moreover have "events_col (show_current_time_line (-18000000) 1762700000000 cursor_sample)
          = events_col (remove_current_time_line cursor_sample) @ [TimeLineDiv 4 (minutes_from_top (-18000000) 1762700000000)]"
    by (simp add: show_current_time_line_def Let_def dom_simps cursor_sample_def)
  ultimately show ?thesis using h1 h2
    by (simp add: remove_current_time_line_def remove_node_def cursor_sample_def)
qed

lemma scroll_to_current_time_frame [dom_simps]:
  "cal_dom.truncate (scroll_to_current_time tza now d) = cal_dom.truncate d"
  "current_time_line (scroll_to_current_time tza now d) = current_time_line d"
  "next_node_id (scroll_to_current_time tza now d) = next_node_id d"
  "cursor_dom.more (scroll_to_current_time tza now d) = cursor_dom.more d"
  by (simp_all add: scroll_to_current_time_def cal_dom.defs)

text \<open>
  C9. \<open>scrollToCurrentTime\<close> scrolls the events column's container to 200 pixels
  above the current minute of the day, clamped at 0: the value assigned is
  \<open>max(m - 200, 0)\<close> for the local minute \<open>m\<close>, so it lies in [0, 1240).
\<close>

theorem scroll_to_current_time_bounds:
  assumes "\<bar>now\<bar> \<le> 8640000000000000"
  shows "scroll_top (scroll_to_current_time tza now d) = max ((local_time tza now div ms_per_minute) mod 1440 - 200) 0
         \<and> 0 \<le> scroll_top (scroll_to_current_time tza now d)
         \<and> scroll_top (scroll_to_current_time tza now d) < 1240"
proof -
  let ?m = "(local_time tza now div ms_per_minute) mod 1440"
  have "?m < 1440" by simp
  then show ?thesis by (simp add: scroll_to_current_time_def minutes_from_top_eq[OF assms])
qed

theorem scroll_to_current_time_bounds_witness:
  "\<bar>1762700000000::int\<bar> \<le> 8640000000000000
   \<and> scroll_top (scroll_to_current_time (-18000000) 1762700000000 cursor_sample) = 393"
proof -
  have h: "\<bar>1762700000000::int\<bar> \<le> 8640000000000000" by simp
  show ?thesis using h scroll_to_current_time_bounds[OF h, of "-18000000" cursor_sample]
    by (simp add: local_time_def ms_per_minute_def)
qed

end
