(* ===== verification/View_Controller.thy ===== *)
theory View_Controller
  imports Calendar_Grid Time_Cursor
begin

text \<open>
  The view controller of \<open>dashboard.js\<close> and the page events that drive it: the module
  state (lines 1-15), the \<open>/user\<close> and \<open>/calendar/events\<close> responses (lines 28-52),
  the view-selector click handler (lines 57-63), \<open>switchView\<close> (lines 68-124), the two
  click listeners of the modal backdrop (lines 398-407 and 416-422) and the 60-second
  timer (lines 606-610). Each handler is a function on the page state \<open>dash\<close>; the page
  is the inductive relation \<open>ui_step\<close> over them, and \<open>reachable\<close> its reflexive
  transitive closure from the state after the scripts have loaded. The markup of the view
  selector is not part of the repository, so its items (\<open>data-view\<close> token, whether it
  has the class \<open>active\<close>) are a parameter of the initial state.
\<close>

section \<open>State\<close>

datatype parent = InlineWrapper | ModalContent

record dash = cursor_dom +
  calendar_events :: "cal_event list"
  current_view :: js_string
  container_parent :: parent
  container_css :: css
  modal_active :: bool
  view_items :: "(js_string \<times> bool) list"
  profile_src :: "js_string option"
  user_name_text :: js_string
  user_email_text :: js_string
  calendar_title :: js_string
  user_pending :: bool
  events_pending :: bool
  reported :: "js_error list"

text \<open>An exception escaping an event listener is reported and the page goes on.\<close>

definition report :: "'a dash_scheme completion \<Rightarrow> 'a dash_scheme" where
  "report c = (case c of Normal s \<Rightarrow> s | Abrupt e s \<Rightarrow> s\<lparr>reported := reported s @ [e]\<rparr>)"

section \<open>switchView\<close>

text \<open>The \<open>view === 'hour'\<close> branch (lines 74-95).\<close>

definition hour_branch :: "int \<Rightarrow> time_value \<Rightarrow> 'a dash_scheme \<Rightarrow> 'a dash_scheme" where
  "hour_branch tza now d =
     (let d1 = d\<lparr>container_parent := InlineWrapper, modal_active := False,
                 container_css := (container_css d)(''width'' \<mapsto> ''240px'', ''height'' \<mapsto> ''600px''),
                 time_col_css := (time_col_css d)(''display'' \<mapsto> ''block'')\<rparr>;
          d2 = render_hour_view tza (calendar_events d1) (generate_hours d1)
      in scroll_to_current_time tza now (show_current_time_line tza now d2))"

text \<open>The common part of the \<open>'week'\<close> and \<open>'month'\<close> branches (lines 100-106 and 114-120).\<close>

definition modal_branch :: "'a dash_scheme \<Rightarrow> 'a dash_scheme" where
  "modal_branch d = d\<lparr>modal_active := True, container_parent := ModalContent,
     container_css := (container_css d)(''width'' \<mapsto> ''80vw'', ''height'' \<mapsto> ''80vh''),
     time_col_css := (time_col_css d)(''display'' \<mapsto> ''none'')\<rparr>"

definition switch_view :: "int \<Rightarrow> time_value \<Rightarrow> js_string \<Rightarrow> 'a dash_scheme \<Rightarrow> 'a dash_scheme completion" where
  "switch_view tza now view d =
     (let d0 = d\<lparr>time_col := [], events_col := [], events_col_css := Map.empty\<rparr>;
          c1 = Normal (if view = ''hour'' then hour_branch tza now d0 else d0);
          c2 = and_then c1 (\<lambda>d. if view = ''week''
                                 then render_week_view tza now (calendar_events d) (modal_branch d) else Normal d)
      in and_then c2 (\<lambda>d. if view = ''month''
                           then render_month_view tza now (calendar_events d) (modal_branch d) else Normal d))"

section \<open>Event handlers\<close>

text \<open>The click handler of view-selector item \<open>i\<close> (lines 58-62).\<close>

definition click_item :: "int \<Rightarrow> time_value \<Rightarrow> nat \<Rightarrow> 'a dash_scheme \<Rightarrow> 'a dash_scheme" where
  "click_item tza now i d =
     (let items = view_items d; tok = fst (items ! i);
          d1 = d\<lparr>view_items := (map (\<lambda>(t, a). (t, False)) items)[i := (tok, True)]\<rparr>
      in report (switch_view tza now tok d1))"

text \<open>\<open>document.querySelector('.view-list li[data-view="hour"]')\<close>: the first item
  whose token is \<open>hour\<close>, or \<open>null\<close>.\<close>

definition hour_item :: "(js_string \<times> bool) list \<Rightarrow> nat option" where
  "hour_item items = (let k = length (takeWhile (\<lambda>(t, a). t \<noteq> ''hour'') items)
                      in if k < length items then Some k else None)"

definition null_click_error :: js_error where
  "null_click_error = TypeError ''Cannot read properties of null (reading 'click')''"

text \<open>\<open>li.click()\<close> on the result of \<open>hour_item\<close>; \<open>null.click()\<close> throws.\<close>

definition click_hour_item :: "int \<Rightarrow> time_value \<Rightarrow> 'a dash_scheme \<Rightarrow> 'a dash_scheme completion" where
  "click_hour_item tza now d = (case hour_item (view_items d) of
       None \<Rightarrow> Abrupt null_click_error d
     | Some i \<Rightarrow> Normal (click_item tza now i d))"

text \<open>The first backdrop listener (lines 398-407) and the second (lines 416-422);
  \<open>on_backdrop\<close> is \<open>e.target === calendarModal\<close>.\<close>

definition modal_listener1 :: "int \<Rightarrow> time_value \<Rightarrow> bool \<Rightarrow> 'a dash_scheme \<Rightarrow> 'a dash_scheme" where
  "modal_listener1 tza now on_backdrop d =
     (if on_backdrop then report (click_hour_item tza now (d\<lparr>modal_active := False\<rparr>)) else d)"

definition modal_listener2 :: "int \<Rightarrow> time_value \<Rightarrow> bool \<Rightarrow> 'a dash_scheme \<Rightarrow> 'a dash_scheme" where
  "modal_listener2 tza now on_backdrop d =
     (if on_backdrop then report (click_hour_item tza now d) else d)"

text \<open>A click on the modal: both listeners run, in registration order.\<close>

definition modal_click :: "int \<Rightarrow> time_value \<Rightarrow> bool \<Rightarrow> 'a dash_scheme \<Rightarrow> 'a dash_scheme" where
  "modal_click tza now on_backdrop d =
     modal_listener2 tza now on_backdrop (modal_listener1 tza now on_backdrop d)"

text \<open>The \<open>/user\<close> response (lines 30-40): \<open>user.email.split('@')[0]\<close> is the text
  before the first \<open>@\<close>; \<open>img.src = undefined\<close> sets the string \<open>"undefined"\<close>.\<close>

definition email_name :: "js_string \<Rightarrow> js_string" where
  "email_name em = split_first CHR ''@'' em"

definition on_user :: "js_string option \<Rightarrow> js_string option \<Rightarrow> 'a dash_scheme \<Rightarrow> 'a dash_scheme" where
  "on_user em photo d =
     (let d1 = d\<lparr>user_pending := False\<rparr> in
      case em of
        Some e \<Rightarrow> if e = [] then d1 else
          d1\<lparr>profile_src := Some (case photo of None \<Rightarrow> ''undefined'' | Some p \<Rightarrow> p),
             user_name_text := email_name e, user_email_text := e,
             calendar_title := ''Calendar'', events_pending := True\<rparr>
      | None \<Rightarrow> d1)"

text \<open>The \<open>/calendar/events\<close> response (lines 48-51): \<open>calendarEvents = events || []\<close>
  (\<open>None\<close> is \<open>null\<close>), then \<open>switchView('hour')\<close>.\<close>

definition on_events :: "int \<Rightarrow> time_value \<Rightarrow> cal_event list option \<Rightarrow> 'a dash_scheme \<Rightarrow> 'a dash_scheme" where
  "on_events tza now r d =
     report (switch_view tza now ''hour''
       (d\<lparr>events_pending := False, calendar_events := (case r of None \<Rightarrow> [] | Some evs \<Rightarrow> evs)\<rparr>))"

text \<open>The interval callback (lines 606-610).\<close>

definition tick :: "int \<Rightarrow> time_value \<Rightarrow> 'a dash_scheme \<Rightarrow> 'a dash_scheme" where
  "tick tza now d = (if current_view d = ''hour'' then show_current_time_line tza now d else d)"

section \<open>The page as a transition system\<close>

datatype ui_event =
    UserResponse "js_string option" "js_string option"
  | UserFailed
  | EventsResponse "cal_event list option"
  | EventsFailed
  | ItemClick nat
  | ModalClick bool
  | Tick

text \<open>The state once the scripts have run: \<open>fetch('/user')\<close> is in flight,
  \<open>calendarEvents = []\<close>, \<open>currentView = 'hour'\<close>, \<open>currentTimeLine = null\<close>.\<close>

definition dash_init :: "(js_string \<times> bool) list \<Rightarrow> dash" where
  "dash_init items = \<lparr>time_col = [], time_col_css = Map.empty, events_col = [], events_col_css = Map.empty,
     current_time_line = None, next_node_id = 0, scroll_top = 0,
     calendar_events = [], current_view = ''hour'', container_parent = InlineWrapper,
     container_css = Map.empty, modal_active = False, view_items = items,
     profile_src = None, user_name_text = [], user_email_text = [], calendar_title = [],
     user_pending = True, events_pending = False, reported = []\<rparr>"

text \<open>\<open>ui_step tza now d e d'\<close>: event \<open>e\<close> at time \<open>now\<close> takes the page from \<open>d\<close>
  to \<open>d'\<close>. A response arrives only for a request in flight; a click on item \<open>i\<close>
  needs the item.\<close>

inductive ui_step :: "int \<Rightarrow> time_value \<Rightarrow> dash \<Rightarrow> ui_event \<Rightarrow> dash \<Rightarrow> bool" where
  user_ok: "user_pending d \<Longrightarrow> ui_step tza now d (UserResponse em ph) (on_user em ph d)"
| user_failed: "user_pending d \<Longrightarrow> ui_step tza now d UserFailed (d\<lparr>user_pending := False\<rparr>)"
| events_ok: "events_pending d \<Longrightarrow> ui_step tza now d (EventsResponse r) (on_events tza now r d)"
| events_failed: "events_pending d \<Longrightarrow> ui_step tza now d EventsFailed (d\<lparr>events_pending := False\<rparr>)"
| item_click: "i < length (view_items d) \<Longrightarrow> ui_step tza now d (ItemClick i) (click_item tza now i d)"
| modal: "ui_step tza now d (ModalClick b) (modal_click tza now b d)"
| timer: "ui_step tza now d Tick (tick tza now d)"

inductive reachable :: "int \<Rightarrow> (js_string \<times> bool) list \<Rightarrow> dash \<Rightarrow> bool" where
  init: "reachable tza items (dash_init items)"
| step: "reachable tza items d \<Longrightarrow> ui_step tza now d e d' \<Longrightarrow> reachable tza items d'"

inductive_cases ui_stepE: "ui_step tza now d e d'"

text \<open>The calendar surface sits in the modal exactly when the modal is shown.\<close>

definition container_ok :: "'a dash_scheme \<Rightarrow> bool" where
  "container_ok d = (container_parent d = ModalContent \<longleftrightarrow> modal_active d)"

text \<open>Sample runs: a selector with the three views (Hour active), the page after the
  \<open>/user\<close> response of a signed-in user, after a click on Week (before the events have
  arrived), and after the events response (an empty calendar) at 2025-11-09 14:53:20 UTC
  in a UTC-5 zone.\<close>

definition selector_items :: "(js_string \<times> bool) list" where
  "selector_items = [(''hour'', True), (''week'', False), (''month'', False)]"

definition signed_in_page :: dash where
  "signed_in_page = on_user (Some ''ann@example.com'') None (dash_init selector_items)"

definition week_page :: dash where
  "week_page = click_item (-18000000) 1762700000000 1 signed_in_page"

definition loaded_page :: dash where
  "loaded_page = on_events (-18000000) 1762700000000 (Some []) week_page"

text \<open>What the page shows, with the identities of the marker nodes forgotten: two
  markers at the same place look the same.\<close>

primrec erase_node_id :: "node \<Rightarrow> node" where
  "erase_node_id (HourDiv s) = HourDiv s"
| "erase_node_id (EventDiv t h b x) = EventDiv t h b x"
| "erase_node_id (TimeLineDiv i t) = TimeLineDiv 0 t"
| "erase_node_id (WeekDayDiv h ts) = WeekDayDiv h ts"
| "erase_node_id EmptyDiv = EmptyDiv"
| "erase_node_id (MonthDayDiv d c) = MonthDayDiv d c"

definition shown :: "'a dash_scheme \<Rightarrow> 'a dash_scheme" where
  "shown d = d\<lparr>events_col := map erase_node_id (events_col d), current_time_line := None, next_node_id := 0\<rparr>"

section \<open>Frame lemmas\<close>

lemma more_frame:
  assumes "cal_dom.more d' = cal_dom.more (d :: 'a dash_scheme)"
  shows "current_time_line d' = current_time_line d" "next_node_id d' = next_node_id d"
    "scroll_top d' = scroll_top d" "calendar_events d' = calendar_events d"
    "current_view d' = current_view d" "container_parent d' = container_parent d"
    "container_css d' = container_css d" "modal_active d' = modal_active d"
    "view_items d' = view_items d" "profile_src d' = profile_src d"
    "user_name_text d' = user_name_text d" "user_email_text d' = user_email_text d"
    "calendar_title d' = calendar_title d" "user_pending d' = user_pending d"
    "events_pending d' = events_pending d" "reported d' = reported d" "dash.more d' = dash.more d"
  using assms by (cases d; cases d'; simp add: cursor_dom.defs dash.defs)+

lemma cursor_more_frame:
  assumes "cursor_dom.more d' = cursor_dom.more (d :: 'a dash_scheme)"
  shows "calendar_events d' = calendar_events d"
    "current_view d' = current_view d" "container_parent d' = container_parent d"
    "container_css d' = container_css d" "modal_active d' = modal_active d"
    "view_items d' = view_items d" "profile_src d' = profile_src d"
    "user_name_text d' = user_name_text d" "user_email_text d' = user_email_text d"
    "calendar_title d' = calendar_title d" "user_pending d' = user_pending d"
    "events_pending d' = events_pending d" "reported d' = reported d" "dash.more d' = dash.more d"
  using assms by (cases d; cases d'; simp add: cursor_dom.defs dash.defs)+

lemmas hour_view_dash_frame [simp] =
  more_frame[OF generate_hours_frame(4)] more_frame[OF render_hour_view_frame(5)]
  more_frame[OF append_event_node_frame(5)]
  cursor_more_frame[OF show_current_time_line_frame(5)] cursor_more_frame[OF scroll_to_current_time_frame(4)]

text \<open>A render step that appends at most one node which is not a marker.\<close>

definition appends_plain :: "('a cal_dom_scheme \<Rightarrow> 'a cal_dom_scheme completion) \<Rightarrow> bool" where
  "appends_plain g = (\<forall>s. final_state (g s) = s
     \<or> (\<exists>n. \<not> is_time_line n \<and> final_state (g s) = append_event_node n s))"

lemma for_each_appends_plain:
  assumes "\<And>x. x \<in> set xs \<Longrightarrow> appends_plain (f x)"
  shows "cal_dom.more (final_state (for_each f xs s)) = cal_dom.more s
       \<and> time_col (final_state (for_each f xs s)) = time_col s
       \<and> time_col_css (final_state (for_each f xs s)) = time_col_css s
       \<and> events_col_css (final_state (for_each f xs s)) = events_col_css s
       \<and> filter is_time_line (events_col (final_state (for_each f xs s))) = filter is_time_line (events_col s)"
proof (rule for_each_final_invariant[where P = "\<lambda>t. cal_dom.more t = cal_dom.more s \<and> time_col t = time_col s
       \<and> time_col_css t = time_col_css s \<and> events_col_css t = events_col_css s
       \<and> filter is_time_line (events_col t) = filter is_time_line (events_col s)"])
  fix x t
  assume "x \<in> set xs" and inv: "cal_dom.more t = cal_dom.more s \<and> time_col t = time_col s
       \<and> time_col_css t = time_col_css s \<and> events_col_css t = events_col_css s
       \<and> filter is_time_line (events_col t) = filter is_time_line (events_col s)"
  then have "final_state (f x t) = t \<or> (\<exists>n. \<not> is_time_line n \<and> final_state (f x t) = append_event_node n t)"
    using assms unfolding appends_plain_def by blast
  then show "cal_dom.more (final_state (f x t)) = cal_dom.more s \<and> time_col (final_state (f x t)) = time_col s
       \<and> time_col_css (final_state (f x t)) = time_col_css s \<and> events_col_css (final_state (f x t)) = events_col_css s
       \<and> filter is_time_line (events_col (final_state (f x t))) = filter is_time_line (events_col s)"
    using inv by (auto simp: dom_simps)
qed simp

lemma week_column_plain: "appends_plain (week_column tza evs ws d)"
  unfolding appends_plain_def
proof
  fix s
  show "final_state (week_column tza evs ws d s) = s
     \<or> (\<exists>n. \<not> is_time_line n \<and> final_state (week_column tza evs ws d s) = append_event_node n s)"
  proof (cases "for_each (week_event_step tza (week_day_date tza ws d)) evs []")
    case (Normal ts)
    then show ?thesis
      by (intro disjI2 exI[of _ "WeekDayDiv (to_locale_date_short tza (week_day_date tza ws d)) ts"])
        (simp add: week_column_def Let_def)
  next
    case (Abrupt e ts)
    then show ?thesis by (simp add: week_column_def Let_def)
  qed
qed

lemma month_cell_plain: "appends_plain (month_cell tza evs yr mo day)"
  unfolding appends_plain_def
proof
  fix s
  show "final_state (month_cell tza evs yr mo day s) = s
     \<or> (\<exists>n. \<not> is_time_line n \<and> final_state (month_cell tza evs yr mo day s) = append_event_node n s)"
  proof (cases "for_each (month_count_step tza yr mo day) evs 0")
    case (Normal k)
    then show ?thesis
      by (intro disjI2 exI[of _ "MonthDayDiv day (if 0 < k then Some k else None)"])
        (simp add: month_cell_def)
  next
    case (Abrupt e k)
    then show ?thesis by (simp add: month_cell_def)
  qed
qed

lemma append_blanks_frame:
  "cal_dom.more (append_blanks k d) = cal_dom.more d" "time_col (append_blanks k d) = time_col d"
  "time_col_css (append_blanks k d) = time_col_css d" "events_col_css (append_blanks k d) = events_col_css d"
  "filter is_time_line (events_col (append_blanks k d)) = filter is_time_line (events_col d)"
  by (simp_all add: append_blanks_eq)

lemma prepare_grid_frame:
  "cal_dom.more (prepare_grid g d) = cal_dom.more d" "time_col (prepare_grid g d) = time_col d"
  "events_col (prepare_grid g d) = []"
  by (simp_all add: prepare_grid_def)

lemma render_week_view_frame:
  "cal_dom.more (final_state (render_week_view tza now evs d)) = cal_dom.more d"
  "time_col (final_state (render_week_view tza now evs d)) = time_col d"
  "time_col_css (final_state (render_week_view tza now evs d)) = time_col_css (prepare_grid ''14px'' d)"
  "events_col_css (final_state (render_week_view tza now evs d)) = events_col_css (prepare_grid ''14px'' d)"
  "filter is_time_line (events_col (final_state (render_week_view tza now evs d))) = []"
  using for_each_appends_plain[where f = "week_column tza evs (week_start tza now)" and xs = "[0..<7]"
      and s = "prepare_grid ''14px'' d", OF week_column_plain]
  by (simp_all add: render_week_view_def prepare_grid_frame)

lemma render_month_view_frame:
  "cal_dom.more (final_state (render_month_view tza now evs d)) = cal_dom.more d"
  "time_col (final_state (render_month_view tza now evs d)) = time_col d"
  "time_col_css (final_state (render_month_view tza now evs d)) = time_col_css (prepare_grid ''12px'' d)"
  "events_col_css (final_state (render_month_view tza now evs d)) = events_col_css (prepare_grid ''12px'' d)"
  "filter is_time_line (events_col (final_state (render_month_view tza now evs d))) = []"
proof -
  let ?P = "\<lambda>t. cal_dom.more t = cal_dom.more d \<and> time_col t = time_col d
     \<and> time_col_css t = time_col_css (prepare_grid ''12px'' d)
     \<and> events_col_css t = events_col_css (prepare_grid ''12px'' d) \<and> filter is_time_line (events_col t) = []"
  have "?P (final_state (for_each (month_cell tza evs yr mo) ds (append_blanks k (prepare_grid ''12px'' d))))"
    for yr mo ds k
    using for_each_appends_plain[where f = "month_cell tza evs yr mo" and xs = ds
      and s = "append_blanks k (prepare_grid ''12px'' d)", OF month_cell_plain]
    by (simp add: append_blanks_frame prepare_grid_frame)
  moreover have "?P (prepare_grid ''12px'' d)" by (simp add: prepare_grid_frame)
  ultimately have "?P (final_state (render_month_view tza now evs d))"
    by (simp add: render_month_view_def Let_def split: option.splits prod.splits)
  then show "cal_dom.more (final_state (render_month_view tza now evs d)) = cal_dom.more d"
    "time_col (final_state (render_month_view tza now evs d)) = time_col d"
    "time_col_css (final_state (render_month_view tza now evs d)) = time_col_css (prepare_grid ''12px'' d)"
    "events_col_css (final_state (render_month_view tza now evs d)) = events_col_css (prepare_grid ''12px'' d)"
    "filter is_time_line (events_col (final_state (render_month_view tza now evs d))) = []"
    by simp_all
qed

section \<open>What switchView does\<close>

lemma and_then_Normal_right [simp]: "and_then c Normal = c"
  by (cases c) simp_all

lemma switch_view_hour:
  "switch_view tza now ''hour'' d = Normal (hour_branch tza now (d\<lparr>time_col := [], events_col := [], events_col_css := Map.empty\<rparr>))"
  by (simp add: switch_view_def Let_def)

lemma switch_view_week:
  "switch_view tza now ''week'' d = render_week_view tza now (calendar_events d)
     (modal_branch (d\<lparr>time_col := [], events_col := [], events_col_css := Map.empty\<rparr>))"
proof -
  have "(\<lambda>d. Normal d) = Normal" by (rule ext) simp
  then show ?thesis by (simp add: switch_view_def Let_def modal_branch_def)
qed

lemma switch_view_month:
  "switch_view tza now ''month'' d = render_month_view tza now (calendar_events d)
     (modal_branch (d\<lparr>time_col := [], events_col := [], events_col_css := Map.empty\<rparr>))"
  by (simp add: switch_view_def Let_def modal_branch_def)

lemma switch_view_other:
  "view \<noteq> ''hour'' \<Longrightarrow> view \<noteq> ''week'' \<Longrightarrow> view \<noteq> ''month'' \<Longrightarrow>
   switch_view tza now view d = Normal (d\<lparr>time_col := [], events_col := [], events_col_css := Map.empty\<rparr>)"
  by (simp add: switch_view_def Let_def)

lemma hour_block_plain [simp]: "\<not> is_time_line (hour_block tza e)" "\<not> node_is i (hour_block tza e)"
  by (simp_all add: hour_block_def event_node_def)

lemma filter_not_node_is_blocks [simp]:
  "filter (\<lambda>n. \<not> node_is i n) (map (hour_block tza) es) = map (hour_block tza) es"
  by (induction es) simp_all

lemma hour_branch_fields:
  assumes "events_col d = []"
  shows "time_col (hour_branch tza now d) = map (\<lambda>i. HourDiv (hour_label i)) [0..<24]"
    and "events_col (hour_branch tza now d) = map (hour_block tza) (filter timed (calendar_events d))
           @ [TimeLineDiv (next_node_id d) (minutes_from_top tza now)]"
    and "time_col_css (hour_branch tza now d) = (time_col_css d)(''display'' \<mapsto> ''block'')"
    and "events_col_css (hour_branch tza now d) = events_col_css d"
    and "current_time_line (hour_branch tza now d) = Some (next_node_id d)"
    and "next_node_id (hour_branch tza now d) = Suc (next_node_id d)"
    and "scroll_top (hour_branch tza now d) = (case minutes_from_top tza now of None \<Rightarrow> 0 | Some m \<Rightarrow> max (m - 200) 0)"
    and "container_parent (hour_branch tza now d) = InlineWrapper"
    and "modal_active (hour_branch tza now d) = False"
    and "container_css (hour_branch tza now d) = (container_css d)(''width'' \<mapsto> ''240px'', ''height'' \<mapsto> ''600px'')"
    and "calendar_events (hour_branch tza now d) = calendar_events d"
    and "current_view (hour_branch tza now d) = current_view d"
    and "view_items (hour_branch tza now d) = view_items d"
    and "reported (hour_branch tza now d) = reported d"
    and "dash.more (hour_branch tza now d) = dash.more d"
    and "profile_src (hour_branch tza now d) = profile_src d"
    and "user_name_text (hour_branch tza now d) = user_name_text d"
    and "user_email_text (hour_branch tza now d) = user_email_text d"
    and "calendar_title (hour_branch tza now d) = calendar_title d"
    and "user_pending (hour_branch tza now d) = user_pending d"
    and "events_pending (hour_branch tza now d) = events_pending d"
  using assms
  by (simp_all add: hour_branch_def Let_def dom_simps show_current_time_line_def scroll_to_current_time_def
      remove_current_time_line_def remove_node_def split: option.split)

lemma report_fields [simp]:
  "time_col (report c) = time_col (final_state c)" "events_col (report c) = events_col (final_state c)"
  "time_col_css (report c) = time_col_css (final_state c)"
  "events_col_css (report c) = events_col_css (final_state c)"
  "current_time_line (report c) = current_time_line (final_state c)"
  "next_node_id (report c) = next_node_id (final_state c)"
  "scroll_top (report c) = scroll_top (final_state c)"
  "calendar_events (report c) = calendar_events (final_state c)"
  "current_view (report c) = current_view (final_state c)"
  "container_parent (report c) = container_parent (final_state c)"
  "container_css (report c) = container_css (final_state c)"
  "modal_active (report c) = modal_active (final_state c)"
  "view_items (report c) = view_items (final_state c)"
  "user_email_text (report c) = user_email_text (final_state c)"
  "user_name_text (report c) = user_name_text (final_state c)"
  "profile_src (report c) = profile_src (final_state c)"
  "user_pending (report c) = user_pending (final_state c)"
  "events_pending (report c) = events_pending (final_state c)"
  by (cases c; simp add: report_def)+

lemma time_line_ok_cong:
  assumes e: "events_col d' = events_col d" and c: "current_time_line d' = current_time_line d"
  shows "time_line_ok d' = time_line_ok d"
  unfolding time_line_ok_def e c by (rule refl)

lemma time_line_ok_no_lines: "filter is_time_line (events_col d) = [] \<Longrightarrow> time_line_ok d"
  by (simp add: time_line_ok_def)

lemma switch_view_time_line_ok: "time_line_ok (final_state (switch_view tza now view d))"
proof -
  consider "view = ''hour''" | "view = ''week''" | "view = ''month''"
    | "view \<noteq> ''hour''" "view \<noteq> ''week''" "view \<noteq> ''month''" by blast
  then show ?thesis
  proof cases
    case 1
    then show ?thesis
      by (simp add: switch_view_hour time_line_ok_def hour_branch_fields filter_empty_conv)
  next
    case 2
    then show ?thesis by (simp add: switch_view_week time_line_ok_no_lines render_week_view_frame(5))
  next
    case 3
    then show ?thesis by (simp add: switch_view_month time_line_ok_no_lines render_month_view_frame(5))
  next
    case 4
    then show ?thesis by (simp add: switch_view_other time_line_ok_def)
  qed
qed

lemma report_time_line_ok [simp]: "time_line_ok (report c) = time_line_ok (final_state c)"
  by (rule time_line_ok_cong) simp_all

lemma switch_view_week_fields:
  "modal_active (final_state (switch_view tza now ''week'' d)) = True"
  "container_parent (final_state (switch_view tza now ''week'' d)) = ModalContent"
  "view_items (final_state (switch_view tza now ''week'' d)) = view_items d"
  "calendar_events (final_state (switch_view tza now ''week'' d)) = calendar_events d"
  "current_view (final_state (switch_view tza now ''week'' d)) = current_view d"
  "current_time_line (final_state (switch_view tza now ''week'' d)) = current_time_line d"
  "next_node_id (final_state (switch_view tza now ''week'' d)) = next_node_id d"
  "user_pending (final_state (switch_view tza now ''week'' d)) = user_pending d"
  "events_pending (final_state (switch_view tza now ''week'' d)) = events_pending d"
  "user_email_text (final_state (switch_view tza now ''week'' d)) = user_email_text d"
  "user_name_text (final_state (switch_view tza now ''week'' d)) = user_name_text d"
  "profile_src (final_state (switch_view tza now ''week'' d)) = profile_src d"
  by (simp_all add: switch_view_week more_frame[OF render_week_view_frame(1)] modal_branch_def)

lemma switch_view_month_fields:
  "modal_active (final_state (switch_view tza now ''month'' d)) = True"
  "container_parent (final_state (switch_view tza now ''month'' d)) = ModalContent"
  "view_items (final_state (switch_view tza now ''month'' d)) = view_items d"
  "calendar_events (final_state (switch_view tza now ''month'' d)) = calendar_events d"
  "current_view (final_state (switch_view tza now ''month'' d)) = current_view d"
  "user_pending (final_state (switch_view tza now ''month'' d)) = user_pending d"
  "events_pending (final_state (switch_view tza now ''month'' d)) = events_pending d"
  "user_email_text (final_state (switch_view tza now ''month'' d)) = user_email_text d"
  "user_name_text (final_state (switch_view tza now ''month'' d)) = user_name_text d"
  "profile_src (final_state (switch_view tza now ''month'' d)) = profile_src d"
  by (simp_all add: switch_view_month more_frame[OF render_month_view_frame(1)] modal_branch_def)

lemma switch_view_hour_fields:
  "modal_active (final_state (switch_view tza now ''hour'' d)) = False"
  "container_parent (final_state (switch_view tza now ''hour'' d)) = InlineWrapper"
  "view_items (final_state (switch_view tza now ''hour'' d)) = view_items d"
  "calendar_events (final_state (switch_view tza now ''hour'' d)) = calendar_events d"
  "current_view (final_state (switch_view tza now ''hour'' d)) = current_view d"
  "user_pending (final_state (switch_view tza now ''hour'' d)) = user_pending d"
  "events_pending (final_state (switch_view tza now ''hour'' d)) = events_pending d"
  "user_email_text (final_state (switch_view tza now ''hour'' d)) = user_email_text d"
  "user_name_text (final_state (switch_view tza now ''hour'' d)) = user_name_text d"
  "profile_src (final_state (switch_view tza now ''hour'' d)) = profile_src d"
  by (simp_all add: switch_view_hour hour_branch_def Let_def)

lemma switch_view_keeps:
  "view_items (final_state (switch_view tza now view d)) = view_items d"
  "current_view (final_state (switch_view tza now view d)) = current_view d"
  "calendar_events (final_state (switch_view tza now view d)) = calendar_events d"
  "user_pending (final_state (switch_view tza now view d)) = user_pending d"
  "events_pending (final_state (switch_view tza now view d)) = events_pending d"
  "user_email_text (final_state (switch_view tza now view d)) = user_email_text d"
  "user_name_text (final_state (switch_view tza now view d)) = user_name_text d"
  "profile_src (final_state (switch_view tza now view d)) = profile_src d"
  by (cases "view = ''hour''"; cases "view = ''week''"; cases "view = ''month''";
      simp add: switch_view_hour_fields switch_view_week_fields switch_view_month_fields switch_view_other)+

lemma switch_view_container_ok:
  assumes "view = ''hour'' \<or> view = ''week'' \<or> view = ''month'' \<or> container_ok d"
  shows "container_ok (final_state (switch_view tza now view d))"
  using assms
  by (cases "view = ''hour''"; cases "view = ''week''"; cases "view = ''month''";
      simp add: container_ok_def switch_view_hour_fields switch_view_week_fields switch_view_month_fields
        switch_view_other)

lemma map_fst_select: "map fst ((map (\<lambda>(t, a). (t, False)) xs)[i := (fst (xs ! i), True)]) = map fst xs"
proof -
  have m: "map fst (map (\<lambda>(t, a). (t, False)) xs) = map fst xs" by (induction xs) auto
  show ?thesis
  proof (cases "i < length xs")
    case True
    then have "(map fst xs)[i := fst (xs ! i)] = map fst xs"
      using list_update_id[of "map fst xs" i] by simp
    then show ?thesis by (simp only: map_update m fst_conv)
  next
    case False
    then have "(map (\<lambda>(t, a). (t, False)) xs)[i := (fst (xs ! i), True)] = map (\<lambda>(t, a). (t, False)) xs"
      by (intro list_update_beyond) simp
    then show ?thesis by (simp only: m)
  qed
qed

lemma hour_item_token: "hour_item xs = Some i \<Longrightarrow> i < length xs \<and> fst (xs ! i) = ''hour''"
  by (auto simp: hour_item_def Let_def split: if_splits dest: nth_length_takeWhile)

lemma takeWhile_tokens:
  "length (takeWhile (\<lambda>(t, a). t \<noteq> ''hour'') xs) = length (takeWhile (\<lambda>t. t \<noteq> ''hour'') (map fst xs))"
  by (induction xs) auto

lemma hour_item_tokens: "map fst xs = map fst ys \<Longrightarrow> hour_item xs = hour_item ys"
  by (simp add: hour_item_def Let_def takeWhile_tokens) (metis length_map)

section \<open>What the handlers keep\<close>

text \<open>The fields no handler but the fetch callbacks writes, and the marker invariant.\<close>

definition keeps :: "'a dash_scheme \<Rightarrow> 'a dash_scheme \<Rightarrow> bool" where
  "keeps d d' = (map fst (view_items d') = map fst (view_items d) \<and> current_view d' = current_view d
     \<and> calendar_events d' = calendar_events d \<and> user_pending d' = user_pending d
     \<and> events_pending d' = events_pending d \<and> user_email_text d' = user_email_text d
     \<and> (time_line_ok d \<longrightarrow> time_line_ok d'))"

lemma time_line_ok_dash_upd [simp]:
  "time_line_ok (d\<lparr>user_pending := a\<rparr>) = time_line_ok d"
  "time_line_ok (d\<lparr>events_pending := b\<rparr>) = time_line_ok d"
  "time_line_ok (d\<lparr>modal_active := c\<rparr>) = time_line_ok d"
  "time_line_ok (d\<lparr>view_items := items\<rparr>) = time_line_ok d"
  "time_line_ok (d\<lparr>calendar_events := evs\<rparr>) = time_line_ok d"
  "time_line_ok (d\<lparr>profile_src := p\<rparr>) = time_line_ok d"
  "time_line_ok (d\<lparr>user_name_text := n\<rparr>) = time_line_ok d"
  "time_line_ok (d\<lparr>user_email_text := m\<rparr>) = time_line_ok d"
  "time_line_ok (d\<lparr>calendar_title := t\<rparr>) = time_line_ok d"
  by (rule time_line_ok_cong; simp)+

lemma keeps_trans: "keeps d1 d2 \<Longrightarrow> keeps d2 d3 \<Longrightarrow> keeps d1 d3"
  by (simp add: keeps_def)

lemma keeps_modal_off: "keeps d (d\<lparr>modal_active := False\<rparr>)"
  by (simp add: keeps_def)

lemma click_item_keeps: "keeps d (click_item tza now i d)"
  by (simp add: keeps_def click_item_def Let_def switch_view_keeps map_fst_select switch_view_time_line_ok)

lemma click_hour_item_keeps: "keeps d (final_state (click_hour_item tza now d))"
  by (cases "hour_item (view_items d)")
    (simp_all add: click_hour_item_def click_item_keeps, simp add: keeps_def)

lemma report_click_hour_item_keeps: "keeps d (report (click_hour_item tza now d))"
  using click_hour_item_keeps[of d tza now]
  by (simp add: keeps_def)

lemma modal_listener1_keeps: "keeps d (modal_listener1 tza now b d)"
  using keeps_trans[OF keeps_modal_off report_click_hour_item_keeps]
  by (cases b) (simp_all add: modal_listener1_def keeps_def)

lemma modal_listener2_keeps: "keeps d (modal_listener2 tza now b d)"
  using report_click_hour_item_keeps by (cases b) (simp_all add: modal_listener2_def keeps_def)

lemma modal_click_keeps: "keeps d (modal_click tza now b d)"
  unfolding modal_click_def by (rule keeps_trans[OF modal_listener1_keeps modal_listener2_keeps])

lemma tick_keeps: "keeps d (tick tza now d)"
  by (simp add: keeps_def tick_def show_current_time_line_ok
      cursor_more_frame[OF show_current_time_line_frame(5)])

text \<open>The page invariant: the cursor invariant, the selector's tokens, \<open>currentView\<close>,
  and events only once a signed-in user's e-mail is shown.\<close>

definition page_inv :: "(js_string \<times> bool) list \<Rightarrow> dash \<Rightarrow> bool" where
  "page_inv items d = (time_line_ok d \<and> map fst (view_items d) = map fst items \<and> current_view d = ''hour''
     \<and> ((events_pending d \<or> calendar_events d \<noteq> []) \<longrightarrow> user_email_text d \<noteq> []))"

lemma page_inv_keeps: "page_inv items d \<Longrightarrow> keeps d d' \<Longrightarrow> page_inv items d'"
  by (simp add: page_inv_def keeps_def)

lemma page_inv_step:
  assumes "page_inv items d" and "ui_step tza now d e d'"
  shows "page_inv items d'"
  using assms(2)
proof cases
  case (user_ok em ph)
  then show ?thesis using assms(1)
    by (auto simp: page_inv_def on_user_def Let_def split: option.splits)
next
  case user_failed
  then show ?thesis using assms(1) by (simp add: page_inv_def)
next
  case (events_ok r)
  then show ?thesis using assms(1)
    by (simp add: page_inv_def on_events_def switch_view_keeps switch_view_time_line_ok)
next
  case events_failed
  then show ?thesis using assms(1) by (auto simp: page_inv_def)
next
  case (item_click i)
  then show ?thesis using assms(1) page_inv_keeps click_item_keeps by blast
next
  case (modal b)
  then show ?thesis using assms(1) page_inv_keeps modal_click_keeps by blast
next
  case timer
  then show ?thesis using assms(1) page_inv_keeps tick_keeps by blast
qed

lemma reachable_page_inv: "reachable tza items d \<Longrightarrow> page_inv items d"
proof (induction rule: reachable.induct)
  case (init tza items)
  then show ?case by (simp add: page_inv_def dash_init_def time_line_ok_def)
next
  case (step tza items d now e d')
  then show ?case using page_inv_step by blast
qed

section \<open>Consistency of the calendar surface\<close>

lemma container_ok_upd [simp]:
  "container_ok (d\<lparr>user_pending := a\<rparr>) = container_ok d"
  "container_ok (d\<lparr>events_pending := b\<rparr>) = container_ok d"
  "container_ok (d\<lparr>view_items := items\<rparr>) = container_ok d"
  "container_ok (d\<lparr>calendar_events := evs\<rparr>) = container_ok d"
  "container_ok (report c) = container_ok (final_state c)"
  by (simp_all add: container_ok_def)

lemma click_item_container_ok:
  "fst (view_items d ! i) \<in> {''hour'', ''week'', ''month''} \<or> container_ok d \<Longrightarrow>
   container_ok (click_item tza now i d)"
  by (auto simp: click_item_def Let_def intro!: switch_view_container_ok)

lemma click_hour_item_container_ok:
  "hour_item (view_items d) \<noteq> None \<Longrightarrow> container_ok (final_state (click_hour_item tza now d))"
  by (auto simp: click_hour_item_def intro!: click_item_container_ok dest: hour_item_token)

lemma modal_click_container_ok:
  assumes "hour_item (view_items d) \<noteq> None" and "container_ok d"
  shows "container_ok (modal_click tza now b d)"
proof -
  let ?d1 = "modal_listener1 tza now b d"
  have h: "hour_item (view_items (d\<lparr>modal_active := False\<rparr>)) \<noteq> None" using assms(1) by simp
  have c1: "container_ok ?d1"
    using click_hour_item_container_ok[OF h] assms(2) by (simp add: modal_listener1_def)
  have "map fst (view_items ?d1) = map fst (view_items d)"
    using modal_listener1_keeps[of d tza now b] by (simp add: keeps_def)
  then have "hour_item (view_items ?d1) \<noteq> None" using assms(1) hour_item_tokens by metis
  then show ?thesis using c1 unfolding modal_click_def modal_listener2_def
    by (cases b) (simp_all add: click_hour_item_container_ok)
qed

lemma container_ok_step:
  assumes "page_inv items d" "hour_item items \<noteq> None" "container_ok d" "ui_step tza now d e d'"
  shows "container_ok d'"
  using assms(4)
proof cases
  case (user_ok em ph)
  then show ?thesis using assms(3) by (simp add: on_user_def Let_def container_ok_def split: option.splits)
next
  case (events_ok r)
  then show ?thesis by (simp add: on_events_def switch_view_container_ok)
next
  case (modal b)
  have "hour_item (view_items d) \<noteq> None"
    using assms(1,2) hour_item_tokens by (metis page_inv_def)
  then show ?thesis using modal modal_click_container_ok assms(3) by blast
next
  case timer
  then show ?thesis using assms(3)
    by (simp add: tick_def container_ok_def cursor_more_frame[OF show_current_time_line_frame(5)])
qed (use assms(3) click_item_container_ok in auto)

lemma reachable_container_ok_aux:
  "reachable tza items d \<Longrightarrow> hour_item items \<noteq> None \<Longrightarrow> container_ok d"
proof (induction rule: reachable.induct)
  case (init tza items)
  then show ?case by (simp add: container_ok_def dash_init_def)
next
  case (step tza items d now e d')
  then show ?case using container_ok_step reachable_page_inv by blast
qed

section \<open>Properties of the page\<close>

lemma sample_runs_reachable:
  "reachable (-18000000) selector_items signed_in_page"
  "reachable (-18000000) selector_items week_page"
  "reachable (-18000000) selector_items loaded_page"
  "reachable (-18000000) selector_items (tick (-18000000) 1762700000000 week_page)"
proof -
  have r0: "reachable (-18000000) selector_items (dash_init selector_items)" by (rule init)
  have r1: "reachable (-18000000) selector_items signed_in_page"
    unfolding signed_in_page_def by (rule step[OF r0 user_ok]) (simp add: dash_init_def)
  have r2: "reachable (-18000000) selector_items week_page"
    unfolding week_page_def
    by (rule step[OF r1 item_click])
      (simp add: signed_in_page_def on_user_def dash_init_def selector_items_def)
  have "events_pending week_page"
    using click_item_keeps[of signed_in_page "-18000000" 1762700000000 1]
    by (simp add: week_page_def keeps_def signed_in_page_def on_user_def dash_init_def)
  then have r3: "reachable (-18000000) selector_items loaded_page"
    unfolding loaded_page_def by (rule step[OF r2 events_ok])
  have r4: "reachable (-18000000) selector_items (tick (-18000000) 1762700000000 week_page)"
    by (rule step[OF r2 timer])
  show "reachable (-18000000) selector_items signed_in_page"
    "reachable (-18000000) selector_items week_page"
    "reachable (-18000000) selector_items loaded_page"
    "reachable (-18000000) selector_items (tick (-18000000) 1762700000000 week_page)"
    using r1 r2 r3 r4 by simp_all
qed

lemma week_page_fields:
  "modal_active week_page" "container_parent week_page = ModalContent"
  "view_items week_page = [(''hour'', False), (''week'', True), (''month'', False)]"
  "next_node_id week_page = 0"
  by (simp_all add: week_page_def click_item_def Let_def switch_view_week_fields signed_in_page_def
      on_user_def dash_init_def selector_items_def)

text \<open>
  C10. In every state the page can reach, the events column holds at most one
  current-time marker, and when it holds one, \<open>currentTimeLine\<close> refers to it: no
  sequence of view switches, fetch responses, backdrop clicks and timer ticks leaves a
  stale marker behind.
\<close>

theorem reachable_time_line_ok:
  assumes "reachable tza items d"
  shows "time_line_ok d"
  using reachable_page_inv[OF assms] by (simp add: page_inv_def)

theorem reachable_time_line_ok_witness:
  "reachable (-18000000) selector_items (tick (-18000000) 1762700000000 week_page)
   \<and> time_line_ok (tick (-18000000) 1762700000000 week_page)"
  using sample_runs_reachable(4) reachable_time_line_ok[OF sample_runs_reachable(4)] by simp

text \<open>
  C11. The 60-second timer draws a marker whatever view is shown: \<open>currentView\<close> is
  never assigned after its initialisation to \<open>'hour'\<close>, so in every reachable state a
  tick leaves exactly one marker, a fresh one at the current minute, in the events
  column, also when that column is the week or month grid inside the modal.
\<close>

theorem tick_draws_marker_in_any_view:
  assumes "reachable tza items d"
  shows "filter is_time_line (events_col (tick tza now d))
           = [TimeLineDiv (next_node_id d) (minutes_from_top tza now)]"
  using reachable_page_inv[OF assms] show_current_time_line_nodes(1)[of d tza now]
  by (simp add: page_inv_def tick_def)

theorem tick_draws_marker_in_any_view_witness:
  "reachable (-18000000) selector_items week_page \<and> modal_active week_page
   \<and> filter is_time_line (events_col (tick (-18000000) 1762700000000 week_page))
       = [TimeLineDiv 0 (Some 593)]"
proof -
  have m: "minutes_from_top (-18000000) 1762700000000 = Some 593"
    by (simp add: minutes_from_top_eq local_time_def ms_per_minute_def)
  show ?thesis
    using sample_runs_reachable(2) week_page_fields(1,4)
      tick_draws_marker_in_any_view[OF sample_runs_reachable(2), of 1762700000000]
    by (simp add: m)
qed

text \<open>
  C12. With an item of the view selector for \<open>hour\<close>, in every reachable state the
  calendar surface is inside the modal exactly when the modal is shown: every path that
  hides the modal also moves the surface back inline.
\<close>

theorem reachable_container_ok:
  assumes "reachable tza items d" and "hour_item items \<noteq> None"
  shows "container_ok d"
  using reachable_container_ok_aux[OF assms] .

theorem reachable_container_ok_witness:
  "reachable (-18000000) selector_items week_page \<and> hour_item selector_items \<noteq> None
   \<and> container_ok week_page"
proof -
  have h: "hour_item selector_items \<noteq> None" by (simp add: hour_item_def selector_items_def)
  show ?thesis using sample_runs_reachable(2) h reachable_container_ok[OF sample_runs_reachable(2) h] by simp
qed

text \<open>
  C13. The view selector and the view shown can diverge: a user who clicks Week before
  the calendar events have arrived sees the Week item highlighted while the events
  response switches the calendar back to the inline hour view without touching the
  selector.
\<close>

theorem reachable_selector_divergence:
  "\<exists>d. reachable (-18000000) selector_items d
     \<and> view_items d = [(''hour'', False), (''week'', True), (''month'', False)]
     \<and> \<not> modal_active d \<and> container_parent d = InlineWrapper
     \<and> time_col d = map (\<lambda>i. HourDiv (hour_label i)) [0..<24]"
proof (intro exI conjI)
  show "reachable (-18000000) selector_items loaded_page" by (rule sample_runs_reachable(3))
  show "view_items loaded_page = [(''hour'', False), (''week'', True), (''month'', False)]"
    "\<not> modal_active loaded_page" "container_parent loaded_page = InlineWrapper"
    by (simp_all add: loaded_page_def on_events_def switch_view_hour_fields week_page_fields)
  show "time_col loaded_page = map (\<lambda>i. HourDiv (hour_label i)) [0..<24]"
    by (simp add: loaded_page_def on_events_def switch_view_hour hour_branch_fields)
qed

text \<open>
  C14. The calendar events are requested, and shown, only after the \<open>/user\<close>
  response carried an e-mail address: in every reachable state with an events request
  in flight or a non-empty calendar, the header shows a non-empty e-mail.
\<close>

theorem events_only_after_sign_in:
  assumes "reachable tza items d" and "events_pending d \<or> calendar_events d \<noteq> []"
  shows "user_email_text d \<noteq> []"
  using reachable_page_inv[OF assms(1)] assms(2) by (simp add: page_inv_def)

theorem events_only_after_sign_in_witness:
  "reachable (-18000000) selector_items signed_in_page
   \<and> (events_pending signed_in_page \<or> calendar_events signed_in_page \<noteq> [])
   \<and> user_email_text signed_in_page \<noteq> []"
proof -
  have h: "events_pending signed_in_page \<or> calendar_events signed_in_page \<noteq> []"
    by (simp add: signed_in_page_def on_user_def)
  show ?thesis using sample_runs_reachable(1) h events_only_after_sign_in[OF sample_runs_reachable(1) h] by simp
qed

text \<open>
  \<open>switchView('hour')\<close> always completes, and leaves the 24 hour labels in the
  time column (\<open>generateHours\<close> runs twice, the second run clears the first), the
  blocks of the events with a \<open>dateTime\<close> start and end followed by one fresh marker
  at the current minute in the events column, no inline style on the events column,
  the time column displayed, the surface inline at 240 by 600 pixels, the modal hidden,
  and the scroll position 200 pixels above the marker.
\<close>

lemma switch_view_hour_layout:
  "\<exists>d'. switch_view tza now ''hour'' d = Normal d'
     \<and> time_col d' = map (\<lambda>i. HourDiv (hour_label i)) [0..<24]
     \<and> events_col d' = map (hour_block tza) (filter timed (calendar_events d))
                        @ [TimeLineDiv (next_node_id d) (minutes_from_top tza now)]
     \<and> current_time_line d' = Some (next_node_id d)
     \<and> events_col_css d' = Map.empty
     \<and> time_col_css d' ''display'' = Some ''block''
     \<and> container_parent d' = InlineWrapper \<and> \<not> modal_active d'
     \<and> container_css d' ''width'' = Some ''240px'' \<and> container_css d' ''height'' = Some ''600px''
     \<and> scroll_top d' = (case minutes_from_top tza now of None \<Rightarrow> 0 | Some m \<Rightarrow> max (m - 200) 0)"
  by (simp add: switch_view_hour hour_branch_fields)

text \<open>
  A view token other than \<open>hour\<close>, \<open>week\<close> and \<open>month\<close> is not a no-op:
  \<open>switchView\<close> has already emptied both columns and removed the events column's
  inline style before its three tests, so the calendar is left blank (and the surface
  where it was).
\<close>

lemma switch_view_unknown_view_blanks:
  assumes "view \<noteq> ''hour''" and "view \<noteq> ''week''" and "view \<noteq> ''month''"
  shows "switch_view tza now view d = Normal (d\<lparr>time_col := [], events_col := [], events_col_css := Map.empty\<rparr>)"
  using switch_view_other[OF assms] .

text \<open>
  C15. \<open>switchView\<close> on its first and last branches. \<open>switchView('hour')\<close> always
  completes, and leaves the 24 hour labels in the time column (\<open>generateHours\<close> runs
  twice, the second run clears the first), the blocks of the events with a
  \<open>dateTime\<close> start and end followed by one fresh marker at the current minute in the
  events column, no inline style on the events column, the time column displayed, the
  surface inline at 240 by 600 pixels, the modal hidden, and the scroll position 200
  pixels above the marker. A view token other than \<open>hour\<close>, \<open>week\<close> and \<open>month\<close> is
  not a no-op: both columns have already been emptied and the events column's inline
  style removed before the three tests, so the calendar is left blank (and the surface
  where it was).
\<close>

theorem switch_view_branches:
  "(\<exists>d'. switch_view tza now ''hour'' d = Normal d'
     \<and> time_col d' = map (\<lambda>i. HourDiv (hour_label i)) [0..<24]
     \<and> events_col d' = map (hour_block tza) (filter timed (calendar_events d))
                        @ [TimeLineDiv (next_node_id d) (minutes_from_top tza now)]
     \<and> current_time_line d' = Some (next_node_id d)
     \<and> events_col_css d' = Map.empty
     \<and> time_col_css d' ''display'' = Some ''block''
     \<and> container_parent d' = InlineWrapper \<and> \<not> modal_active d'
     \<and> container_css d' ''width'' = Some ''240px'' \<and> container_css d' ''height'' = Some ''600px''
     \<and> scroll_top d' = (case minutes_from_top tza now of None \<Rightarrow> 0 | Some m \<Rightarrow> max (m - 200) 0))
   \<and> (view \<noteq> ''hour'' \<and> view \<noteq> ''week'' \<and> view \<noteq> ''month'' \<longrightarrow>
      switch_view tza now view d = Normal (d\<lparr>time_col := [], events_col := [], events_col_css := Map.empty\<rparr>))"
  using switch_view_hour_layout[of tza now d] switch_view_unknown_view_blanks[of view tza now d] by blast

theorem switch_view_branches_witness:
  "''year'' \<noteq> ''hour'' \<and> ''year'' \<noteq> ''week'' \<and> ''year'' \<noteq> ''month''
   \<and> time_col loaded_page \<noteq> []
   \<and> switch_view (-18000000) 1762700000000 ''year'' loaded_page
       = Normal (loaded_page\<lparr>time_col := [], events_col := [], events_col_css := Map.empty\<rparr>)"
proof -
  have h: "''year'' \<noteq> ''hour''" "''year'' \<noteq> ''week''" "''year'' \<noteq> ''month''" by simp_all
  have "time_col loaded_page \<noteq> []"
    by (simp add: loaded_page_def on_events_def switch_view_hour hour_branch_fields)
  then show ?thesis using h switch_view_branches[of "-18000000" 1762700000000 loaded_page "''year''"]
    by simp
qed

lemma switch_view_week_more:
  "cal_dom.more (final_state (switch_view tza now ''week'' d))
   = cal_dom.more (modal_branch (d\<lparr>time_col := [], events_col := [], events_col_css := Map.empty\<rparr>))"
  "time_col_css (final_state (switch_view tza now ''week'' d)) = (time_col_css d)(''display'' \<mapsto> ''none'')"
  by (simp_all add: switch_view_week render_week_view_frame prepare_grid_def modal_branch_def)

text \<open>
  C16. Switching to Hour, then Week, then Hour shows exactly what switching to Hour once
  shows (the property of the specification's section 8), node identities apart: the
  time column, both columns' styles, the events column, the surface's place and size,
  the modal and the scroll position agree, whatever the week view did, thrown or not.
\<close>

theorem switch_view_hour_week_hour:
  "shown (final_state (switch_view tza now ''hour''
            (final_state (switch_view tza now ''week'' (final_state (switch_view tza now ''hour'' d))))))
   = shown (final_state (switch_view tza now ''hour'' d))"
proof -
  let ?h = "final_state (switch_view tza now ''hour'' d)"
  let ?w = "final_state (switch_view tza now ''week'' ?h)"
  note wm = more_frame[OF switch_view_week_more(1)]
  show ?thesis
    by (rule dash.equality)
      (simp_all add: shown_def switch_view_hour hour_branch_fields wm switch_view_week_more(2)
        modal_branch_def fun_upd_twist)
qed

text \<open>
  C17. Without an item for \<open>hour\<close> in the view selector, a click on the modal backdrop
  hides the modal but leaves the calendar surface inside it, and each of the two
  backdrop listeners reports a \<open>TypeError\<close> from \<open>null.click()\<close>.
\<close>

theorem modal_click_without_hour_item:
  assumes "hour_item (view_items d) = None"
  shows "modal_click tza now True d
           = d\<lparr>modal_active := False, reported := reported d @ [null_click_error, null_click_error]\<rparr>"
  using assms
  by (simp add: modal_click_def modal_listener1_def modal_listener2_def click_hour_item_def report_def)

theorem modal_click_without_hour_item_witness:
  "hour_item (view_items (week_page\<lparr>view_items := [(''week'', True), (''month'', False)]\<rparr>)) = None
   \<and> container_parent (modal_click (-18000000) 1762700000000 True
        (week_page\<lparr>view_items := [(''week'', True), (''month'', False)]\<rparr>)) = ModalContent
   \<and> \<not> modal_active (modal_click (-18000000) 1762700000000 True
        (week_page\<lparr>view_items := [(''week'', True), (''month'', False)]\<rparr>))"
proof -
  have h: "hour_item (view_items (week_page\<lparr>view_items := [(''week'', True), (''month'', False)]\<rparr>)) = None"
    by (simp add: hour_item_def)
  show ?thesis
    using h modal_click_without_hour_item[OF h, of "-18000000" 1762700000000] week_page_fields(2) by simp
qed

end
