(* ===== verification/Task_Lists.thy ===== *)
theory Task_Lists
  imports Js_String
begin

text \<open>
  The task widgets of \<open>dashboard.js\<close>: the to-do list loaded from \<open>/todo.json\<close>
  (lines 345-367, \<open>getTodoColor\<close> lines 383-386), the pending-task list rendered from
  the module array \<open>pendingTasksData\<close> (lines 544-591), and the task dialog with its
  save button (\<open>openTaskModal\<close>/\<open>closeTaskModal\<close> lines 391-397, the click handler
  lines 434-483). A checkbox listener is modelled by what it writes: the to-do listener
  only the item's class, the pending-task listener also the task object of the shared
  array, which a later re-rendering reads. The save handler is an \<open>async\<close> function;
  its suspension at \<open>await fetch(...)\<close> splits it into the click step and the steps
  that resume it with the response.
\<close>

section \<open>To-do list\<close>

definition todo_colors :: "js_string list" where
  "todo_colors = [''purple'', ''blue'', ''green'', ''pink'', ''orange'']"

definition get_todo_color :: "nat \<Rightarrow> js_string" where
  "get_todo_color index = todo_colors ! (index mod length todo_colors)"

text \<open>\<open>${v}\<close> of a value that may be \<open>undefined\<close>.\<close>

definition js_interp :: "js_string option \<Rightarrow> js_string" where
  "js_interp v = (case v of None \<Rightarrow> ''undefined'' | Some s \<Rightarrow> s)"

definition nl :: js_string where
  "nl = [CHR 0x0A]"

definition todo_html :: "js_string option \<Rightarrow> js_string" where
  "todo_html title =
     nl @ ''        <label class=\"todo-check\">'' @ nl
     @ ''          <input type=\"checkbox\">'' @ nl
     @ ''          <span class=\"checkmark\"></span>'' @ nl
     @ ''        </label>'' @ nl
     @ ''        <span class=\"todo-title\">'' @ js_interp title @ ''</span>'' @ nl @ ''      ''"

text \<open>A \<open>div.todo-item\<close>: its class attribute, whether the class list also holds
  \<open>completed\<close>, its markup, and the \<open>checked\<close> state of its checkbox.\<close>

record todo_item =
  ti_class :: js_string
  ti_completed :: bool
  ti_html :: js_string
  ti_checked :: bool

definition todo_item_of :: "nat \<Rightarrow> js_string option \<Rightarrow> todo_item" where
  "todo_item_of index title = \<lparr>ti_class = ''todo-item '' @ get_todo_color index, ti_completed = False,
     ti_html = todo_html title, ti_checked = False\<rparr>"

text \<open>\<open>todos.forEach((todo, index) => ...)\<close> appending to \<open>#todoContainer\<close>; the JSON
  array's elements are the optional \<open>title\<close> fields.\<close>

definition render_todos :: "js_string option list \<Rightarrow> todo_item list \<Rightarrow> todo_item list" where
  "render_todos todos c = c @ map (\<lambda>(index, t). todo_item_of index t) (enumerate 0 todos)"

text \<open>A click on the checkbox of item \<open>k\<close> flips \<open>checked\<close>; the \<open>change\<close> listener
  then runs \<open>item.classList.toggle('completed', checkbox.checked)\<close>.\<close>

definition toggle_todo :: "nat \<Rightarrow> todo_item list \<Rightarrow> todo_item list" where
  "toggle_todo k c = (if k < length c then
     (let it = c ! k; ch = \<not> ti_checked it in c[k := it\<lparr>ti_checked := ch, ti_completed := ch\<rparr>]) else c)"

section \<open>Pending tasks\<close>

record pending_task =
  p_id :: int
  p_title :: js_string
  p_completed :: bool

definition pending_tasks_data :: "pending_task list" where
  "pending_tasks_data = [\<lparr>p_id = 1, p_title = ''Fix login bug'', p_completed = False\<rparr>,
     \<lparr>p_id = 2, p_title = ''Prepare weekly report'', p_completed = False\<rparr>,
     \<lparr>p_id = 3, p_title = ''Review PRs'', p_completed = True\<rparr>]"

definition pending_html :: "pending_task \<Rightarrow> js_string" where
  "pending_html task =
     nl @ ''      <label class=\"pending-check\">'' @ nl
     @ ''        <input type=\"checkbox\" '' @ (if p_completed task then ''checked'' else '''') @ ''>'' @ nl
     @ ''        <span class=\"checkmark\"></span>'' @ nl
     @ ''      </label>'' @ nl
     @ ''      <span class=\"pending-title\">'' @ p_title task @ ''</span>'' @ nl @ ''    ''"

text \<open>A \<open>div.pending-item\<close>: the \<open>completed\<close> class, its markup (whose \<open>checked\<close>
  attribute is the initial state only) and the checkbox's current \<open>checked\<close>.\<close>

record pending_item =
  pi_completed :: bool
  pi_html :: js_string
  pi_checked :: bool

definition pending_item_of :: "pending_task \<Rightarrow> pending_item" where
  "pending_item_of task = \<lparr>pi_completed = p_completed task, pi_html = pending_html task,
     pi_checked = p_completed task\<rparr>"

text \<open>\<open>pendingTasksData\<close> and \<open>#pendingTasks\<close>: \<open>None\<close> when the page has no such
  element, \<open>Some None\<close> when it has no \<open>.pending-list\<close> child.\<close>

record pending_state =
  pending_data :: "pending_task list"
  pending_container :: "pending_item list option option"

definition render_pending_tasks :: "pending_state \<Rightarrow> pending_state" where
  "render_pending_tasks s = (case pending_container s of
       None \<Rightarrow> s
     | Some old \<Rightarrow> s\<lparr>pending_container := Some (Some (map pending_item_of (pending_data s)))\<rparr>)"

text \<open>A click on the checkbox of item \<open>k\<close> of the rendered list: the listener sets
  \<open>task.completed\<close> on the shared object and toggles the item's class.\<close>

definition toggle_pending :: "nat \<Rightarrow> pending_state \<Rightarrow> pending_state" where
  "toggle_pending k s = (case pending_container s of
       Some (Some items) \<Rightarrow>
         if k < length items \<and> k < length (pending_data s) then
           (let it = items ! k; ch = \<not> pi_checked it; task = pending_data s ! k in
            s\<lparr>pending_data := (pending_data s)[k := task\<lparr>p_completed := ch\<rparr>],
              pending_container := Some (Some (items[k := it\<lparr>pi_checked := ch, pi_completed := ch\<rparr>]))\<rparr>)
         else s
     | _ \<Rightarrow> s)"

text \<open>What a user sees of an item and of a task: title aside, the class and the box.\<close>

definition pending_view :: "pending_item \<Rightarrow> bool \<times> bool" where
  "pending_view it = (pi_completed it, pi_checked it)"

definition task_view :: "pending_task \<Rightarrow> bool \<times> bool" where
  "task_view t = (p_completed t, p_completed t)"

section \<open>The task dialog\<close>

text \<open>\<open>String.prototype.trim\<close> on the characters a string of this model holds (code
  units up to 255): the white space and line terminators among them, which are the
  ASCII ones and the no-break space U+00A0; the regular-expression class \<open>\s\<close> is the
  same set.\<close>

definition js_space :: "char \<Rightarrow> bool" where
  "js_space c = (c \<in> {CHR 0x09, CHR 0x0A, CHR 0x0B, CHR 0x0C, CHR 0x0D, CHR 0x20, CHR 0xA0})"

definition js_trim :: "js_string \<Rightarrow> js_string" where
  "js_trim s = rev (dropWhile js_space (rev (dropWhile js_space s)))"

text \<open>The JSON body of \<open>POST /api/analyze-task\<close>; \<open>localStorage.getItem\<close> gives
  \<open>null\<close> (\<open>None\<close>) for a key never set.\<close>

record analyze_request =
  req_description :: js_string
  req_email :: "js_string option"
  req_name :: "js_string option"

text \<open>The response as the handler reads it: \<open>response.ok\<close>, and the parsed JSON's
  \<open>type\<close> and \<open>data?.title\<close> (\<open>None\<close> for \<open>undefined\<close>), or \<open>None\<close> when the body
  is not JSON.\<close>

record analyze_reply =
  reply_type :: "js_string option"
  reply_title :: "js_string option"

record task_dialog =
  task_input :: js_string
  btn_text :: js_string
  btn_disabled :: bool
  task_modal_display :: "js_string option"
  alerts :: "js_string list"
  local_storage :: "js_string \<rightharpoonup> js_string"
  in_flight :: "analyze_request option"

definition open_task_modal :: "task_dialog \<Rightarrow> task_dialog" where
  "open_task_modal s = s\<lparr>task_modal_display := Some ''flex''\<rparr>"

definition close_task_modal :: "task_dialog \<Rightarrow> task_dialog" where
  "close_task_modal s = s\<lparr>task_modal_display := Some ''none''\<rparr>"

text \<open>The click handler up to \<open>await fetch(...)\<close> (lines 436-459).\<close>

definition save_click :: "task_dialog \<Rightarrow> task_dialog" where
  "save_click s = (let desc = js_trim (task_input s) in
     if desc = [] then s\<lparr>alerts := alerts s @ [''Please enter a task'']\<rparr>
     else s\<lparr>btn_text := ''Analyzing...'', btn_disabled := True,
            in_flight := Some \<lparr>req_description = desc, req_email = local_storage s ''userEmail'',
                                req_name = local_storage s ''userName''\<rparr>\<rparr>)"

text \<open>The \<open>finally\<close> block (lines 478-481).\<close>

definition save_finally :: "task_dialog \<Rightarrow> task_dialog" where
  "save_finally s = s\<lparr>btn_text := ''Submit'', btn_disabled := False, in_flight := None\<rparr>"

definition task_created_alert :: "analyze_reply \<Rightarrow> js_string" where
  "task_created_alert r = ''Task Created!'' @ nl @ nl @ ''Type: '' @ js_interp (reply_type r)
     @ nl @ ''Title: '' @ js_interp (reply_title r)"

text \<open>The handler resumed with the response (lines 461-481): \<open>ok\<close> is
  \<open>response.ok\<close>, \<open>body\<close> the parsed JSON or \<open>None\<close> when \<open>response.json()\<close>
  rejects. A network failure is \<open>save_failed\<close>.\<close>

definition save_response :: "bool \<Rightarrow> analyze_reply option \<Rightarrow> task_dialog \<Rightarrow> task_dialog" where
  "save_response ok body s = save_finally
     (if ok then (case body of
          Some r \<Rightarrow> close_task_modal (s\<lparr>alerts := alerts s @ [task_created_alert r], task_input := []\<rparr>)
        | None \<Rightarrow> s\<lparr>alerts := alerts s @ [''Failed to analyze task'']\<rparr>)
      else s\<lparr>alerts := alerts s @ [''Failed to analyze task'']\<rparr>)"

definition save_failed :: "task_dialog \<Rightarrow> task_dialog" where
  "save_failed s = save_finally (s\<lparr>alerts := alerts s @ [''Failed to analyze task'']\<rparr>)"

datatype dialog_event = Type js_string | OpenModal | CloseModal | SaveClick
  | Response bool "analyze_reply option" | NetworkError

text \<open>A disabled button fires no \<open>click\<close>; a response resumes only a pending request.\<close>

inductive dialog_step :: "task_dialog \<Rightarrow> dialog_event \<Rightarrow> task_dialog \<Rightarrow> bool" where
  type: "dialog_step s (Type v) (s\<lparr>task_input := v\<rparr>)"
| open_modal: "dialog_step s OpenModal (open_task_modal s)"
| close_modal: "dialog_step s CloseModal (close_task_modal s)"
| click: "\<not> btn_disabled s \<Longrightarrow> dialog_step s SaveClick (save_click s)"
| response: "in_flight s \<noteq> None \<Longrightarrow> dialog_step s (Response ok body) (save_response ok body s)"
| network_error: "in_flight s \<noteq> None \<Longrightarrow> dialog_step s NetworkError (save_failed s)"

text \<open>The button's label before the first click is in the page's markup, which the
  repository does not hold; \<open>Submit\<close> is the label the \<open>finally\<close> block restores.\<close>

definition dialog_init :: task_dialog where
  "dialog_init = \<lparr>task_input = [], btn_text = ''Submit'', btn_disabled = False, task_modal_display = None,
     alerts = [], local_storage = Map.empty, in_flight = None\<rparr>"

inductive dialog_reachable :: "task_dialog \<Rightarrow> bool" where
  init: "dialog_reachable dialog_init"
| step: "dialog_reachable s \<Longrightarrow> dialog_step s e s' \<Longrightarrow> dialog_reachable s'"

text \<open>What the pending list shows, if it is there.\<close>

definition pending_shown :: "pending_state \<Rightarrow> (bool \<times> bool) list option" where
  "pending_shown s = (case pending_container s of Some (Some items) \<Rightarrow> Some (map pending_view items) | _ \<Rightarrow> None)"

definition pending_page :: pending_state where
  "pending_page = render_pending_tasks \<lparr>pending_data = pending_tasks_data, pending_container = Some None\<rparr>"

text \<open>A sample session: typing a task padded with blanks, then clicking save.\<close>

definition typed_dialog :: task_dialog where
  "typed_dialog = dialog_init\<lparr>task_input := ''  Buy milk  ''\<rparr>"

definition pending_synced :: "pending_state \<Rightarrow> bool" where
  "pending_synced s = (case pending_container s of
       Some (Some items) \<Rightarrow> map pending_view items = map task_view (pending_data s)
     | _ \<Rightarrow> True)"

definition dialog_ok :: "task_dialog \<Rightarrow> bool" where
  "dialog_ok s = (local_storage s = Map.empty \<and> (case in_flight s of
       None \<Rightarrow> \<not> btn_disabled s
     | Some r \<Rightarrow> btn_disabled s \<and> btn_text s = ''Analyzing...'' \<and> req_description r \<noteq> []
                 \<and> req_email r = None \<and> req_name r = None))"

section \<open>Lemmas\<close>

lemma toggle_todo_length [simp]: "length (toggle_todo k c) = length c"
  by (simp add: toggle_todo_def Let_def)

lemma toggle_todo_synced:
  "list_all (\<lambda>it. ti_completed it = ti_checked it) c \<Longrightarrow>
   list_all (\<lambda>it. ti_completed it = ti_checked it) (toggle_todo k c)"
  by (auto simp: toggle_todo_def Let_def list_all_length nth_list_update)

lemma fold_toggle_todo_synced:
  "list_all (\<lambda>it. ti_completed it = ti_checked it) c \<Longrightarrow>
   list_all (\<lambda>it. ti_completed it = ti_checked it) (fold toggle_todo ks c)"
  by (induction ks arbitrary: c) (simp_all add: toggle_todo_synced)

lemma render_todos_synced:
  "list_all (\<lambda>it. ti_completed it = ti_checked it) c \<Longrightarrow>
   list_all (\<lambda>it. ti_completed it = ti_checked it) (render_todos todos c)"
  by (auto simp: render_todos_def todo_item_of_def list_all_iff)

text \<open>
  C18. On the to-do list, an item's \<open>completed\<close> class always agrees with its checkbox:
  after the list is rendered from any JSON array, and after any sequence of clicks on
  the checkboxes, each item is marked completed exactly when its box is checked.
\<close>

theorem todo_completed_matches_checkbox:
  "list_all (\<lambda>it. ti_completed it = ti_checked it) (fold toggle_todo ks (render_todos todos []))"
  by (intro fold_toggle_todo_synced render_todos_synced) simp

lemma render_pending_synced: "pending_synced (render_pending_tasks s)"
  by (cases "pending_container s")
    (simp_all add: render_pending_tasks_def pending_synced_def pending_view_def task_view_def pending_item_of_def)

lemma map_update_eq:
  "map f xs = map g ys \<Longrightarrow> f x = g y \<Longrightarrow> map f (xs[k := x]) = map g (ys[k := y])"
  by (simp add: map_update)

lemma toggle_pending_synced: "pending_synced s \<Longrightarrow> pending_synced (toggle_pending k s)"
  by (auto simp: toggle_pending_def pending_synced_def Let_def pending_view_def task_view_def
      intro!: map_update_eq split: option.splits)

lemma fold_toggle_pending_synced: "pending_synced s \<Longrightarrow> pending_synced (fold toggle_pending ks s)"
  by (induction ks arbitrary: s) (simp_all add: toggle_pending_synced)

lemma fold_toggle_pending_container:
  "pending_container s = Some (Some items) \<Longrightarrow> \<exists>items'. pending_container (fold toggle_pending ks s) = Some (Some items')"
proof (induction ks arbitrary: s items)
  case Nil
  then show ?case by simp
next
  case (Cons k ks)
  have "\<exists>items'. pending_container (toggle_pending k s) = Some (Some items')"
    using Cons.prems by (simp add: toggle_pending_def Let_def)
  then show ?case using Cons.IH by auto
qed

lemma rerender_synced:
  "pending_synced s \<Longrightarrow> pending_container s = Some (Some items) \<Longrightarrow>
   pending_shown (render_pending_tasks s) = pending_shown s"
  by (simp add: pending_synced_def pending_shown_def render_pending_tasks_def pending_view_def
      task_view_def pending_item_of_def comp_def)

text \<open>
  C19. Re-rendering the pending-task list shows exactly what the user left: after any
  sequence of checkbox clicks on the rendered list, \<open>renderPendingTasks\<close> rebuilds the
  same completed classes and checkbox states, because each listener has written the
  state into the shared task object.
\<close>

theorem pending_rerender_keeps_state:
  "pending_shown (render_pending_tasks (fold toggle_pending ks pending_page))
   = pending_shown (fold toggle_pending ks pending_page)"
proof -
  have c: "pending_container pending_page = Some (Some (map pending_item_of pending_tasks_data))"
    by (simp add: pending_page_def render_pending_tasks_def)
  obtain items where "pending_container (fold toggle_pending ks pending_page) = Some (Some items)"
    using fold_toggle_pending_container[OF c] by blast
  moreover have "pending_synced (fold toggle_pending ks pending_page)"
    by (rule fold_toggle_pending_synced) (simp add: pending_page_def render_pending_synced)
  ultimately show ?thesis using rerender_synced by blast
qed

lemma dialog_ok_step: "dialog_ok s \<Longrightarrow> dialog_step s e s' \<Longrightarrow> dialog_ok s'"
  by (erule dialog_step.cases)
    (auto simp: dialog_ok_def open_task_modal_def close_task_modal_def save_click_def Let_def
      save_response_def save_finally_def save_failed_def split: option.splits)

lemma dialog_reachable_ok: "dialog_reachable s \<Longrightarrow> dialog_ok s"
proof (induction rule: dialog_reachable.induct)
  case init
  then show ?case by (simp add: dialog_init_def dialog_ok_def)
next
  case (step s e s')
  then show ?case using dialog_ok_step by blast
qed

lemma typed_dialog_reachable:
  "dialog_reachable typed_dialog" "dialog_reachable (save_click typed_dialog)"
proof -
  have r: "dialog_reachable typed_dialog"
    unfolding typed_dialog_def by (rule dialog_reachable.step[OF dialog_reachable.init dialog_step.type])
  show "dialog_reachable typed_dialog" by (rule r)
  show "dialog_reachable (save_click typed_dialog)"
    by (rule dialog_reachable.step[OF r dialog_step.click]) (simp add: typed_dialog_def dialog_init_def)
qed

lemma typed_dialog_request:
  "in_flight (save_click typed_dialog) = Some \<lparr>req_description = ''Buy milk'', req_email = None, req_name = None\<rparr>"
  by (simp add: save_click_def typed_dialog_def dialog_init_def js_trim_def js_space_def)

text \<open>
  C20. The save button is disabled exactly while a request to \<open>/api/analyze-task\<close> is
  in flight, and then reads \<open>Analyzing...\<close>; the request in flight always carries a
  non-empty (trimmed) description. A disabled button fires no click, so at most one
  request is ever in flight and the server's 400 branch is never taken from this page.
\<close>

theorem dialog_one_request:
  assumes "dialog_reachable s"
  shows "(case in_flight s of
            None \<Rightarrow> \<not> btn_disabled s
          | Some r \<Rightarrow> btn_disabled s \<and> btn_text s = ''Analyzing...'' \<and> req_description r \<noteq> [])"
  using dialog_reachable_ok[OF assms] by (simp add: dialog_ok_def split: option.splits)

theorem dialog_one_request_witness:
  "dialog_reachable (save_click typed_dialog)
   \<and> btn_disabled (save_click typed_dialog) \<and> btn_text (save_click typed_dialog) = ''Analyzing...''
   \<and> in_flight (save_click typed_dialog) = Some \<lparr>req_description = ''Buy milk'', req_email = None, req_name = None\<rparr>"
  using typed_dialog_reachable(2) dialog_one_request[OF typed_dialog_reachable(2)] typed_dialog_request
  by simp

end
