(* ===== verification/Server_Api.thy ===== *)
theory Server_Api
  imports Dashboard_Model Task_Lists
begin

text \<open>
  The routes of \<open>src/server.js\<close> the dashboard calls, other than the chat: \<open>GET /user\<close>
  (lines 199-206), \<open>GET /calendar/events\<close> (lines 209-229), \<open>getDbUser\<close> (lines
  234-274), \<open>POST /api/analyze-task\<close> (lines 279-318) and the reminder poll
  \<open>checkReminders\<close> (lines 323-345) over the \<open>Event\<close> collection of
  \<open>src/models/Event.js\<close>. The document store is explicit: lists of users and events
  with the identities Mongo assigns, and the console and webhook output as logs. A
  handler that awaits the store is a sequence of atomic store actions; a thrown error
  is the \<open>Inl\<close> of a sum and keeps the effects made before it.
\<close>

section \<open>The session and the Google routes\<close>

text \<open>\<open>req.user\<close> of an authenticated session: the Google profile's e-mail values, photo
  values, display name and access token.\<close>

record session_user =
  s_emails :: "js_string list"
  s_photos :: "js_string list"
  s_display_name :: "js_string option"
  s_token :: js_string

datatype http_status = Ok200 | BadRequest400 | Unauthorized401 | ServerError500

text \<open>\<open>GET /user\<close>: 401 with \<open>{}\<close>, or the first e-mail and photo. \<open>emails[0].value\<close>
  of an empty list throws, which Express answers with 500.\<close>

definition user_route :: "session_user option \<Rightarrow> http_status \<times> js_string option \<times> js_string option" where
  "user_route sess = (case sess of
       None \<Rightarrow> (Unauthorized401, None, None)
     | Some u \<Rightarrow> (case (s_emails u, s_photos u) of
         (e # _, p # _) \<Rightarrow> (Ok200, Some e, Some p)
       | _ \<Rightarrow> (ServerError500, None, None)))"

text \<open>\<open>GET /calendar/events\<close>: 401 with \<open>[]\<close>; the items of \<open>calendar.events.list\<close>
  (\<open>Some\<close>) or \<open>[]\<close> when the Google call fails (\<open>None\<close>).\<close>

definition events_route :: "session_user option \<Rightarrow> cal_event list option \<Rightarrow> http_status \<times> cal_event list" where
  "events_route sess api = (case sess of
       None \<Rightarrow> (Unauthorized401, [])
     | Some u \<Rightarrow> (Ok200, case api of None \<Rightarrow> [] | Some items \<Rightarrow> items))"

section \<open>The document store\<close>

datatype event_type = CALENDAR_EVENT | REMINDER | TODO | UNKNOWN

record db_user =
  u_id :: nat
  u_username :: js_string
  u_email :: js_string

record db_event =
  e_id :: nat
  e_user :: nat
  e_type :: event_type
  e_title :: "js_string option"
  e_description :: "js_string option"
  e_start :: "int option"
  e_priority :: "js_string option"
  e_reminder_sent :: bool
  e_original_input :: "js_string option"

record store =
  users :: "db_user list"
  events :: "db_event list"
  next_id :: nat
  console :: "js_string list"
  webhook_log :: "js_string list"
  reminders :: "(nat \<times> js_string option \<times> int option) list"

text \<open>\<open>User.findOne({email})\<close> and \<open>User.create({username, email})\<close>.\<close>

definition find_user :: "js_string \<Rightarrow> store \<Rightarrow> db_user option" where
  "find_user em st = find (\<lambda>u. u_email u = em) (users st)"

definition create_user :: "js_string \<Rightarrow> js_string \<Rightarrow> store \<Rightarrow> db_user \<times> store" where
  "create_user name em st = (let u = \<lparr>u_id = next_id st, u_username = name, u_email = em\<rparr> in
     (u, st\<lparr>users := users st @ [u], next_id := Suc (next_id st)\<rparr>))"

text \<open>The find-or-create pattern of the three branches of \<open>getDbUser\<close>.\<close>

definition find_or_create :: "js_string \<Rightarrow> js_string \<Rightarrow> js_string \<Rightarrow> store \<Rightarrow> db_user \<times> store" where
  "find_or_create name em msg st = (case find_user em st of
       Some u \<Rightarrow> (u, st)
     | None \<Rightarrow> (let (u, st') = create_user name em st in (u, st'\<lparr>console := console st' @ [msg @ em]\<rparr>)))"

text \<open>The demo branch (lines 268-273): it always logs that it is used.\<close>

definition demo_user :: "store \<Rightarrow> db_user \<times> store" where
  "demo_user st = (let (u, st') = (case find_user ''demo@example.com'' st of
         Some u \<Rightarrow> (u, st)
       | None \<Rightarrow> create_user ''DemoUser'' ''demo@example.com'' st)
     in (u, st'\<lparr>console := console st' @ [''Using Fallback Demo User'']\<rparr>))"

definition emails_value_error :: js_error where
  "emails_value_error = TypeError ''Cannot read properties of undefined (reading 'value')''"

text \<open>\<open>getDbUser(req, body)\<close>: the body's \<open>userEmail\<close>, else the session's first e-mail,
  else the demo user.\<close>

definition get_db_user :: "session_user option \<Rightarrow> analyze_request \<Rightarrow> store \<Rightarrow> js_error + db_user \<times> store" where
  "get_db_user sess body st =
     (if js_truthy (req_email body) then
        (let em = the (req_email body);
             name = (if js_truthy (req_name body) then the (req_name body) else split_first CHR ''@'' em)
         in Inr (find_or_create name em ''Created New DB User from Frontend Details: '' st))
      else case sess of
        Some u \<Rightarrow> (case s_emails u of
            [] \<Rightarrow> Inl emails_value_error
          | em # _ \<Rightarrow> if em \<noteq> [] then
              (let name = (if js_truthy (s_display_name u) then the (s_display_name u) else split_first CHR ''@'' em)
               in Inr (find_or_create name em ''Created New DB User from Google Auth Session: '' st))
            else Inr (demo_user st))
      | None \<Rightarrow> Inr (demo_user st))"

section \<open>POST /api/analyze-task\<close>

datatype analyze_response = TaskSaved js_string nat | ErrorBody js_string

primrec error_message :: "js_error \<Rightarrow> js_string" where
  "error_message (TypeError m) = m"
| "error_message (ReferenceError m) = m"

definition todo_event :: "nat \<Rightarrow> nat \<Rightarrow> js_string \<Rightarrow> db_event" where
  "todo_event i uid desc = \<lparr>e_id = i, e_user = uid, e_type = TODO, e_title = Some desc,
     e_description = Some ''Forwarded to Webhook'', e_start = None, e_priority = Some ''MEDIUM'',
     e_reminder_sent = False, e_original_input = Some desc\<rparr>"

text \<open>\<open>sendToWebhook(text)\<close> of \<open>src/send.js\<close> up to its first \<open>await\<close> (lines 4-16),
  which runs within the caller's step: the log line, and the \<open>POST\<close> to the n8n
  webhook with the body \<open>{message: text}\<close>, recorded in the webhook log.\<close>

definition webhook_send_start :: "js_string \<Rightarrow> store \<Rightarrow> store" where
  "webhook_send_start text st = st\<lparr>console := console st @ [''[Webhook] Sending: '' @ [CHR 0x22] @ text @ [CHR 0x22] @ '' to n8n...''],
     webhook_log := webhook_log st @ [text]\<rparr>"

text \<open>The rest of \<open>sendToWebhook\<close> (lines 18-25), later, when the webhook answers: the
  response text logged and returned, or (a rejected \<open>fetch\<close> or \<open>text()\<close>, \<open>None\<close>) the
  error logged and \<open>null\<close> returned. Its caller does not await the promise.\<close>

definition webhook_finish :: "js_string option \<Rightarrow> store \<Rightarrow> js_string option \<times> store" where
  "webhook_finish answer st = (case answer of
       Some data \<Rightarrow> (Some data, st\<lparr>console := console st @ [''[Webhook] Response: '' @ data]\<rparr>)
     | None \<Rightarrow> (None, st\<lparr>console := console st @ [''[Webhook] Error:'']\<rparr>))"

text \<open>Lines 285-287 of the route: the log line and the call \<open>sendToWebhook(taskDescription)\<close>.\<close>

definition trigger_webhook :: "js_string \<Rightarrow> store \<Rightarrow> store" where
  "trigger_webhook desc st = webhook_send_start desc (st\<lparr>console := console st @ [''Triggering Webhook for: '' @ desc]\<rparr>)"

text \<open>The route: the 400 guard, the webhook (not awaited: its request starts before the
  user is resolved), \<open>getDbUser\<close>, \<open>Event.create\<close>, the reply; a throw answers 500.\<close>

definition analyze_task :: "session_user option \<Rightarrow> analyze_request \<Rightarrow> store \<Rightarrow> (http_status \<times> analyze_response) \<times> store" where
  "analyze_task sess body st =
     (let desc = req_description body in
      if desc = [] then ((BadRequest400, ErrorBody ''Task description is required''), st)
      else
        (let st1 = trigger_webhook desc st
         in case get_db_user sess body st1 of
              Inl err \<Rightarrow> ((ServerError500, ErrorBody (error_message err)),
                          st1\<lparr>console := console st1 @ [''Task Processing Error: '' @ error_message err]\<rparr>)
            | Inr (u, st2) \<Rightarrow>
                (let i = next_id st2 in
                 ((Ok200, TaskSaved desc i),
                  st2\<lparr>events := events st2 @ [todo_event i (u_id u) desc], next_id := Suc i,
                      console := console st2 @ [''Event Saved to DB (TODO): '' @ nat_str i]\<rparr>))))"

text \<open>What the dashboard's handler reads of the answer: \<open>response.ok\<close> and the body.\<close>

primrec client_reply :: "http_status \<times> analyze_response \<Rightarrow> bool \<times> analyze_reply option" where
  "client_reply (st, r) = (st = Ok200, case r of
       TaskSaved t i \<Rightarrow> Some \<lparr>reply_type = Some ''TODO'', reply_title = Some t\<rparr>
     | ErrorBody m \<Rightarrow> Some \<lparr>reply_type = None, reply_title = None\<rparr>)"

section \<open>The reminder poll\<close>

text \<open>The query of \<open>checkReminders\<close>: a calendar event or reminder, not yet reminded,
  starting in \<open>[now, now + 5 min]\<close> (a \<open>null\<close> start matches no range).\<close>

definition due :: "int \<Rightarrow> db_event \<Rightarrow> bool" where
  "due now e = ((e_type e = CALENDAR_EVENT \<or> e_type e = REMINDER) \<and> \<not> e_reminder_sent e
     \<and> (case e_start e of None \<Rightarrow> False | Some t \<Rightarrow> now \<le> t \<and> t \<le> now + 5 * 60000))"

definition mark_sent :: "nat \<Rightarrow> store \<Rightarrow> store" where
  "mark_sent i st = st\<lparr>events := map (\<lambda>e. if e_id e = i then e\<lparr>e_reminder_sent := True\<rparr> else e) (events st)\<rparr>"

text \<open>One iteration of the \<open>for\<close> loop on a document of the query's snapshot: the
  alert line (which prints the snapshot's title and start; \<open>reminders\<close> records it with
  the event it is about) and \<open>event.save()\<close> of \<open>reminderSent = true\<close>.\<close>

definition remind_one :: "db_event \<Rightarrow> store \<Rightarrow> store" where
  "remind_one e st = mark_sent (e_id e) (st\<lparr>reminders := reminders st @ [(e_id e, e_title e, e_start e)]\<rparr>)"

text \<open>A poll run to its end before the next one starts (a store error, caught and
  logged, is not modelled).\<close>

definition check_reminders :: "int \<Rightarrow> store \<Rightarrow> store" where
  "check_reminders now st = fold remind_one (filter (due now) (events st)) st"

text \<open>\<open>setInterval(checkReminders, 10000)\<close> does not wait for a poll to end: each
  \<open>await\<close> is a point where another poll may run. A poll is a process that first
  queries, then alerts and saves its snapshot's documents one by one.\<close>

datatype poll = Querying int | Alerting "db_event list" | Finished

fun poll_step :: "poll \<Rightarrow> store \<Rightarrow> (poll \<times> store) option" where
  "poll_step (Querying now) st = Some (Alerting (filter (due now) (events st)), st)"
| "poll_step (Alerting (e # es)) st = Some (Alerting es, remind_one e st)"
| "poll_step (Alerting []) st = Some (Finished, st)"
| "poll_step Finished st = None"

inductive polls_step :: "poll list \<times> store \<Rightarrow> poll list \<times> store \<Rightarrow> bool" where
  "i < length ps \<Longrightarrow> poll_step (ps ! i) st = Some (p', st') \<Longrightarrow> polls_step (ps, st) (ps[i := p'], st')"

text \<open>The invariant of the store under the poll: event identities are unique, each
  event is alerted at most once, and an alerted event is marked sent.\<close>

definition rem_inv :: "store \<Rightarrow> bool" where
  "rem_inv st = (distinct (map e_id (events st)) \<and> distinct (map fst (reminders st))
     \<and> list_all (\<lambda>e. e_id e \<in> fst ` set (reminders st) \<longrightarrow> e_reminder_sent e) (events st))"

text \<open>The poll times of \<open>setInterval(checkReminders, 10000)\<close> from \<open>t0\<close>.\<close>

definition poll_times :: "int \<Rightarrow> nat \<Rightarrow> int list" where
  "poll_times t0 n = map (\<lambda>k. t0 + 10000 * int k) [0..<n]"

text \<open>Running the polls by a schedule: the index of the poll that takes the next step.\<close>

fun run_schedule :: "nat list \<Rightarrow> poll list \<times> store \<Rightarrow> (poll list \<times> store) option" where
  "run_schedule [] c = Some c"
| "run_schedule (i # is) (ps, st) = (if i < length ps then
     (case poll_step (ps ! i) st of None \<Rightarrow> None | Some (p', st') \<Rightarrow> run_schedule is (ps[i := p'], st'))
     else None)"

text \<open>A store with one reminder, at one minute past the epoch.\<close>

definition dentist :: db_event where
  "dentist = \<lparr>e_id = 0, e_user = 0, e_type = REMINDER, e_title = Some ''Dentist'', e_description = None,
     e_start = Some 60000, e_priority = None, e_reminder_sent = False, e_original_input = None\<rparr>"

definition dentist_store :: store where
  "dentist_store = \<lparr>users = [], events = [dentist], next_id = 1, console = [], webhook_log = [], reminders = []\<rparr>"

text \<open>When \<open>getDbUser\<close> returns a user: an e-mail in the body, no session, or a
  session whose profile has an e-mail entry (an empty one falls back to the demo user).\<close>

definition user_resolvable :: "session_user option \<Rightarrow> analyze_request \<Rightarrow> bool" where
  "user_resolvable sess body = (js_truthy (req_email body)
     \<or> (case sess of None \<Rightarrow> True | Some u \<Rightarrow> s_emails u \<noteq> []))"

text \<open>Sample requests: the dashboard's request for a signed-out page, and a session whose
  Google profile lists no e-mail.\<close>

definition bob_request :: analyze_request where
  "bob_request = \<lparr>req_description = ''Buy milk'', req_email = Some ''bob@x.org'', req_name = None\<rparr>"

definition no_email_session :: session_user where
  "no_email_session = \<lparr>s_emails = [], s_photos = [], s_display_name = Some ''Bob'', s_token = ''t''\<rparr>"

text \<open>The state-changing operations of the server on the store: a request to
  \<open>POST /api/analyze-task\<close>, a run of the reminder poll, and the webhook's answer to
  an earlier request resuming \<open>sendToWebhook\<close>.\<close>

datatype server_op = AnalyzeTask "session_user option" analyze_request | CheckReminders int
  | WebhookAnswer "js_string option"

fun server_apply :: "server_op \<Rightarrow> store \<Rightarrow> store" where
  "server_apply (AnalyzeTask sess body) st = snd (analyze_task sess body st)"
| "server_apply (CheckReminders now) st = check_reminders now st"
| "server_apply (WebhookAnswer a) st = snd (webhook_finish a st)"

text \<open>The store conforms to the schemas: the identities Mongo assigned are distinct
  and below the next fresh one, and the \<open>user\<close> of every event (\<open>required\<close>, a
  reference to \<open>User\<close>) is a stored user.\<close>

definition store_wf :: "store \<Rightarrow> bool" where
  "store_wf st = (distinct (map u_id (users st) @ map e_id (events st))
     \<and> list_all (\<lambda>i. i < next_id st) (map u_id (users st) @ map e_id (events st))
     \<and> list_all (\<lambda>i. i \<in> u_id ` set (users st)) (map e_user (events st))
     \<and> list_all (\<lambda>p. p \<in> {None, Some ''HIGH'', Some ''MEDIUM'', Some ''LOW''}) (map e_priority (events st)))"

definition empty_store :: store where
  "empty_store = \<lparr>users = [], events = [], next_id = 0, console = [], webhook_log = [], reminders = []\<rparr>"

section \<open>Concurrent requests to the analyze-task route\<close>

text \<open>Express runs the handlers of concurrent requests interleaved at their \<open>await\<close>s.
  \<open>getDbUser\<close> first decides synchronously which user it looks for (the body's e-mail,
  the session's, or the demo user's; reading \<open>req.user.emails[0].value\<close> may throw),
  then awaits \<open>User.findOne\<close>, then, when none was found, awaits \<open>User.create\<close>.\<close>

datatype user_key = FrontendKey js_string js_string | SessionKey js_string js_string | DemoKey

primrec key_email :: "user_key \<Rightarrow> js_string" where
  "key_email (FrontendKey name em) = em"
| "key_email (SessionKey name em) = em"
| "key_email DemoKey = ''demo@example.com''"

text \<open>The synchronous part of \<open>getDbUser\<close> (lines 238-257 and 268): the branch and
  the user's name and e-mail, or the \<open>TypeError\<close> it throws.\<close>

definition user_key :: "session_user option \<Rightarrow> analyze_request \<Rightarrow> js_error + user_key" where
  "user_key sess body =
     (if js_truthy (req_email body) then
        (let em = the (req_email body)
         in Inr (FrontendKey (if js_truthy (req_name body) then the (req_name body) else split_first CHR ''@'' em) em))
      else case sess of
        Some u \<Rightarrow> (case s_emails u of
            [] \<Rightarrow> Inl emails_value_error
          | em # _ \<Rightarrow> if em \<noteq> [] then
              Inr (SessionKey (if js_truthy (s_display_name u) then the (s_display_name u) else split_first CHR ''@'' em) em)
            else Inr DemoKey)
      | None \<Rightarrow> Inr DemoKey)"

text \<open>The rest of \<open>getDbUser\<close> once \<open>User.findOne\<close> has answered \<open>found\<close>: the user
  found, or the one \<open>User.create\<close> stores, with the branch's log lines.\<close>

definition resolve_user :: "user_key \<Rightarrow> db_user option \<Rightarrow> store \<Rightarrow> db_user \<times> store" where
  "resolve_user k found st = (case k of
       FrontendKey name em \<Rightarrow> (case found of Some u \<Rightarrow> (u, st)
         | None \<Rightarrow> (let (u, st') = create_user name em st
                   in (u, st'\<lparr>console := console st' @ [''Created New DB User from Frontend Details: '' @ em]\<rparr>)))
     | SessionKey name em \<Rightarrow> (case found of Some u \<Rightarrow> (u, st)
         | None \<Rightarrow> (let (u, st') = create_user name em st
                   in (u, st'\<lparr>console := console st' @ [''Created New DB User from Google Auth Session: '' @ em]\<rparr>)))
     | DemoKey \<Rightarrow> (let (u, st') = (case found of Some u \<Rightarrow> (u, st) | None \<Rightarrow> create_user ''DemoUser'' ''demo@example.com'' st)
                 in (u, st'\<lparr>console := console st' @ [''Using Fallback Demo User'']\<rparr>)))"

text \<open>\<open>Event.create\<close> of the TODO and the route's log line (lines 293-307).\<close>

definition save_todo :: "js_string \<Rightarrow> db_user \<Rightarrow> store \<Rightarrow> (http_status \<times> analyze_response) \<times> store" where
  "save_todo desc u st = (let i = next_id st in
     ((Ok200, TaskSaved desc i),
      st\<lparr>events := events st @ [todo_event i (u_id u) desc], next_id := Suc i,
         console := console st @ [''Event Saved to DB (TODO): '' @ nat_str i]\<rparr>))"

text \<open>A request's handler as a process: its start (up to \<open>User.findOne\<close>), the answer
  of \<open>User.findOne\<close>, the answer of \<open>User.create\<close>, the answer of \<open>Event.create\<close>, and
  its reply. Each step runs the code between two \<open>await\<close>s with the database operation
  that resumes it; the store operations are atomic.\<close>

datatype task_proc = TaskStart "session_user option" analyze_request | TaskFind js_string user_key
  | TaskCreate js_string user_key | TaskSave js_string db_user | TaskDone "http_status \<times> analyze_response"

fun task_step :: "task_proc \<Rightarrow> store \<Rightarrow> (task_proc \<times> store) option" where
  "task_step (TaskStart sess body) st = (let desc = req_description body in
     if desc = [] then Some (TaskDone (BadRequest400, ErrorBody ''Task description is required''), st)
     else (let st1 = trigger_webhook desc st in case user_key sess body of
         Inl err \<Rightarrow> Some (TaskDone (ServerError500, ErrorBody (error_message err)),
                          st1\<lparr>console := console st1 @ [''Task Processing Error: '' @ error_message err]\<rparr>)
       | Inr k \<Rightarrow> Some (TaskFind desc k, st1)))"
| "task_step (TaskFind desc k) st = (case find_user (key_email k) st of
       Some u \<Rightarrow> (let (u', st') = resolve_user k (Some u) st in Some (TaskSave desc u', st'))
     | None \<Rightarrow> Some (TaskCreate desc k, st))"
| "task_step (TaskCreate desc k) st = (let (u, st') = resolve_user k None st in Some (TaskSave desc u, st'))"
| "task_step (TaskSave desc u) st = (let (r, st') = save_todo desc u st in Some (TaskDone r, st'))"
| "task_step (TaskDone r) st = None"

inductive tasks_step :: "task_proc list \<times> store \<Rightarrow> task_proc list \<times> store \<Rightarrow> bool" where
  "i < length ps \<Longrightarrow> task_step (ps ! i) st = Some (p', st') \<Longrightarrow> tasks_step (ps, st) (ps[i := p'], st')"

text \<open>Running the requests by a schedule: the index of the request that takes the next step.\<close>

fun run_tasks :: "nat list \<Rightarrow> task_proc list \<times> store \<Rightarrow> (task_proc list \<times> store) option" where
  "run_tasks [] c = Some c"
| "run_tasks (i # is) (ps, st) = (if i < length ps then
     (case task_step (ps ! i) st of None \<Rightarrow> None | Some (p', st') \<Rightarrow> run_tasks is (ps[i := p'], st'))
     else None)"

section \<open>Lemmas on the reminder poll\<close>

lemma fold_remind_one:
  "fold remind_one es st = st\<lparr>events := map (\<lambda>e. if e_id e \<in> e_id ` set es then e\<lparr>e_reminder_sent := True\<rparr> else e) (events st),
     reminders := reminders st @ map (\<lambda>e. (e_id e, e_title e, e_start e)) es\<rparr>"
proof (induction es arbitrary: st)
  case Nil
  then show ?case by simp
next
  case (Cons e es)
  have m: "map (\<lambda>x. if e_id x \<in> e_id ` set es then x\<lparr>e_reminder_sent := True\<rparr> else x)
             (map (\<lambda>x. if e_id x = e_id e then x\<lparr>e_reminder_sent := True\<rparr> else x) (events st))
         = map (\<lambda>x. if e_id x \<in> e_id ` set (e # es) then x\<lparr>e_reminder_sent := True\<rparr> else x) (events st)"
    by (auto intro!: map_cong)
  have "fold remind_one (e # es) st = fold remind_one es (remind_one e st)" by simp
  also have "\<dots> = (remind_one e st)\<lparr>events := map (\<lambda>x. if e_id x \<in> e_id ` set es then x\<lparr>e_reminder_sent := True\<rparr> else x)
        (events (remind_one e st)), reminders := reminders (remind_one e st) @ map (\<lambda>e. (e_id e, e_title e, e_start e)) es\<rparr>"
    by (rule Cons.IH)
  also have "\<dots> = st\<lparr>events := map (\<lambda>x. if e_id x \<in> e_id ` set (e # es) then x\<lparr>e_reminder_sent := True\<rparr> else x) (events st),
        reminders := reminders st @ map (\<lambda>e. (e_id e, e_title e, e_start e)) (e # es)\<rparr>"
    using m by (simp add: remind_one_def mark_sent_def)
  finally show ?case .
qed

lemma distinct_id_eq:
  "distinct (map e_id xs) \<Longrightarrow> x \<in> set xs \<Longrightarrow> y \<in> set xs \<Longrightarrow> e_id x = e_id y \<Longrightarrow> x = y"
  by (metis distinct_map inj_on_eq_iff)

lemma check_reminders_eq:
  assumes "distinct (map e_id (events st))"
  shows "check_reminders now st = st\<lparr>events := map (\<lambda>e. if due now e then e\<lparr>e_reminder_sent := True\<rparr> else e) (events st),
           reminders := reminders st @ map (\<lambda>e. (e_id e, e_title e, e_start e)) (filter (due now) (events st))\<rparr>"
proof -
  have "(e_id e \<in> e_id ` set (filter (due now) (events st))) = due now e" if "e \<in> set (events st)" for e
    using that distinct_id_eq[OF assms] by auto
  then have "map (\<lambda>e. if e_id e \<in> e_id ` set (filter (due now) (events st)) then e\<lparr>e_reminder_sent := True\<rparr> else e) (events st)
           = map (\<lambda>e. if due now e then e\<lparr>e_reminder_sent := True\<rparr> else e) (events st)"
    by (intro map_cong) simp_all
  then show ?thesis by (simp add: check_reminders_def fold_remind_one)
qed

lemma check_reminders_reminders:
  "reminders (check_reminders now st) = reminders st @ map (\<lambda>e. (e_id e, e_title e, e_start e)) (filter (due now) (events st))"
  by (simp add: check_reminders_def fold_remind_one)

lemma check_reminders_ids: "map e_id (events (check_reminders now st)) = map e_id (events st)"
  by (simp add: check_reminders_def fold_remind_one comp_def)

lemma check_reminders_inv:
  assumes "rem_inv st"
  shows "rem_inv (check_reminders now st)"
proof -
  have d: "distinct (map e_id (events st))" and r: "distinct (map fst (reminders st))"
    and s: "list_all (\<lambda>e. e_id e \<in> fst ` set (reminders st) \<longrightarrow> e_reminder_sent e) (events st)"
    using assms by (simp_all add: rem_inv_def)
  have fresh: "e_id e \<notin> fst ` set (reminders st)" if "e \<in> set (events st)" "due now e" for e
    using s that by (auto simp: list_all_iff due_def)
  have df: "distinct (map e_id (filter (due now) (events st)))" using d by (simp add: distinct_map_filter)
  have disj: "fst ` set (reminders st) \<inter> e_id ` set (filter (due now) (events st)) = {}"
  proof (rule equals0I)
    fix x
    assume x: "x \<in> fst ` set (reminders st) \<inter> e_id ` set (filter (due now) (events st))"
    then obtain e where e: "e \<in> set (events st)" "due now e" "x = e_id e" by auto
    have "x \<in> fst ` set (reminders st)" using x by (rule IntD1)
    then show False using fresh[OF e(1,2)] e(3) by simp
  qed
  have r': "distinct (map fst (reminders (check_reminders now st)))"
    using r df disj by (simp add: check_reminders_reminders comp_def)
  have s': "list_all (\<lambda>e. e_id e \<in> fst ` set (reminders (check_reminders now st)) \<longrightarrow> e_reminder_sent e)
              (events (check_reminders now st))"
    using s distinct_id_eq[OF d]
    by (auto simp: check_reminders_eq[OF d] list_all_iff check_reminders_reminders) metis
  show ?thesis using r' s' d by (simp add: rem_inv_def check_reminders_ids)
qed

lemma fold_check_reminders_inv: "rem_inv st \<Longrightarrow> rem_inv (fold check_reminders ts st)"
  by (induction ts arbitrary: st) (simp_all add: check_reminders_inv)

text \<open>
  Polls that do not overlap alert each event at most once: from a store satisfying
  the poll invariant, after any sequence of \<open>checkReminders\<close> runs, no event appears twice
  among the alerts.
\<close>

lemma reminders_at_most_once:
  assumes "rem_inv st"
  shows "distinct (map fst (reminders (fold check_reminders ts st)))"
  using fold_check_reminders_inv[OF assms] by (simp add: rem_inv_def)

lemma run_schedule_steps: "run_schedule is c = Some c' \<Longrightarrow> polls_step\<^sup>*\<^sup>* c c'"
proof (induction "is" c rule: run_schedule.induct)
  case (1 c)
  then show ?case by simp
next
  case (2 i "is" ps st)
  then obtain p' st' where i: "i < length ps" and p: "poll_step (ps ! i) st = Some (p', st')"
    and r: "run_schedule is (ps[i := p'], st') = Some c'"
    by (auto split: if_splits option.splits)
  have "polls_step (ps, st) (ps[i := p'], st')" using i p by (rule polls_step.intros)
  moreover have "polls_step\<^sup>*\<^sup>* (ps[i := p'], st') c'" using 2 i p r by simp
  ultimately show ?case by (rule converse_rtranclp_into_rtranclp)
qed

text \<open>
  C22. Polls that overlap alert an event twice: \<open>setInterval\<close> starts a poll every 10
  seconds whether or not the previous one has finished, and a poll saves
  \<open>reminderSent\<close> only after its query. With a reminder due in a minute, a poll at 0 s
  whose saves are slower than 10 s and the poll at 10 s both alert it, while the same
  two polls run one after the other alert it once.
\<close>

theorem overlapping_polls_duplicate:
  "\<exists>st'. polls_step\<^sup>*\<^sup>* ([Querying 0, Querying 10000], dentist_store) ([Finished, Finished], st')
     \<and> map fst (reminders st') = [0, 0]
     \<and> map fst (reminders (check_reminders 10000 (check_reminders 0 dentist_store))) = [0]"
proof -
  let ?st' = "remind_one dentist (remind_one dentist dentist_store)"
  have "run_schedule [0, 1, 0, 1, 0, 1] ([Querying 0, Querying 10000], dentist_store)
          = Some ([Finished, Finished], ?st')"
    by (simp add: dentist_store_def dentist_def due_def)
  then have r: "polls_step\<^sup>*\<^sup>* ([Querying 0, Querying 10000], dentist_store) ([Finished, Finished], ?st')"
    by (rule run_schedule_steps)
  have d: "map fst (reminders ?st') = [0, 0]"
    by (simp add: remind_one_def mark_sent_def dentist_def dentist_store_def)
  have s: "map fst (reminders (check_reminders 10000 (check_reminders 0 dentist_store))) = [0]"
    by (simp add: check_reminders_reminders check_reminders_eq dentist_store_def dentist_def due_def)
  show ?thesis by (rule exI[of _ ?st']) (intro conjI r d s)
qed

lemma reminded_stays:
  "i \<in> fst ` set (reminders st) \<Longrightarrow> i \<in> fst ` set (reminders (fold check_reminders ts st))"
proof (induction ts arbitrary: st)
  case (Cons a ts)
  have "i \<in> fst ` set (reminders (check_reminders a st))"
    using Cons.prems by (auto simp: check_reminders_reminders)
  then show ?case using Cons.IH by simp
qed simp

lemma waiting_or_reminded:
  assumes "rem_inv st" and "e \<in> set (events st) \<or> e_id e \<in> fst ` set (reminders st)"
  shows "e \<in> set (events (check_reminders now st)) \<or> e_id e \<in> fst ` set (reminders (check_reminders now st))"
proof -
  have d: "distinct (map e_id (events st))" using assms(1) by (simp add: rem_inv_def)
  show ?thesis
  proof (cases "e \<in> set (events st) \<and> due now e")
    case True
    then have "(e_id e, e_title e, e_start e) \<in> set (reminders (check_reminders now st))"
      by (simp add: check_reminders_reminders)
    then show ?thesis by force
  next
    case False
    then show ?thesis using assms(2)
      by (auto simp: check_reminders_eq[OF d] check_reminders_reminders image_iff)
  qed
qed

lemma fold_waiting_or_reminded:
  "rem_inv st \<Longrightarrow> e \<in> set (events st) \<or> e_id e \<in> fst ` set (reminders st) \<Longrightarrow>
   e \<in> set (events (fold check_reminders ts st)) \<or> e_id e \<in> fst ` set (reminders (fold check_reminders ts st))"
  by (induction ts arbitrary: st) (simp_all add: waiting_or_reminded check_reminders_inv)

lemma due_in_window:
  assumes "e \<in> set (events st)" "e_type e = REMINDER \<or> e_type e = CALENDAR_EVENT" "\<not> e_reminder_sent e"
    "e_start e = Some t" "p \<le> t" "t \<le> p + 300000"
  shows "e_id e \<in> fst ` set (reminders (check_reminders p st))"
proof -
  have "due p e" using assms by (auto simp: due_def)
  then have "(e_id e, e_title e, e_start e) \<in> set (reminders (check_reminders p st))"
    using assms(1) by (simp add: check_reminders_reminders)
  then show ?thesis by force
qed

lemma poll_times_split:
  "k < n \<Longrightarrow> poll_times t0 n = poll_times t0 k @ [t0 + 10000 * int k] @ map (\<lambda>k. t0 + 10000 * int k) [Suc k..<n]"
proof -
  assume "k < n"
  then have "[0..<n] = [0..<k] @ [k] @ [Suc k..<n]"
    by (metis append_Cons append_Nil le_add_diff_inverse less_imp_le upt_add_eq_append upt_conv_Cons zero_le)
  then show ?thesis by (simp add: poll_times_def)
qed

text \<open>
  Every reminder is delivered: for polls every 10 seconds from \<open>t0\<close>, a calendar
  event or reminder not yet sent whose start lies in \<open>[t0, t0 + 10 s * n)\<close> has been
  alerted once the \<open>n\<close> polls have run (the poll just before its start sees it within
  its five-minute window), unless an earlier poll had already alerted it.
\<close>

lemma reminder_delivered:
  assumes "rem_inv st" and "e \<in> set (events st)" and "e_type e = REMINDER \<or> e_type e = CALENDAR_EVENT"
    and "\<not> e_reminder_sent e" and "e_start e = Some t" and "t0 \<le> t" and "t < t0 + 10000 * int n"
  shows "e_id e \<in> fst ` set (reminders (fold check_reminders (poll_times t0 n) st))"
proof -
  define k where "k = nat ((t - t0) div 10000)"
  have q: "10000 * ((t - t0) div 10000) \<le> t - t0" "t - t0 < 10000 * ((t - t0) div 10000) + 10000"
    using div_mult_bounds_int[of 10000 "t - t0"] by simp_all
  have k0: "0 \<le> (t - t0) div 10000" using assms(6) by simp
  have "k < n"
  proof -
    have "(t - t0) div 10000 < int n" using q(1) assms(7) by linarith
    then show ?thesis using k0 by (simp add: k_def)
  qed
  let ?p = "t0 + 10000 * int k"
  have p: "?p \<le> t" "t \<le> ?p + 300000" using q k0 by (simp_all add: k_def)
  let ?st1 = "fold check_reminders (poll_times t0 k) st"
  have i1: "rem_inv ?st1" using fold_check_reminders_inv[OF assms(1)] .
  have w: "e \<in> set (events ?st1) \<or> e_id e \<in> fst ` set (reminders ?st1)"
    using fold_waiting_or_reminded[OF assms(1)] assms(2) by blast
  have "e_id e \<in> fst ` set (reminders (check_reminders ?p ?st1))"
  proof (cases "e \<in> set (events ?st1)")
    case True
    then show ?thesis using due_in_window[OF True assms(3,4,5) p] by simp
  next
    case False
    then show ?thesis using w by (auto simp: check_reminders_reminders)
  qed
  then show ?thesis
    using reminded_stays[of "e_id e" "check_reminders ?p ?st1"] poll_times_split[OF \<open>k < n\<close>, of t0]
    by simp
qed

text \<open>
  C21. Reminders are delivered exactly once under polls that do not overlap. From a
  store satisfying the poll invariant, after any sequence of \<open>checkReminders\<close> runs no
  event appears twice among the alerts; and for polls every 10 seconds from \<open>t0\<close>, a
  calendar event or reminder not yet sent whose start lies in \<open>[t0, t0 + 10 s * n)\<close>
  has been alerted once the \<open>n\<close> polls have run (the poll just before its start sees it
  within its five-minute window, unless an earlier poll had already alerted it).
\<close>

theorem reminders_exactly_once:
  assumes "rem_inv st"
  shows "distinct (map fst (reminders (fold check_reminders ts st)))
    \<and> (e \<in> set (events st) \<and> (e_type e = REMINDER \<or> e_type e = CALENDAR_EVENT)
         \<and> \<not> e_reminder_sent e \<and> e_start e = Some t \<and> t0 \<le> t \<and> t < t0 + 10000 * int n
       \<longrightarrow> e_id e \<in> fst ` set (reminders (fold check_reminders (poll_times t0 n) st)))"
  using reminders_at_most_once[OF assms] reminder_delivered[OF assms] by blast

theorem reminders_exactly_once_witness:
  "rem_inv dentist_store
   \<and> distinct (map fst (reminders (fold check_reminders (poll_times 0 7) dentist_store)))
   \<and> dentist \<in> set (events dentist_store)
   \<and> (e_type dentist = REMINDER \<or> e_type dentist = CALENDAR_EVENT) \<and> \<not> e_reminder_sent dentist
   \<and> e_start dentist = Some 60000 \<and> (0::int) \<le> 60000 \<and> (60000::int) < 0 + 10000 * int 7
   \<and> e_id dentist \<in> fst ` set (reminders (fold check_reminders (poll_times 0 7) dentist_store))"
proof -
  have h: "rem_inv dentist_store" "dentist \<in> set (events dentist_store)"
    "e_type dentist = REMINDER \<or> e_type dentist = CALENDAR_EVENT" "\<not> e_reminder_sent dentist"
    "e_start dentist = Some 60000" "(0::int) \<le> 60000" "(60000::int) < 0 + 10000 * int 7"
    by (simp_all add: rem_inv_def dentist_store_def dentist_def)
  note r = reminders_exactly_once[OF h(1), of "poll_times 0 7" dentist 60000 0 7]
  show ?thesis using h r by blast
qed

section \<open>Lemmas on getDbUser and the analyze-task route\<close>

lemma trigger_webhook_fields [simp]:
  "users (trigger_webhook d st) = users st" "events (trigger_webhook d st) = events st"
  "next_id (trigger_webhook d st) = next_id st" "reminders (trigger_webhook d st) = reminders st"
  "webhook_log (trigger_webhook d st) = webhook_log st @ [d]"
  by (simp_all add: trigger_webhook_def webhook_send_start_def)

lemma todo_event_user [simp]: "e_user (todo_event i uid desc) = uid"
  by (simp add: todo_event_def)

lemma find_user_Some: "find_user em st = Some u \<Longrightarrow> u \<in> set (users st) \<and> u_email u = em"
  by (auto simp: find_user_def find_Some_iff)

lemma find_user_None: "find_user em st = None \<Longrightarrow> em \<notin> u_email ` set (users st)"
  by (auto simp: find_user_def find_None_iff)

text \<open>What a find-or-create leaves: the events and the webhook untouched, a user with
  the e-mail in the store, and the e-mails of the users still distinct.\<close>

definition user_effect :: "js_string \<Rightarrow> store \<Rightarrow> db_user \<times> store \<Rightarrow> bool" where
  "user_effect em st r = (events (snd r) = events st \<and> webhook_log (snd r) = webhook_log st
     \<and> fst r \<in> set (users (snd r)) \<and> u_email (fst r) = em
     \<and> (distinct (map u_email (users st)) \<longrightarrow> distinct (map u_email (users (snd r)))))"

lemma find_or_create_effect: "user_effect em st (find_or_create name em msg st)"
  by (cases "find_user em st")
     (auto simp: user_effect_def find_or_create_def create_user_def Let_def dest: find_user_Some find_user_None)

lemma demo_user_effect: "user_effect ''demo@example.com'' st (demo_user st)"
  by (cases "find_user ''demo@example.com'' st")
     (auto simp: user_effect_def demo_user_def create_user_def Let_def dest: find_user_Some find_user_None)

lemma get_db_user_effect:
  "get_db_user sess body st = Inr r \<Longrightarrow> \<exists>em. user_effect em st r"
  by (auto simp: get_db_user_def Let_def split: if_splits option.splits list.splits
           intro: find_or_create_effect demo_user_effect)

lemma get_db_user_resolvable:
  "user_resolvable sess body \<Longrightarrow> \<exists>r. get_db_user sess body st = Inr r"
  by (auto simp: get_db_user_def user_resolvable_def Let_def split: option.splits list.splits)

lemma get_db_user_unresolvable:
  "\<not> user_resolvable sess body \<Longrightarrow> get_db_user sess body st = Inl emails_value_error"
  by (auto simp: get_db_user_def user_resolvable_def split: option.splits list.splits)

lemma analyze_task_saved:
  assumes "req_description body \<noteq> []" and "user_resolvable sess body"
  shows "\<exists>u i st'. analyze_task sess body st = ((Ok200, TaskSaved (req_description body) i), st')
     \<and> u \<in> set (users st') \<and> events st' = events st @ [todo_event i (u_id u) (req_description body)]
     \<and> webhook_log st' = webhook_log st @ [req_description body]"
proof -
  let ?st1 = "trigger_webhook (req_description body) st"
  obtain u st2 where g: "get_db_user sess body ?st1 = Inr (u, st2)"
    using get_db_user_resolvable[OF assms(2)] by fastforce
  obtain em where e: "user_effect em ?st1 (u, st2)" using get_db_user_effect[OF g] by blast
  have "events st2 = events st" "webhook_log st2 = webhook_log st @ [req_description body]" "u \<in> set (users st2)"
    using e by (simp_all add: user_effect_def)
  then show ?thesis using assms(1) g by (auto simp: analyze_task_def Let_def)
qed

text \<open>
  A task with a description is saved for a resolvable user: the route answers
  200 with the description as the title and the new event's id, after the webhook has
  been sent; the store gains exactly the TODO event of the resolved user, who is in the
  store.
\<close>

lemma analyze_task_saves_todo:
  assumes "req_description body \<noteq> []" and "user_resolvable sess body"
  shows "\<exists>u i st'. analyze_task sess body st = ((Ok200, TaskSaved (req_description body) i), st')
     \<and> u \<in> set (users st') \<and> events st' = events st @ [todo_event i (u_id u) (req_description body)]
     \<and> webhook_log st' = webhook_log st @ [req_description body]"
  using analyze_task_saved[OF assms] .

text \<open>Requests handled one at a time keep the e-mails of the stored users distinct:
  \<open>getDbUser\<close> creates a user only when \<open>User.findOne\<close> found none with that e-mail.\<close>

lemma analyze_task_distinct_users:
  assumes "distinct (map u_email (users st))"
  shows "distinct (map u_email (users (snd (analyze_task sess body st))))"
proof -
  let ?st1 = "trigger_webhook (req_description body) st"
  have "distinct (map u_email (users (snd r)))" if "get_db_user sess body ?st1 = Inr r" for r
    using get_db_user_effect[OF that] assms by (auto simp: user_effect_def)
  then show ?thesis using assms
    by (auto simp: analyze_task_def Let_def split: sum.splits)
qed

section \<open>Lemmas on concurrent analyze-task requests\<close>

text \<open>\<open>getDbUser\<close> is its synchronous part followed by the rest once \<open>User.findOne\<close>
  has answered on the same store.\<close>

lemma get_db_user_key:
  "get_db_user sess body st = map_sum id (\<lambda>k. resolve_user k (find_user (key_email k) st) st) (user_key sess body)"
  by (simp add: get_db_user_def user_key_def resolve_user_def find_or_create_def demo_user_def Let_def
      split: option.split list.split)

lemma task_step_alone: "task_step p st = Some (p', st') \<Longrightarrow> tasks_step ([p], st) ([p'], st')"
  using tasks_step.intros[of 0 "[p]" st p' st'] by simp

lemma task_find_steps:
  assumes "resolve_user k (find_user (key_email k) st) st = (u, st2)"
  shows "tasks_step\<^sup>*\<^sup>* ([TaskFind desc k], st) ([TaskDone (fst (save_todo desc u st2))], snd (save_todo desc u st2))"
proof -
  have save: "tasks_step ([TaskSave desc u], st2) ([TaskDone (fst (save_todo desc u st2))], snd (save_todo desc u st2))"
    by (rule task_step_alone) (simp add: split_beta)
  show ?thesis
  proof (cases "find_user (key_email k) st")
    case None
    have "tasks_step ([TaskFind desc k], st) ([TaskCreate desc k], st)"
      using None by (intro task_step_alone) simp
    moreover have "tasks_step ([TaskCreate desc k], st) ([TaskSave desc u], st2)"
      using assms None by (intro task_step_alone) simp
    ultimately show ?thesis using save by (meson converse_rtranclp_into_rtranclp r_into_rtranclp)
  next
    case (Some v)
    have "tasks_step ([TaskFind desc k], st) ([TaskSave desc u], st2)"
      using assms Some by (intro task_step_alone) simp
    then show ?thesis using save by (meson converse_rtranclp_into_rtranclp r_into_rtranclp)
  qed
qed

text \<open>A request that runs while no other is pending takes the route's atomic
  transition: the process model refines \<open>analyze_task\<close>.\<close>

lemma task_alone:
  "tasks_step\<^sup>*\<^sup>* ([TaskStart sess body], st) ([TaskDone (fst (analyze_task sess body st))], snd (analyze_task sess body st))"
proof -
  consider (empty) "req_description body = []"
    | (err) err where "req_description body \<noteq> []" "user_key sess body = Inl err"
    | (key) k where "req_description body \<noteq> []" "user_key sess body = Inr k"
    by (cases "user_key sess body") auto
  then show ?thesis
  proof cases
    case empty
    then show ?thesis by (intro r_into_rtranclp task_step_alone) (simp add: analyze_task_def)
  next
    case err
    then show ?thesis by (intro r_into_rtranclp task_step_alone) (simp add: analyze_task_def get_db_user_key Let_def)
  next
    case key
    let ?st1 = "trigger_webhook (req_description body) st"
    obtain u st2 where r: "resolve_user k (find_user (key_email k) ?st1) ?st1 = (u, st2)" by fastforce
    have a: "analyze_task sess body st = save_todo (req_description body) u st2"
      using key r by (simp add: analyze_task_def get_db_user_key save_todo_def Let_def)
    have "tasks_step ([TaskStart sess body], st) ([TaskFind (req_description body) k], ?st1)"
      using key by (intro task_step_alone) (simp add: Let_def)
    then show ?thesis unfolding a using task_find_steps[OF r] by (rule converse_rtranclp_into_rtranclp)
  qed
qed

lemma run_tasks_steps: "run_tasks is c = Some c' \<Longrightarrow> tasks_step\<^sup>*\<^sup>* c c'"
proof (induction "is" c rule: run_tasks.induct)
  case (1 c)
  then show ?case by simp
next
  case (2 i "is" ps st)
  then obtain p' st' where i: "i < length ps" and p: "task_step (ps ! i) st = Some (p', st')"
    and r: "run_tasks is (ps[i := p'], st') = Some c'"
    by (auto split: if_splits option.splits)
  have "tasks_step (ps, st) (ps[i := p'], st')" using i p by (rule tasks_step.intros)
  moreover have "tasks_step\<^sup>*\<^sup>* (ps[i := p'], st') c'" using 2 i p r by simp
  ultimately show ?case by (rule converse_rtranclp_into_rtranclp)
qed

lemma bob_name: "split_first CHR ''@'' ''bob@x.org'' = ''bob''"
  by (simp add: split_first_def)

text \<open>
  C24. Concurrent requests create the same user twice: \<open>getDbUser\<close> awaits
  \<open>User.findOne\<close> and then \<open>User.create\<close>, and another request may run in between.
  Two signed-out requests for the same new e-mail, sent together to an empty store,
  both find no user and both create one: the store ends with two users of that e-mail,
  and each task belongs to a different one. Each request alone takes the route's
  transition \<open>analyze_task\<close>, and the same two requests one after the other create
  the user once.
\<close>

theorem concurrent_tasks_duplicate_user:
  "(\<forall>sess body st. tasks_step\<^sup>*\<^sup>* ([TaskStart sess body], st)
       ([TaskDone (fst (analyze_task sess body st))], snd (analyze_task sess body st)))
   \<and> (\<exists>st'. tasks_step\<^sup>*\<^sup>* ([TaskStart None bob_request, TaskStart None bob_request], empty_store)
            ([TaskDone (Ok200, TaskSaved ''Buy milk'' 2), TaskDone (Ok200, TaskSaved ''Buy milk'' 3)], st')
       \<and> map u_email (users st') = [''bob@x.org'', ''bob@x.org'']
       \<and> map e_user (events st') = [0, 1])
   \<and> map u_email (users (snd (analyze_task None bob_request (snd (analyze_task None bob_request empty_store)))))
       = [''bob@x.org'']"
proof -
  let ?c = "([TaskStart None bob_request, TaskStart None bob_request], empty_store)"
  let ?f = "[TaskDone (Ok200, TaskSaved ''Buy milk'' 2), TaskDone (Ok200, TaskSaved ''Buy milk'' 3)]"
  have "\<exists>st'. run_tasks [0, 1, 0, 1, 0, 1, 0, 1] ?c = Some (?f, st')
      \<and> map u_email (users st') = [''bob@x.org'', ''bob@x.org''] \<and> map e_user (events st') = [0, 1]"
    by (simp add: bob_request_def empty_store_def user_key_def js_truthy_def resolve_user_def create_user_def
        save_todo_def find_user_def trigger_webhook_def webhook_send_start_def bob_name Let_def)
  then obtain st' where run: "run_tasks [0, 1, 0, 1, 0, 1, 0, 1] ?c = Some (?f, st')"
    and u: "map u_email (users st') = [''bob@x.org'', ''bob@x.org'']" and e: "map e_user (events st') = [0, 1]"
    by (elim exE conjE)
  have r: "\<exists>st'. tasks_step\<^sup>*\<^sup>* ?c (?f, st')
      \<and> map u_email (users st') = [''bob@x.org'', ''bob@x.org''] \<and> map e_user (events st') = [0, 1]"
    by (rule exI[of _ st'], intro conjI run_tasks_steps[OF run] u e)
  have s: "map u_email (users (snd (analyze_task None bob_request (snd (analyze_task None bob_request empty_store)))))
       = [''bob@x.org'']"
    by (simp add: analyze_task_def get_db_user_def bob_request_def empty_store_def js_truthy_def find_or_create_def
        create_user_def find_user_def trigger_webhook_def webhook_send_start_def bob_name Let_def)
  show ?thesis by (intro conjI allI task_alone r s)
qed

text \<open>
  The error path of the route: for a session whose Google profile has no e-mail and
  a request without one, \<open>getDbUser\<close> throws on \<open>req.user.emails[0].value\<close>; the route
  answers 500 with the TypeError's message, and the task has been sent to the webhook
  but no event is saved.
\<close>

lemma analyze_task_webhook_without_save:
  assumes "req_description body \<noteq> []" and "\<not> js_truthy (req_email body)" and "s_emails u = []"
  shows "fst (analyze_task (Some u) body st) = (ServerError500, ErrorBody (error_message emails_value_error))
     \<and> events (snd (analyze_task (Some u) body st)) = events st
     \<and> webhook_log (snd (analyze_task (Some u) body st)) = webhook_log st @ [req_description body]"
proof -
  have "\<not> user_resolvable (Some u) body" using assms(2,3) by (simp add: user_resolvable_def)
  then show ?thesis using assms(1) by (simp add: analyze_task_def get_db_user_unresolvable Let_def)
qed

text \<open>
  C23. \<open>POST /api/analyze-task\<close> on each of its outcomes. An empty description is
  answered 400 and changes nothing. A task with a description is saved for a resolvable
  user: the route answers 200 with the description as the title and the new event's
  id, after the webhook has been sent; the store gains exactly the TODO event of the
  resolved user, who is in the store. For a session whose Google profile has no e-mail
  and a request without one, \<open>getDbUser\<close> throws on \<open>req.user.emails[0].value\<close>: the
  route answers 500 with the TypeError's message, and the task has been sent to the
  webhook but no event is saved.
\<close>

theorem analyze_task_outcomes:
  "(req_description body = [] \<longrightarrow>
       analyze_task sess body st = ((BadRequest400, ErrorBody ''Task description is required''), st))
   \<and> (req_description body \<noteq> [] \<and> user_resolvable sess body \<longrightarrow>
       (\<exists>u i st'. analyze_task sess body st = ((Ok200, TaskSaved (req_description body) i), st')
         \<and> u \<in> set (users st') \<and> events st' = events st @ [todo_event i (u_id u) (req_description body)]
         \<and> webhook_log st' = webhook_log st @ [req_description body]))
   \<and> (req_description body \<noteq> [] \<and> \<not> js_truthy (req_email body) \<and> s_emails u0 = [] \<longrightarrow>
       fst (analyze_task (Some u0) body st) = (ServerError500, ErrorBody (error_message emails_value_error))
       \<and> events (snd (analyze_task (Some u0) body st)) = events st
       \<and> webhook_log (snd (analyze_task (Some u0) body st)) = webhook_log st @ [req_description body])"
  using analyze_task_saves_todo[of body sess st] analyze_task_webhook_without_save[of body u0 st]
  by (auto simp: analyze_task_def)

theorem analyze_task_outcomes_witness:
  "req_description bob_request \<noteq> [] \<and> user_resolvable None bob_request
   \<and> (\<exists>u i st'. analyze_task None bob_request dentist_store = ((Ok200, TaskSaved ''Buy milk'' i), st')
     \<and> u \<in> set (users st') \<and> events st' = [dentist, todo_event i (u_id u) ''Buy milk'']
     \<and> webhook_log st' = [''Buy milk''])
   \<and> req_description (bob_request\<lparr>req_email := None\<rparr>) \<noteq> [] \<and> \<not> js_truthy (req_email (bob_request\<lparr>req_email := None\<rparr>))
   \<and> s_emails no_email_session = []
   \<and> fst (analyze_task (Some no_email_session) (bob_request\<lparr>req_email := None\<rparr>) dentist_store)
       = (ServerError500, ErrorBody ''Cannot read properties of undefined (reading 'value')'')
   \<and> events (snd (analyze_task (Some no_email_session) (bob_request\<lparr>req_email := None\<rparr>) dentist_store)) = [dentist]"
proof -
  have h: "req_description bob_request \<noteq> []" "user_resolvable None bob_request"
    "req_description (bob_request\<lparr>req_email := None\<rparr>) \<noteq> []"
    "\<not> js_truthy (req_email (bob_request\<lparr>req_email := None\<rparr>))" "s_emails no_email_session = []"
    by (simp_all add: bob_request_def user_resolvable_def js_truthy_def no_email_session_def)
  have d: "req_description bob_request = ''Buy milk''" "events dentist_store = [dentist]" "webhook_log dentist_store = []"
    by (simp_all add: bob_request_def dentist_store_def)
  note a = analyze_task_outcomes[of bob_request None dentist_store]
  note b = analyze_task_outcomes[of "bob_request\<lparr>req_email := None\<rparr>" _ dentist_store no_email_session]
  have e: "error_message emails_value_error = ''Cannot read properties of undefined (reading 'value')''"
    by (simp add: emails_value_error_def)
  show ?thesis using h a b unfolding d e by simp
qed

section \<open>The store schema\<close>

lemma store_wf_cong:
  "users st' = users st \<Longrightarrow> next_id st' = next_id st \<Longrightarrow> map e_id (events st') = map e_id (events st)
   \<Longrightarrow> map e_user (events st') = map e_user (events st) \<Longrightarrow> map e_priority (events st') = map e_priority (events st)
   \<Longrightarrow> store_wf st' = store_wf st"
  by (simp add: store_wf_def)

lemma store_wf_fresh:
  assumes "store_wf st"
  shows "next_id st \<notin> set (map u_id (users st) @ map e_id (events st))"
  using assms by (auto simp: store_wf_def list_all_iff)

lemma create_user_wf:
  assumes "store_wf st"
  shows "store_wf (snd (create_user name em st)) \<and> fst (create_user name em st) \<in> set (users (snd (create_user name em st)))"
  using assms store_wf_fresh[OF assms] by (auto simp: store_wf_def create_user_def list_all_iff Let_def intro: less_SucI)

lemma find_or_create_wf:
  assumes "find_or_create name em msg st = (u, st')" and "store_wf st"
  shows "store_wf st' \<and> u \<in> set (users st')"
proof (cases "find_user em st")
  case None
  obtain u1 s1 where c: "create_user name em st = (u1, s1)" by fastforce
  have "store_wf s1 \<and> u1 \<in> set (users s1)" using create_user_wf[OF assms(2), of name em] c by simp
  moreover have "u = u1" "st' = s1\<lparr>console := console s1 @ [msg @ em]\<rparr>"
    using assms(1) None c by (simp_all add: find_or_create_def)
  ultimately show ?thesis by (simp add: store_wf_def)
next
  case (Some v)
  then show ?thesis using assms find_user_Some[OF Some] by (auto simp: find_or_create_def)
qed

lemma demo_user_wf:
  assumes "demo_user st = (u, st')" and "store_wf st"
  shows "store_wf st' \<and> u \<in> set (users st')"
proof (cases "find_user ''demo@example.com'' st")
  case None
  obtain u1 s1 where c: "create_user ''DemoUser'' ''demo@example.com'' st = (u1, s1)" by fastforce
  have "store_wf s1 \<and> u1 \<in> set (users s1)"
    using create_user_wf[OF assms(2), of "''DemoUser''" "''demo@example.com''"] c by simp
  moreover have "u = u1" "st' = s1\<lparr>console := console s1 @ [''Using Fallback Demo User'']\<rparr>"
    using assms(1) None c by (simp_all add: demo_user_def)
  ultimately show ?thesis by (simp add: store_wf_def)
next
  case (Some v)
  have "st' = st\<lparr>console := console st @ [''Using Fallback Demo User'']\<rparr>" "u = v"
    using assms(1) Some by (simp_all add: demo_user_def)
  then show ?thesis using assms(2) find_user_Some[OF Some] by (simp add: store_wf_def)
qed

lemma get_db_user_wf:
  "get_db_user sess body st = Inr (u, st') \<Longrightarrow> store_wf st \<Longrightarrow> store_wf st' \<and> u \<in> set (users st')"
  by (auto simp: get_db_user_def Let_def split: if_splits option.splits list.splits
           dest: find_or_create_wf demo_user_wf)

lemma store_wf_add_event:
  assumes "store_wf st" and "u \<in> set (users st)"
  shows "store_wf (st\<lparr>events := events st @ [todo_event (next_id st) (u_id u) d], next_id := Suc (next_id st), console := c\<rparr>)"
  using assms store_wf_fresh[OF assms(1)]
  by (auto simp: store_wf_def list_all_iff todo_event_def intro: less_SucI)

lemma analyze_task_wf:
  assumes "store_wf st"
  shows "store_wf (snd (analyze_task sess body st))"
proof -
  let ?st1 = "trigger_webhook (req_description body) st"
  have w1: "store_wf ?st1" using assms by (simp add: store_wf_def)
  have "store_wf (snd (analyze_task sess body st))" if "get_db_user sess body ?st1 = Inr (u, st2)" for u st2
  proof -
    have "store_wf st2 \<and> u \<in> set (users st2)" using get_db_user_wf[OF that w1] .
    then show ?thesis using that store_wf_add_event[of st2 u] assms
      by (simp add: analyze_task_def Let_def)
  qed
  moreover have "store_wf (snd (analyze_task sess body st))" if "get_db_user sess body ?st1 = Inl err" for err
    using that w1 by (simp add: analyze_task_def Let_def store_wf_def)
  ultimately show ?thesis using assms
    by (cases "req_description body = []"; cases "get_db_user sess body ?st1")
       (auto simp: analyze_task_def Let_def)
qed

lemma check_reminders_keeps:
  "users (check_reminders now st) = users st" "next_id (check_reminders now st) = next_id st"
  "map e_user (events (check_reminders now st)) = map e_user (events st)"
  "map e_priority (events (check_reminders now st)) = map e_priority (events st)"
  by (simp_all add: check_reminders_def fold_remind_one comp_def)

lemma webhook_finish_wf: "store_wf (snd (webhook_finish a st)) = store_wf st"
  by (simp add: webhook_finish_def store_wf_def split: option.split)

lemma check_reminders_wf: "store_wf (check_reminders now st) = store_wf st"
  by (rule store_wf_cong) (simp_all add: check_reminders_keeps check_reminders_ids)

text \<open>
  C25. The store keeps to its schemas under the server: from a store whose identities
  are distinct and below the next fresh one, whose events all belong to stored users
  and whose priorities are in the schema's enumeration, every sequence of analyze-task requests, reminder polls and webhook answers
  leads to such a store again (the TODO event is saved for the user \<open>getDbUser\<close> found or created).
\<close>

theorem store_wf_preserved:
  assumes "store_wf st"
  shows "store_wf (fold server_apply ops st)"
  using assms
proof (induction ops arbitrary: st)
  case (Cons op ops)
  have "store_wf (server_apply op st)"
    using Cons.prems by (cases op) (simp_all add: analyze_task_wf check_reminders_wf webhook_finish_wf)
  then show ?case using Cons.IH by simp
qed simp

theorem store_wf_preserved_witness:
  "store_wf empty_store
   \<and> store_wf (fold server_apply [AnalyzeTask None bob_request, CheckReminders 0, WebhookAnswer (Some ''ok'')] empty_store)"
proof -
  have h: "store_wf empty_store" by (simp add: store_wf_def empty_store_def)
  show ?thesis using h store_wf_preserved[OF h, of "[AnalyzeTask None bob_request, CheckReminders 0, WebhookAnswer (Some ''ok'')]"] by simp
qed

end
