(* ===== verification/Chat_Api.thy ===== *)
theory Chat_Api
  imports Server_Api "HOL-Library.While_Combinator"
begin

text \<open>
  The chat route \<open>POST /api/chat\<close> of \<open>src/server.js\<close> (lines 74-150) and its weather
  side channel \<open>handleWeather\<close> (lines 152-193). The generative model and the weather
  service are external: each is a parameter of the route, a function from what the code
  sends to what the service answers (a reply, a rejected promise with its message and
  HTTP status, or a JSON body). Replies are named by the response they build rather than
  spelled out (their templates hold emoji). The history-trimming \<open>while\<close> loop is a
  \<open>while_option\<close>, so that its termination is a theorem.
\<close>

section \<open>The string operations of the route\<close>

text \<open>\<open>String.prototype.toLowerCase\<close> on the code units of this model: the ASCII and
  Latin-1 capitals (U+00C0-U+00DE, without the multiplication sign U+00D7).\<close>

definition js_lower_char :: "char \<Rightarrow> char" where
  "js_lower_char c = (let n = of_char c :: nat in
     if (65 \<le> n \<and> n \<le> 90) \<or> (192 \<le> n \<and> n \<le> 222 \<and> n \<noteq> 215) then char_of (n + 32) else c)"

definition js_lower :: "js_string \<Rightarrow> js_string" where
  "js_lower s = map js_lower_char s"

text \<open>\<open>String.prototype.includes\<close>.\<close>

fun js_includes :: "js_string \<Rightarrow> js_string \<Rightarrow> bool" where
  "js_includes [] t = (t = [])"
| "js_includes (c # cs) t = (take (length t) (c # cs) = t \<or> js_includes cs t)"

text \<open>The class \<open>[a-zA-Z\s]\<close> under the \<open>i\<close> flag: ASCII letters (no other code unit of
  this model canonicalises to one) and white space.\<close>

definition city_char :: "char \<Rightarrow> bool" where
  "city_char c = (let n = of_char c :: nat in (65 \<le> n \<and> n \<le> 90) \<or> (97 \<le> n \<and> n \<le> 122) \<or> js_space c)"

text \<open>\<open>text.match(/weather in ([a-zA-Z\s]+)/i)\<close>: the leftmost position where the literal
  and at least one class character follow; the greedy group takes the longest run. The
  literal is matched on text the route has already lower-cased.\<close>

fun weather_match :: "js_string \<Rightarrow> js_string option" where
  "weather_match [] = None"
| "weather_match (c # cs) = (let rest = drop 11 (c # cs) in
     if take 11 (c # cs) = ''weather in '' \<and> rest \<noteq> [] \<and> city_char (hd rest)
     then Some (takeWhile city_char rest) else weather_match cs)"

definition weather_city :: "js_string \<Rightarrow> js_string" where
  "weather_city text = (case weather_match text of Some g \<Rightarrow> js_trim g | None \<Rightarrow> ''your area'')"

section \<open>The weather side channel\<close>

text \<open>The OpenWeather answer as the code reads it: a body with \<open>cod === 200\<close> and the
  printed name, temperature, description and humidity; another \<open>cod\<close>; or a rejected
  \<open>fetch\<close>/\<open>json()\<close> (a body without \<open>main\<close> or \<open>weather[0]\<close> also throws there).\<close>

datatype weather_api = WeatherData js_string js_string js_string js_string | WeatherCode | WeatherThrows

datatype weather_reply = Simulated js_string | Report js_string js_string js_string js_string
  | CityUnknown js_string | CalmFallback

text \<open>\<open>handleWeather(text, res)\<close> with the API key (\<open>None\<close> when unset) and the service,
  queried with the city of the URL.\<close>

definition handle_weather :: "js_string \<Rightarrow> js_string option \<Rightarrow> (js_string \<Rightarrow> weather_api) \<Rightarrow> weather_reply" where
  "handle_weather text key api = (let city = weather_city text in
     case key of
       None \<Rightarrow> Simulated city
     | Some k \<Rightarrow> (case api city of
         WeatherData n t d h \<Rightarrow> Report n t d h
       | WeatherCode \<Rightarrow> CityUnknown city
       | WeatherThrows \<Rightarrow> CalmFallback))"

section \<open>The chat route\<close>

text \<open>A message of the request body: its role (\<open>undefined\<close> matches no role the code
  tests, as any other string) and its content, which may be absent. The route reads no
  other field: it takes messages of any extension of this record (the widget's carry a
  time stamp).\<close>

record chat_msg =
  role :: js_string
  content :: "js_string option"

datatype gem_role = GUser | GModel

record gem_content =
  g_role :: gem_role
  g_text :: "js_string option"

text \<open>The model's answer to \<open>chat.sendMessage\<close>: a reply text, or a rejection with its
  message and the status of \<open>error.response\<close> when it has one.\<close>

datatype gemini_result = GemReply js_string | GemError js_string "nat option"

datatype chat_reply = Greeting | WeatherReply weather_reply | ModelReply js_string
  | RateLimited | ConnectionTrouble

text \<open>The history mapping of lines 96-102.\<close>

definition to_history :: "'a chat_msg_scheme list \<Rightarrow> gem_content list" where
  "to_history ms = map (\<lambda>m. \<lparr>g_role = (if role m = ''assistant'' then GModel else GUser), g_text = content m\<rparr>)
     (filter (\<lambda>m. role m = ''user'' \<or> role m = ''assistant'') ms)"

text \<open>The failsafe loop of lines 108-110: \<open>shift()\<close> while the first entry is the model's.\<close>

definition trim_history :: "gem_content list \<Rightarrow> gem_content list option" where
  "trim_history h = while_option (\<lambda>h. h \<noteq> [] \<and> g_role (hd h) = GModel) tl h"

text \<open>The catch block (lines 136-149).\<close>

definition chat_error :: "js_string \<Rightarrow> nat option \<Rightarrow> http_status \<times> chat_reply" where
  "chat_error msg status = (if js_includes msg ''429'' \<or> status = Some 429 then (Ok200, RateLimited)
     else (ServerError500, ConnectionTrouble))"

text \<open>The route: the greeting for a missing or empty \<open>messages\<close>; the last message's
  lower-cased content (a missing content throws a TypeError); the weather branch; else
  the history, \<open>pop()\<close> (on an empty history \<open>lastUserMessage.parts\<close> throws), the
  loop and the model. \<open>None\<close> is a request that never answers.\<close>

definition chat_route :: "'a chat_msg_scheme list option \<Rightarrow> js_string option \<Rightarrow> (js_string \<Rightarrow> weather_api)
    \<Rightarrow> (gem_content list \<Rightarrow> js_string option \<Rightarrow> gemini_result) \<Rightarrow> (http_status \<times> chat_reply) option" where
  "chat_route msgs key wapi gem = (case msgs of
       None \<Rightarrow> Some (Ok200, Greeting)
     | Some [] \<Rightarrow> Some (Ok200, Greeting)
     | Some ms \<Rightarrow> (case content (last ms) of
         None \<Rightarrow> Some (chat_error ''Cannot read properties of undefined (reading 'toLowerCase')'' None)
       | Some c \<Rightarrow> (let lm = js_lower c in
           if js_includes lm ''weather'' then Some (Ok200, WeatherReply (handle_weather lm key wapi))
           else (let h = to_history ms in
             case trim_history (butlast h) of
               None \<Rightarrow> None
             | Some h1 \<Rightarrow> if h = [] then Some (chat_error ''Cannot read properties of undefined (reading 'parts')'' None)
                 else (case gem h1 (g_text (last h)) of
                   GemReply r \<Rightarrow> Some (Ok200, ModelReply r)
                 | GemError m st \<Rightarrow> Some (chat_error m st))))))"

text \<open>\<open>GET /api/chat\<close> (lines 66-70): a constant reply.\<close>

definition chat_get_route :: "http_status \<times> js_string" where
  "chat_get_route = (Ok200, ''Chat API is running. Send a POST request to chat.'')"

text \<open>A conversation as the chat widget posts it: its welcome message, then the user's.\<close>

definition plan_chat :: "chat_msg list" where
  "plan_chat = [\<lparr>role = ''assistant'', content = Some ''Hi! How can I help?''\<rparr>,
                \<lparr>role = ''user'', content = Some ''Plan my day''\<rparr>]"

text \<open>A model that answers the text sent when the history is empty.\<close>

definition echo_model :: "gem_content list \<Rightarrow> js_string option \<Rightarrow> gemini_result" where
  "echo_model h t = (if h = [] then GemReply (case t of None \<Rightarrow> [] | Some x \<Rightarrow> x) else GemError ''history'' None)"

section \<open>Lemmas on the chat route\<close>

text \<open>The failsafe loop terminates and is \<open>dropWhile\<close>.\<close>

lemma trim_history_eq: "trim_history h = Some (dropWhile (\<lambda>g. g_role g = GModel) h)"
  unfolding trim_history_def
proof (induction h)
  case Nil
  show ?case by (subst while_option_unfold) simp
next
  case (Cons g gs)
  show ?case by (subst while_option_unfold) (simp add: Cons.IH)
qed

lemma take_append_within:
  assumes "n \<le> length xs + k"
  shows "take n (xs @ ys) = take n (xs @ take k ys)"
proof -
  have "n - length xs \<le> k" using assms by arith
  then show ?thesis by (simp add: take_append min_absorb1)
qed

lemma weather_match_step:
  assumes "take 11 (c # cs) \<noteq> ''weather in ''"
  shows "weather_match (c # cs) = weather_match cs"
  unfolding weather_match.simps(2) Let_def using assms by (simp only: simp_thms if_False)

text \<open>The regular expression skips a prefix holding no occurrence of its literal.\<close>

lemma weather_match_skip:
  "\<not> js_includes (p @ take 10 s) ''weather in '' \<Longrightarrow> weather_match (p @ s) = weather_match s"
proof (induction p)
  case Nil
  then show ?case by simp
next
  case (Cons a p)
  have t: "take 11 (a # p @ s) = take 11 (a # p @ take 10 s)"
    using take_append_within[of 11 "a # p" 10 s] by simp
  have L: "length ''weather in '' = 11" by simp
  have h1: "\<not> (take 11 (a # p @ take 10 s) = ''weather in '' \<or> js_includes (p @ take 10 s) ''weather in '')"
    using Cons.prems by (simp only: append_Cons js_includes.simps L simp_thms)
  then have ne: "take 11 (a # p @ s) \<noteq> ''weather in ''" and nj: "\<not> js_includes (p @ take 10 s) ''weather in ''"
    using t by metis+
  have "weather_match ((a # p) @ s) = weather_match (p @ s)"
    using weather_match_step[OF ne] by (simp only: append_Cons)
  then show ?case using Cons.IH[OF nj] by (rule trans)
qed

lemma takeWhile_run:
  assumes "list_all P c" and "r = [] \<or> \<not> P (hd r)"
  shows "takeWhile P (c @ r) = c"
  using assms by (cases r) (simp_all add: takeWhile_append2 list_all_iff)

text \<open>
  C30. The city of the weather reply: in a lower-cased message made of a prefix without
  the literal, \<open>weather in \<close>, a run of letters and spaces and a rest that does not
  continue the run, the city is the run with its surrounding white space trimmed (so it
  takes every word of the run, and is empty for a run of spaces).
\<close>

theorem weather_city_extracts:
  assumes "\<not> js_includes (p @ ''weather in'') ''weather in ''" and "c \<noteq> []" and "list_all city_char c"
    and "r = [] \<or> \<not> city_char (hd r)"
  shows "weather_city (p @ ''weather in '' @ c @ r) = js_trim c"
proof -
  have "weather_match (p @ ''weather in '' @ c @ r) = weather_match (''weather in '' @ c @ r)"
    using weather_match_skip[of p "''weather in '' @ c @ r"] assms(1) by simp
  moreover have "weather_match (''weather in '' @ c @ r) = Some c"
    using assms(2,3) takeWhile_run[OF assms(3,4)] by (cases c) (simp_all add: Let_def)
  ultimately show ?thesis by (simp add: weather_city_def)
qed

theorem weather_city_extracts_witness:
  "\<not> js_includes (''what is the '' @ ''weather in'') ''weather in '' \<and> ''paris'' \<noteq> [] \<and> list_all city_char ''paris''
   \<and> (''?'' = [] \<or> \<not> city_char (hd ''?''))
   \<and> weather_city (''what is the '' @ ''weather in '' @ ''paris'' @ ''?'') = ''paris''"
proof -
  have h: "\<not> js_includes (''what is the '' @ ''weather in'') ''weather in ''" "''paris'' \<noteq> []"
    "list_all city_char ''paris''" "''?'' = [] \<or> \<not> city_char (hd ''?'')"
    by (simp_all add: city_char_def js_space_def)
  have t: "js_trim ''paris'' = ''paris''" by (simp add: js_trim_def js_space_def)
  show ?thesis using h weather_city_extracts[OF h] t by simp
qed

text \<open>The failsafe loop halts: each iteration shortens the history.\<close>

lemma trim_history_halts: "\<exists>h'. trim_history h = Some h'"
  unfolding trim_history_def
  by (rule measure_while_option_Some[where f = length and P = "\<lambda>_. True"]) auto

text \<open>
  C29. The chat route on each of its branches: a missing or empty \<open>messages\<close> is
  greeted; a last message without content throws and is answered 500; a last message
  whose lower-cased content contains \<open>weather\<close> anywhere (also inside another word) gets
  the weather reply and the model is never consulted; otherwise the model answers the
  last user or assistant message, given as history the earlier ones with every leading
  model turn removed (the failsafe loop is \<open>dropWhile\<close>), a rejection being answered by
  the catch block, and with no user or assistant message at all \<open>pop()\<close> leaves nothing
  to send and the route answers 500.
\<close>

theorem chat_route_branches:
  "chat_route None key wapi gem = Some (Ok200, Greeting)
   \<and> chat_route (Some []) key wapi gem = Some (Ok200, Greeting)
   \<and> (ms \<noteq> [] \<and> content (last ms) = None \<longrightarrow> chat_route (Some ms) key wapi gem = Some (ServerError500, ConnectionTrouble))
   \<and> (ms \<noteq> [] \<and> content (last ms) = Some c \<and> js_includes (js_lower c) ''weather'' \<longrightarrow>
        chat_route (Some ms) key wapi gem = Some (Ok200, WeatherReply (handle_weather (js_lower c) key wapi)))
   \<and> (ms \<noteq> [] \<and> content (last ms) = Some c \<and> \<not> js_includes (js_lower c) ''weather'' \<and> to_history ms = [] \<longrightarrow>
        chat_route (Some ms) key wapi gem = Some (ServerError500, ConnectionTrouble))
   \<and> (ms \<noteq> [] \<and> content (last ms) = Some c \<and> \<not> js_includes (js_lower c) ''weather'' \<and> to_history ms \<noteq> [] \<longrightarrow>
        chat_route (Some ms) key wapi gem =
          Some (case gem (dropWhile (\<lambda>g. g_role g = GModel) (butlast (to_history ms))) (g_text (last (to_history ms))) of
                  GemReply r \<Rightarrow> (Ok200, ModelReply r)
                | GemError m st \<Rightarrow> chat_error m st))"
  by (cases ms) (auto simp: chat_route_def trim_history_eq chat_error_def Let_def split: gemini_result.split)

theorem chat_route_branches_witness:
  "([\<lparr>role = ''user'', content = Some ''Is my WEATHERPROOF jacket packed?''\<rparr>] \<noteq> []
     \<and> content (last [\<lparr>role = ''user'', content = Some ''Is my WEATHERPROOF jacket packed?''\<rparr>]) = Some ''Is my WEATHERPROOF jacket packed?''
     \<and> js_includes (js_lower ''Is my WEATHERPROOF jacket packed?'') ''weather'')
   \<and> chat_route (Some [\<lparr>role = ''user'', content = Some ''Is my WEATHERPROOF jacket packed?''\<rparr>]) None (\<lambda>c. WeatherThrows) echo_model
       = Some (Ok200, WeatherReply (Simulated ''your area''))
   \<and> (plan_chat \<noteq> [] \<and> content (last plan_chat) = Some ''Plan my day''
     \<and> \<not> js_includes (js_lower ''Plan my day'') ''weather'' \<and> to_history plan_chat \<noteq> [])
   \<and> chat_route (Some plan_chat) None (\<lambda>c. WeatherThrows) echo_model = Some (Ok200, ModelReply ''Plan my day'')
   \<and> chat_route (Some [\<lparr>role = ''user'', content = None\<rparr>]) None (\<lambda>c. WeatherThrows) echo_model
       = Some (ServerError500, ConnectionTrouble)"
proof -
  have l: "js_lower ''Is my WEATHERPROOF jacket packed?'' = ''is my weatherproof jacket packed?''"
    by code_simp
  have h1: "[\<lparr>role = ''user'', content = Some ''Is my WEATHERPROOF jacket packed?''\<rparr>] \<noteq> []
     \<and> content (last [\<lparr>role = ''user'', content = Some ''Is my WEATHERPROOF jacket packed?''\<rparr>]) = Some ''Is my WEATHERPROOF jacket packed?''
     \<and> js_includes (js_lower ''Is my WEATHERPROOF jacket packed?'') ''weather''"
    unfolding l by simp
  have w: "handle_weather (js_lower ''Is my WEATHERPROOF jacket packed?'') None (\<lambda>c. WeatherThrows) = Simulated ''your area''"
    unfolding l by (simp add: handle_weather_def weather_city_def)
  have h2: "plan_chat \<noteq> [] \<and> content (last plan_chat) = Some ''Plan my day''
     \<and> \<not> js_includes (js_lower ''Plan my day'') ''weather'' \<and> to_history plan_chat \<noteq> []"
    by (simp add: plan_chat_def js_lower_def js_lower_char_def to_history_def)
  have e: "echo_model (dropWhile (\<lambda>g. g_role g = GModel) (butlast (to_history plan_chat))) (g_text (last (to_history plan_chat)))
      = GemReply ''Plan my day''"
    by (simp add: echo_model_def plan_chat_def to_history_def)
  have h3: "[\<lparr>role = ''user'', content = None\<rparr>] \<noteq> [] \<and> content (last [\<lparr>role = ''user'', content = None\<rparr>]) = None"
    by simp
  have r1: "chat_route (Some [\<lparr>role = ''user'', content = Some ''Is my WEATHERPROOF jacket packed?''\<rparr>]) None (\<lambda>c. WeatherThrows) echo_model
       = Some (Ok200, WeatherReply (Simulated ''your area''))"
    using chat_route_branches[of None "\<lambda>c. WeatherThrows" echo_model
        "[\<lparr>role = ''user'', content = Some ''Is my WEATHERPROOF jacket packed?''\<rparr>]" "''Is my WEATHERPROOF jacket packed?''",
        THEN conjunct2, THEN conjunct2, THEN conjunct2, THEN conjunct1] h1 w
    by simp
  have r2: "chat_route (Some plan_chat) None (\<lambda>c. WeatherThrows) echo_model = Some (Ok200, ModelReply ''Plan my day'')"
    using chat_route_branches[of None "\<lambda>c. WeatherThrows" echo_model plan_chat "''Plan my day''",
        THEN conjunct2, THEN conjunct2, THEN conjunct2, THEN conjunct2, THEN conjunct2] h2 e by simp
  have r3: "chat_route (Some [\<lparr>role = ''user'', content = None\<rparr>]) None (\<lambda>c. WeatherThrows) echo_model
       = Some (ServerError500, ConnectionTrouble)"
    using chat_route_branches[of None "\<lambda>c. WeatherThrows" echo_model "[\<lparr>role = ''user'', content = None\<rparr>]" "[]",
        THEN conjunct2, THEN conjunct2, THEN conjunct1] h3
    by simp
  show ?thesis using h1 h2 r1 r2 r3 by blast
qed

end
