(* ===== verification/Chat_Widget.thy ===== *)
theory Chat_Widget
  imports Chat_Api
begin

text \<open>
  The \<open>support-chatbot\<close> custom element of \<open>src/public/js/chatbot-widget.js\<close>: its
  state (messages, open and typing flags, attributes, the host's inline style and the
  title text), the attribute callback, its persistence in \<open>localStorage\<close>, the
  rendering of the message list, the textarea's \<open>autoResize\<close>, and the send handler with
  the effective
  \<open>getReply(latestUserText, history)\<close>. A class body that defines a method twice keeps
  the later definition, so the first \<open>getReply\<close> (lines 245-271) is never called; it
  is modelled apart (\<open>get_reply_first\<close>) and used nowhere. The shadow tree's markup
  and style sheet, focus and scrolling are not modelled. The widget's strings that hold emoji (the default welcome, the warning sign
  of an error bubble) have code units outside this model's characters; they are
  represented by the ASCII text around the emoji.
\<close>

section \<open>State\<close>

text \<open>A message of \<open>this.messages\<close>: a chat message with its time stamp.\<close>

record widget_msg = chat_msg +
  ts :: int

datatype bubble = Bubble js_string js_string int | TypingBubble

text \<open>What \<open>localStorage\<close> holds under the state key, as \<open>connectedCallback\<close> reads it
  (\<open>None\<close>: nothing, or the empty string): text that \<open>JSON.parse\<close> rejects, or that parses
  to a value whose \<open>isOpen\<close> cannot be read (\<open>null\<close>), is unreadable; otherwise it is an
  object, read as the truthiness of \<open>isOpen\<close> and \<open>messages\<close> when that is an array.\<close>

datatype saved_state = Unreadable | SavedObject bool "widget_msg list option"

record widget =
  w_messages :: "widget_msg list"
  w_open :: bool
  w_typing :: bool
  w_embedded :: bool
  w_endpoint :: js_string
  w_welcome :: "js_string option"
  w_input :: js_string
  w_list :: "bubble list"
  w_fab_shown :: bool
  w_storage :: "saved_state option"
  w_title :: "js_string option"
  w_accent :: "js_string option"
  w_position :: "js_string option"
  w_host_style :: css
  w_title_text :: js_string
  w_ta_height :: "js_string option"

definition default_welcome :: js_string where
  "default_welcome = ''Hi! How can I help?''"

text \<open>\<open>a || b\<close> on a string field and a string.\<close>

definition js_or_else :: "js_string option \<Rightarrow> js_string \<Rightarrow> js_string" where
  "js_or_else a b = (if js_truthy a then the a else b)"

text \<open>\<open>updateStyles\<close> (lines 171-186): the accent as a custom property of the host's
  inline style (\<open>null\<close> removes it), the host pinned 20 pixels from the right or the
  left edge unless embedded (an embedded host loses its whole \<open>style\<close> attribute first;
  assigning \<open>''\<close> removes a property), and the title's text (\<open>null\<close> shows nothing).\<close>

definition update_styles :: "widget \<Rightarrow> widget" where
  "update_styles w = (let pos_right = (case w_position w of None \<Rightarrow> False | Some p \<Rightarrow> js_includes p ''right'') in
     w\<lparr>w_host_style := (if w_embedded w then Map.empty(''--chat-accent'' := w_accent w)
         else ((w_host_style w)(''--chat-accent'' := w_accent w))(''right'' := (if pos_right then Some ''20px'' else None),
                                                              ''left'' := (if pos_right then None else Some ''20px''))),
       w_title_text := (case w_title w of None \<Rightarrow> [] | Some t \<Rightarrow> t)\<rparr>)"

text \<open>The constructor (lines 4-18), with the element's attributes as \<open>getAttribute\<close>
  (\<open>None\<close> when absent) and what \<open>localStorage\<close> holds under the state key; \<open>render()\<close>
  builds the empty shadow tree and applies \<open>updateStyles\<close>.\<close>

definition widget_new :: "(js_string \<Rightarrow> js_string option) \<Rightarrow> saved_state option \<Rightarrow> widget" where
  "widget_new attrs storage = update_styles
     \<lparr>w_messages = [], w_open = False, w_typing = False, w_embedded = (attrs ''embedded'' \<noteq> None),
      w_endpoint = js_or_else (attrs ''endpoint'') [],
      w_welcome = Some (js_or_else (attrs ''welcome'') default_welcome),
      w_input = [], w_list = [], w_fab_shown = True, w_storage = storage,
      w_title = Some (js_or_else (attrs ''title'') ''Support''),
      w_accent = Some (js_or_else (attrs ''accent'') ''#0ea5e9''),
      w_position = Some (js_or_else (attrs ''position'') ''bottom-right''),
      w_host_style = Map.empty, w_title_text = [], w_ta_height = None\<rparr>"

section \<open>Operations\<close>

text \<open>\<open>escape\<close> (line 230).\<close>

fun js_escape :: "js_string \<Rightarrow> js_string" where
  "js_escape [] = []"
| "js_escape (c # cs) = (if c = CHR ''&'' then ''&amp;'' else if c = CHR ''<'' then ''&lt;''
     else if c = CHR ''>'' then ''&gt;'' else [c]) @ js_escape cs"

text \<open>\<open>persistState\<close> (lines 54-56): \<open>slice(-200)\<close> keeps the last 200 messages.\<close>

definition persist_state :: "widget \<Rightarrow> widget" where
  "persist_state w = w\<lparr>w_storage := Some (SavedObject (w_open w) (Some (drop (length (w_messages w) - 200) (w_messages w))))\<rparr>"

definition bubble_of :: "widget_msg \<Rightarrow> bubble" where
  "bubble_of m = Bubble (role m) (js_escape (case content m of None \<Rightarrow> [] | Some c \<Rightarrow> c)) (ts m)"

text \<open>\<open>renderMessages\<close> (lines 210-227).\<close>

definition render_messages :: "widget \<Rightarrow> widget" where
  "render_messages w = persist_state (w\<lparr>w_list := map bubble_of (w_messages w) @ (if w_typing w then [TypingBubble] else [])\<rparr>)"

text \<open>\<open>updateOpenState\<close> (lines 185-203).\<close>

definition update_open_state :: "bool \<Rightarrow> widget \<Rightarrow> widget" where
  "update_open_state op w = persist_state
     (if w_embedded w then w\<lparr>w_open := True\<rparr> else w\<lparr>w_open := op, w_fab_shown := \<not> op\<rparr>)"

text \<open>\<open>autoResize\<close> (lines 204-207), run by the textarea's \<open>input\<close> listener with the
  textarea's \<open>scrollHeight\<close> after the edit: the inline height is first \<open>auto\<close>, then
  the scroll height capped at 120 pixels.\<close>

definition auto_resize :: "nat \<Rightarrow> widget \<Rightarrow> widget" where
  "auto_resize scroll_height w = w\<lparr>w_ta_height := Some (nat_str (min scroll_height 120) @ ''px'')\<rparr>"

text \<open>\<open>attributeChangedCallback\<close> (lines 20-30) for one of the observed attributes,
  with the old and new values (\<open>None\<close> for \<open>null\<close>).\<close>

definition attribute_changed :: "js_string \<Rightarrow> js_string option \<Rightarrow> js_string option \<Rightarrow> widget \<Rightarrow> widget" where
  "attribute_changed name old new w = (if old = new then w else
     persist_state (update_styles
       (if name = ''title'' then w\<lparr>w_title := new\<rparr>
        else if name = ''welcome'' then w\<lparr>w_welcome := new\<rparr>
        else if name = ''accent'' then w\<lparr>w_accent := new\<rparr>
        else if name = ''position'' then w\<lparr>w_position := new\<rparr>
        else if name = ''endpoint'' then w\<lparr>w_endpoint := js_or_else new []\<rparr>
        else if name = ''embedded'' then w\<lparr>w_embedded := (new \<noteq> None)\<rparr>
        else w)))"

text \<open>\<open>connectedCallback\<close> (lines 32-52) at time \<open>now\<close>.\<close>

definition connected_callback :: "int \<Rightarrow> widget \<Rightarrow> widget" where
  "connected_callback now w =
     (let w1 = (case w_storage w of
                  Some (SavedObject op ms) \<Rightarrow> w\<lparr>w_open := op, w_messages := (case ms of None \<Rightarrow> [] | Some m \<Rightarrow> m)\<rparr>
                | _ \<Rightarrow> w);
          w2 = (if w_embedded w1 then w1\<lparr>w_open := True\<rparr> else w1);
          w3 = (if w_messages w2 = [] then
                  w2\<lparr>w_messages := [\<lparr>role = ''assistant'', content = w_welcome w2, ts = now\<rparr>]\<rparr> else w2);
          w4 = render_messages w3
      in update_open_state (w_open w4) w4)"

text \<open>\<open>push\<close> (line 231).\<close>

definition push :: "js_string \<Rightarrow> js_string \<Rightarrow> int \<Rightarrow> widget \<Rightarrow> widget" where
  "push r c now w = render_messages (w\<lparr>w_messages := w_messages w @ [\<lparr>role = r, content = Some c, ts = now\<rparr>]\<rparr>)"

text \<open>\<open>handleSend\<close> up to its \<open>await\<close> (lines 233-238): the widget and the history
  \<open>getReply\<close> posts, or \<open>None\<close> when the trimmed input is empty.\<close>

definition send_start :: "int \<Rightarrow> widget \<Rightarrow> widget \<times> widget_msg list option" where
  "send_start now w = (let text = js_trim (w_input w) in
     if text = [] then (w, None)
     else (let w1 = push ''user'' text now (w\<lparr>w_input := []\<rparr>);
               w2 = render_messages (w1\<lparr>w_typing := True\<rparr>)
           in (w2, Some (w_messages w2))))"

text \<open>The endpoint's answer as \<open>getReply\<close> reads it: \<open>res.ok\<close>, \<open>res.status\<close>, the
  body's text, and its parse as JSON (\<open>None\<close> when \<open>JSON.parse\<close> throws) with the fields
  the code reads.\<close>

record reply_json =
  j_reply :: "js_string option"
  j_message :: "js_string option"
  j_text :: "js_string option"
  j_error :: "js_string option"

text \<open>\<open>getReply(latestUserText, history)\<close> (lines 272-292): the reply, or the message of
  the \<open>Error\<close> it throws. Without an endpoint it answers a demo text.\<close>

definition get_reply :: "js_string \<Rightarrow> js_string \<Rightarrow> bool \<times> nat \<times> js_string \<times> reply_json option \<Rightarrow> js_string + js_string" where
  "get_reply endpoint text answer = (if endpoint = [] then
       Inr (''You said: '' @ [CHR 0x22] @ text @ [CHR 0x22] @ nl @ nl
            @ ''(This is a demo reply. Connect your backend via the 'endpoint' attribute.)'')
     else (case answer of (ok, status, raw, parsed) \<Rightarrow>
       if \<not> ok then Inl (''HTTP '' @ nat_str status @ '': '' @ (case parsed of
           Some j \<Rightarrow> js_or_else (j_error j) raw | None \<Rightarrow> raw))
       else (case parsed of
           Some j \<Rightarrow> Inr (js_or_else (j_reply j) (js_or_else (j_message j) (js_or_else (j_text j) ''Thanks!'')))
         | None \<Rightarrow> Inl (''Bad JSON from server: '' @ take 200 raw))))"

text \<open>The first \<open>getReply(latestUserText)\<close> of the class body (lines 245-271), which the
  second definition replaces, so that no call reaches it. It posts \<open>{message}\<close>, reads
  \<open>res.text()\<close> only for an error status, and \<open>res.json()\<close> otherwise, whose
  \<open>SyntaxError\<close> carries the engine's message \<open>syntax_msg\<close>.\<close>

definition get_reply_first :: "js_string \<Rightarrow> js_string \<Rightarrow> bool \<times> nat \<times> js_string \<times> reply_json option \<Rightarrow> js_string \<Rightarrow> js_string + js_string" where
  "get_reply_first endpoint text answer syntax_msg = (if endpoint = [] then
       Inr (''You said: '' @ [CHR 0x22] @ text @ [CHR 0x22])
     else (case answer of (ok, status, raw, parsed) \<Rightarrow>
       if \<not> ok then Inl (''HTTP '' @ nat_str status @ '': '' @ raw)
       else (case parsed of
           Some j \<Rightarrow> Inr (js_or_else (j_reply j) (js_or_else (j_message j) ''No response from server''))
         | None \<Rightarrow> Inl syntax_msg)))"

text \<open>\<open>handleSend\<close> resumed (lines 239-242): the reply, or the error's message after the
  warning sign, as an assistant bubble.\<close>

definition warning_text :: "js_string \<Rightarrow> js_string" where
  "warning_text m = '' '' @ m"

definition send_finish :: "int \<Rightarrow> js_string + js_string \<Rightarrow> widget \<Rightarrow> widget" where
  "send_finish now r w = (case r of
       Inr reply \<Rightarrow> push ''assistant'' reply now (w\<lparr>w_typing := False\<rparr>)
     | Inl m \<Rightarrow> push ''assistant'' (warning_text m) now (w\<lparr>w_typing := False\<rparr>))"

text \<open>The element's creation, by the parser or by the upgrade \<open>customElements.define\<close>
  runs: the constructor, then \<open>attributeChangedCallback(name, null, value)\<close> for each
  observed attribute (line 2) the element carries, all before \<open>connectedCallback\<close>.
  The browser runs these callbacks in the element's attribute order; each writes its
  own field and persists the same empty, closed conversation, and the model runs them
  in the order of \<open>observedAttributes\<close>.\<close>

definition observed_attributes :: "js_string list" where
  "observed_attributes = [''title'', ''welcome'', ''accent'', ''position'', ''endpoint'', ''embedded'']"

definition upgrade_attr :: "(js_string \<Rightarrow> js_string option) \<Rightarrow> js_string \<Rightarrow> widget \<Rightarrow> widget" where
  "upgrade_attr attrs n w = (case attrs n of None \<Rightarrow> w | Some v \<Rightarrow> attribute_changed n None (Some v) w)"

definition widget_upgrade :: "(js_string \<Rightarrow> js_string option) \<Rightarrow> saved_state option \<Rightarrow> widget" where
  "widget_upgrade attrs storage = fold (upgrade_attr attrs) observed_attributes (widget_new attrs storage)"

section \<open>The element as a transition system\<close>

text \<open>The events \<open>bindEvents\<close> (lines 163-169) listens to, the attribute callback, and
  the resumption of a pending \<open>handleSend\<close> with what \<open>getReply\<close> gave. Typing into the
  textarea (including a newline by Shift+Enter) sets its value, and its \<open>input\<close>
  listener resizes it to the scroll height the browser lays out for the new value.\<close>

datatype widget_event = FabClick | MinimizeClick | SendClick int | EnterKey int bool
  | TypeText js_string nat | AttrChange js_string "js_string option" "js_string option"
  | Reply int "js_string + js_string"

inductive widget_step :: "widget \<Rightarrow> widget_event \<Rightarrow> widget \<Rightarrow> bool" where
  fab: "widget_step w FabClick (update_open_state True w)"
| minimize: "widget_step w MinimizeClick (update_open_state False w)"
| send: "widget_step w (SendClick now) (fst (send_start now w))"
| enter: "widget_step w (EnterKey now False) (fst (send_start now w))"
| enter_shift: "widget_step w (EnterKey now True) w"
| type: "widget_step w (TypeText v h) (auto_resize h (w\<lparr>w_input := v\<rparr>))"
| attr: "widget_step w (AttrChange n old new) (attribute_changed n old new w)"
| reply: "widget_step w (Reply now r) (send_finish now r w)"

text \<open>The states of an element created with attributes \<open>attrs\<close> and saved state
  \<open>st0\<close> once it is connected to the page.\<close>

inductive widget_reachable :: "(js_string \<Rightarrow> js_string option) \<Rightarrow> saved_state option \<Rightarrow> widget \<Rightarrow> bool" where
  init: "widget_reachable attrs st0 (connected_callback now (widget_upgrade attrs st0))"
| step: "widget_reachable attrs st0 w \<Longrightarrow> widget_step w e w' \<Longrightarrow> widget_reachable attrs st0 w'"

text \<open>What \<open>localStorage\<close> holds is what \<open>persistState\<close> writes for the current state.\<close>

definition storage_synced :: "widget \<Rightarrow> bool" where
  "storage_synced w = (w_storage w = Some (SavedObject (w_open w) (Some (drop (length (w_messages w) - 200) (w_messages w)))))"

text \<open>A conversation of two turns and the widget that holds it, open.\<close>

definition day_chat :: "widget_msg list" where
  "day_chat = [\<lparr>role = ''assistant'', content = Some default_welcome, ts = 0\<rparr>,
               \<lparr>role = ''user'', content = Some ''Plan my day'', ts = 1000\<rparr>]"

text \<open>The attributes of an element that names only its endpoint.\<close>

definition chat_attrs :: "js_string \<Rightarrow> js_string option" where
  "chat_attrs a = (if a = ''endpoint'' then Some ''/api/chat'' else None)"

definition day_widget :: widget where
  "day_widget = (widget_new chat_attrs None)\<lparr>w_messages := day_chat, w_open := True\<rparr>"

text \<open>A page that connects the element, types a message and sends it.\<close>

definition sent_widget :: widget where
  "sent_widget = fst (send_start 1000 (auto_resize 40 ((connected_callback 0 (widget_upgrade chat_attrs None))\<lparr>w_input := ''Plan my day''\<rparr>)))"

section \<open>Lemmas\<close>

named_theorems widget_simps "how the widget's operations change its fields"

lemma update_styles_fields [widget_simps]:
  "w_messages (update_styles w) = w_messages w" "w_open (update_styles w) = w_open w"
  "w_typing (update_styles w) = w_typing w" "w_embedded (update_styles w) = w_embedded w"
  "w_welcome (update_styles w) = w_welcome w" "w_endpoint (update_styles w) = w_endpoint w"
  "w_input (update_styles w) = w_input w" "w_storage (update_styles w) = w_storage w"
  by (simp_all add: update_styles_def Let_def)

lemma persist_state_fields [widget_simps]:
  "w_messages (persist_state w) = w_messages w" "w_open (persist_state w) = w_open w"
  "w_typing (persist_state w) = w_typing w" "w_embedded (persist_state w) = w_embedded w"
  "w_welcome (persist_state w) = w_welcome w" "w_endpoint (persist_state w) = w_endpoint w"
  "w_input (persist_state w) = w_input w"
  by (simp_all add: persist_state_def)

lemma render_messages_fields [widget_simps]:
  "w_messages (render_messages w) = w_messages w" "w_open (render_messages w) = w_open w"
  "w_typing (render_messages w) = w_typing w" "w_embedded (render_messages w) = w_embedded w"
  "w_welcome (render_messages w) = w_welcome w" "w_endpoint (render_messages w) = w_endpoint w"
  "w_input (render_messages w) = w_input w"
  by (simp_all add: render_messages_def widget_simps)

lemma update_open_state_fields [widget_simps]:
  "w_messages (update_open_state op w) = w_messages w"
  "w_open (update_open_state op w) = (w_embedded w \<or> op)"
  "w_typing (update_open_state op w) = w_typing w"
  "w_embedded (update_open_state op w) = w_embedded w"
  "w_endpoint (update_open_state op w) = w_endpoint w"
  by (simp_all add: update_open_state_def widget_simps)

lemma auto_resize_fields [widget_simps]:
  "w_messages (auto_resize h w) = w_messages w" "w_open (auto_resize h w) = w_open w"
  "w_typing (auto_resize h w) = w_typing w" "w_embedded (auto_resize h w) = w_embedded w"
  "w_welcome (auto_resize h w) = w_welcome w" "w_endpoint (auto_resize h w) = w_endpoint w"
  "w_input (auto_resize h w) = w_input w" "w_storage (auto_resize h w) = w_storage w"
  by (simp_all add: auto_resize_def)

lemma push_fields [widget_simps]:
  "w_messages (push r c now w) = w_messages w @ [\<lparr>role = r, content = Some c, ts = now\<rparr>]"
  "w_typing (push r c now w) = w_typing w" "w_endpoint (push r c now w) = w_endpoint w"
  by (simp_all add: push_def widget_simps)

text \<open>What the element shows after it is connected: the saved messages, or the welcome
  when there are none; the saved open flag, forced for an embedded element.\<close>

lemma connected_fields:
  "w_messages (connected_callback now w) = (let ms = (case w_storage w of
       Some (SavedObject _ ms) \<Rightarrow> (case ms of None \<Rightarrow> [] | Some m \<Rightarrow> m) | _ \<Rightarrow> w_messages w) in
     if ms = [] then [\<lparr>role = ''assistant'', content = w_welcome w, ts = now\<rparr>] else ms)"
  "w_open (connected_callback now w) = (w_embedded w \<or> (case w_storage w of Some (SavedObject op _) \<Rightarrow> op | _ \<Rightarrow> w_open w))"
  "w_endpoint (connected_callback now w) = w_endpoint w"
  by (simp_all add: connected_callback_def Let_def widget_simps split: option.splits saved_state.splits)

text \<open>A send with text: the user's message is appended, the typing bubble shown, and
  the request carries the whole conversation.\<close>

lemma send_start_text:
  assumes "js_trim (w_input w) \<noteq> []"
  shows "\<exists>w'. send_start now w = (w', Some (w_messages w'))
     \<and> w_messages w' = w_messages w @ [\<lparr>role = ''user'', content = Some (js_trim (w_input w)), ts = now\<rparr>]
     \<and> w_typing w' \<and> w_endpoint w' = w_endpoint w"
  using assms by (simp add: send_start_def Let_def widget_simps)

lemma send_finish_fields:
  "w_messages (send_finish now (Inr r) w) = w_messages w @ [\<lparr>role = ''assistant'', content = Some r, ts = now\<rparr>]"
  "w_messages (send_finish now (Inl m) w) = w_messages w @ [\<lparr>role = ''assistant'', content = Some (warning_text m), ts = now\<rparr>]"
  "\<not> w_typing (send_finish now x w)"
  by (simp_all add: send_finish_def widget_simps split: sum.split)

text \<open>Escaping leaves no tag opener in a bubble.\<close>

lemma js_escape_no_lt: "CHR ''<'' \<notin> set (js_escape s)"
  by (induction s) auto

text \<open>The upgrade's attribute callbacks: each leaves the conversation alone, writes its
  own field, and persists.\<close>

lemma upgrade_attr_fields:
  "w_messages (upgrade_attr attrs n w) = w_messages w"
  "w_open (upgrade_attr attrs n w) = w_open w"
  "w_ta_height (upgrade_attr attrs n w) = w_ta_height w"
  "w_storage (upgrade_attr attrs n w) = (if attrs n = None then w_storage w else w_storage (persist_state w))"
  "w_welcome (upgrade_attr attrs n w) = (if n = ''welcome'' \<and> attrs n \<noteq> None then attrs n else w_welcome w)"
  "w_endpoint (upgrade_attr attrs n w) = (if n = ''endpoint'' \<and> attrs n \<noteq> None then js_or_else (attrs n) [] else w_endpoint w)"
  "w_embedded (upgrade_attr attrs n w) = (w_embedded w \<or> n = ''embedded'' \<and> attrs n \<noteq> None)"
  by (auto simp: upgrade_attr_def attribute_changed_def widget_simps update_styles_def persist_state_def Let_def
      split: option.split)

lemma upgrade_fold_fields:
  "w_messages (fold (upgrade_attr attrs) ns w) = w_messages w"
  "w_open (fold (upgrade_attr attrs) ns w) = w_open w"
  "w_ta_height (fold (upgrade_attr attrs) ns w) = w_ta_height w"
  "w_embedded (fold (upgrade_attr attrs) ns w) = (w_embedded w \<or> ''embedded'' \<in> set ns \<and> attrs ''embedded'' \<noteq> None)"
  "w_welcome (fold (upgrade_attr attrs) ns w)
     = (if ''welcome'' \<in> set ns \<and> attrs ''welcome'' \<noteq> None then attrs ''welcome'' else w_welcome w)"
  by (induction ns arbitrary: w) (auto simp: upgrade_attr_fields)

lemma upgrade_fold_endpoint:
  "w_endpoint w = js_or_else (attrs ''endpoint'') [] \<Longrightarrow> w_endpoint (fold (upgrade_attr attrs) ns w) = w_endpoint w"
  by (induction ns arbitrary: w) (auto simp: upgrade_attr_fields)

lemma upgrade_fold_storage:
  "w_storage (fold (upgrade_attr attrs) ns w)
     = (if list_all (\<lambda>n. attrs n = None) ns then w_storage w else w_storage (persist_state w))"
  by (induction ns arbitrary: w) (auto simp: upgrade_attr_fields upgrade_fold_fields persist_state_def)

text \<open>A new element, after the attribute callbacks of its creation: an empty, closed
  conversation, whose saved state has been overwritten by an empty one as soon as it
  carries any observed attribute.\<close>

lemma widget_upgrade_fields:
  "w_messages (widget_upgrade attrs st) = []"
  "\<not> w_open (widget_upgrade attrs st)"
  "w_ta_height (widget_upgrade attrs st) = None"
  "w_embedded (widget_upgrade attrs st) = (attrs ''embedded'' \<noteq> None)"
  "w_endpoint (widget_upgrade attrs st) = js_or_else (attrs ''endpoint'') []"
  "w_welcome (widget_upgrade attrs st) = Some (case attrs ''welcome'' of None \<Rightarrow> default_welcome | Some v \<Rightarrow> v)"
  "w_storage (widget_upgrade attrs st)
     = (if list_all (\<lambda>n. attrs n = None) observed_attributes then st else Some (SavedObject False (Some [])))"
proof -
  have o: "''embedded'' \<in> set observed_attributes" "''welcome'' \<in> set observed_attributes"
    by (simp_all add: observed_attributes_def)
  have n: "w_messages (widget_new attrs st) = []" "\<not> w_open (widget_new attrs st)"
    "w_ta_height (widget_new attrs st) = None" "w_embedded (widget_new attrs st) = (attrs ''embedded'' \<noteq> None)"
    "w_endpoint (widget_new attrs st) = js_or_else (attrs ''endpoint'') []"
    "w_welcome (widget_new attrs st) = Some (js_or_else (attrs ''welcome'') default_welcome)"
    "w_storage (widget_new attrs st) = st"
    by (simp_all add: widget_new_def widget_simps update_styles_def Let_def)
  show "w_messages (widget_upgrade attrs st) = []" "\<not> w_open (widget_upgrade attrs st)"
    "w_ta_height (widget_upgrade attrs st) = None" "w_embedded (widget_upgrade attrs st) = (attrs ''embedded'' \<noteq> None)"
    "w_endpoint (widget_upgrade attrs st) = js_or_else (attrs ''endpoint'') []"
    unfolding widget_upgrade_def using n o by (simp_all add: upgrade_fold_fields upgrade_fold_endpoint)
  show "w_welcome (widget_upgrade attrs st) = Some (case attrs ''welcome'' of None \<Rightarrow> default_welcome | Some v \<Rightarrow> v)"
    unfolding widget_upgrade_def using n o by (simp add: upgrade_fold_fields js_or_else_def js_truthy_def split: option.split)
  show "w_storage (widget_upgrade attrs st)
     = (if list_all (\<lambda>n. attrs n = None) observed_attributes then st else Some (SavedObject False (Some [])))"
    unfolding widget_upgrade_def using n by (simp add: upgrade_fold_storage persist_state_def)
qed

text \<open>Reconnecting an element without observed attributes from what a non-embedded
  element persisted.\<close>

lemma widget_restore_roundtrip:
  assumes "list_all (\<lambda>n. attrs n = None) observed_attributes" and "w_messages w \<noteq> []"
  shows "w_messages (connected_callback now (widget_upgrade attrs (w_storage (persist_state w))))
           = drop (length (w_messages w) - 200) (w_messages w)
     \<and> w_open (connected_callback now (widget_upgrade attrs (w_storage (persist_state w)))) = w_open w"
proof -
  have "length (w_messages w) - 200 < length (w_messages w)" using assms(2) by (cases "w_messages w") auto
  then have "drop (length (w_messages w) - 200) (w_messages w) \<noteq> []" by simp
  moreover have "attrs ''embedded'' = None" using assms(1) by (simp add: observed_attributes_def)
  ultimately show ?thesis using assms(1)
    by (simp add: connected_fields persist_state_def widget_upgrade_fields Let_def)
qed

text \<open>Reconnecting an element whose saved state reads as no conversation (unreadable, or
  the empty one its own attribute callbacks wrote) starts over: the welcome alone,
  closed.\<close>

lemma connected_upgrade_fresh:
  assumes "attrs ''embedded'' = None"
    and "w_storage (widget_upgrade attrs st) = Some Unreadable \<or> w_storage (widget_upgrade attrs st) = Some (SavedObject False (Some []))"
  shows "map content (w_messages (connected_callback now (widget_upgrade attrs st)))
           = [Some (case attrs ''welcome'' of None \<Rightarrow> default_welcome | Some v \<Rightarrow> v)]
     \<and> \<not> w_open (connected_callback now (widget_upgrade attrs st))"
  using assms by (auto simp: connected_fields widget_upgrade_fields Let_def)

lemma persist_state_synced [simp]: "storage_synced (persist_state w)"
  by (simp add: storage_synced_def persist_state_def)

lemma render_messages_synced [simp]: "storage_synced (render_messages w)"
  by (simp add: render_messages_def)

lemma update_open_state_synced [simp]: "storage_synced (update_open_state op w)"
  by (simp add: update_open_state_def)

lemma push_synced [simp]: "storage_synced (push r c now w)"
  by (simp add: push_def)

lemma widget_step_synced:
  assumes "widget_step w e w'" and "storage_synced w"
  shows "storage_synced w'"
  using assms
proof (cases rule: widget_step.cases)
  case (send now)
  then show ?thesis using assms(2) by (simp add: send_start_def Let_def)
next
  case (enter now)
  then show ?thesis using assms(2) by (simp add: send_start_def Let_def)
next
  case (type v h)
  then show ?thesis using assms(2) by (simp add: storage_synced_def auto_resize_def)
next
  case (attr n old new)
  then show ?thesis using assms(2) by (simp add: attribute_changed_def)
next
  case (reply now r)
  then show ?thesis by (simp add: send_finish_def split: sum.split)
qed simp_all

lemma connected_callback_synced: "storage_synced (connected_callback now w)"
  by (simp add: connected_callback_def Let_def)

lemma widget_reachable_synced: "widget_reachable attrs st0 w \<Longrightarrow> storage_synced w"
  by (induction rule: widget_reachable.induct) (auto intro: widget_step_synced connected_callback_synced)

lemma sent_widget_reachable: "widget_reachable chat_attrs None sent_widget"
proof -
  let ?c = "connected_callback 0 (widget_upgrade chat_attrs None)"
  have "widget_reachable chat_attrs None (auto_resize 40 (?c\<lparr>w_input := ''Plan my day''\<rparr>))"
    using widget_reachable.step[OF widget_reachable.init widget_step.type] .
  then show ?thesis unfolding sent_widget_def using widget_reachable.step widget_step.send by blast
qed

text \<open>
  C32. Whether the widget's conversation survives a reload depends on the element's
  attributes. Every operation persists the state, so for any state an element reaches
  from its connection, an element reconnected from what \<open>localStorage\<close> then holds,
  and carrying none of the observed attributes, shows the last 200 messages (all of them
  when there are at most 200), without a second welcome, in the same open state. An
  element that carries any observed attribute (\<open>endpoint\<close>, \<open>title\<close>, ...) runs
  \<open>attributeChangedCallback\<close> for it before \<open>connectedCallback\<close>, and its
  \<open>persistState\<close> overwrites the saved conversation with an empty one: the reload shows
  the welcome alone, closed. So does a reload from a saved text that cannot be read.
\<close>

theorem widget_reload_restores:
  assumes "widget_reachable attrs0 st0 w" and "attrs ''embedded'' = None" and "w_messages w \<noteq> []"
  shows "(list_all (\<lambda>n. attrs n = None) observed_attributes \<longrightarrow>
            w_messages (connected_callback now (widget_upgrade attrs (w_storage w))) = drop (length (w_messages w) - 200) (w_messages w)
          \<and> w_open (connected_callback now (widget_upgrade attrs (w_storage w))) = w_open w)
     \<and> (\<not> list_all (\<lambda>n. attrs n = None) observed_attributes \<longrightarrow>
            map content (w_messages (connected_callback now (widget_upgrade attrs (w_storage w))))
              = [Some (case attrs ''welcome'' of None \<Rightarrow> default_welcome | Some v \<Rightarrow> v)]
          \<and> \<not> w_open (connected_callback now (widget_upgrade attrs (w_storage w))))
     \<and> map content (w_messages (connected_callback now (widget_upgrade attrs (Some Unreadable))))
           = [Some (case attrs ''welcome'' of None \<Rightarrow> default_welcome | Some v \<Rightarrow> v)]
     \<and> \<not> w_open (connected_callback now (widget_upgrade attrs (Some Unreadable)))"
proof -
  have s: "w_storage w = w_storage (persist_state w)"
    using widget_reachable_synced[OF assms(1)] by (simp add: storage_synced_def persist_state_def)
  have u: "w_storage (widget_upgrade attrs (Some Unreadable)) = Some Unreadable
      \<or> w_storage (widget_upgrade attrs (Some Unreadable)) = Some (SavedObject False (Some []))"
    by (simp add: widget_upgrade_fields)
  have a: "\<not> list_all (\<lambda>n. attrs n = None) observed_attributes \<Longrightarrow>
      w_storage (widget_upgrade attrs (w_storage w)) = Some (SavedObject False (Some []))"
    by (simp add: widget_upgrade_fields)
  show ?thesis using widget_restore_roundtrip[where attrs = attrs and w = w and now = now] s
      connected_upgrade_fresh[where attrs = attrs and now = now, OF assms(2)] a u assms(3) by auto
qed

theorem widget_reload_restores_witness:
  "widget_reachable chat_attrs None sent_widget \<and> chat_attrs ''embedded'' = None \<and> w_messages sent_widget \<noteq> []
   \<and> map content (w_messages (connected_callback 5000 (widget_upgrade (\<lambda>_. None) (w_storage sent_widget))))
       = [Some default_welcome, Some ''Plan my day'']
   \<and> map content (w_messages (connected_callback 5000 (widget_upgrade chat_attrs (w_storage sent_widget))))
       = [Some default_welcome]
   \<and> map content (w_messages (connected_callback 5000 (widget_upgrade chat_attrs (Some Unreadable)))) = [Some default_welcome]"
proof -
  have m: "map content (w_messages sent_widget) = [Some default_welcome, Some ''Plan my day'']"
    by (simp add: sent_widget_def send_start_def Let_def widget_simps connected_fields widget_upgrade_fields
        chat_attrs_def js_trim_def js_space_def)
  have h: "widget_reachable chat_attrs None sent_widget" "chat_attrs ''embedded'' = None" "w_messages sent_widget \<noteq> []"
    using sent_widget_reachable m by (auto simp: chat_attrs_def)
  have h0: "(\<lambda>_. None) ''embedded'' = (None :: js_string option)" by simp
  have l: "length (w_messages sent_widget) - 200 = 0" using arg_cong[OF m, of length] by simp
  have n: "list_all (\<lambda>n. (\<lambda>_. None) n = (None :: js_string option)) observed_attributes"
    "\<not> list_all (\<lambda>n. chat_attrs n = None) observed_attributes"
    "chat_attrs ''welcome'' = None"
    by (simp_all add: observed_attributes_def chat_attrs_def)
  show ?thesis
    using h m l n widget_reload_restores[where attrs = "\<lambda>_. None" and w = sent_widget and now = 5000, OF h(1) h0 h(3)]
      widget_reload_restores[where attrs = chat_attrs and w = sent_widget and now = 5000, OF h]
    by simp
qed

text \<open>The textarea never grows past 120 pixels: in every state the element reaches, its
  inline height is unset or a number of pixels of at most 120.\<close>

definition textarea_bounded :: "widget \<Rightarrow> bool" where
  "textarea_bounded w = (case w_ta_height w of None \<Rightarrow> True | Some h \<Rightarrow> (\<exists>n \<le> 120. h = nat_str n @ ''px''))"

lemma ta_height_kept [simp]:
  "w_ta_height (update_styles w) = w_ta_height w" "w_ta_height (persist_state w) = w_ta_height w"
  "w_ta_height (render_messages w) = w_ta_height w" "w_ta_height (update_open_state op w) = w_ta_height w"
  "w_ta_height (push r c now w) = w_ta_height w" "w_ta_height (attribute_changed n old new w) = w_ta_height w"
  "w_ta_height (fst (send_start now w)) = w_ta_height w" "w_ta_height (send_finish now a w) = w_ta_height w"
  "w_ta_height (connected_callback now w) = w_ta_height w"
  by (simp_all add: update_styles_def persist_state_def render_messages_def update_open_state_def push_def
      attribute_changed_def send_start_def send_finish_def connected_callback_def Let_def
      split: sum.split option.split prod.split saved_state.split)

lemma textarea_bounded_cong: "w_ta_height w' = w_ta_height w \<Longrightarrow> textarea_bounded w' = textarea_bounded w"
  by (simp add: textarea_bounded_def)

lemma auto_resize_bounded: "textarea_bounded (auto_resize h w)"
  by (simp add: textarea_bounded_def auto_resize_def) (rule exI[of _ "min h 120"], simp)

lemma widget_reachable_textarea: "widget_reachable attrs st0 w \<Longrightarrow> textarea_bounded w"
proof (induction rule: widget_reachable.induct)
  case (init now)
  then show ?case by (simp add: textarea_bounded_def widget_upgrade_fields)
next
  case (step attrs st0 w e w')
  from step.hyps(2) have "w_ta_height w' = w_ta_height w \<or> (\<exists>h v. w' = auto_resize h (w\<lparr>w_input := v\<rparr>))"
    by (cases rule: widget_step.cases) (simp_all, blast)
  then show ?case using step.IH auto_resize_bounded textarea_bounded_cong[of w' w] by blast
qed

end
