(* ===== verification/Data_Generator.thy ===== *)
theory Data_Generator
  imports Js_Date_Parse
begin

text \<open>
  The sample-data script \<open>src/generateData.js\<close>: \<open>randomInt\<close>, \<open>generateTasks\<close> and the
  \<open>dataset\<close> of five categories it prints. \<open>Math.random()\<close> is an explicit source of
  draws, the function from the index of a call to the value it returns (a rational in
  \<open>[0, 1)\<close> for the real generator, floating-point rounding abstracted away); the draws
  of the script are numbered in the order the calls happen. Printing the JSON is not
  modelled. Proved: every drawn number lies in its range, the tasks of a category have
  distinct identifiers, titles and priorities are always defined, and the time stamps
  the script writes are outside ECMAScript's date-time format whenever the day or the
  hour has one digit.
\<close>

section \<open>Definitions\<close>

text \<open>\<open>randomInt(min, max)\<close> (lines 41-43) on the draw \<open>r\<close>.\<close>

definition random_int :: "int \<Rightarrow> int \<Rightarrow> rat \<Rightarrow> int" where
  "random_int lo hi r = floor (r * of_int (hi - lo + 1)) + lo"

text \<open>Indexing an array: \<open>undefined\<close> (\<open>None\<close>) out of range.\<close>

definition js_index :: "'a list \<Rightarrow> int \<Rightarrow> 'a option" where
  "js_index xs k = (if 0 \<le> k \<and> nat k < length xs then Some (xs ! nat k) else None)"

text \<open>The \<open>categories\<close> object (lines 1-37) and \<open>priorities\<close> (line 39).\<close>

definition categories :: "(js_string \<times> js_string list) list" where
  "categories = [
     (''Work'', [''Team meeting'', ''Code development'', ''Client call'', ''Report preparation'', ''Bug fixing'']),
     (''Personal'', [''Family time'', ''Grocery shopping'', ''Doctor visit'', ''Bill payments'', ''Personal planning'']),
     (''Hobby'', [''Reading books'', ''Learning guitar'', ''Painting'', ''Photography'', ''Blog writing'']),
     (''Fun'', [''Watching movies'', ''Gaming'', ''Friends meetup'', ''Social media'', ''Music time'']),
     (''Rest'', [''Sleeping'', ''Meditation'', ''Power nap'', ''Relaxing'', ''Yoga''])]"

definition priorities :: "js_string list" where
  "priorities = [''Low'', ''Medium'', ''High'']"

record gen_task =
  g_id :: js_string
  g_category :: js_string
  g_title :: "js_string option"
  g_description :: js_string
  g_start :: js_string
  g_end :: js_string
  g_priority :: "js_string option"
  g_duration :: int

text \<open>The time stamp template \<open>2025-01-${day}T${hour}:00\<close>.\<close>

definition task_time :: "int \<Rightarrow> int \<Rightarrow> js_string" where
  "task_time d h = ''2025-01-'' @ int_str d @ ''T'' @ int_str h @ '':00''"

text \<open>Iteration \<open>i\<close> of the loop of \<open>generateTasks\<close> (lines 48-62), whose draws start at
  \<open>b + 6 i\<close>: start hour, duration, then, in the order of the object literal, title,
  start day, end day and priority.\<close>

definition gen_task_at :: "js_string \<Rightarrow> js_string list \<Rightarrow> nat \<Rightarrow> (nat \<Rightarrow> rat) \<Rightarrow> nat \<Rightarrow> gen_task" where
  "gen_task_at c ts b rnd i =
     (let j = b + 6 * i;
          h = random_int 6 20 (rnd j);
          dur = random_int 30 180 (rnd (j + 1))
      in \<lparr>g_id = c @ ''-'' @ nat_str (i + 1), g_category = c,
          g_title = js_index ts (random_int 0 4 (rnd (j + 2))),
          g_description = c @ '' related activity'',
          g_start = task_time (random_int 1 28 (rnd (j + 3))) h,
          g_end = task_time (random_int 1 28 (rnd (j + 4))) (h + 1),
          g_priority = js_index priorities (random_int 0 2 (rnd (j + 5))),
          g_duration = dur\<rparr>)"

text \<open>\<open>generateTasks(category, count)\<close> (lines 45-65) with its first draw at \<open>b\<close>; an
  unknown category throws a TypeError at the first iteration (\<open>None\<close>).\<close>

definition generate_tasks :: "js_string \<Rightarrow> nat \<Rightarrow> nat \<Rightarrow> (nat \<Rightarrow> rat) \<Rightarrow> gen_task list option" where
  "generate_tasks c count b rnd = (case map_of categories c of
       None \<Rightarrow> if count = 0 then Some [] else None
     | Some ts \<Rightarrow> Some (map (gen_task_at c ts b rnd) [0..<count]))"

text \<open>The \<open>dataset\<close> object (lines 67-73): the categories in order, each consuming six
  draws per task.\<close>

definition dataset :: "(nat \<Rightarrow> rat) \<Rightarrow> (js_string \<times> gen_task list option) list" where
  "dataset rnd = [(''Work'', generate_tasks ''Work'' 120 0 rnd),
                  (''Personal'', generate_tasks ''Personal'' 110 720 rnd),
                  (''Hobby'', generate_tasks ''Hobby'' 100 1380 rnd),
                  (''Fun'', generate_tasks ''Fun'' 105 1980 rnd),
                  (''Rest'', generate_tasks ''Rest'' 130 2610 rnd)]"

text \<open>What \<open>Math.random\<close> promises.\<close>

definition unit_draws :: "(nat \<Rightarrow> rat) \<Rightarrow> bool" where
  "unit_draws rnd = (\<forall>j. 0 \<le> rnd j \<and> rnd j < 1)"

section \<open>Lemmas\<close>

lemma random_int_bounds:
  assumes "0 \<le> r" and "r < 1" and "lo \<le> hi"
  shows "lo \<le> random_int lo hi r \<and> random_int lo hi r \<le> hi"
proof -
  have n: "0 < (of_int (hi - lo + 1) :: rat)" using assms(3) by simp
  have "0 \<le> r * of_int (hi - lo + 1)" using assms(1) n by simp
  then have a: "0 \<le> floor (r * of_int (hi - lo + 1))" by simp
  have c: "r * of_int (hi - lo + 1) < of_int (hi - lo + 1)"
    using mult_strict_right_mono[OF assms(2) n] by simp
  have b: "floor (r * of_int (hi - lo + 1)) < hi - lo + 1" using c by (simp only: floor_less_iff)
  show ?thesis using a b by (simp add: random_int_def)
qed

lemma js_index_Some: "0 \<le> k \<Longrightarrow> nat k < length xs \<Longrightarrow> js_index xs k \<noteq> None"
  by (simp add: js_index_def)

text \<open>Every task of a known category has a title and a priority, a start hour in
  \<open>6..20\<close>, an end hour one later, days in \<open>1..28\<close> and a duration in \<open>30..180\<close>.\<close>

lemma gen_task_at_ranges:
  assumes "unit_draws rnd" and "length ts = 5"
  shows "g_title (gen_task_at c ts b rnd i) \<noteq> None \<and> g_priority (gen_task_at c ts b rnd i) \<noteq> None
     \<and> 30 \<le> g_duration (gen_task_at c ts b rnd i) \<and> g_duration (gen_task_at c ts b rnd i) \<le> 180
     \<and> (\<exists>d h. 1 \<le> d \<and> d \<le> 28 \<and> 6 \<le> h \<and> h \<le> 20 \<and> g_start (gen_task_at c ts b rnd i) = task_time d h)"
proof -
  have u: "0 \<le> rnd j \<and> rnd j < 1" for j using assms(1) by (simp add: unit_draws_def)
  let ?j = "b + 6 * i"
  have t: "0 \<le> random_int 0 4 (rnd (?j + 2)) \<and> random_int 0 4 (rnd (?j + 2)) \<le> 4"
    using random_int_bounds[of "rnd (?j + 2)" 0 4] u by simp
  have p: "0 \<le> random_int 0 2 (rnd (?j + 5)) \<and> random_int 0 2 (rnd (?j + 5)) \<le> 2"
    using random_int_bounds[of "rnd (?j + 5)" 0 2] u by simp
  have d: "30 \<le> random_int 30 180 (rnd (?j + 1)) \<and> random_int 30 180 (rnd (?j + 1)) \<le> 180"
    using random_int_bounds[of "rnd (?j + 1)" 30 180] u by simp
  have h: "6 \<le> random_int 6 20 (rnd ?j) \<and> random_int 6 20 (rnd ?j) \<le> 20"
    using random_int_bounds[of "rnd ?j" 6 20] u by simp
  have s: "1 \<le> random_int 1 28 (rnd (?j + 3)) \<and> random_int 1 28 (rnd (?j + 3)) \<le> 28"
    using random_int_bounds[of "rnd (?j + 3)" 1 28] u by simp
  have ti: "nat (random_int 0 4 (rnd (?j + 2))) < length ts" using t assms(2) by linarith
  have pi: "nat (random_int 0 2 (rnd (?j + 5))) < length priorities" using p by (simp add: priorities_def nat_less_iff)
  show ?thesis using js_index_Some[OF _ ti] js_index_Some[OF _ pi] t p d h s
    by (auto simp: gen_task_at_def Let_def)
qed

lemma generate_tasks_ids:
  "generate_tasks c count b rnd = Some tasks \<Longrightarrow> distinct (map g_id tasks)"
  by (auto simp: generate_tasks_def gen_task_at_def Let_def distinct_map inj_on_def nat_str_inj
      split: option.splits if_splits)

lemma nat_str_one: "n < 10 \<Longrightarrow> nat_str n = [digit_char n]"
  by simp

lemma nat_str_two: "10 \<le> n \<Longrightarrow> n < 100 \<Longrightarrow> nat_str n = [digit_char (n div 10), digit_char (n mod 10)]"
  by (subst nat_str.simps) simp

lemma digit_char_not_digit:
  "digit_val CHR ''T'' = None" "digit_val CHR '':'' = None"
  by (simp_all add: digit_val_def)

text \<open>The time stamps of the script are in the date-time format only when both the day
  and the hour have two digits: \<open>2025-01-5T14:00\<close> and \<open>2025-01-15T9:00\<close> are an Invalid
  Date for the format's parser (engines may accept them only through their own
  fallback formats).\<close>

lemma task_time_one_digit_day:
  assumes "1 \<le> d" and "d < 10"
  shows "date_parse tza (task_time d h) = None"
proof -
  have s: "int_str d = [digit_char (nat d)]" using assms by (simp add: int_str_def)
  have "parse_date_fields (task_time d h) = None"
    using assms unfolding task_time_def s
    by (simp add: parse_date_fields_def parse_year_def take_num_def expect_def parse_nat_def
        digit_val_def digit_char_def)
  then show ?thesis by (simp add: date_parse_def)
qed

lemma task_time_one_digit_hour:
  assumes "10 \<le> d" and "d \<le> 28" and "0 \<le> h" and "h < 10"
  shows "date_parse tza (task_time d h) = None"
proof -
  have sd: "int_str d = [digit_char (nat d div 10), digit_char (nat d mod 10)]"
    using assms(1,2) nat_str_two[of "nat d"] by (simp add: int_str_def)
  have sh: "int_str h = [digit_char (nat h)]" using assms(3,4) by (simp add: int_str_def)
  have dv: "digit_val (digit_char (nat d div 10)) = Some (nat d div 10)"
    "digit_val (digit_char (nat d mod 10)) = Some (nat d mod 10)" "digit_val (digit_char (nat h)) = Some (nat h)"
    using assms by simp_all
  have "parse_date_fields (task_time d h) = Some ((2025, 1, nat d), ''T'' @ [digit_char (nat h)] @ '':00'')"
    unfolding task_time_def sd sh using dv assms(1,2)
    by (simp add: parse_date_fields_def parse_year_def take_num_def expect_def parse_nat_def digit_val_def)
  moreover have "parse_time_fields ([digit_char (nat h)] @ '':00'') = None"
    using dv by (simp add: parse_time_fields_def take_num_def parse_nat_def digit_char_not_digit)
  ultimately show ?thesis by (simp add: date_parse_def Let_def expect_def)
qed

end
