(* ===== verification/Auth_Session.thy ===== *)
theory Auth_Session
  imports Server_Api
begin

text \<open>
  Sign-in and sessions of \<open>src/server.js\<close>: the session middleware (lines 33-40), the
  Passport callbacks \<open>serializeUser\<close>/\<open>deserializeUser\<close> (lines 42-43), the Google
  strategy's verify callback (lines 46-53), and the routes \<open>GET /auth/google\<close> (lines
  56-64), \<open>GET /auth/google/callback\<close> (lines 194-197) and \<open>GET /logout\<close> (lines
  231-233). The server side is the session store of \<open>express-session\<close>, a map from
  session identifiers to what \<open>session.passport.user\<close> holds; the client side is the
  \<open>connect.sid\<close> cookie of each browser. Identifiers are drawn fresh (a counter stands
  for the library's random identifiers). \<open>req.login\<close> and \<open>req.logout\<close> are library
  code (Passport 0.6 and later, which the callback form \<open>req.logout(callback)\<close> of line
  232 requires): the model states what they do to the store and the cookie, as the
  library documents it, and proves nothing of the library itself. The theory serves
  the root's claims on what a signed-in browser's requests see.
\<close>

section \<open>Definitions\<close>

text \<open>The Google profile Passport hands to the verify callback.\<close>

record google_profile =
  gp_emails :: "js_string list"
  gp_photos :: "js_string list"
  gp_display_name :: "js_string option"

text \<open>The verify callback (lines 50-53): the access token is stored on the profile,
  the refresh token is dropped.\<close>

definition google_verify :: "js_string \<Rightarrow> js_string \<Rightarrow> google_profile \<Rightarrow> session_user" where
  "google_verify access_token refresh_token p =
     \<lparr>s_emails = gp_emails p, s_photos = gp_photos p, s_display_name = gp_display_name p,
      s_token = access_token\<rparr>"

text \<open>\<open>serializeUser\<close> and \<open>deserializeUser\<close> (lines 42-43) both pass the whole user on.\<close>

definition serialize_user :: "session_user \<Rightarrow> session_user" where
  "serialize_user u = u"

definition deserialize_user :: "session_user \<Rightarrow> session_user" where
  "deserialize_user u = u"

text \<open>The client registration of lines 47-49 and the scopes of line 58-62.\<close>

definition client_id :: js_string where
  "client_id = ''430272771846-rchpnm556q6sha2e913k9c9hpojed785.apps.googleusercontent.com''"

definition callback_url :: js_string where
  "callback_url = ''http://localhost:3000/auth/google/callback''"

definition google_scopes :: "js_string list" where
  "google_scopes = [''profile'', ''email'', ''https://www.googleapis.com/auth/calendar.readonly'']"

text \<open>The store of \<open>express-session\<close> and the browsers' cookies.\<close>

record auth_state =
  sessions :: "nat \<Rightarrow> session_user option"
  next_sid :: nat
  jar :: "nat \<Rightarrow> nat option"

definition auth_init :: auth_state where
  "auth_init = \<lparr>sessions = Map.empty, next_sid = 0, jar = (\<lambda>_. None)\<rparr>"

text \<open>\<open>req.user\<close> of a request from browser \<open>b\<close> after \<open>passport.session()\<close> (line 40):
  the deserialized user of the session its cookie names, if that session is stored.\<close>

definition req_user :: "auth_state \<Rightarrow> nat \<Rightarrow> session_user option" where
  "req_user st b = (case jar st b of None \<Rightarrow> None | Some s \<Rightarrow> map_option deserialize_user (sessions st s))"

text \<open>What Google answers the callback with: a granted sign-in (access token, refresh
  token, profile), a denied one, or a failed code exchange.\<close>

datatype google_answer = Granted js_string js_string google_profile | Denied | ExchangeFailed

datatype auth_response = ToGoogle js_string js_string "js_string list" | Redirect js_string
  | AuthStatus http_status

text \<open>\<open>GET /auth/google\<close> (lines 56-64): the redirect to Google's consent page for the
  client, its callback and the scopes; no session is stored.\<close>

definition auth_google :: "auth_state \<Rightarrow> auth_response \<times> auth_state" where
  "auth_google st = (ToGoogle client_id callback_url google_scopes, st)"

text \<open>The library's \<open>req.login(user)\<close> (Passport 0.6), which the callback route invokes
  for browser \<open>b\<close>: the session the cookie named is destroyed, a fresh one is stored
  holding the serialized user, and the browser receives its identifier.\<close>

definition passport_login :: "nat \<Rightarrow> session_user \<Rightarrow> auth_state \<Rightarrow> auth_state" where
  "passport_login b u st = (let s = next_sid st;
       old = (case jar st b of None \<Rightarrow> sessions st | Some s0 \<Rightarrow> (sessions st)(s0 := None)) in
     st\<lparr>sessions := old(s \<mapsto> serialize_user u), next_sid := Suc s, jar := (jar st)(b \<mapsto> s)\<rparr>)"

text \<open>\<open>GET /auth/google/callback\<close> (lines 194-197): the verify callback and the login,
  then the redirect to the dashboard; a denied sign-in goes to the failure redirect,
  a failed exchange is an error answered with 500.\<close>

definition auth_callback :: "nat \<Rightarrow> google_answer \<Rightarrow> auth_state \<Rightarrow> auth_response \<times> auth_state" where
  "auth_callback b ans st = (case ans of
       Granted atok rtok p \<Rightarrow> (Redirect ''/dashboard.html'', passport_login b (google_verify atok rtok p) st)
     | Denied \<Rightarrow> (Redirect ''/'', st)
     | ExchangeFailed \<Rightarrow> (AuthStatus ServerError500, st))"

text \<open>\<open>GET /logout\<close> (lines 231-233): the library's \<open>req.logout\<close> removes the user from
  the session and regenerates it; the regenerated session holds nothing, so it is not
  stored; then the redirect to \<open>/\<close>.\<close>

definition auth_logout :: "nat \<Rightarrow> auth_state \<Rightarrow> auth_response \<times> auth_state" where
  "auth_logout b st = (Redirect ''/'', case jar st b of None \<Rightarrow> st
     | Some s \<Rightarrow> st\<lparr>sessions := (sessions st)(s := None)\<rparr>)"

text \<open>The requests of the sign-in routes from browser \<open>b\<close>.\<close>

datatype auth_event = VisitAuth nat | Callback nat google_answer | Logout nat

fun auth_apply :: "auth_event \<Rightarrow> auth_state \<Rightarrow> auth_state" where
  "auth_apply (VisitAuth b) st = snd (auth_google st)"
| "auth_apply (Callback b ans) st = snd (auth_callback b ans st)"
| "auth_apply (Logout b) st = snd (auth_logout b st)"

text \<open>Sample Google profiles.\<close>

definition alice_profile :: google_profile where
  "alice_profile = \<lparr>gp_emails = [''alice@x.org''], gp_photos = [''a.png''], gp_display_name = Some ''Alice''\<rparr>"

definition mallory_profile :: google_profile where
  "mallory_profile = \<lparr>gp_emails = [''mallory@x.org''], gp_photos = [''m.png''], gp_display_name = None\<rparr>"

section \<open>Lemmas\<close>

lemma req_user_login:
  "req_user (passport_login b u st) b = Some u"
  by (simp add: req_user_def passport_login_def serialize_user_def deserialize_user_def Let_def)

end
