(* ===== verification/Help_Button.thy ===== *)
theory Help_Button
  imports View_Controller
begin

text \<open>
  The help button of \<open>dashboard.js\<close> (lines 592-604): \<open>openChatModal\<close> shows the element
  \<open>chatbotModal\<close>, an identifier the script never declares. It resolves only through
  the window's named access to an element with that id in the page's markup, whose
  inline style is the input here (\<open>None\<close> when the markup has none); otherwise reading
  the identifier throws a \<open>ReferenceError\<close> before the \<open>if\<close> is tested, which the
  click listener reports. Proved: both outcomes of a click.
\<close>

section \<open>Definitions\<close>

definition chatbot_modal_error :: js_error where
  "chatbot_modal_error = ReferenceError ''chatbotModal is not defined''"

text \<open>\<open>openChatModal()\<close> (lines 600-604) on the style of the element named
  \<open>chatbotModal\<close>: an element is always truthy, so the guard never skips.\<close>

definition open_chat_modal :: "css option \<Rightarrow> css option completion" where
  "open_chat_modal el = (case el of
       None \<Rightarrow> Abrupt chatbot_modal_error None
     | Some st \<Rightarrow> Normal (Some (st(''display'' \<mapsto> ''flex''))))"

text \<open>A click on the help button (lines 592-598): the listener exists only when
  \<open>.help-btn\<close> was found when the script ran; an escaping error is reported.\<close>

definition help_click :: "bool \<Rightarrow> css option \<Rightarrow> 'a dash_scheme \<Rightarrow> css option \<times> 'a dash_scheme" where
  "help_click has_btn el d = (if \<not> has_btn then (el, d) else
     (case open_chat_modal el of
        Normal el' \<Rightarrow> (el', d)
      | Abrupt e el' \<Rightarrow> (el', report (Abrupt e d))))"

section \<open>Lemmas\<close>

text \<open>A click on the help button shows the chat modal only when the markup has an element
  with the id \<open>chatbotModal\<close>; without one the listener reports a \<open>ReferenceError\<close> and the
  page is otherwise unchanged, the \<open>if (chatbotModal)\<close> guard notwithstanding.\<close>

lemma help_click_outcomes:
  "help_click True (Some st) d = (Some (st(''display'' \<mapsto> ''flex'')), d)"
  "help_click True None d = (None, d\<lparr>reported := reported d @ [ReferenceError ''chatbotModal is not defined'']\<rparr>)"
  "help_click False el d = (el, d)"
  by (simp_all add: help_click_def open_chat_modal_def report_def chatbot_modal_error_def)

end
