(* ===== verification/Spec2Isabelle.thy ===== *)
theory Spec2Isabelle
  imports View_Controller Chat_Widget Data_Generator Auth_Session Dashboard_Charts Help_Button
begin

text \<open>
  A verification library for the calendar dashboard of this repository: the page
  \<open>src/public/js/dashboard.js\<close>, the routes of \<open>src/server.js\<close> it calls, and the
  reminder job of \<open>src/server.js\<close> over the \<open>Event\<close> collection of
  \<open>src/models/Event.js\<close>. A browser signs in with Google through \<open>/auth/google\<close> and
  its callback, which store the profile and access token in a session named by the
  browser's cookie. The page loads the signed-in user from \<open>GET /user\<close>, then the
  Google Calendar items from \<open>GET /calendar/events\<close>, renders them in an hour, week or
  month view chosen in a selector or a modal, moves a current-time marker every minute,
  shows a to-do list and pending tasks, and posts new tasks to
  \<open>POST /api/analyze-task\<close>, which forwards them to a webhook and saves them as TODO
  events of a database user. Every definition is a shallow embedding of the code named
  in its theory's text: handlers are functions on records of the page or store state,
  a throw is the \<open>Abrupt\<close> completion or the \<open>Inl\<close> of a sum that keeps the effects made
  before it, and the asynchronous parts are inductive step relations.

  \<^bold>\<open>Theories.\<close>
  \<^item> \<open>Js_Prelude\<close>, \<open>Js_String\<close>: completions (\<open>Normal\<close>/\<open>Abrupt\<close>), \<open>for_each\<close> and its
    invariant rule, truthiness, CSS maps, integer printing and parsing with their round
    trip, \<open>split\<close> on a character.
  \<^item> \<open>Js_Date\<close>, \<open>Js_Date_Parse\<close>: the ECMA-262 \<open>Date\<close> operations the page calls (library
    semantics, modelled from the standard with a fixed local-time offset), and
    \<open>new Date(string)\<close> on the standard's date-time format.
  \<^item> \<open>Dashboard_Model\<close>: calendar items as records with optional fields, DOM nodes, and
    the record \<open>cal_dom\<close> of the calendar's mount points.
  \<^item> \<open>Hour_Grid\<close> (\<open>generateHours\<close>), \<open>Event_Layout\<close> (\<open>renderHourView\<close>,
    \<open>renderEvent\<close>, \<open>formatTime\<close>, \<open>getColor\<close>), \<open>Calendar_Grid\<close> (\<open>renderWeekView\<close>,
    \<open>renderMonthView\<close> as completions that may throw).
  \<^item> \<open>Time_Cursor\<close>: \<open>showCurrentTimeLine\<close> and \<open>scrollToCurrentTime\<close> on \<open>cursor_dom\<close>,
    which extends \<open>cal_dom\<close> with the marker's node identity and the scroll offset.
  \<^item> \<open>View_Controller\<close>: the page record \<open>dash\<close> (extending \<open>cursor_dom\<close>),
    \<open>switchView\<close>, the selector and backdrop listeners, the \<open>/user\<close> and
    \<open>/calendar/events\<close> callbacks and the interval tick, composed as the inductive
    \<open>ui_step\<close> with its \<open>reachable\<close> states; invariants by rule induction.
  \<^item> \<open>Task_Lists\<close>: the to-do list and its checkboxes, \<open>renderPendingTasks\<close> over the
    shared task objects, and the task dialog's async save handler as the step relation
    \<open>dialog_step\<close>.
  \<^item> \<open>Server_Api\<close>: \<open>GET /user\<close>, \<open>GET /calendar/events\<close>, \<open>getDbUser\<close>,
    \<open>POST /api/analyze-task\<close> on an explicit store (users, events, fresh ids, console,
    webhook log, alerts) with \<open>sendToWebhook\<close> of \<open>src/send.js\<close> split at its
    \<open>await\<close>, and \<open>checkReminders\<close> both as a function and, for overlapping
    interval calls, as interleaved processes of \<open>polls_step\<close>; concurrent requests
    to the analyze-task route as interleaved processes of \<open>tasks_step\<close>, split at
    the \<open>await\<close>s of \<open>getDbUser\<close> (\<open>User.findOne\<close>, \<open>User.create\<close>) and of
    \<open>Event.create\<close>, which refine the atomic \<open>analyze_task\<close>; the schema invariant
    \<open>store_wf\<close> over the operations \<open>server_op\<close>, which apply requests one at a time.
  \<^item> \<open>Chat_Api\<close>: \<open>POST /api/chat\<close> with the model and the weather service as parameters,
    \<open>handleWeather\<close> with the city regular expression as a leftmost-match function, and
    the history-trimming loop as a \<open>while_option\<close> whose halting is proved by a measure.
  \<^item> \<open>Chat_Widget\<close>: the \<open>support-chatbot\<close> element of \<open>chatbot-widget.js\<close> (state record,
    attributes and host style, persistence in \<open>localStorage\<close>, rendering, the two
    halves of the async send handler); its creation \<open>widget_upgrade\<close> runs the
    constructor and then \<open>attributeChangedCallback\<close> for each observed attribute the
    element carries, as the browser does before \<open>connectedCallback\<close>.
  \<^item> \<open>Data_Generator\<close>: \<open>src/generateData.js\<close> with \<open>Math.random\<close> as an explicit
    source of draws; ranges of the drawn fields, distinct identifiers, and the time
    stamps it writes checked against the date parser of \<open>Js_Date_Parse\<close>.
  \<^item> \<open>Auth_Session\<close>: sign-in and sessions of \<open>src/server.js\<close> (session middleware,
    \<open>serializeUser\<close>/\<open>deserializeUser\<close>, the Google verify callback, \<open>/auth/google\<close>,
    its callback and \<open>/logout\<close>) as operations \<open>auth_apply\<close> on the session store
    and the browsers' cookies; \<open>req_user\<close> is the \<open>req.user\<close> the routes of
    \<open>Server_Api\<close> receive. \<open>req.login\<close> and \<open>req.logout\<close> are Passport's and are stated,
    not verified.
  \<^item> \<open>Dashboard_Charts\<close>: the Chart.js configurations of the bar and pie charts of
    \<open>dashboard.js\<close> and the bar chart's tooltip callback (configuration data; no
    property is claimed of it).
  \<^item> \<open>Help_Button\<close>: the help button's listener and \<open>openChatModal\<close>, whose
    undeclared \<open>chatbotModal\<close> resolves only through the markup's named element.
  \<^item> This theory: the page composed with the server. \<open>page_load\<close> feeds the route
    answers for a session into the page's events (\<open>user_reply\<close>, \<open>events_reply\<close>,
    \<open>ui_apply\<close>); \<open>task_round_trip\<close> sends the dialog's request to the route and
    resumes the handler with the client's reading of the answer (\<open>client_reply\<close>); the
    chat widget's send is answered by the chat route.

  \<^bold>\<open>What is shown.\<close> Functional behaviour of each renderer on every branch (hour labels,
  event placement, week and month grids, the thrown TypeError of malformed events);
  invariants of the reachable page (one time-line marker, the calendar surface in a
  container, events only after sign-in) and of the dialog (one request in flight);
  the to-do and pending lists in sync with their checkboxes; at-most-once and delivery of
  reminders under sequential polls and the duplicate alert under overlapping ones;
  the analyze-task route's save and its error path, and that two concurrent requests
  for the same new e-mail both create a user (while each request alone takes the
  atomic route, and sequential requests create it once);
  and, here, what a signed-in or a profile-less session shows on the loaded page, and
  the task dialog's round trip through the route in its success and error cases; the
  chat route on each branch and the weather city it extracts; the schema invariant of
  the store under every server operation (identities, owners, the priority
  enumeration); the widget's reload, which restores the conversation only for an
  element without observed attributes (any attribute's callback overwrites the saved
  state before \<open>connectedCallback\<close> reads it), its fresh start from an unreadable saved
  state and the bound on its textarea; a widget message reaching the model with the
  welcome dropped; and, for sign-in, that without an OAuth \<open>state\<close> check the grant
  reaching the callback decides whose account the browser's tasks are filed under.

  \<^bold>\<open>Bounds and time.\<close> Numbers of the page are exact rationals or integers with \<open>None\<close>
  for NaN; floating-point rounding is not modelled. Times are milliseconds as \<open>int\<close>,
  with a fixed time-zone offset. Loops over lists are folds or \<open>for_each\<close>, so no fuel is
  needed; the reminder job is an infinite \<open>setInterval\<close>, modelled by a finite list of
  poll times (\<open>poll_times t0 n\<close>) for which delivery is proved. The chat route's
  \<open>while\<close> loop is a \<open>while_option\<close>; its result is \<open>None\<close> only if the loop ran forever,
  which the measure \<open>length\<close> excludes. Strings are lists of 8-bit code units: texts
  of the sources that hold emoji are represented without them.

  \<^bold>\<open>Not modelled.\<close> The libraries the code configures: Passport's OAuth exchange
  with Google (its answer is an input of the callback), Passport's \<open>req.login\<close> and
  \<open>req.logout\<close> (stated as the library documents them), the random session identifiers
  of \<open>express-session\<close> (a counter), Chart.js's drawing and default palette, the Google
  Calendar, Gemini and OpenWeather services (inputs of their routes) and the n8n
  webhook (its answer is an input of \<open>webhook_finish\<close>); the server's start-up
  (\<open>require\<close>s, the Mongo connection, static files); the page's HTML markup, which
  is not part of the sources (the elements it holds are inputs); the JSON printing of \<open>src/generateData.js\<close>; the widget's
  shadow-tree markup and style sheet, focus, scrolling and textarea sizing (its first
  \<open>getReply\<close>, which the second definition in the class body overrides, is modelled
  but called nowhere); Mongo errors caught by \<open>checkReminders\<close>; the \<open>User\<close> model,
  which is not under \<open>src/\<close> (no unique index on \<open>email\<close> is assumed). The date-time
  strings the hour view is proved on carry no offset, while Google's \<open>dateTime\<close>
  values carry one: the parser of \<open>Js_Date_Parse\<close> reads both, but the hour-view
  claims are stated for offset-less strings, read as local time, and not for strings
  with an offset.
\<close>

section \<open>The page load against the server\<close>

text \<open>What the page's \<open>fetch('/user').then(res => res.json())\<close> makes of the route's
  answer: the JSON body of a 200 or a 401 (\<open>{}\<close> has no e-mail) is the user response;
  the HTML page Express sends for a 500 makes \<open>res.json()\<close> reject, which ends the chain.\<close>

definition user_reply :: "http_status \<times> js_string option \<times> js_string option \<Rightarrow> ui_event" where
  "user_reply r = (case r of (ServerError500, _, _) \<Rightarrow> UserFailed | (_, em, ph) \<Rightarrow> UserResponse em ph)"

text \<open>The page's event for a response of \<open>GET /calendar/events\<close>: both the 200 and
  the 401 answer a JSON array.\<close>

definition events_reply :: "http_status \<times> cal_event list \<Rightarrow> ui_event" where
  "events_reply r = EventsResponse (Some (snd r))"

text \<open>Applying an event of the page's transition system by its handler.\<close>

fun ui_apply :: "int \<Rightarrow> time_value \<Rightarrow> ui_event \<Rightarrow> dash \<Rightarrow> dash" where
  "ui_apply tza now (UserResponse em ph) d = on_user em ph d"
| "ui_apply tza now UserFailed d = d\<lparr>user_pending := False\<rparr>"
| "ui_apply tza now (EventsResponse r) d = on_events tza now r d"
| "ui_apply tza now EventsFailed d = d\<lparr>events_pending := False\<rparr>"
| "ui_apply tza now (ItemClick i) d = click_item tza now i d"
| "ui_apply tza now (ModalClick b) d = modal_click tza now b d"
| "ui_apply tza now Tick d = tick tza now d"

text \<open>The load of \<open>dashboard.js\<close> (lines 28-52) against \<open>server.js\<close> (lines 199-229):
  the \<open>/user\<close> answer for the session, then, when the page asked for them, the events
  the route returns for the same session from the Google API's answer \<open>api\<close>.\<close>

definition page_load :: "int \<Rightarrow> time_value \<Rightarrow> session_user option \<Rightarrow> cal_event list option \<Rightarrow> dash \<Rightarrow> dash" where
  "page_load tza now sess api d =
     (let d1 = ui_apply tza now (user_reply (user_route sess)) d in
      if events_pending d1 then ui_apply tza now (events_reply (events_route sess api)) d1 else d1)"

section \<open>The task dialog against the server\<close>

text \<open>A click on Save whose request reaches \<open>POST /api/analyze-task\<close>, and the
  handler resumed with the route's answer (\<open>dashboard.js\<close> lines 435-481 with
  \<open>server.js\<close> lines 279-318).\<close>

definition task_round_trip :: "session_user option \<Rightarrow> task_dialog \<Rightarrow> store \<Rightarrow> task_dialog \<times> store" where
  "task_round_trip sess s st =
     (let s1 = save_click s in
      case in_flight s1 of
        None \<Rightarrow> (s1, st)
      | Some req \<Rightarrow> (let (resp, st') = analyze_task sess req st in
          (save_response (fst (client_reply resp)) (snd (client_reply resp)) s1, st')))"

text \<open>The body the page posts for its current input.\<close>

definition page_request :: "task_dialog \<Rightarrow> analyze_request" where
  "page_request s = \<lparr>req_description = js_trim (task_input s), req_email = local_storage s ''userEmail'',
     req_name = local_storage s ''userName''\<rparr>"

text \<open>A signed-in session with an e-mail and a photo.\<close>

definition alice_session :: session_user where
  "alice_session = \<lparr>s_emails = [''alice@x.org''], s_photos = [''a.png''], s_display_name = None, s_token = ''t''\<rparr>"

lemma save_click_in_flight:
  "js_trim (task_input s) \<noteq> [] \<Longrightarrow> in_flight (save_click s) = Some (page_request s)"
  by (simp add: save_click_def page_request_def Let_def)

lemma save_click_kept:
  "alerts (save_click s) = alerts s \<or> js_trim (task_input s) = []"
  "task_input (save_click s) = task_input s"
  by (simp_all add: save_click_def Let_def)

lemma round_trip_steps:
  assumes "\<not> btn_disabled s" and "js_trim (task_input s) \<noteq> []"
  shows "dialog_step s SaveClick (save_click s)"
    and "dialog_step (save_click s) (Response ok body) (save_response ok body (save_click s))"
  using assms by (auto intro: dialog_step.intros simp: save_click_in_flight)

text \<open>
  A task typed into the dialog and saved reaches the database: for a user the
  server can resolve, the click and the response are two steps of the dialog, the server
  stores the TODO event with the trimmed description as title, and the page alerts
  "Task Created!" with type TODO and that title, empties the input and re-enables Save.
\<close>

lemma task_round_trip_creates_todo:
  assumes "\<not> btn_disabled s" and "js_trim (task_input s) \<noteq> []" and "user_resolvable sess (page_request s)"
  shows "\<exists>s' st' u i. task_round_trip sess s st = (s', st')
     \<and> dialog_step s SaveClick (save_click s)
     \<and> dialog_step (save_click s) (Response True (Some \<lparr>reply_type = Some ''TODO'', reply_title = Some (js_trim (task_input s))\<rparr>)) s'
     \<and> alerts s' = alerts s @ [task_created_alert \<lparr>reply_type = Some ''TODO'', reply_title = Some (js_trim (task_input s))\<rparr>]
     \<and> task_input s' = [] \<and> \<not> btn_disabled s'
     \<and> u \<in> set (users st') \<and> events st' = events st @ [todo_event i (u_id u) (js_trim (task_input s))]"
proof -
  have d: "req_description (page_request s) = js_trim (task_input s)" by (simp add: page_request_def)
  obtain u i st' where a: "analyze_task sess (page_request s) st = ((Ok200, TaskSaved (js_trim (task_input s)) i), st')"
      "u \<in> set (users st')" "events st' = events st @ [todo_event i (u_id u) (js_trim (task_input s))]"
    using analyze_task_saved[of "page_request s" sess st] assms(2,3) d by auto
  have al: "alerts (save_click s) = alerts s" using save_click_kept(1) assms(2) by blast
  let ?s' = "save_response True (Some \<lparr>reply_type = Some ''TODO'', reply_title = Some (js_trim (task_input s))\<rparr>) (save_click s)"
  have r: "task_round_trip sess s st = (?s', st')"
    using a(1) by (simp add: task_round_trip_def save_click_in_flight[OF assms(2)])
  have f: "alerts ?s' = alerts s @ [task_created_alert \<lparr>reply_type = Some ''TODO'', reply_title = Some (js_trim (task_input s))\<rparr>]"
    "task_input ?s' = []" "\<not> btn_disabled ?s'"
    using al by (simp_all add: save_response_def save_finally_def close_task_modal_def)
  show ?thesis using r f a(2,3) round_trip_steps[OF assms(1,2)] by blast
qed

text \<open>
  The dialog against the server's error path: from a session whose profile has no
  e-mail, the page (which never stores one) gets a 500; it alerts "Failed to analyze
  task", keeps the input and re-enables Save, while the task has reached the webhook and
  no event is stored.
\<close>

lemma task_round_trip_no_email:
  assumes "js_trim (task_input s) \<noteq> []" and "local_storage s ''userEmail'' = None" and "s_emails u = []"
  shows "alerts (fst (task_round_trip (Some u) s st)) = alerts s @ [''Failed to analyze task'']
     \<and> task_input (fst (task_round_trip (Some u) s st)) = task_input s
     \<and> \<not> btn_disabled (fst (task_round_trip (Some u) s st))
     \<and> events (snd (task_round_trip (Some u) s st)) = events st
     \<and> webhook_log (snd (task_round_trip (Some u) s st)) = webhook_log st @ [js_trim (task_input s)]"
proof -
  have n: "\<not> user_resolvable (Some u) (page_request s)"
    using assms(2,3) by (simp add: user_resolvable_def page_request_def js_truthy_def)
  have d: "req_description (page_request s) = js_trim (task_input s)" by (simp add: page_request_def)
  have al: "alerts (save_click s) = alerts s" using save_click_kept(1) assms(1) by blast
  have "task_round_trip (Some u) s st = (save_response False (Some \<lparr>reply_type = None, reply_title = None\<rparr>) (save_click s),
      (trigger_webhook (js_trim (task_input s)) st)\<lparr>console := console (trigger_webhook (js_trim (task_input s)) st)
          @ [''Task Processing Error: '' @ error_message emails_value_error]\<rparr>)"
    using assms(1) n d by (simp add: task_round_trip_def save_click_in_flight analyze_task_def get_db_user_unresolvable Let_def)
  then show ?thesis using al save_click_kept(2)[of s]
    by (simp add: save_response_def save_finally_def)
qed

text \<open>
  C26. A task typed into the dialog and saved, against the server. For a user the
  server can resolve, the click and the response are two steps of the dialog, the
  server stores the TODO event with the trimmed description as title, and the page
  alerts "Task Created!" with type TODO and that title, empties the input and
  re-enables Save. From a session whose profile has no e-mail, the page (which never
  stores one) gets a 500; it alerts "Failed to analyze task", keeps the input and
  re-enables Save, while the task has reached the webhook and no event is stored.
\<close>

theorem task_round_trip_outcomes:
  "(\<not> btn_disabled s \<and> js_trim (task_input s) \<noteq> [] \<and> user_resolvable sess (page_request s) \<longrightarrow>
     (\<exists>s' st' u i. task_round_trip sess s st = (s', st')
       \<and> dialog_step s SaveClick (save_click s)
       \<and> dialog_step (save_click s) (Response True (Some \<lparr>reply_type = Some ''TODO'', reply_title = Some (js_trim (task_input s))\<rparr>)) s'
       \<and> alerts s' = alerts s @ [task_created_alert \<lparr>reply_type = Some ''TODO'', reply_title = Some (js_trim (task_input s))\<rparr>]
       \<and> task_input s' = [] \<and> \<not> btn_disabled s'
       \<and> u \<in> set (users st') \<and> events st' = events st @ [todo_event i (u_id u) (js_trim (task_input s))]))
   \<and> (js_trim (task_input s) \<noteq> [] \<and> local_storage s ''userEmail'' = None \<and> s_emails u0 = [] \<longrightarrow>
       alerts (fst (task_round_trip (Some u0) s st)) = alerts s @ [''Failed to analyze task'']
     \<and> task_input (fst (task_round_trip (Some u0) s st)) = task_input s
     \<and> \<not> btn_disabled (fst (task_round_trip (Some u0) s st))
     \<and> events (snd (task_round_trip (Some u0) s st)) = events st
     \<and> webhook_log (snd (task_round_trip (Some u0) s st)) = webhook_log st @ [js_trim (task_input s)])"
  using task_round_trip_creates_todo[of s sess st] task_round_trip_no_email[of s u0 st] by blast

theorem task_round_trip_outcomes_witness:
  "\<not> btn_disabled typed_dialog \<and> js_trim (task_input typed_dialog) \<noteq> [] \<and> user_resolvable None (page_request typed_dialog)
   \<and> (\<exists>s' st' u i. task_round_trip None typed_dialog dentist_store = (s', st')
     \<and> dialog_step typed_dialog SaveClick (save_click typed_dialog)
     \<and> alerts s' = [''Task Created!'' @ nl @ nl @ ''Type: TODO'' @ nl @ ''Title: Buy milk'']
     \<and> task_input s' = [] \<and> \<not> btn_disabled s'
     \<and> u \<in> set (users st') \<and> events st' = [dentist, todo_event i (u_id u) ''Buy milk''])
   \<and> local_storage typed_dialog ''userEmail'' = None \<and> s_emails no_email_session = []
   \<and> alerts (fst (task_round_trip (Some no_email_session) typed_dialog dentist_store)) = [''Failed to analyze task'']
   \<and> events (snd (task_round_trip (Some no_email_session) typed_dialog dentist_store)) = [dentist]
   \<and> webhook_log (snd (task_round_trip (Some no_email_session) typed_dialog dentist_store)) = [''Buy milk'']"
proof -
  have t: "js_trim (task_input typed_dialog) = ''Buy milk''"
    by (simp add: typed_dialog_def dialog_init_def js_trim_def js_space_def)
  have h: "\<not> btn_disabled typed_dialog" "js_trim (task_input typed_dialog) \<noteq> []"
    "user_resolvable None (page_request typed_dialog)" "local_storage typed_dialog ''userEmail'' = None"
    "s_emails no_email_session = []"
    using t by (simp_all add: typed_dialog_def dialog_init_def user_resolvable_def no_email_session_def)
  have a: "alerts typed_dialog = []" "events dentist_store = [dentist]" "webhook_log dentist_store = []"
    by (simp_all add: typed_dialog_def dialog_init_def dentist_store_def)
  note r = task_round_trip_outcomes[of typed_dialog None dentist_store no_email_session]
  have r1: "\<exists>s' st' u i. task_round_trip None typed_dialog dentist_store = (s', st')
     \<and> dialog_step typed_dialog SaveClick (save_click typed_dialog)
     \<and> alerts s' = [''Task Created!'' @ nl @ nl @ ''Type: TODO'' @ nl @ ''Title: Buy milk'']
     \<and> task_input s' = [] \<and> \<not> btn_disabled s'
     \<and> u \<in> set (users st') \<and> events st' = [dentist, todo_event i (u_id u) ''Buy milk'']"
    using h r unfolding t a by (simp add: task_created_alert_def js_interp_def) blast
  have r2: "alerts (fst (task_round_trip (Some no_email_session) typed_dialog dentist_store)) = [''Failed to analyze task'']
     \<and> events (snd (task_round_trip (Some no_email_session) typed_dialog dentist_store)) = [dentist]
     \<and> webhook_log (snd (task_round_trip (Some no_email_session) typed_dialog dentist_store)) = [''Buy milk'']"
    using h r unfolding t a by simp
  show ?thesis using h r1 r2 by blast
qed

lemma user_reply_step:
  "user_pending d \<Longrightarrow> ui_step tza now d (user_reply r) (ui_apply tza now (user_reply r) d)"
  by (auto simp: user_reply_def intro: ui_step.intros split: prod.splits http_status.splits)

lemma events_reply_step:
  "events_pending d \<Longrightarrow> ui_step tza now d (events_reply r) (ui_apply tza now (events_reply r) d)"
  by (simp add: events_reply_def ui_step.events_ok)

text \<open>The page loaded against the server is a run of the page's transition system,
  so the invariants proved of \<open>reachable\<close> hold of it.\<close>

lemma page_load_reachable:
  "reachable tza items (page_load tza now sess api (dash_init items))"
proof -
  let ?d1 = "ui_apply tza now (user_reply (user_route sess)) (dash_init items)"
  have r1: "reachable tza items ?d1"
    using reachable.step[OF reachable.init user_reply_step] by (simp add: dash_init_def)
  show ?thesis
  proof (cases "events_pending ?d1")
    case True
    then show ?thesis using reachable.step[OF r1 events_reply_step[OF True]] by (simp add: page_load_def)
  next
    case False
    then show ?thesis using r1 by (simp add: page_load_def)
  qed
qed

lemma page_load_signed_in_fields:
  assumes "s_emails u = e # es" and "e \<noteq> []" and "s_photos u = p # ps"
  shows "user_email_text (page_load tza now (Some u) api (dash_init items)) = e
     \<and> user_name_text (page_load tza now (Some u) api (dash_init items)) = split_first CHR ''@'' e
     \<and> profile_src (page_load tza now (Some u) api (dash_init items)) = Some p
     \<and> calendar_events (page_load tza now (Some u) api (dash_init items)) = (case api of None \<Rightarrow> [] | Some evs \<Rightarrow> evs)
     \<and> current_view (page_load tza now (Some u) api (dash_init items)) = ''hour''
     \<and> \<not> events_pending (page_load tza now (Some u) api (dash_init items))"
  using assms
  by (simp add: page_load_def user_route_def user_reply_def events_route_def events_reply_def
      on_user_def on_events_def email_name_def dash_init_def switch_view_keeps)

lemma page_load_no_profile:
  "sess = None \<or> (\<exists>u. sess = Some u \<and> s_photos u = []) \<Longrightarrow>
   page_load tza now sess api (dash_init items) = (dash_init items)\<lparr>user_pending := False\<rparr>"
  by (auto simp: page_load_def user_route_def user_reply_def on_user_def dash_init_def split: list.splits)

text \<open>
  C27. What the loaded page shows of the session. A session whose profile has a
  non-empty first e-mail and a photo shows that e-mail, the part before its \<open>@\<close> as the
  name and the photo, holds the events the Google API returned (none when the call
  failed) and is in the hour view with no request pending. Without a usable profile the
  page stays empty: for a signed-out session the route answers 401 with \<open>{}\<close>, for a
  profile without a photo \<open>photos[0].value\<close> throws and the route answers 500; in both
  cases the page only stops waiting for the user and never requests the events.
\<close>

theorem page_load_profile:
  "(s_emails u = e # es \<and> e \<noteq> [] \<and> s_photos u = p # ps \<longrightarrow>
       user_email_text (page_load tza now (Some u) api (dash_init items)) = e
     \<and> user_name_text (page_load tza now (Some u) api (dash_init items)) = split_first CHR ''@'' e
     \<and> profile_src (page_load tza now (Some u) api (dash_init items)) = Some p
     \<and> calendar_events (page_load tza now (Some u) api (dash_init items)) = (case api of None \<Rightarrow> [] | Some evs \<Rightarrow> evs)
     \<and> current_view (page_load tza now (Some u) api (dash_init items)) = ''hour''
     \<and> \<not> events_pending (page_load tza now (Some u) api (dash_init items)))
   \<and> page_load tza now None api (dash_init items) = (dash_init items)\<lparr>user_pending := False\<rparr>
   \<and> (s_photos u = [] \<longrightarrow> page_load tza now (Some u) api (dash_init items) = (dash_init items)\<lparr>user_pending := False\<rparr>)"
  using page_load_signed_in_fields[of u e es p ps] page_load_no_profile[of None] page_load_no_profile[of "Some u"]
  by blast

theorem page_load_profile_witness:
  "(s_emails alice_session = ''alice@x.org'' # [] \<and> ''alice@x.org'' \<noteq> [] \<and> s_photos alice_session = ''a.png'' # [])
   \<and> user_email_text (page_load 0 0 (Some alice_session) None (dash_init [])) = ''alice@x.org''
   \<and> user_name_text (page_load 0 0 (Some alice_session) None (dash_init [])) = ''alice''
   \<and> profile_src (page_load 0 0 (Some alice_session) None (dash_init [])) = Some ''a.png''
   \<and> calendar_events (page_load 0 0 (Some alice_session) None (dash_init [])) = []
   \<and> \<not> events_pending (page_load 0 0 (Some alice_session) None (dash_init []))
   \<and> s_photos no_email_session = []
   \<and> page_load 0 0 (Some no_email_session) None (dash_init []) = (dash_init [])\<lparr>user_pending := False\<rparr>"
proof -
  have h: "s_emails alice_session = ''alice@x.org'' # [] \<and> ''alice@x.org'' \<noteq> [] \<and> s_photos alice_session = ''a.png'' # []"
    by (simp add: alice_session_def)
  have h2: "s_photos no_email_session = []" by (simp add: no_email_session_def)
  have n: "split_first CHR ''@'' ''alice@x.org'' = ''alice''" by (simp add: split_first_def)
  have a: "user_email_text (page_load 0 0 (Some alice_session) None (dash_init [])) = ''alice@x.org''
     \<and> user_name_text (page_load 0 0 (Some alice_session) None (dash_init [])) = ''alice''
     \<and> profile_src (page_load 0 0 (Some alice_session) None (dash_init [])) = Some ''a.png''
     \<and> calendar_events (page_load 0 0 (Some alice_session) None (dash_init [])) = []
     \<and> \<not> events_pending (page_load 0 0 (Some alice_session) None (dash_init []))"
    using page_load_profile[of alice_session "''alice@x.org''" "[]" "''a.png''" "[]" 0 0 None "[]", THEN conjunct1] h
    unfolding n by simp
  have b: "page_load 0 0 (Some no_email_session) None (dash_init []) = (dash_init [])\<lparr>user_pending := False\<rparr>"
    using page_load_profile[of no_email_session _ _ _ _ 0 0 None "[]", THEN conjunct2, THEN conjunct2] h2 by simp
  show ?thesis using h h2 a b by blast
qed

section \<open>Signing in, then using the dashboard\<close>

lemma auth_callback_granted:
  "auth_callback b (Granted atok rtok p) st = (r, st') \<Longrightarrow>
   r = Redirect ''/dashboard.html'' \<and> req_user st' b = Some (google_verify atok rtok p)"
  by (auto simp: auth_callback_def req_user_login)

lemma analyze_task_session_user:
  assumes "req_description body \<noteq> []" and "\<not> js_truthy (req_email body)"
    and "s_emails u0 = e # es" and "e \<noteq> []"
  shows "\<exists>u i st'. analyze_task (Some u0) body st = ((Ok200, TaskSaved (req_description body) i), st')
     \<and> u \<in> set (users st') \<and> u_email u = e \<and> events st' = events st @ [todo_event i (u_id u) (req_description body)]"
proof -
  let ?st1 = "trigger_webhook (req_description body) st"
  let ?name = "if js_truthy (s_display_name u0) then the (s_display_name u0) else split_first CHR ''@'' e"
  obtain u st2 where g: "find_or_create ?name e ''Created New DB User from Google Auth Session: '' ?st1 = (u, st2)"
    by (cases "find_or_create ?name e ''Created New DB User from Google Auth Session: '' ?st1") blast
  have e: "user_effect e ?st1 (u, st2)" using find_or_create_effect g by metis
  have "get_db_user (Some u0) body ?st1 = Inr (u, st2)"
    using assms(2-4) g by (simp add: get_db_user_def Let_def)
  then show ?thesis using assms(1) e by (auto simp: analyze_task_def Let_def user_effect_def)
qed

text \<open>
  C28. The Google grant that reaches the callback decides whose account the browser's
  tasks are filed under. The route neither sends nor checks an OAuth \<open>state\<close>, so the
  callback accepts any grant, also one obtained for another person's account (login
  cross-site request forgery); since the dashboard never stores an e-mail in
  \<open>localStorage\<close>, \<open>getDbUser\<close> resolves the session's e-mail, and a task saved in that
  browser is stored as a TODO event of the database user with the grant's e-mail.
\<close>

theorem sign_in_grant_owns_tasks:
  assumes "auth_callback b (Granted atok rtok p) st = (r, st')"
    and "gp_emails p = e # es" and "e \<noteq> []"
    and "\<not> btn_disabled s" and "js_trim (task_input s) \<noteq> []" and "local_storage s ''userEmail'' = None"
  shows "\<exists>s' store' u i. task_round_trip (req_user st' b) s store = (s', store')
     \<and> u \<in> set (users store') \<and> u_email u = e
     \<and> events store' = events store @ [todo_event i (u_id u) (js_trim (task_input s))]"
proof -
  have c: "req_user st' b = Some (google_verify atok rtok p)" using auth_callback_granted[OF assms(1)] by simp
  have u: "s_emails (google_verify atok rtok p) = e # es" using assms(2) by (simp add: google_verify_def)
  have b: "req_description (page_request s) = js_trim (task_input s)" "\<not> js_truthy (req_email (page_request s))"
    using assms(6) by (simp_all add: page_request_def js_truthy_def)
  obtain u i store' where a: "analyze_task (Some (google_verify atok rtok p)) (page_request s) store
      = ((Ok200, TaskSaved (js_trim (task_input s)) i), store')"
      "u \<in> set (users store')" "u_email u = e"
      "events store' = events store @ [todo_event i (u_id u) (js_trim (task_input s))]"
    using analyze_task_session_user[of "page_request s" "google_verify atok rtok p" e es store] assms(3,5) b u
    by auto
  have "task_round_trip (req_user st' b) s store = (fst (task_round_trip (req_user st' b) s store), store')"
    using a(1) c by (simp add: task_round_trip_def save_click_in_flight[OF assms(5)])
  then show ?thesis using a(2-4) by blast
qed

theorem sign_in_grant_owns_tasks_witness:
  "\<exists>s' store' u i. task_round_trip (req_user (snd (auth_callback 1 (Granted ''tm'' ''rm'' mallory_profile) auth_init)) 1)
       typed_dialog dentist_store = (s', store')
     \<and> u \<in> set (users store') \<and> u_email u = ''mallory@x.org''
     \<and> events store' = [dentist, todo_event i (u_id u) ''Buy milk'']"
proof -
  let ?st' = "snd (auth_callback 1 (Granted ''tm'' ''rm'' mallory_profile) auth_init)"
  have h: "auth_callback 1 (Granted ''tm'' ''rm'' mallory_profile) auth_init = (Redirect ''/dashboard.html'', ?st')"
    by (simp add: auth_callback_def)
  have m: "gp_emails mallory_profile = ''mallory@x.org'' # []" "''mallory@x.org'' \<noteq> []"
    by (simp_all add: mallory_profile_def)
  have t: "js_trim (task_input typed_dialog) = ''Buy milk''"
    by (simp add: typed_dialog_def dialog_init_def js_trim_def js_space_def)
  have d: "\<not> btn_disabled typed_dialog" "js_trim (task_input typed_dialog) \<noteq> []"
    "local_storage typed_dialog ''userEmail'' = None" "events dentist_store = [dentist]"
    using t by (simp_all add: typed_dialog_def dialog_init_def dentist_store_def)
  show ?thesis using sign_in_grant_owns_tasks[OF h m d(1-3), of dentist_store] unfolding t d(4) by simp
qed

section \<open>The chat widget against the chat route\<close>

text \<open>
  C31. A first message typed into a freshly connected chat widget reaches the model
  as the user's turn with an empty history: the widget posts its welcome (an assistant
  turn) and the user's text, and the route's failsafe loop drops the welcome before the
  model sees the history. When the model's reply comes back as \<open>{reply}\<close>, the widget
  shows the welcome, the user's text and the reply, and the typing bubble is gone.
\<close>

theorem widget_chat_round_trip:
  assumes "attrs ''endpoint'' = Some ep" and "ep \<noteq> []" and "js_trim inp \<noteq> []" and "\<not> js_includes (js_lower (js_trim inp)) ''weather''"
    and "gem [] (Some (js_trim inp)) = GemReply r" and "r \<noteq> []"
  shows "\<exists>w1 ms. send_start now ((connected_callback now (widget_upgrade attrs None))\<lparr>w_input := inp\<rparr>) = (w1, Some ms)
     \<and> chat_route (Some ms) key wapi gem = Some (Ok200, ModelReply r)
     \<and> map content (w_messages (send_finish t_reply (get_reply (w_endpoint w1) (js_trim inp)
          (True, 200, raw, Some \<lparr>j_reply = Some r, j_message = None, j_text = None, j_error = None\<rparr>)) w1))
        = [w_welcome (widget_upgrade attrs None), Some (js_trim inp), Some r]
     \<and> \<not> w_typing (send_finish t_reply (get_reply (w_endpoint w1) (js_trim inp)
          (True, 200, raw, Some \<lparr>j_reply = Some r, j_message = None, j_text = None, j_error = None\<rparr>)) w1)"
proof -
  let ?W = "widget_upgrade attrs None"
  let ?C = "(connected_callback now ?W)\<lparr>w_input := inp\<rparr>"
  have m: "w_messages ?C = [\<lparr>role = ''assistant'', content = w_welcome ?W, ts = now\<rparr>]"
    by (simp add: connected_fields widget_upgrade_fields)
  have e: "w_endpoint ?C = ep"
    using assms(1,2) by (simp add: connected_fields widget_upgrade_fields js_or_else_def js_truthy_def)
  have i: "w_input ?C = inp" by simp
  have ti: "js_trim (w_input ?C) \<noteq> []" using assms(3) i by simp
  obtain w1 where s: "send_start now ?C = (w1, Some (w_messages w1))"
    and ms0: "w_messages w1 = w_messages ?C @ [\<lparr>role = ''user'', content = Some (js_trim (w_input ?C)), ts = now\<rparr>]"
    and ep0: "w_endpoint w1 = w_endpoint ?C"
    using send_start_text[OF ti, of now] by blast
  have ms: "w_messages w1 = w_messages ?C @ [\<lparr>role = ''user'', content = Some (js_trim inp), ts = now\<rparr>]"
    using ms0 i by simp
  have ep: "w_endpoint w1 = ep" using ep0 e by simp
  have route: "chat_route (Some (w_messages w1)) key wapi gem = Some (Ok200, ModelReply r)"
    using assms(4,5) unfolding ms m
    by (simp add: chat_route_def trim_history_eq to_history_def Let_def)
  have g: "get_reply (w_endpoint w1) (js_trim inp)
      (True, 200, raw, Some \<lparr>j_reply = Some r, j_message = None, j_text = None, j_error = None\<rparr>) = Inr r"
    using assms(2,6) ep by (simp add: get_reply_def js_or_else_def js_truthy_def)
  show ?thesis using s route g ms m by (simp add: send_finish_fields)
qed

theorem widget_chat_round_trip_witness:
  "chat_attrs ''endpoint'' = Some ''/api/chat'' \<and> ''/api/chat'' \<noteq> [] \<and> js_trim '' Plan my day '' \<noteq> [] \<and> \<not> js_includes (js_lower (js_trim '' Plan my day '')) ''weather''
   \<and> echo_model [] (Some (js_trim '' Plan my day '')) = GemReply ''Plan my day'' \<and> ''Plan my day'' \<noteq> []
   \<and> (\<exists>w1 ms. send_start 0 ((connected_callback 0 (widget_upgrade chat_attrs None))\<lparr>w_input := '' Plan my day ''\<rparr>) = (w1, Some ms)
     \<and> chat_route (Some ms) None (\<lambda>c. WeatherThrows) echo_model = Some (Ok200, ModelReply ''Plan my day'')
     \<and> map content (w_messages (send_finish 1000 (get_reply (w_endpoint w1) (js_trim '' Plan my day '')
          (True, 200, ''{}'', Some \<lparr>j_reply = Some ''Plan my day'', j_message = None, j_text = None, j_error = None\<rparr>)) w1))
        = [Some default_welcome, Some ''Plan my day'', Some ''Plan my day'']
     \<and> \<not> w_typing (send_finish 1000 (get_reply (w_endpoint w1) (js_trim '' Plan my day '')
          (True, 200, ''{}'', Some \<lparr>j_reply = Some ''Plan my day'', j_message = None, j_text = None, j_error = None\<rparr>)) w1))"
proof -
  have t: "js_trim '' Plan my day '' = ''Plan my day''" by (simp add: js_trim_def js_space_def)
  have h: "chat_attrs ''endpoint'' = Some ''/api/chat''" "''/api/chat'' \<noteq> []" "js_trim '' Plan my day '' \<noteq> []"
    "\<not> js_includes (js_lower (js_trim '' Plan my day '')) ''weather''"
    "echo_model [] (Some (js_trim '' Plan my day '')) = GemReply ''Plan my day''" "''Plan my day'' \<noteq> []"
    unfolding t by (simp_all add: chat_attrs_def js_lower_def js_lower_char_def echo_model_def)
  have wl: "w_welcome (widget_upgrade chat_attrs None) = Some default_welcome"
    by (simp add: widget_upgrade_fields chat_attrs_def)
  show ?thesis using h widget_chat_round_trip[where ep = "''/api/chat''" and inp = "'' Plan my day ''" and gem = echo_model
      and r = "''Plan my day''" and now = 0 and attrs = chat_attrs and key = None and wapi = "\<lambda>c. WeatherThrows"
      and t_reply = 1000 and raw = "''{}''", OF h]
    unfolding wl t by simp
qed

end
